(* ===== verification/Orcheo_Prelude.thy ===== *)
theory Orcheo_Prelude
  imports
    Complex_Main
    "HOL-Library.AList"
    "HOL-Library.List_Lexorder"
    "HOL-Library.Char_ord"
begin

text \<open>
  Vocabulary shared by all component theories.

  \<^item> A Python \<open>dict\<close> is an association list with distinct keys, in insertion order.
    Assigning an existing key keeps its position, assigning a new one appends
    (\<open>AList.update\<close>), and \<open>pop\<close> removes (\<open>AList.delete\<close>).
  \<^item> A method that mutates its receiver and may raise returns the new state together with
    \<open>Inl error\<close> or \<open>Inr value\<close>: what was written before the exception stays written.
  \<^item> Instants are microseconds since the Unix epoch (\<open>int\<close>), as \<open>datetime\<close> and
    \<open>timedelta\<close> keep them.
  \<^item> Strings are \<open>char list\<close>s; case mapping and white space follow Python on ASCII.
\<close>

section \<open>Types\<close>

type_synonym uuid = nat
type_synonym instant = int
type_synonym ('k, 'v) dict = "('k \<times> 'v) list"
type_synonym ('s, 'e, 'a) outcome = "'s \<times> ('e + 'a)"

named_theorems dict_simps "lookup laws of dictionaries"
named_theorems flow_simps "evaluation of sequenced fallible operations"

section \<open>Sequencing of fallible operations\<close>

definition and_then :: "('s, 'e, 'a) outcome \<Rightarrow> ('s \<Rightarrow> 'a \<Rightarrow> ('s, 'e, 'b) outcome) \<Rightarrow> ('s, 'e, 'b) outcome" where
  "and_then r k = (case r of (s, Inl e) \<Rightarrow> (s, Inl e) | (s, Inr a) \<Rightarrow> k s a)"

definition seqE :: "'e + 'a \<Rightarrow> ('a \<Rightarrow> 'e + 'b) \<Rightarrow> 'e + 'b" where
  "seqE r k = (case r of Inl e \<Rightarrow> Inl e | Inr a \<Rightarrow> k a)"

definition checkE :: "bool \<Rightarrow> 'e \<Rightarrow> 'e + unit" where
  "checkE b e = (if b then Inr () else Inl e)"

lemma and_then_simps [simp, flow_simps]:
  "and_then (s, Inl e) k = (s, Inl e)"
  "and_then (s, Inr a) k = k s a"
  by (simp_all add: and_then_def)

lemma and_then_Inr_iff:
  "and_then r k = (t, Inr b) \<longleftrightarrow> (\<exists>s a. r = (s, Inr a) \<and> k s a = (t, Inr b))"
  by (cases r; cases "snd r") (auto simp: and_then_def)

lemma seqE_simps [simp, flow_simps]:
  "seqE (Inl e) k = Inl e"
  "seqE (Inr a) k = k a"
  by (simp_all add: seqE_def)

lemma seqE_Inr_iff: "seqE r k = Inr b \<longleftrightarrow> (\<exists>a. r = Inr a \<and> k a = Inr b)"
  by (cases r) auto

lemma seqE_Inl_iff: "seqE r k = Inl e \<longleftrightarrow> r = Inl e \<or> (\<exists>a. r = Inr a \<and> k a = Inl e)"
  by (cases r) auto

lemma checkE_Inr_iff [simp, flow_simps]: "checkE b e = Inr u \<longleftrightarrow> b"
  by (simp add: checkE_def)

lemma checkE_Inl_iff [simp, flow_simps]: "checkE b e = Inl f \<longleftrightarrow> \<not> b \<and> f = e"
  by (auto simp: checkE_def)

lemma checkE_True [simp]: "checkE True e = Inr ()"
  by (simp add: checkE_def)

lemma checkE_False [simp]: "checkE False e = Inl e"
  by (simp add: checkE_def)

section \<open>Dictionaries\<close>

abbreviation dict_get :: "('k, 'v) dict \<Rightarrow> 'k \<Rightarrow> 'v option" where
  "dict_get d k \<equiv> map_of d k"

abbreviation dict_set :: "'k \<Rightarrow> 'v \<Rightarrow> ('k, 'v) dict \<Rightarrow> ('k, 'v) dict" where
  "dict_set k v d \<equiv> AList.update k v d"

abbreviation dict_pop :: "'k \<Rightarrow> ('k, 'v) dict \<Rightarrow> ('k, 'v) dict" where
  "dict_pop k d \<equiv> AList.delete k d"

definition dict_keys :: "('k, 'v) dict \<Rightarrow> 'k list" where
  "dict_keys d = map fst d"

definition dict_ok :: "('k, 'v) dict \<Rightarrow> bool" where
  "dict_ok d \<longleftrightarrow> distinct (map fst d)"

text \<open>\<open>d.setdefault(k, v)\<close>: the dictionary afterwards and the stored value.\<close>

definition dict_setdefault :: "'k \<Rightarrow> 'v \<Rightarrow> ('k, 'v) dict \<Rightarrow> ('k, 'v) dict \<times> 'v" where
  "dict_setdefault k v d = (case map_of d k of Some w \<Rightarrow> (d, w) | None \<Rightarrow> (AList.update k v d, v))"

definition dict_pops :: "'k list \<Rightarrow> ('k, 'v) dict \<Rightarrow> ('k, 'v) dict" where
  "dict_pops ks d = fold AList.delete ks d"

lemma dict_get_set [simp, dict_simps]:
  "dict_get (dict_set k v d) j = (if j = k then Some v else dict_get d j)"
  by (simp add: update_conv)

lemma dict_get_pop [simp, dict_simps]:
  "dict_get (dict_pop k d) j = (if j = k then None else dict_get d j)"
  by (simp add: delete_conv)

lemma dict_get_filter_keys [dict_simps]:
  "dict_get (filter (\<lambda>(k, v). P k) d) j = (if P j then dict_get d j else None)"
  by (induction d) auto

lemma dict_get_filter_value:
  assumes "dict_ok d"
  shows "dict_get (filter (\<lambda>(k, v). Q v) d) j =
    (case dict_get d j of None \<Rightarrow> None | Some v \<Rightarrow> if Q v then Some v else None)"
  using assms
proof (induction d)
  case Nil
  then show ?case by simp
next
  case (Cons kv d)
  obtain k v where kv: "kv = (k, v)" by (cases kv)
  have "k \<notin> set (map fst d)" and ok: "dict_ok d"
    using Cons.prems kv by (auto simp: dict_ok_def)
  then have "dict_get d k = None"
    by (simp add: map_of_eq_None_iff)
  with Cons.IH [OF ok] kv show ?case
    by (auto split: option.splits)
qed

lemma dict_ok_Nil [simp, intro]: "dict_ok []"
  by (simp add: dict_ok_def)

lemma dict_ok_set [simp, intro]: "dict_ok d \<Longrightarrow> dict_ok (dict_set k v d)"
  by (simp add: dict_ok_def distinct_update)

lemma dict_ok_pop [simp, intro]: "dict_ok d \<Longrightarrow> dict_ok (dict_pop k d)"
  by (simp add: dict_ok_def distinct_delete)

lemma dict_ok_filter [simp, intro]: "dict_ok d \<Longrightarrow> dict_ok (filter P d)"
  by (simp add: dict_ok_def distinct_map_filter)

lemma dict_set_length_new: "k \<notin> set (map fst d) \<Longrightarrow> length (dict_set k v d) = Suc (length d)"
  by (induction d) auto

lemma dict_set_keys: "set (map fst (dict_set k v d)) = insert k (set (map fst d))"
  by (induction d) auto

lemma dict_get_mem: "dict_get d k = Some v \<Longrightarrow> (k, v) \<in> set d"
  by (rule map_of_SomeD)

lemma dict_get_iff: "dict_ok d \<Longrightarrow> dict_get d k = Some v \<longleftrightarrow> (k, v) \<in> set d"
  by (simp add: dict_ok_def)

lemma dict_pops_simps [simp]:
  "dict_pops [] d = d"
  "dict_pops (k # ks) d = dict_pops ks (dict_pop k d)"
  by (simp_all add: dict_pops_def)

lemma dict_get_pops [simp, dict_simps]:
  "dict_get (dict_pops ks d) j = (if j \<in> set ks then None else dict_get d j)"
  by (induction ks arbitrary: d) auto

lemma dict_ok_pops [simp, intro]: "dict_ok d \<Longrightarrow> dict_ok (dict_pops ks d)"
  by (induction ks arbitrary: d) auto

text \<open>Popping the keys of some of the entries removes exactly these entries.\<close>

lemma dict_pops_mem:
  assumes "dict_ok d" "set xs \<subseteq> set d"
  shows "x \<in> set (dict_pops (map fst xs) d) \<longleftrightarrow> x \<in> set d \<and> x \<notin> set xs"
proof -
  obtain k v where x: "x = (k, v)" by (cases x)
  have "k \<in> set (map fst xs) \<longleftrightarrow> (k, v) \<in> set xs" if "(k, v) \<in> set d"
  proof
    assume "k \<in> set (map fst xs)"
    then obtain v' where "(k, v') \<in> set xs" by auto
    with assms(2) have "dict_get d k = Some v'" using dict_get_iff [OF assms(1)] by blast
    with that \<open>(k, v') \<in> set xs\<close> show "(k, v) \<in> set xs" using dict_get_iff [OF assms(1), of k v] by simp
  qed force
  then show ?thesis
    using dict_get_iff [OF assms(1), of k v] dict_get_iff [OF dict_ok_pops [OF assms(1)], of "map fst xs" k v]
    by (auto simp: x split: if_splits)
qed

lemma dict_ok_distinct: "dict_ok d \<Longrightarrow> distinct d"
  by (simp add: dict_ok_def distinct_map)

lemma dict_pops_length:
  assumes "dict_ok d" "set xs \<subseteq> set d" "distinct xs"
  shows "length (dict_pops (map fst xs) d) = length d - length xs"
proof -
  have "set (dict_pops (map fst xs) d) = set d - set xs" using dict_pops_mem [OF assms(1,2)] by blast
  then have "card (set (dict_pops (map fst xs) d)) = card (set d) - card (set xs)"
    using assms(2) by (simp add: card_Diff_subset)
  then show ?thesis
    using assms(3) dict_ok_distinct [OF assms(1)] dict_ok_distinct [OF dict_ok_pops [OF assms(1)]]
    by (simp add: distinct_card)
qed

lemma sorted_take_drop:
  assumes "sorted (map f xs)" "x \<in> set (take n xs)" "y \<in> set (drop n xs)"
  shows "f x \<le> f y"
proof -
  have "sorted (map f (take n xs) @ map f (drop n xs))"
    using assms(1) by (simp only: map_append [symmetric] append_take_drop_id)
  with assms(2,3) show ?thesis by (simp add: sorted_append)
qed

lemma dict_setdefault_snd [simp]:
  "snd (dict_setdefault k v d) = (case dict_get d k of Some w \<Rightarrow> w | None \<Rightarrow> v)"
  by (simp add: dict_setdefault_def split: option.splits)

lemma dict_get_setdefault [simp, dict_simps]:
  "dict_get (fst (dict_setdefault k v d)) j =
    (if j = k then Some (case dict_get d k of Some w \<Rightarrow> w | None \<Rightarrow> v) else dict_get d j)"
  by (simp add: dict_setdefault_def split: option.splits)

lemma dict_ok_setdefault [simp, intro]:
  "dict_ok d \<Longrightarrow> dict_ok (fst (dict_setdefault k v d))"
  by (simp add: dict_setdefault_def split: option.splits)

section \<open>Text\<close>

definition char_lower :: "char \<Rightarrow> char" where
  "char_lower c = (let n = (of_char c :: nat) in if 65 \<le> n \<and> n \<le> 90 then char_of (n + 32) else c)"

definition char_upper :: "char \<Rightarrow> char" where
  "char_upper c = (let n = (of_char c :: nat) in if 97 \<le> n \<and> n \<le> 122 then char_of (n - 32) else c)"

definition char_space :: "char \<Rightarrow> bool" where
  "char_space c = (let n = (of_char c :: nat) in (9 \<le> n \<and> n \<le> 13) \<or> (28 \<le> n \<and> n \<le> 32))"

definition char_digit :: "char \<Rightarrow> bool" where
  "char_digit c = (let n = (of_char c :: nat) in 48 \<le> n \<and> n \<le> 57)"

definition str_lower :: "string \<Rightarrow> string" where
  "str_lower = map char_lower"

definition str_upper :: "string \<Rightarrow> string" where
  "str_upper = map char_upper"

definition str_strip :: "string \<Rightarrow> string" where
  "str_strip s = rev (dropWhile char_space (rev (dropWhile char_space s)))"

definition str_startswith :: "string \<Rightarrow> string \<Rightarrow> bool" where
  "str_startswith s p \<longleftrightarrow> take (length p) s = p"

definition str_isdigit :: "string \<Rightarrow> bool" where
  "str_isdigit s \<longleftrightarrow> s \<noteq> [] \<and> list_all char_digit s"

definition str_to_nat :: "string \<Rightarrow> nat" where
  "str_to_nat s = foldl (\<lambda>n c. 10 * n + (of_char c - 48)) 0 s"

text \<open>\<open>s.split(c)\<close> and \<open>s.split(c, 1)\<close> for a one-character separator.\<close>

fun str_split :: "char \<Rightarrow> string \<Rightarrow> string list" where
  "str_split c [] = [[]]"
| "str_split c (x # xs) =
    (if x = c then [] # str_split c xs
     else case str_split c xs of [] \<Rightarrow> [[x]] | p # ps \<Rightarrow> (x # p) # ps)"

definition str_split1 :: "char \<Rightarrow> string \<Rightarrow> string \<times> string" where
  "str_split1 c s = (takeWhile (\<lambda>x. x \<noteq> c) s, drop 1 (dropWhile (\<lambda>x. x \<noteq> c) s))"

definition str_join :: "string \<Rightarrow> string list \<Rightarrow> string" where
  "str_join sep ss = (case ss of [] \<Rightarrow> [] | t # ts \<Rightarrow> t @ concat (map (\<lambda>u. sep @ u) ts))"

text \<open>Truth value of an optional string: \<open>None\<close> and \<open>''\<close> are both false.\<close>

definition opt_truthy :: "string option \<Rightarrow> bool" where
  "opt_truthy s \<longleftrightarrow> s \<noteq> None \<and> s \<noteq> Some []"

lemma opt_truthy_simps [simp]:
  "\<not> opt_truthy None"
  "opt_truthy (Some s) \<longleftrightarrow> s \<noteq> []"
  by (simp_all add: opt_truthy_def)

lemma char_lower_lower [simp]: "char_lower (char_lower c) = char_lower c"
  by (auto simp: char_lower_def Let_def)

lemma char_upper_upper [simp]: "char_upper (char_upper c) = char_upper c"
  by (auto simp: char_upper_def Let_def)

lemma str_lower_lower [simp]: "str_lower (str_lower s) = str_lower s"
  by (simp add: str_lower_def)

lemma str_upper_upper [simp]: "str_upper (str_upper s) = str_upper s"
  by (simp add: str_upper_def)

lemma dropWhile_idem_rev:
  "dropWhile P (rev (dropWhile P (rev (dropWhile P s)))) = rev (dropWhile P (rev (dropWhile P s)))"
proof (cases "dropWhile P s")
  case Nil
  have "\<forall>x\<in>set s. P x" using Nil by (simp add: dropWhile_eq_Nil_conv)
  then show ?thesis using Nil by (simp del: dropWhile_eq_Nil_conv)
next
  case (Cons x xs)
  then have "\<not> P x" using hd_dropWhile [of P s] by simp
  then have "\<exists>ys. rev (dropWhile P (rev xs @ [x])) = x # ys"
    by (simp add: dropWhile_append) (metis rev_rev_ident)
  with Cons \<open>\<not> P x\<close> show ?thesis by auto
qed

lemma str_strip_strip [simp]: "str_strip (str_strip s) = str_strip s"
  unfolding str_strip_def by (simp add: dropWhile_idem_rev)

lemma char_space_lower [simp]: "char_space (char_lower c) = char_space c"
  by (auto simp: char_space_def char_lower_def Let_def)

lemma str_strip_lower: "str_strip (str_lower s) = str_lower (str_strip s)"
  by (simp add: str_strip_def str_lower_def dropWhile_map rev_map comp_def)

lemma str_split_nonempty: "str_split d s \<noteq> []"
  by (cases s) (auto split: list.splits)

section \<open>Time\<close>

definition us_per_second :: int where
  "us_per_second = 1000000"

definition seconds :: "int \<Rightarrow> int" where
  "seconds n = n * 1000000"

text \<open>
  The range of \<open>datetime\<close>: years 1 to 9999. Arithmetic leaving it raises
  \<open>OverflowError\<close>.
\<close>

definition min_instant :: instant where
  "min_instant = -62135596800000000"

definition max_instant :: instant where
  "max_instant = 253402300799999999"

definition instant_ok :: "instant \<Rightarrow> bool" where
  "instant_ok t \<longleftrightarrow> min_instant \<le> t \<and> t \<le> max_instant"

text \<open>A \<open>datetime\<close> is naive (wall clock) or aware (instant and UTC offset).\<close>

datatype datetime = Naive int | Aware instant int

fun is_naive :: "datetime \<Rightarrow> bool" where
  "is_naive (Naive _) = True"
| "is_naive (Aware _ _) = False"

text \<open>\<open>round\<close> of Python and of \<open>timedelta\<close>: to nearest, ties to even.\<close>

definition round_half_even :: "real \<Rightarrow> int" where
  "round_half_even x = (let f = \<lfloor>x\<rfloor>; d = x - of_int f in
     if d < 1 / 2 then f else if 1 / 2 < d then f + 1 else if even f then f else f + 1)"

lemma round_half_even_of_int [simp]: "round_half_even (of_int n) = n"
  by (simp add: round_half_even_def)

lemma round_half_even_cases:
  obtains d where "x = of_int (round_half_even x) + d" "- 1 / 2 \<le> d" "d \<le> 1 / 2"
proof -
  have "x = of_int \<lfloor>x\<rfloor> + (x - of_int \<lfloor>x\<rfloor>)" "0 \<le> x - of_int \<lfloor>x\<rfloor>" "x - of_int \<lfloor>x\<rfloor> < 1"
    by linarith+
  then have "- 1 / 2 \<le> x - of_int (round_half_even x) \<and> x - of_int (round_half_even x) \<le> 1 / 2"
    unfolding round_half_even_def Let_def by (simp only: of_int_add of_int_1 split: if_split) linarith
  then show thesis
    using that [of "x - of_int (round_half_even x)"] by simp
qed

lemma round_half_even_bounds:
  "of_int (round_half_even x) \<le> x + 1 / 2" "x - 1 / 2 \<le> of_int (round_half_even x)"
  by (rule round_half_even_cases [of x]; linarith)+

lemma round_half_even_nonneg: "0 \<le> x \<Longrightarrow> 0 \<le> round_half_even x"
proof -
  assume "0 \<le> x"
  then have "0 \<le> \<lfloor>x\<rfloor>" by simp
  then show ?thesis by (auto simp: round_half_even_def Let_def)
qed

end
