(* ===== verification/Py_Value.thy ===== *)
theory Py_Value
  imports Orcheo_Prelude
begin

text \<open>
  The dynamically typed values (\<open>Any\<close>) that travel through payloads, workflow state and
  node configuration: JSON-shaped data, with \<open>bytes\<close> for raw webhook bodies. Mappings have
  string keys and keep insertion order. Floats are exact reals. Equality, ordering and truth are
  Python's: \<open>True == 1 == 1.0\<close>, two mappings are equal regardless of order, and ordering
  values of unrelated types raises \<open>TypeError\<close> (\<open>None\<close> here).
\<close>

datatype pyval =
    PNone
  | PBool bool
  | PInt int
  | PFloat real
  | PStr string
  | PBytes string
  | PList "pyval list"
  | PDict "(string \<times> pyval) list"

fun truthy :: "pyval \<Rightarrow> bool" where
  "truthy PNone = False"
| "truthy (PBool b) = b"
| "truthy (PInt i) = (i \<noteq> 0)"
| "truthy (PFloat r) = (r \<noteq> 0)"
| "truthy (PStr s) = (s \<noteq> [])"
| "truthy (PBytes s) = (s \<noteq> [])"
| "truthy (PList xs) = (xs \<noteq> [])"
| "truthy (PDict d) = (d \<noteq> [])"

text \<open>The numeric value of \<open>bool\<close>, \<open>int\<close> and \<open>float\<close>.\<close>

fun num_of :: "pyval \<Rightarrow> real option" where
  "num_of (PBool b) = Some (if b then 1 else 0)"
| "num_of (PInt i) = Some (of_int i)"
| "num_of (PFloat r) = Some r"
| "num_of _ = None"

fun py_eq :: "pyval \<Rightarrow> pyval \<Rightarrow> bool" where
  "py_eq PNone w = (w = PNone)"
| "py_eq (PStr s) w = (w = PStr s)"
| "py_eq (PBytes s) w = (w = PBytes s)"
| "py_eq (PList xs) w = (case w of PList ys \<Rightarrow> list_all2 py_eq xs ys | _ \<Rightarrow> False)"
| "py_eq (PDict d) w = (case w of
      PDict e \<Rightarrow> length d = length e \<and>
        list_all (\<lambda>kv. case map_of e (fst kv) of None \<Rightarrow> False | Some u \<Rightarrow> py_eq (snd kv) u) d
    | _ \<Rightarrow> False)"
| "py_eq v w = (num_of v = num_of w)"

fun is_str :: "pyval \<Rightarrow> bool" where
  "is_str (PStr _) = True"
| "is_str _ = False"

fun is_dict :: "pyval \<Rightarrow> bool" where
  "is_dict (PDict _) = True"
| "is_dict _ = False"

text \<open>\<open>v < w\<close> and \<open>v <= w\<close>; \<open>None\<close> where Python raises \<open>TypeError\<close>. Lists compare at
  the first position where they differ.\<close>

fun py_less :: "pyval \<Rightarrow> pyval \<Rightarrow> bool option" where
  "py_less (PStr s) w = (case w of PStr t \<Rightarrow> Some (s < t) | _ \<Rightarrow> None)"
| "py_less (PBytes s) w = (case w of PBytes t \<Rightarrow> Some (s < t) | _ \<Rightarrow> None)"
| "py_less (PList xs) w = (case w of
      PList ys \<Rightarrow> (case xs of
          [] \<Rightarrow> Some (ys \<noteq> [])
        | x # xs' \<Rightarrow> (case ys of
            [] \<Rightarrow> Some False
          | y # ys' \<Rightarrow> if py_eq x y then py_less (PList xs') (PList ys') else py_less x y))
    | _ \<Rightarrow> None)"
| "py_less v w = (case num_of v of None \<Rightarrow> None | Some a \<Rightarrow>
     (case num_of w of None \<Rightarrow> None | Some b \<Rightarrow> Some (a < b)))"

fun py_less_eq :: "pyval \<Rightarrow> pyval \<Rightarrow> bool option" where
  "py_less_eq (PStr s) w = (case w of PStr t \<Rightarrow> Some (s \<le> t) | _ \<Rightarrow> None)"
| "py_less_eq (PBytes s) w = (case w of PBytes t \<Rightarrow> Some (s \<le> t) | _ \<Rightarrow> None)"
| "py_less_eq (PList xs) w = (case w of
      PList ys \<Rightarrow> (case xs of
          [] \<Rightarrow> Some True
        | x # xs' \<Rightarrow> (case ys of
            [] \<Rightarrow> Some False
          | y # ys' \<Rightarrow> if py_eq x y then py_less_eq (PList xs') (PList ys') else py_less_eq x y))
    | _ \<Rightarrow> None)"
| "py_less_eq v w = (case num_of v of None \<Rightarrow> None | Some a \<Rightarrow>
     (case num_of w of None \<Rightarrow> None | Some b \<Rightarrow> Some (a \<le> b)))"

section \<open>Decimal notation\<close>

fun digits_of :: "nat \<Rightarrow> string" where
  "digits_of n = (if n < 10 then [char_of (48 + n)] else digits_of (n div 10) @ [char_of (48 + n mod 10)])"

declare digits_of.simps [simp del]

definition int_str :: "int \<Rightarrow> string" where
  "int_str i = (if i < 0 then CHR ''-'' # digits_of (nat (- i)) else digits_of (nat i))"

text \<open>\<open>int(x)\<close> of a microsecond count in seconds truncates towards zero.\<close>

definition trunc_seconds :: "int \<Rightarrow> int" where
  "trunc_seconds us = (if us < 0 then - ((- us) div 1000000) else us div 1000000)"

section \<open>Laws\<close>

lemma py_eq_refl [simp]: "(\<forall>d. v \<noteq> PDict d) \<Longrightarrow> (\<forall>xs. v \<noteq> PList xs) \<Longrightarrow> py_eq v v"
  by (cases v) simp_all

lemma py_eq_PStr [simp]: "py_eq v (PStr s) \<longleftrightarrow> v = PStr s"
  by (cases v) auto

lemma py_eq_PNone [simp]: "py_eq v PNone \<longleftrightarrow> v = PNone"
  by (cases v) auto

lemma py_eq_num: "num_of v = Some a \<Longrightarrow> py_eq v w \<longleftrightarrow> num_of w = Some a"
  by (cases v) auto

lemma py_less_num: "num_of v = Some a \<Longrightarrow> num_of w = Some b \<Longrightarrow> py_less v w = Some (a < b)"
  by (cases v) auto

lemma py_less_eq_num: "num_of v = Some a \<Longrightarrow> num_of w = Some b \<Longrightarrow> py_less_eq v w = Some (a \<le> b)"
  by (cases v) auto

lemma digits_of_nonempty: "digits_of n \<noteq> []"
  by (subst digits_of.simps) simp

lemma char_of_digit: "n < 10 \<Longrightarrow> (of_char (char_of (48 + n) :: char) :: nat) = 48 + n"
  by simp

lemma digits_of_digits: "list_all char_digit (digits_of n)"
proof (induction n rule: digits_of.induct)
  case (1 n)
  show ?case
  proof (cases "n < 10")
    case True
    then show ?thesis by (subst digits_of.simps) (simp add: char_digit_def)
  next
    case False
    have "n mod 10 < 10" by simp
    then have "char_digit (char_of (48 + n mod 10))"
      unfolding char_digit_def Let_def char_of_digit [OF \<open>n mod 10 < 10\<close>] by simp
    with False 1 show ?thesis by (subst digits_of.simps) simp
  qed
qed

lemma foldl_digits: "foldl (\<lambda>n c. 10 * n + (of_char c - 48)) 0 (digits_of n) = n"
proof (induction n rule: digits_of.induct)
  case (1 n)
  show ?case
  proof (cases "n < 10")
    case True
    then show ?thesis by (subst digits_of.simps) simp
  next
    case False
    have "n mod 10 < 10" by simp
    from char_of_digit [OF this] False 1 show ?thesis by (subst digits_of.simps) simp
  qed
qed

lemma str_to_nat_digits [simp]: "str_to_nat (digits_of n) = n"
  by (simp add: str_to_nat_def foldl_digits)

lemma digits_of_inj: "digits_of m = digits_of n \<Longrightarrow> m = n"
  by (metis str_to_nat_digits)

lemma str_isdigit_digits [simp]: "str_isdigit (digits_of n)"
  by (simp add: str_isdigit_def digits_of_nonempty digits_of_digits)

end
