(* ===== verification/Http_Polling.thy ===== *)
theory Http_Polling
  imports Py_Value
begin

text \<open>
  \<open>src/orcheo/triggers/http_polling.py\<close>: configuration of polling triggers and the cursor that
  schedules polls. URLs are opaque strings (their syntax is checked by pydantic).
\<close>

section \<open>Configuration\<close>

datatype polling_error =
    BadMethod
  | BadPointer
  | IntervalOutOfRange
  | TimeoutOutOfRange

record polling_config =
  poll_url :: string
  poll_method :: string
  poll_headers :: "(string, string) dict"
  poll_query :: "(string, string) dict"
  poll_body :: "(string, pyval) dict option"
  poll_interval :: int
  poll_timeout :: int
  verify_tls :: bool
  follow_redirects :: bool
  deduplicate_on :: "string option"

definition normalize_method :: "string \<Rightarrow> polling_error list \<times> string" where
  "normalize_method value = (let normalized = str_upper (str_strip value)
     in (if normalized \<notin> {''GET'', ''POST'', ''PUT'', ''PATCH'', ''DELETE''} then [BadMethod] else [], normalized))"

definition normalize_mapping :: "(string, string) dict \<Rightarrow> (string, string) dict" where
  "normalize_mapping value = fold (\<lambda>(k, v) normalized. dict_set (str_strip k) v normalized) value []"

definition validate_deduplicate :: "string option \<Rightarrow> polling_error list \<times> string option" where
  "validate_deduplicate value = (case value of
     None \<Rightarrow> ([], None)
   | Some v \<Rightarrow> let normalized = str_strip v
       in (if \<not> str_startswith normalized ''/'' then [BadPointer] else [], Some normalized))"

definition make_polling_config :: "polling_config \<Rightarrow> polling_error list + polling_config" where
  "make_polling_config c =
    (let (e1, m) = normalize_method (poll_method c);
         (e2, d) = validate_deduplicate (deduplicate_on c);
         errors = e1 @ (if poll_interval c < 10 \<or> 86400 < poll_interval c then [IntervalOutOfRange] else []) @
           (if poll_timeout c < 1 \<or> 300 < poll_timeout c then [TimeoutOutOfRange] else []) @ e2
     in if errors \<noteq> [] then Inl errors
        else Inr (c\<lparr>poll_method := m, poll_headers := normalize_mapping (poll_headers c),
                   poll_query := normalize_mapping (poll_query c), deduplicate_on := d\<rparr>))"

section \<open>Schedule\<close>

record polling_plan =
  plan_at :: instant
  plan_url :: string
  plan_method :: string

record polling_state =
  ps_config :: polling_config
  next_poll_at :: "instant option"

definition default_polling_config :: polling_config where
  "default_polling_config = \<lparr>poll_url = ''http://localhost'', poll_method = ''GET'', poll_headers = [],
     poll_query = [], poll_body = None, poll_interval = 300, poll_timeout = 30, verify_tls = True,
     follow_redirects = False, deduplicate_on = None\<rparr>"

definition new_polling_state :: "polling_config option \<Rightarrow> polling_state" where
  "new_polling_state c =
    \<lparr>ps_config = (case c of Some d \<Rightarrow> d | None \<Rightarrow> default_polling_config), next_poll_at = None\<rparr>"

definition update_polling_config :: "polling_config \<Rightarrow> polling_state \<Rightarrow> polling_state" where
  "update_polling_config c s = s\<lparr>ps_config := c, next_poll_at := None\<rparr>"

text \<open>A naive reference is taken as UTC.\<close>

fun as_utc :: "datetime \<Rightarrow> instant" where
  "as_utc (Naive w) = w"
| "as_utc (Aware t z) = t"

definition ensure_next_poll :: "instant \<Rightarrow> datetime option \<Rightarrow> polling_state \<Rightarrow> polling_state \<times> instant" where
  "ensure_next_poll clock now s =
    (let reference = (case now of Some d \<Rightarrow> as_utc d | None \<Rightarrow> clock);
         interval = seconds (poll_interval (ps_config s));
         t = (case next_poll_at s of
             None \<Rightarrow> reference + interval
           | Some t \<Rightarrow> if t \<le> reference then reference + interval else t)
     in (s\<lparr>next_poll_at := Some t\<rparr>, t))"

definition consume_poll :: "instant \<Rightarrow> datetime option \<Rightarrow> polling_state \<Rightarrow> polling_state \<times> polling_plan" where
  "consume_poll clock now s =
    (let (s', scheduled_for) = ensure_next_poll clock now s
     in (s'\<lparr>next_poll_at := Some (scheduled_for + seconds (poll_interval (ps_config s')))\<rparr>,
         \<lparr>plan_at = scheduled_for, plan_url = poll_url (ps_config s'), plan_method = poll_method (ps_config s')\<rparr>))"

section \<open>Laws\<close>

lemma consume_poll_cursor:
  "next_poll_at (fst (consume_poll clock now s)) =
    Some (plan_at (snd (consume_poll clock now s)) + seconds (poll_interval (ps_config s)))"
  "ps_config (fst (consume_poll clock now s)) = ps_config s"
  "next_poll_at s = Some t \<Longrightarrow> 0 \<le> poll_interval (ps_config s) \<Longrightarrow> t \<le> plan_at (snd (consume_poll clock now s))"
  by (auto simp: consume_poll_def ensure_next_poll_def Let_def seconds_def split: option.splits)

fun poll_run :: "instant list \<Rightarrow> polling_state \<Rightarrow> instant list" where
  "poll_run [] s = []"
| "poll_run (now # nows) s =
    (case consume_poll now None s of (s', plan) \<Rightarrow> plan_at plan # poll_run nows s')"

lemma poll_run_spaced:
  assumes "0 \<le> poll_interval (ps_config s)" "next_poll_at s = None \<or> (\<exists>t. next_poll_at s = Some t \<and> lo \<le> t)"
  shows "sorted_wrt (\<lambda>a b. a + seconds (poll_interval (ps_config s)) \<le> b) (poll_run nows s) \<and>
    (next_poll_at s \<noteq> None \<longrightarrow> (\<forall>t \<in> set (poll_run nows s). lo \<le> t))"
  using assms
proof (induction nows arbitrary: s lo)
  case Nil
  then show ?case by simp
next
  case (Cons now nows)
  obtain s' p where p: "consume_poll now None s = (s', p)" by fastforce
  note cur = consume_poll_cursor [where clock = now and now = None and s = s, unfolded p fst_conv snd_conv]
  let ?i = "seconds (poll_interval (ps_config s))"
  have "0 \<le> poll_interval (ps_config s')" "\<exists>t. next_poll_at s' = Some t \<and> plan_at p + ?i \<le> t"
    using cur Cons.prems(1) by auto
  with Cons.IH [of s' "plan_at p + ?i"] cur(2)
  have ih: "sorted_wrt (\<lambda>a b. a + ?i \<le> b) (poll_run nows s')"
    "\<forall>t \<in> set (poll_run nows s'). plan_at p + ?i \<le> t" by auto
  have "0 \<le> ?i" using Cons.prems(1) by (simp add: seconds_def)
  with ih cur(3) Cons.prems p show ?case by fastforce
qed

text \<open>Whatever the clock does, the polls planned by repeated consumption are at least
  \<open>interval_seconds\<close> apart, so no endpoint is polled more often than configured.\<close>

theorem polls_spaced:
  assumes "make_polling_config raw = Inr c"
  shows "10 \<le> poll_interval c \<and>
    sorted_wrt (\<lambda>a b. a + seconds (poll_interval c) \<le> b) (poll_run nows (new_polling_state (Some c)))"
proof -
  have "10 \<le> poll_interval c"
    using assms by (auto simp: make_polling_config_def split: prod.splits if_splits)
  with poll_run_spaced [of "new_polling_state (Some c)" 0 nows] show ?thesis
    by (simp add: new_polling_state_def)
qed

theorem polls_spaced_witness:
  "sorted_wrt (\<lambda>a b. a + seconds 300 \<le> b)
    (poll_run [0, 1000000, 900000000] (new_polling_state (Some default_polling_config)))"
proof -
  have "normalize_method ''GET'' = ([], ''GET'')" by code_simp
  then have "make_polling_config default_polling_config = Inr default_polling_config"
    by (simp add: make_polling_config_def default_polling_config_def validate_deduplicate_def normalize_mapping_def)
  from polls_spaced [OF this, of "[0, 1000000, 900000000]"] show ?thesis
    by (simp add: default_polling_config_def)
qed

text \<open>A planned poll always lies after the reference time: one that has become due is not
  handed out but moved a full interval behind the reference.\<close>

theorem due_poll_postponed:
  assumes "0 < poll_interval (ps_config s)"
  shows "now < plan_at (snd (consume_poll now None s)) \<and>
    (\<forall>t. next_poll_at s = Some t \<and> t \<le> now \<longrightarrow>
      plan_at (snd (consume_poll now None s)) = now + seconds (poll_interval (ps_config s)))"
  using assms by (auto simp: consume_poll_def ensure_next_poll_def Let_def seconds_def split: option.splits)

theorem due_poll_postponed_witness:
  "0 < poll_interval (ps_config (new_polling_state None)) \<and>
   plan_at (snd (consume_poll 500000000 None ((new_polling_state None)\<lparr>next_poll_at := Some 400000000\<rparr>))) = 800000000"
  using due_poll_postponed [of "(new_polling_state None)\<lparr>next_poll_at := Some 400000000\<rparr>" 500000000]
  by (simp add: new_polling_state_def default_polling_config_def seconds_def)

end
