(* ===== verification/Cron.thy ===== *)
theory Cron
  imports Orcheo_Prelude
begin

text \<open>
  \<open>src/orcheo/triggers/cron.py\<close>: cron configuration with its validators, the computation of
  the next occurrence in a time zone, and the per-workflow schedule (\<open>CronTriggerState\<close>) with
  overlap protection.

  The \<open>croniter\<close> package and the time zone database are the functions of
  \<open>cron_env\<close>. A wall clock reading carries the \<open>fold\<close> bit of PEP 495:
  \<open>astimezone\<close> sets it for the second of two equal readings, \<open>replace(tzinfo=...)\<close>
  keeps it, and \<open>croniter\<close> returns readings without it. Conversions are assumed to stay within
  the range of \<open>datetime\<close>.
\<close>

section \<open>Environment\<close>

record local_time =
  wall :: int
  fold_bit :: bool

record cron_env =
  cr_valid :: "string \<Rightarrow> bool"
  cr_match :: "string \<Rightarrow> int \<Rightarrow> bool"
  cr_next :: "string \<Rightarrow> int \<Rightarrow> int option" \<comment> \<open>\<open>None\<close>: \<open>CroniterBadDateError\<close>\<close>
  zone_known :: "string \<Rightarrow> bool"
  to_local :: "string \<Rightarrow> instant \<Rightarrow> local_time"
  from_local :: "string \<Rightarrow> local_time \<Rightarrow> instant"
  system_instant :: "int \<Rightarrow> instant" \<comment> \<open>naive values are read in the system's zone\<close>

fun datetime_instant :: "cron_env \<Rightarrow> datetime \<Rightarrow> instant" where
  "datetime_instant env (Aware t z) = t"
| "datetime_instant env (Naive w) = system_instant env w"

section \<open>Configuration\<close>

datatype cron_error =
    InvalidExpression string
  | UnknownTimezone string
  | BoundaryNotAware
  | BoundaryNotWholeMinute
  | StartAfterEnd
  | FiresTooOften string int
  | NothingToConsume
  | CronOverlap
  | BadDate

record cron_config =
  cron_expression :: string
  cron_timezone :: string
  allow_overlapping :: bool
  start_at :: "datetime option"
  end_at :: "datetime option"

definition default_cron_config :: cron_config where
  "default_cron_config = \<lparr>cron_expression = ''0 * * * *'', cron_timezone = ''UTC'',
     allow_overlapping = False, start_at = None, end_at = None\<rparr>"

definition validate_expression :: "cron_env \<Rightarrow> string \<Rightarrow> cron_error + string" where
  "validate_expression env value = (if cr_valid env value then Inr value else Inl (InvalidExpression value))"

definition validate_timezone :: "cron_env \<Rightarrow> string \<Rightarrow> cron_error + string" where
  "validate_timezone env value = (if zone_known env value then Inr value else Inl (UnknownTimezone value))"

fun ensure_timezone_awareness :: "datetime option \<Rightarrow> cron_error + datetime option" where
  "ensure_timezone_awareness None = Inr None"
| "ensure_timezone_awareness (Some (Naive w)) = Inl BoundaryNotAware"
| "ensure_timezone_awareness (Some (Aware t z)) =
    (if (t + z) mod 60000000 \<noteq> 0 then Inl BoundaryNotWholeMinute else Inr (Some (Aware t z)))"

text \<open>Comparison of aware values is comparison of instants; the validators above exclude others.\<close>

definition validate_window :: "cron_env \<Rightarrow> cron_config \<Rightarrow> cron_error + cron_config" where
  "validate_window env c =
    (case (start_at c, end_at c) of
       (Some s, Some e) \<Rightarrow> if datetime_instant env s > datetime_instant env e then Inl StartAfterEnd else Inr c
     | _ \<Rightarrow> Inr c)"

definition high_frequency_threshold_seconds :: int where
  "high_frequency_threshold_seconds = 300"

text \<open>\<open>now\<close> is where \<open>croniter\<close> starts when it is given no start time; any failure of it
  lets the configuration pass.\<close>

definition validate_overlap_frequency :: "cron_env \<Rightarrow> int \<Rightarrow> cron_config \<Rightarrow> cron_error + cron_config" where
  "validate_overlap_frequency env now c =
    (if allow_overlapping c then Inr c
     else case cr_next env (cron_expression c) now of
       None \<Rightarrow> Inr c
     | Some first_fire \<Rightarrow> (case cr_next env (cron_expression c) first_fire of
         None \<Rightarrow> Inr c
       | Some second_fire \<Rightarrow>
           let interval = second_fire - first_fire
           in if interval < seconds high_frequency_threshold_seconds
              then Inl (FiresTooOften (cron_expression c) (interval div 1000000)) else Inr c))"

fun error_of :: "'e + 'a \<Rightarrow> 'e list" where
  "error_of (Inl e) = [e]"
| "error_of (Inr a) = []"

text \<open>Construction: the errors of all fields are collected; the model validators run in order when
  there are none.\<close>

definition make_cron_config :: "cron_env \<Rightarrow> int \<Rightarrow> cron_config \<Rightarrow> cron_error list + cron_config" where
  "make_cron_config env now c =
    (let field_errors = error_of (validate_expression env (cron_expression c)) @
           error_of (validate_timezone env (cron_timezone c)) @
           error_of (ensure_timezone_awareness (start_at c)) @
           error_of (ensure_timezone_awareness (end_at c))
     in if field_errors \<noteq> [] then Inl field_errors
        else case seqE (validate_window env c) (validate_overlap_frequency env now) of
            Inl e \<Rightarrow> Inl [e] | Inr c' \<Rightarrow> Inr c')"

section \<open>Occurrences\<close>

record cron_occurrence =
  occ_expression :: string
  occ_timezone :: string
  occ_start :: "datetime option"
  occ_end :: "datetime option"

definition to_occurrence :: "cron_config \<Rightarrow> cron_occurrence" where
  "to_occurrence c = \<lparr>occ_expression = cron_expression c, occ_timezone = cron_timezone c,
     occ_start = start_at c, occ_end = end_at c\<rparr>"

definition local_naive :: "cron_env \<Rightarrow> cron_occurrence \<Rightarrow> datetime \<Rightarrow> local_time" where
  "local_naive env occ d = to_local env (occ_timezone occ) (datetime_instant env d)"

definition next_after ::
    "cron_env \<Rightarrow> cron_occurrence \<Rightarrow> datetime \<Rightarrow> bool \<Rightarrow> cron_error + local_time option" where
  "next_after env occ reference inclusive =
    (let local_reference = local_naive env occ reference;
         start_naive = map_option (local_naive env occ) (occ_start occ);
         end_naive = map_option (local_naive env occ) (occ_end occ);
         clipped = (case start_naive of None \<Rightarrow> False | Some s \<Rightarrow> wall local_reference < wall s);
         local_reference = (if clipped then the start_naive else local_reference);
         inclusive = (clipped \<or> inclusive)
     in seqE (if inclusive \<and> cr_match env (occ_expression occ) (wall local_reference)
              then Inr local_reference
              else case cr_next env (occ_expression occ) (wall local_reference) of
                  None \<Rightarrow> Inl BadDate
                | Some w \<Rightarrow> Inr \<lparr>wall = w, fold_bit = False\<rparr>)
          (\<lambda>candidate. case end_naive of
             Some e \<Rightarrow> if wall candidate > wall e then Inr None else Inr (Some candidate)
           | None \<Rightarrow> Inr (Some candidate)))"

section \<open>Schedule state\<close>

record cron_state =
  cs_config :: cron_config
  occurrence :: cron_occurrence
  next_fire_at :: "instant option"
  last_dispatched_at :: "datetime option"
  active_runs :: "uuid set"

definition new_cron_state :: "cron_config option \<Rightarrow> datetime option \<Rightarrow> cron_state" where
  "new_cron_state config dispatched =
    (let c = (case config of None \<Rightarrow> default_cron_config | Some c \<Rightarrow> c)
     in \<lparr>cs_config = c, occurrence = to_occurrence c, next_fire_at = None,
         last_dispatched_at = dispatched, active_runs = {}\<rparr>)"

definition update_cron_config :: "cron_config \<Rightarrow> datetime option \<Rightarrow> cron_state \<Rightarrow> cron_state" where
  "update_cron_config c dispatched s =
    s\<lparr>cs_config := c, occurrence := to_occurrence c, next_fire_at := None,
      last_dispatched_at := (if dispatched \<noteq> None then dispatched else last_dispatched_at s)\<rparr>"

definition can_dispatch :: "cron_state \<Rightarrow> bool" where
  "can_dispatch s \<longleftrightarrow> allow_overlapping (cs_config s) \<or> active_runs s = {}"

definition register_run :: "uuid \<Rightarrow> cron_state \<Rightarrow> (cron_state, cron_error, unit) outcome" where
  "register_run run_id s =
    (if \<not> can_dispatch s then (s, Inl CronOverlap)
     else (s\<lparr>active_runs := insert run_id (active_runs s)\<rparr>, Inr ()))"

definition release_run :: "uuid \<Rightarrow> cron_state \<Rightarrow> cron_state" where
  "release_run run_id s = s\<lparr>active_runs := active_runs s - {run_id}\<rparr>"

definition sync_active_runs :: "uuid set \<Rightarrow> cron_state \<Rightarrow> cron_state" where
  "sync_active_runs run_ids s = s\<lparr>active_runs := run_ids\<rparr>"

definition in_utc :: "cron_env \<Rightarrow> cron_occurrence \<Rightarrow> local_time option \<Rightarrow> instant option" where
  "in_utc env occ next_time = map_option (from_local env (occ_timezone occ)) next_time"

definition ensure_next :: "cron_env \<Rightarrow> instant \<Rightarrow> cron_state \<Rightarrow> (cron_state, cron_error, unit) outcome" where
  "ensure_next env now s =
    (if next_fire_at s \<noteq> None then (s, Inr ())
     else case (case last_dispatched_at s of
           Some d \<Rightarrow> next_after env (occurrence s) d False
         | None \<Rightarrow> next_after env (occurrence s)
             (case start_at (cs_config s) of Some d \<Rightarrow> d | None \<Rightarrow> Aware now 0) True) of
         Inl e \<Rightarrow> (s, Inl e)
       | Inr next_time \<Rightarrow> (s\<lparr>next_fire_at := in_utc env (occurrence s) next_time\<rparr>, Inr ()))"

definition peek_due :: "cron_env \<Rightarrow> instant \<Rightarrow> cron_state \<Rightarrow> (cron_state, cron_error, instant option) outcome" where
  "peek_due env now s =
    and_then (ensure_next env now s) (\<lambda>s _.
      (s, Inr (case next_fire_at s of
         Some t \<Rightarrow> if t \<le> now then Some t else None
       | None \<Rightarrow> None)))"

definition consume_due :: "cron_env \<Rightarrow> cron_state \<Rightarrow> (cron_state, cron_error, instant) outcome" where
  "consume_due env s =
    (case next_fire_at s of
       None \<Rightarrow> (s, Inl NothingToConsume)
     | Some fire_at \<Rightarrow>
         let s = s\<lparr>last_dispatched_at := Some (Aware fire_at 0)\<rparr>
         in case next_after env (occurrence s) (Aware fire_at 0) False of
             Inl e \<Rightarrow> (s, Inl e)
           | Inr next_time \<Rightarrow> (s\<lparr>next_fire_at := in_utc env (occurrence s) next_time\<rparr>, Inr fire_at))"

end
