(* ===== verification/Cron_Extraction.thy ===== *)
theory Cron_Extraction
  imports Py_Value Cron
begin

text \<open>
  \<open>src/orcheo/triggers/cron_extraction.py\<close>: the cron declaration of a stored workflow version
  is found in the index of its graph or in its node summary, reduced to the known fields, and
  placeholders \<open>{{config.configurable.NAME}}\<close> are replaced by the configurable values of the
  version. The conversion of the payload to a configuration (pydantic, then the validators of
  \<open>Cron\<close>) is the parameter \<open>model_validate\<close>.
\<close>

datatype 'e extraction_error =
    NoGraph
  | MultipleTriggers
  | UndefinedConfigurable string
  | UnhashableFormat
  | Invalid 'e

definition cron_fields :: "string list" where
  "cron_fields = [''expression'', ''timezone'', ''allow_overlapping'', ''start_at'', ''end_at'']"

definition strip_prefix :: "string \<Rightarrow> string \<Rightarrow> string option" where
  "strip_prefix p s = (if str_startswith s p then Some (drop (length p) s) else None)"

text \<open>The match of \<open>\{\{\s*config\.configurable\.([^}\s.]+)\s*\}\}\<close> against a whole string: the name.\<close>

definition template_name :: "string \<Rightarrow> string option" where
  "template_name s =
    (case strip_prefix ''{{'' s of None \<Rightarrow> None | Some s1 \<Rightarrow>
     (case strip_prefix ''config.configurable.'' (dropWhile char_space s1) of None \<Rightarrow> None | Some s2 \<Rightarrow>
       let name_char = (\<lambda>c. c \<noteq> CHR ''}'' \<and> c \<noteq> CHR ''.'' \<and> \<not> char_space c);
           name = takeWhile name_char s2
       in if name \<noteq> [] \<and> dropWhile char_space (dropWhile name_char s2) = ''}}'' then Some name else None))"

fun dict_value :: "pyval \<Rightarrow> (string \<times> pyval) list option" where
  "dict_value (PDict d) = Some d"
| "dict_value _ = None"

fun str_value :: "pyval \<Rightarrow> string option" where
  "str_value (PStr s) = Some s"
| "str_value _ = None"

fun mappings :: "pyval list \<Rightarrow> (string \<times> pyval) list list" where
  "mappings [] = []"
| "mappings (v # vs) = (case v of PDict d \<Rightarrow> d # mappings vs | _ \<Rightarrow> mappings vs)"

definition index_cron_entries :: "(string, pyval) dict \<Rightarrow> (string \<times> pyval) list list option" where
  "index_cron_entries graph =
    (case dict_get graph ''index'' of
       Some (PDict index) \<Rightarrow> (case dict_get index ''cron'' of
           Some (PList entries) \<Rightarrow>
             let resolved = mappings entries in if resolved = [] then None else Some resolved
         | _ \<Rightarrow> None)
     | _ \<Rightarrow> None)"

definition extract_configurable :: "(string, pyval) dict \<Rightarrow> (string, pyval) dict" where
  "extract_configurable version =
    (case dict_get version ''runnable_config'' of
       Some (PDict rc) \<Rightarrow> (case dict_get rc ''configurable'' of Some (PDict c) \<Rightarrow> c | _ \<Rightarrow> [])
     | _ \<Rightarrow> [])"

text \<open>The format is looked up in a set, so an unhashable one raises \<open>TypeError\<close>.\<close>

definition extract_nodes :: "(string, pyval) dict \<Rightarrow> 'e extraction_error + (string \<times> pyval) list list" where
  "extract_nodes graph =
    seqE (case dict_get graph ''format'' of
        None \<Rightarrow> Inr False
      | Some (PList _) \<Rightarrow> Inl UnhashableFormat
      | Some (PDict _) \<Rightarrow> Inl UnhashableFormat
      | Some f \<Rightarrow> Inr (f = PStr ''langgraph-script'' \<or> f = PStr ''langgraph_script''))
    (\<lambda>script.
      let nodes = (if script
          then (case dict_get graph ''summary'' of Some (PDict s) \<Rightarrow> dict_get s ''nodes'' | _ \<Rightarrow> None)
          else dict_get graph ''nodes'')
      in Inr (case nodes of Some (PList ns) \<Rightarrow> mappings ns | _ \<Rightarrow> []))"

fun resolve_templates ::
    "(string, pyval) dict \<Rightarrow> (string, pyval) dict \<Rightarrow> 'e extraction_error + (string, pyval) dict" where
  "resolve_templates configurable [] = Inr []"
| "resolve_templates configurable ((k, v) # payload) =
    seqE (case v of
        PStr s \<Rightarrow> (case template_name (str_strip s) of
            None \<Rightarrow> Inr v
          | Some name \<Rightarrow> (case dict_get configurable name of
              None \<Rightarrow> Inl (UndefinedConfigurable name)
            | Some w \<Rightarrow> Inr w))
      | _ \<Rightarrow> Inr v)
    (\<lambda>v'. seqE (resolve_templates configurable payload) (\<lambda>rest. Inr ((k, v') # rest)))"

fun blank_string :: "pyval option \<Rightarrow> bool" where
  "blank_string (Some (PStr s)) = (str_strip s = [])"
| "blank_string _ = False"

definition cron_payload :: "(string, pyval) dict \<Rightarrow> (string, pyval) dict" where
  "cron_payload entry =
    (let payload = concat (map (\<lambda>key. case dict_get entry key of Some v \<Rightarrow> [(key, v)] | None \<Rightarrow> []) cron_fields)
     in fold (\<lambda>key p. if blank_string (dict_get p key) then dict_pop key p else p)
          [''expression'', ''timezone''] payload)"

definition extract_cron_config ::
    "((string, pyval) dict \<Rightarrow> 'e + cron_config) \<Rightarrow> (string, pyval) dict \<Rightarrow> (string, pyval) dict \<Rightarrow>
     'e extraction_error + cron_config option" where
  "extract_cron_config model_validate graph configurable =
    seqE (case index_cron_entries graph of
        Some entries \<Rightarrow> Inr entries
      | None \<Rightarrow> seqE (extract_nodes graph) (\<lambda>nodes.
          Inr (filter (\<lambda>node. dict_get node ''type'' = Some (PStr ''CronTriggerNode'')) nodes)))
    (\<lambda>entries. case entries of
        [] \<Rightarrow> Inr None
      | [entry] \<Rightarrow> seqE (resolve_templates configurable (cron_payload entry)) (\<lambda>payload.
          (case model_validate payload of Inl e \<Rightarrow> Inl (Invalid e) | Inr c \<Rightarrow> Inr (Some c)))
      | _ \<Rightarrow> Inl MultipleTriggers)"

definition extract_version_cron_config ::
    "((string, pyval) dict \<Rightarrow> 'e + cron_config) \<Rightarrow> (string, pyval) dict \<Rightarrow> 'e extraction_error + cron_config option" where
  "extract_version_cron_config model_validate version =
    (case dict_get version ''graph'' of
       Some (PDict graph) \<Rightarrow> extract_cron_config model_validate graph (extract_configurable version)
     | _ \<Rightarrow> Inl NoGraph)"

section \<open>Laws\<close>

lemma resolve_templates_get:
  "resolve_templates configurable payload = (Inr p :: 'e extraction_error + _) \<Longrightarrow>
    (case dict_get payload k of
       None \<Rightarrow> dict_get p k = None
     | Some v \<Rightarrow> dict_get p k = (case str_value v of
           None \<Rightarrow> Some v
         | Some s \<Rightarrow> (case template_name (str_strip s) of None \<Rightarrow> Some v | Some n \<Rightarrow> dict_get configurable n)))"
proof (induction payload arbitrary: p)
  case Nil
  then show ?case by simp
next
  case (Cons kv payload)
  obtain j v where kv: "kv = (j, v)" by (cases kv)
  from Cons.prems kv obtain v' rest where
    v': "(case v of PStr s \<Rightarrow> (case template_name (str_strip s) of
            None \<Rightarrow> Inr v
          | Some name \<Rightarrow> (case dict_get configurable name of
              None \<Rightarrow> Inl (UndefinedConfigurable name) | Some w \<Rightarrow> Inr w))
      | _ \<Rightarrow> Inr v) = (Inr v' :: 'e extraction_error + pyval)"
    and rest: "resolve_templates configurable payload = (Inr rest :: 'e extraction_error + _)"
    and p: "p = (j, v') # rest"
    by (auto simp: seqE_Inr_iff)
  have "(case str_value v of None \<Rightarrow> Some v
      | Some s \<Rightarrow> (case template_name (str_strip s) of None \<Rightarrow> Some v | Some n \<Rightarrow> dict_get configurable n)) = Some v'"
    using v' by (cases v) (auto split: option.splits)
  with Cons.IH [OF rest] show ?case unfolding kv p
    by (cases "k = j"; cases "dict_get payload k") simp_all
qed

lemma blank_pop_get:
  "dict_get (fold (\<lambda>key p. if blank_string (dict_get p key) then dict_pop key p else p) ks d) k =
    (if k \<in> set ks \<and> blank_string (dict_get d k) then None else dict_get d k)"
  by (induction ks arbitrary: d) auto

lemma fields_get:
  "dict_get (concat (map (\<lambda>key. case dict_get entry key of Some v \<Rightarrow> [(key, v)] | None \<Rightarrow> []) ks)) k =
    (if k \<in> set ks then dict_get entry k else None)"
  by (induction ks) (auto split: option.splits simp: map_add_def)

lemma cron_payload_get:
  "dict_get (cron_payload entry) k =
    (if k \<notin> set cron_fields \<or> (k \<in> {''expression'', ''timezone''} \<and> blank_string (dict_get entry k))
     then None else dict_get entry k)"
  by (auto simp: cron_payload_def Let_def blank_pop_get fields_get simp del: fold_simps)

lemma validated_iff:
  "(case v of Inl e \<Rightarrow> Inl (Invalid e) | Inr c \<Rightarrow> Inr (Some c)) = Inr (Some c) \<longleftrightarrow> v = Inr c"
  by (cases v) auto

text \<open>What a declared field becomes.\<close>

definition resolved_field :: "(string, pyval) dict \<Rightarrow> pyval \<Rightarrow> pyval option" where
  "resolved_field configurable v = (case str_value v of
     None \<Rightarrow> Some v
   | Some s \<Rightarrow> (case template_name (str_strip s) of None \<Rightarrow> Some v | Some n \<Rightarrow> dict_get configurable n))"

text \<open>When a configuration is extracted from a version, its graph declares exactly one cron
  entry (in the index if that has any), and the configuration was validated from a payload that
  consists of the entry's known fields, blank expressions and time zones dropped so that the defaults
  apply, with every placeholder replaced by the version's configurable value.\<close>

theorem extracted_cron_payload:
  assumes "extract_version_cron_config model_validate version = Inr (Some c)"
  shows "\<exists>graph entry payload. dict_get version ''graph'' = Some (PDict graph) \<and>
    (index_cron_entries graph = Some [entry] \<or>
      (index_cron_entries graph = None \<and> dict_get entry ''type'' = Some (PStr ''CronTriggerNode''))) \<and>
    model_validate payload = Inr c \<and>
    (\<forall>k. dict_get payload k =
      (if k \<notin> set cron_fields \<or> (k \<in> {''expression'', ''timezone''} \<and> blank_string (dict_get entry k)) then None
       else Option.bind (dict_get entry k) (resolved_field (extract_configurable version))))"
proof -
  obtain graph where g: "dict_get version ''graph'' = Some (PDict graph)"
    and x: "extract_cron_config model_validate graph (extract_configurable version) = Inr (Some c)"
    using assms by (auto simp: extract_version_cron_config_def split: option.splits pyval.splits)
  from x obtain entries where
    e: "(case index_cron_entries graph of
        Some entries \<Rightarrow> Inr entries
      | None \<Rightarrow> seqE (extract_nodes graph) (\<lambda>nodes.
          Inr (filter (\<lambda>node. dict_get node ''type'' = Some (PStr ''CronTriggerNode'')) nodes))) =
        (Inr entries :: 'a extraction_error + _)"
    and y: "(case entries of
        [] \<Rightarrow> Inr None
      | [entry] \<Rightarrow> seqE (resolve_templates (extract_configurable version) (cron_payload entry)) (\<lambda>payload.
          (case model_validate payload of Inl e \<Rightarrow> Inl (Invalid e) | Inr c \<Rightarrow> Inr (Some c)))
      | _ \<Rightarrow> Inl MultipleTriggers) = Inr (Some c)"
    unfolding extract_cron_config_def seqE_Inr_iff by blast
  from y obtain entry where entry: "entries = [entry]"
    by (auto split: list.splits)
  with y have "\<exists>a. resolve_templates (extract_configurable version) (cron_payload entry) =
        (Inr a :: 'a extraction_error + _) \<and>
      (case model_validate a of Inl e \<Rightarrow> Inl (Invalid e) | Inr c \<Rightarrow> Inr (Some c)) =
        (Inr (Some c) :: 'a extraction_error + _)"
    by (simp add: seqE_Inr_iff)
  then obtain payload where
    r: "resolve_templates (extract_configurable version) (cron_payload entry) =
        (Inr payload :: 'a extraction_error + _)"
    and v: "model_validate payload = Inr c"
    by (auto simp: validated_iff)
  have "index_cron_entries graph = Some [entry] \<or>
      (index_cron_entries graph = None \<and> dict_get entry ''type'' = Some (PStr ''CronTriggerNode''))"
    using e entry by (auto simp: seqE_Inr_iff filter_eq_Cons_iff split: option.splits)
  moreover have "dict_get payload k =
      (if k \<notin> set cron_fields \<or> (k \<in> {''expression'', ''timezone''} \<and> blank_string (dict_get entry k)) then None
       else Option.bind (dict_get entry k) (resolved_field (extract_configurable version)))" for k
    using resolve_templates_get [OF r, of k] unfolding cron_payload_get
    by (cases "dict_get entry k") (auto simp: resolved_field_def split: if_splits)
  ultimately show ?thesis using g v by blast
qed

definition sample_version :: "(string, pyval) dict" where
  "sample_version = [(''graph'', PDict [(''index'', PDict [(''cron'', PList [PDict
       [(''expression'', PStr ''{{ config.configurable.when }}''), (''timezone'', PStr '' ''), (''x'', PNone)]])])]),
     (''runnable_config'', PDict [(''configurable'', PDict [(''when'', PStr ''0 9 * * *'')])])]"

definition sample_validate :: "(string, pyval) dict \<Rightarrow> unit + cron_config" where
  "sample_validate p = (case dict_get p ''expression'' of
     Some (PStr e) \<Rightarrow> Inr (default_cron_config\<lparr>cron_expression := e\<rparr>) | _ \<Rightarrow> Inl ())"

theorem extracted_cron_payload_witness:
  "\<exists>payload. sample_validate payload = Inr (default_cron_config\<lparr>cron_expression := ''0 9 * * *''\<rparr>) \<and>
    dict_get payload ''x'' = None"
proof -
  have "extract_version_cron_config sample_validate sample_version =
      Inr (Some (default_cron_config\<lparr>cron_expression := ''0 9 * * *''\<rparr>))"
    by code_simp
  from extracted_cron_payload [OF this] obtain payload where
    "sample_validate payload = Inr (default_cron_config\<lparr>cron_expression := ''0 9 * * *''\<rparr>)"
    "dict_get payload ''x'' = None"
    by (auto simp: cron_fields_def)
  then show ?thesis by blast
qed

end
