(* ===== verification/Registries.thy ===== *)
theory Registries
  imports Orcheo_Prelude "HOL-Library.Multiset"
begin

text \<open>
  The in-process registries: trigger platforms (\<open>src/orcheo/triggers/registry.py\<close>), edges
  (\<open>src/orcheo/edges/registry.py\<close>) and nodes (\<open>src/orcheo/nodes/registry.py\<close>). The first two
  refuse a second registration under a name, the third replaces. The interface \<open>registry\<close> states
  what their lookups and listings promise; all three provide it. Implementations and factories are
  values of an abstract type.
\<close>

section \<open>The interface\<close>

locale registry =
  fixes ok :: "'s \<Rightarrow> bool"
    and name_of :: "'m \<Rightarrow> string"
    and get :: "'s \<Rightarrow> string \<Rightarrow> 'm option"
    and accepts :: "'m \<Rightarrow> 's \<Rightarrow> bool"
    and put :: "'i \<Rightarrow> 'm \<Rightarrow> 's \<Rightarrow> 's"
    and del :: "string \<Rightarrow> 's \<Rightarrow> 's"
    and listing :: "'s \<Rightarrow> 'm list"
  assumes ok_put: "ok s \<Longrightarrow> ok (put i m s)"
    and ok_del: "ok s \<Longrightarrow> ok (del n s)"
    and refused: "\<not> accepts m s \<Longrightarrow> put i m s = s"
    and fresh_accepted: "ok s \<Longrightarrow> get s (name_of m) = None \<Longrightarrow> accepts m s"
    and get_put: "accepts m s \<Longrightarrow> get (put i m s) n = (if n = name_of m then Some m else get s n)"
    and get_del: "get (del n s) n' = (if n' = n then None else get s n')"
    and get_name: "ok s \<Longrightarrow> get s n = Some m \<Longrightarrow> name_of m = n"
    and set_listing: "ok s \<Longrightarrow> set (listing s) = {m. \<exists>n. get s n = Some m}"
    and sorted_listing: "sorted (map (\<lambda>m. str_lower (name_of m)) (listing s))"
    and distinct_listing: "ok s \<Longrightarrow> distinct (map name_of (listing s))"
begin

lemma mem_listing: "ok s \<Longrightarrow> m \<in> set (listing s) \<longleftrightarrow> get s (name_of m) = Some m"
  using set_listing get_name by auto

lemma listing_put:
  assumes "ok s" "accepts m s"
  shows "set (listing (put i m s)) = insert m {m' \<in> set (listing s). name_of m' \<noteq> name_of m}"
  using mem_listing [OF assms(1)] mem_listing [OF ok_put [OF assms(1)]] get_put [OF assms(2)]
  by (auto split: if_splits)

lemma listing_del:
  assumes "ok s"
  shows "set (listing (del n s)) = {m \<in> set (listing s). name_of m \<noteq> n}"
  using mem_listing [OF assms] mem_listing [OF ok_del [OF assms]] by (auto simp: get_del split: if_splits)

lemma del_put:
  assumes "ok s" "get s (name_of m) = None"
  shows "set (listing (del (name_of m) (put i m s))) = set (listing s)"
proof -
  have "name_of m' \<noteq> name_of m" if "m' \<in> set (listing s)" for m'
    using that mem_listing [OF assms(1), of m'] assms(2) by auto
  then show ?thesis using listing_del [OF ok_put [OF assms(1)]] listing_put [OF assms(1) fresh_accepted [OF assms]] by auto
qed

lemma listing_unique:
  "ok s \<Longrightarrow> m \<in> set (listing s) \<Longrightarrow> m' \<in> set (listing s) \<Longrightarrow> name_of m = name_of m' \<Longrightarrow> m = m'"
  using mem_listing by force

lemma listing_spec:
  assumes "ok s"
  shows "sorted (map (\<lambda>m. str_lower (name_of m)) (listing s)) \<and> distinct (map name_of (listing s)) \<and>
    (\<forall>m. m \<in> set (listing s) \<longleftrightarrow> get s (name_of m) = Some m)"
  using sorted_listing distinct_listing [OF assms] mem_listing [OF assms] by blast

end

section \<open>Dictionaries keyed by the name of their values\<close>

definition keyed :: "('m \<Rightarrow> string) \<Rightarrow> (string, 'm) dict \<Rightarrow> bool" where
  "keyed key d \<longleftrightarrow> dict_ok d \<and> (\<forall>n m. dict_get d n = Some m \<longrightarrow> key m = n)"

definition sorted_values :: "('m \<Rightarrow> string) \<Rightarrow> (string, 'm) dict \<Rightarrow> 'm list" where
  "sorted_values key d = sort_key (\<lambda>m. str_lower (key m)) (map snd d)"

lemma keyed_Nil [simp]: "keyed key []"
  by (simp add: keyed_def)

lemma keyed_set: "keyed key d \<Longrightarrow> keyed key (dict_set (key m) m d)"
  by (auto simp: keyed_def)

lemma keyed_pop: "keyed key d \<Longrightarrow> keyed key (dict_pop n d)"
  by (auto simp: keyed_def)

lemma keyed_get: "keyed key d \<Longrightarrow> dict_get d n = Some m \<Longrightarrow> key m = n"
  by (simp add: keyed_def)

lemma keyed_values: "keyed key d \<Longrightarrow> set (sorted_values key d) = {m. \<exists>n. dict_get d n = Some m}"
  by (force simp: sorted_values_def keyed_def dict_get_iff)

lemma keyed_sorted: "sorted (map (\<lambda>m. str_lower (key m)) (sorted_values key d))"
  by (simp add: sorted_values_def)

lemma keyed_distinct: "keyed key d \<Longrightarrow> distinct (map key (sorted_values key d))"
proof -
  assume k: "keyed key d"
  then have "map key (map snd d) = map fst d"
    by (auto simp: keyed_def dict_get_iff)
  then have "distinct (map key (map snd d))" using k by (simp only: keyed_def dict_ok_def)
  moreover have "mset (map key (sorted_values key d)) = mset (map key (map snd d))"
    by (simp only: sorted_values_def mset_map mset_sort)
  ultimately show ?thesis using mset_eq_imp_distinct_iff by blast
qed

section \<open>Triggers\<close>

record trigger_metadata =
  tm_id :: string
  display_name :: string
  tm_description :: string

record 'f trigger_registration =
  reg_metadata :: trigger_metadata
  reg_factory :: 'f

type_synonym 'f trigger_registry = "(string, 'f trigger_registration) dict"

datatype registry_error = AlreadyRegistered string

definition trigger_register ::
    "trigger_metadata \<Rightarrow> 'f \<Rightarrow> 'f trigger_registry \<Rightarrow> ('f trigger_registry, registry_error, unit) outcome" where
  "trigger_register m f r =
    (if dict_get r (tm_id m) \<noteq> None then (r, Inl (AlreadyRegistered (tm_id m)))
     else (dict_set (tm_id m) \<lparr>reg_metadata = m, reg_factory = f\<rparr> r, Inr ()))"

definition trigger_get :: "'f trigger_registry \<Rightarrow> string \<Rightarrow> 'f trigger_registration option" where
  "trigger_get r n = dict_get r n"

definition trigger_list_metadata :: "'f trigger_registry \<Rightarrow> trigger_metadata list" where
  "trigger_list_metadata r = sort_key (\<lambda>m. str_lower (tm_id m)) (map (\<lambda>(n, g). reg_metadata g) r)"

definition trigger_unregister :: "string \<Rightarrow> 'f trigger_registry \<Rightarrow> 'f trigger_registry" where
  "trigger_unregister n r = dict_pop n r"

section \<open>Edges and nodes\<close>

record entry_metadata =
  em_name :: string
  em_description :: string
  em_category :: string

record node_metadata = entry_metadata +
  em_restricted :: bool

record ('f, 'z) entry_registry =
  implementations :: "(string, 'f) dict"
  metadata :: "(string, 'z entry_metadata_scheme) dict"

definition edge_register ::
    "'z entry_metadata_scheme \<Rightarrow> 'f \<Rightarrow> ('f, 'z) entry_registry \<Rightarrow> (('f, 'z) entry_registry, registry_error, 'f) outcome" where
  "edge_register m f r =
    (if dict_get (implementations r) (em_name m) \<noteq> None then (r, Inl (AlreadyRegistered (em_name m)))
     else (r\<lparr>implementations := dict_set (em_name m) f (implementations r),
             metadata := dict_set (em_name m) m (metadata r)\<rparr>, Inr f))"

definition node_register :: "'f \<Rightarrow> 'z entry_metadata_scheme \<Rightarrow> ('f, 'z) entry_registry \<Rightarrow> ('f, 'z) entry_registry" where
  "node_register f m r =
    r\<lparr>implementations := dict_set (em_name m) f (implementations r),
      metadata := dict_set (em_name m) m (metadata r)\<rparr>"

definition get_implementation :: "('f, 'z) entry_registry \<Rightarrow> string \<Rightarrow> 'f option" where
  "get_implementation r n = dict_get (implementations r) n"

definition get_metadata :: "('f, 'z) entry_registry \<Rightarrow> string \<Rightarrow> 'z entry_metadata_scheme option" where
  "get_metadata r n = dict_get (metadata r) n"

definition entry_list_metadata :: "('f, 'z) entry_registry \<Rightarrow> 'z entry_metadata_scheme list" where
  "entry_list_metadata r = sort_key (\<lambda>m. str_lower (em_name m)) (map snd (metadata r))"

definition entry_unregister :: "string \<Rightarrow> ('f, 'z) entry_registry \<Rightarrow> ('f, 'z) entry_registry" where
  "entry_unregister n r =
    r\<lparr>implementations := dict_pop n (implementations r), metadata := dict_pop n (metadata r)\<rparr>"

text \<open>\<open>instance f g\<close>: \<open>f\<close> is a class and \<open>g\<close> one of its instances.\<close>

fun first_match :: "('f \<Rightarrow> 'f \<Rightarrow> bool) \<Rightarrow> 'f \<Rightarrow> (string, 'f) dict \<Rightarrow> string option" where
  "first_match instance obj [] = None"
| "first_match instance obj ((n, f) # fs) =
    (if f = obj \<or> instance f obj then Some n else first_match instance obj fs)"

definition get_metadata_by_callable :: "('f \<Rightarrow> 'f \<Rightarrow> bool) \<Rightarrow> 'f \<Rightarrow> ('f, 'z) entry_registry \<Rightarrow> 'z entry_metadata_scheme option" where
  "get_metadata_by_callable instance obj r =
    (case first_match instance obj (implementations r) of None \<Rightarrow> None | Some n \<Rightarrow> dict_get (metadata r) n)"

section \<open>The registries provide the interface\<close>

definition trigger_registry_ok :: "'f trigger_registry \<Rightarrow> bool" where
  "trigger_registry_ok r \<longleftrightarrow> keyed (\<lambda>g. tm_id (reg_metadata g)) r"

definition entry_registry_ok :: "('f, 'z) entry_registry \<Rightarrow> bool" where
  "entry_registry_ok r \<longleftrightarrow> keyed em_name (metadata r) \<and> dict_ok (implementations r) \<and>
    (\<forall>n. dict_get (implementations r) n = None \<longleftrightarrow> dict_get (metadata r) n = None)"

lemma insort_key_map: "insort_key k (f x) (map f xs) = map f (insort_key (\<lambda>x. k (f x)) x xs)"
  by (induction xs) simp_all

lemma sort_key_map: "sort_key k (map f xs) = map f (sort_key (\<lambda>x. k (f x)) xs)"
  by (induction xs) (simp_all add: insort_key_map)

lemma trigger_list_eq:
  "trigger_list_metadata r = map reg_metadata (sorted_values (\<lambda>g. tm_id (reg_metadata g)) r)"
  using sort_key_map [of "\<lambda>m. str_lower (tm_id m)" reg_metadata "map snd r"]
  by (simp add: trigger_list_metadata_def sorted_values_def case_prod_beta' comp_def)

lemma entry_list_eq: "entry_list_metadata r = sorted_values em_name (metadata r)"
  by (simp add: entry_list_metadata_def sorted_values_def)

interpretation triggers: registry trigger_registry_ok tm_id
  "\<lambda>r n. map_option reg_metadata (trigger_get r n)" "\<lambda>m r. trigger_get r (tm_id m) = None"
  "\<lambda>f m r. fst (trigger_register m f r)" trigger_unregister trigger_list_metadata
proof
  fix s :: "'f trigger_registry" and i m n n'
  let ?key = "\<lambda>g :: 'f trigger_registration. tm_id (reg_metadata g)"
  show "trigger_registry_ok s \<Longrightarrow> trigger_registry_ok (fst (trigger_register m i s))"
    using keyed_set [of ?key s "\<lparr>reg_metadata = m, reg_factory = i\<rparr>"]
    by (simp add: trigger_registry_ok_def trigger_register_def)
  show "trigger_registry_ok s \<Longrightarrow> trigger_registry_ok (trigger_unregister n s)"
    by (simp add: trigger_registry_ok_def trigger_unregister_def keyed_pop)
  show "trigger_registry_ok s \<Longrightarrow> map_option reg_metadata (trigger_get s n) = Some m \<Longrightarrow> tm_id m = n"
    by (auto simp: trigger_registry_ok_def trigger_get_def dest: keyed_get)
  show "trigger_registry_ok s \<Longrightarrow>
      set (trigger_list_metadata s) = {m. \<exists>n. map_option reg_metadata (trigger_get s n) = Some m}"
    using keyed_values [of ?key s] by (auto simp: trigger_list_eq trigger_registry_ok_def trigger_get_def)
  show "sorted (map (\<lambda>m. str_lower (tm_id m)) (trigger_list_metadata s))"
    using keyed_sorted [of ?key s] by (simp add: trigger_list_eq comp_def)
  show "trigger_registry_ok s \<Longrightarrow> distinct (map tm_id (trigger_list_metadata s))"
    using keyed_distinct [of ?key s] by (simp add: trigger_list_eq trigger_registry_ok_def comp_def)
qed (auto simp: trigger_register_def trigger_get_def trigger_unregister_def)

lemma edge_register_state:
  "fst (edge_register m f r) =
    (if get_implementation r (em_name m) = None then node_register f m r else r)"
  by (simp add: edge_register_def get_implementation_def node_register_def)

lemma node_register_ok: "entry_registry_ok r \<Longrightarrow> entry_registry_ok (node_register f m r)"
  by (simp add: entry_registry_ok_def node_register_def keyed_set)

lemma entry_unregister_ok: "entry_registry_ok r \<Longrightarrow> entry_registry_ok (entry_unregister n r)"
  by (simp add: entry_registry_ok_def entry_unregister_def keyed_pop)

interpretation nodes: registry entry_registry_ok em_name get_metadata "\<lambda>m r. True"
  node_register entry_unregister entry_list_metadata
proof
  fix s :: "('f, 'z) entry_registry" and n and m :: "'z entry_metadata_scheme"
  show "entry_registry_ok s \<Longrightarrow> set (entry_list_metadata s) = {m. \<exists>n. get_metadata s n = Some m}"
    by (simp add: entry_list_eq keyed_values entry_registry_ok_def get_metadata_def)
  show "sorted (map (\<lambda>m. str_lower (em_name m)) (entry_list_metadata s))"
    by (simp only: entry_list_eq keyed_sorted)
  show "entry_registry_ok s \<Longrightarrow> distinct (map em_name (entry_list_metadata s))"
    by (simp add: entry_list_eq keyed_distinct entry_registry_ok_def)
  show "entry_registry_ok s \<Longrightarrow> get_metadata s n = Some m \<Longrightarrow> em_name m = n"
    by (auto simp: entry_registry_ok_def get_metadata_def dest: keyed_get)
  show "entry_registry_ok (node_register i m s)" if "entry_registry_ok s" for i
    using that by (rule node_register_ok)
  show "entry_registry_ok (entry_unregister n s)" if "entry_registry_ok s"
    using that by (rule entry_unregister_ok)
qed (simp_all add: node_register_def get_metadata_def entry_unregister_def)

interpretation edges: registry entry_registry_ok em_name get_metadata
  "\<lambda>m r. get_implementation r (em_name m) = None" "\<lambda>f m r. fst (edge_register m f r)"
  entry_unregister entry_list_metadata
proof
  fix s :: "('f, 'z) entry_registry" and n i and m :: "'z entry_metadata_scheme"
  show "entry_registry_ok (fst (edge_register m i s))" if "entry_registry_ok s"
    using that by (simp add: edge_register_state node_register_ok)
  show "get_implementation s (em_name m) = None" if "entry_registry_ok s" "get_metadata s (em_name m) = None"
    using that by (simp add: entry_registry_ok_def get_implementation_def get_metadata_def)
  show "fst (edge_register m i s) = s" if "get_implementation s (em_name m) \<noteq> None"
    using that by (auto simp: edge_register_state)
  show "get_metadata (fst (edge_register m i s)) n = (if n = em_name m then Some m else get_metadata s n)"
    if "get_implementation s (em_name m) = None"
    using that by (simp add: edge_register_state nodes.get_put)
qed (simp_all add: nodes.ok_del nodes.get_name nodes.set_listing nodes.sorted_listing
    nodes.distinct_listing nodes.get_del)

section \<open>What the registries promise together\<close>

text \<open>Whatever was registered and removed, the listing of a trigger registry holds each platform
  once, in case-insensitive order of identifiers, and lists exactly what lookup finds; a second
  registration of an identifier is refused and changes nothing, and removal undoes a registration.\<close>

theorem trigger_registry_listing:
  assumes "trigger_registry_ok r"
  shows "sorted (map (\<lambda>m. str_lower (tm_id m)) (trigger_list_metadata r)) \<and>
    distinct (map tm_id (trigger_list_metadata r)) \<and>
    (\<forall>m. m \<in> set (trigger_list_metadata r) \<longleftrightarrow> map_option reg_metadata (trigger_get r (tm_id m)) = Some m) \<and>
    (trigger_get r (tm_id m) \<noteq> None \<longrightarrow> trigger_register m f r = (r, Inl (AlreadyRegistered (tm_id m)))) \<and>
    (trigger_get r (tm_id m) = None \<longrightarrow>
      set (trigger_list_metadata (fst (trigger_register m f r))) = insert m (set (trigger_list_metadata r)) \<and>
      set (trigger_list_metadata (trigger_unregister (tm_id m) (fst (trigger_register m f r)))) =
        set (trigger_list_metadata r))"
proof -
  have "trigger_get r (tm_id m) \<noteq> None \<longrightarrow> trigger_register m f r = (r, Inl (AlreadyRegistered (tm_id m)))"
    by (simp add: trigger_register_def trigger_get_def)
  moreover have "set (trigger_list_metadata (fst (trigger_register m f r))) = insert m (set (trigger_list_metadata r))"
    if "trigger_get r (tm_id m) = None"
    using triggers.listing_put [OF assms that, of f] triggers.mem_listing [OF assms] that by fastforce
  moreover have "set (trigger_list_metadata (trigger_unregister (tm_id m) (fst (trigger_register m f r)))) =
      set (trigger_list_metadata r)" if "trigger_get r (tm_id m) = None"
    using triggers.del_put [OF assms, of m f] that by simp
  ultimately show ?thesis using triggers.listing_spec [OF assms] by blast
qed

theorem trigger_registry_listing_witness:
  "sorted (map (\<lambda>m. str_lower (tm_id m)) (trigger_list_metadata
     (fst (trigger_register \<lparr>tm_id = ''slack'', display_name = ''S'', tm_description = []\<rparr> (1 :: nat) []))))"
proof -
  let ?r = "fst (trigger_register \<lparr>tm_id = ''slack'', display_name = ''S'', tm_description = []\<rparr> (1 :: nat) [])"
  have "trigger_registry_ok ?r"
    by (rule triggers.ok_put) (simp add: trigger_registry_ok_def)
  from trigger_registry_listing [OF this] show ?thesis by blast
qed

text \<open>Implementations and metadata of the edge registry stay in step: after a registration that
  is accepted the callable is found under its name and its metadata by name, listing and, when no
  earlier entry matches it, by the callable itself; a taken name is refused without any change.\<close>

theorem edge_registration:
  assumes "entry_registry_ok r"
  shows "(get_metadata r (em_name m) \<noteq> None \<longrightarrow> edge_register m f r = (r, Inl (AlreadyRegistered (em_name m)))) \<and>
    (get_metadata r (em_name m) = None \<longrightarrow>
      (\<exists>r'. edge_register m f r = (r', Inr f) \<and> entry_registry_ok r' \<and>
        get_implementation r' (em_name m) = Some f \<and> get_metadata r' (em_name m) = Some m \<and>
        set (entry_list_metadata r') = insert m (set (entry_list_metadata r)) \<and>
        (first_match instance f (implementations r) = None \<longrightarrow> get_metadata_by_callable instance f r' = Some m)))"
proof -
  have same: "get_implementation r n = None \<longleftrightarrow> get_metadata r n = None" for n
    using assms by (simp add: entry_registry_ok_def get_implementation_def get_metadata_def)
  have refused: "get_metadata r (em_name m) \<noteq> None \<Longrightarrow> edge_register m f r = (r, Inl (AlreadyRegistered (em_name m)))"
    using same by (simp add: edge_register_def get_implementation_def)
  have "\<exists>r'. edge_register m f r = (r', Inr f) \<and> entry_registry_ok r' \<and>
        get_implementation r' (em_name m) = Some f \<and> get_metadata r' (em_name m) = Some m \<and>
        set (entry_list_metadata r') = insert m (set (entry_list_metadata r)) \<and>
        (first_match instance f (implementations r) = None \<longrightarrow> get_metadata_by_callable instance f r' = Some m)"
    if new: "get_metadata r (em_name m) = None"
  proof (intro exI conjI)
    have free: "get_implementation r (em_name m) = None" using same new by simp
    then show eq: "edge_register m f r = (node_register f m r, Inr f)"
      by (simp add: edge_register_def node_register_def get_implementation_def)
    show "entry_registry_ok (node_register f m r)" using assms by (rule node_register_ok)
    show "get_implementation (node_register f m r) (em_name m) = Some f"
      by (simp add: get_implementation_def node_register_def)
    show "get_metadata (node_register f m r) (em_name m) = Some m" by (simp add: nodes.get_put)
    show "set (entry_list_metadata (node_register f m r)) = insert m (set (entry_list_metadata r))"
      using edges.listing_put [OF assms free, of f] eq nodes.mem_listing [OF assms] new by fastforce
    have "first_match instance f d = None \<Longrightarrow> dict_get d n = None \<Longrightarrow>
        first_match instance f (dict_set n f d) = Some n" for d n
      by (induction d) (auto split: if_splits)
    with free show "first_match instance f (implementations r) = None \<longrightarrow>
        get_metadata_by_callable instance f (node_register f m r) = Some m"
      by (simp add: get_metadata_by_callable_def node_register_def get_implementation_def)
  qed
  with refused show ?thesis by blast
qed

theorem edge_registration_witness:
  "\<exists>r'. edge_register \<lparr>em_name = ''IfElseEdge'', em_description = [], em_category = ''logic''\<rparr> (1 :: nat)
     \<lparr>implementations = [], metadata = []\<rparr> = (r', Inr 1) \<and> get_implementation r' ''IfElseEdge'' = Some 1"
proof -
  let ?r = "\<lparr>implementations = [] :: (string, nat) dict, metadata = [] :: (string, entry_metadata) dict\<rparr>"
  have "entry_registry_ok ?r" by (simp add: entry_registry_ok_def)
  from edge_registration [OF this, of "\<lparr>em_name = ''IfElseEdge'', em_description = [], em_category = ''logic''\<rparr>" 1]
  show ?thesis by (auto simp: get_metadata_def)
qed

end
