(* ===== verification/Sliding_Window.thy ===== *)
theory Sliding_Window
  imports Orcheo_Prelude
begin

text \<open>
  The log of recent events behind every rate limit of the program: a queue of instants, oldest
  first, from which stale entries are dropped at the front before a new event is admitted, if
  fewer than \<open>limit\<close> entries remain. The interface \<open>sliding_window\<close> states what
  an implementation promises; the webhook limiter, the authentication limiter and the workspace
  limiter provide it. The lemmas of the locale bound the number of admitted events in every window
  and show that a refusal is justified.
\<close>

fun admitted_times :: "(instant \<Rightarrow> 'q \<Rightarrow> 'q \<times> bool) \<Rightarrow> 'q \<Rightarrow> instant list \<Rightarrow> instant list" where
  "admitted_times admit q [] = []"
| "admitted_times admit q (now # ts) =
    (case admit now q of (q', ok) \<Rightarrow>
       (if ok then now # admitted_times admit q' ts else admitted_times admit q' ts))"

fun queue_after :: "(instant \<Rightarrow> 'q \<Rightarrow> 'q \<times> bool) \<Rightarrow> 'q \<Rightarrow> instant list \<Rightarrow> 'q" where
  "queue_after admit q [] = q"
| "queue_after admit q (now # ts) = queue_after admit (fst (admit now q)) ts"

locale sliding_window =
  fixes stale :: "instant \<Rightarrow> instant \<Rightarrow> bool"
    and limit :: nat
    and admit :: "instant \<Rightarrow> instant list \<Rightarrow> instant list \<times> bool"
  assumes stale_later: "stale now t \<Longrightarrow> now \<le> now' \<Longrightarrow> stale now' t"
    and stale_older: "stale now t \<Longrightarrow> t' \<le> t \<Longrightarrow> stale now t'"
    and admit_eq: "admit now q =
      (if limit \<le> length (dropWhile (stale now) q) then (dropWhile (stale now) q, False)
       else (dropWhile (stale now) q @ [now], True))"
begin

definition in_window :: "instant \<Rightarrow> instant \<Rightarrow> bool" where
  "in_window now t \<longleftrightarrow> \<not> stale now t \<and> t \<le> now"

definition log_inv :: "instant \<Rightarrow> instant list \<Rightarrow> instant list \<Rightarrow> bool" where
  "log_inv lst hist q \<longleftrightarrow>
    sorted hist \<and> (\<forall>t \<in> set hist. t \<le> lst) \<and>
    (\<exists>d. hist = d @ q \<and> (\<forall>t \<in> set d. stale lst t)) \<and>
    (\<forall>x. length (filter (in_window x) hist) \<le> limit)"

lemma log_inv_init: "log_inv lst [] []"
  by (simp add: log_inv_def)

lemma fresh_after_drop:
  assumes "sorted q" "t \<in> set (dropWhile (stale now) q)"
  shows "\<not> stale now t"
proof -
  obtain x xs where x: "dropWhile (stale now) q = x # xs"
    using assms(2) by (cases "dropWhile (stale now) q") auto
  have "\<not> stale now x" using hd_dropWhile [of "stale now" q] x by simp
  moreover have "sorted (x # xs)" using sorted_dropWhile [OF assms(1), of "stale now"] x by simp
  then have "x \<le> t" using assms(2) x by auto
  ultimately show ?thesis using stale_older by blast
qed

lemma log_split:
  assumes "log_inv lst hist q" "lst \<le> now"
  obtains d where "hist = d @ dropWhile (stale now) q" "\<forall>t \<in> set d. stale now t"
proof -
  obtain d where d: "hist = d @ q" "\<forall>t \<in> set d. stale lst t"
    using assms(1) by (auto simp: log_inv_def)
  have "hist = (d @ takeWhile (stale now) q) @ dropWhile (stale now) q"
    using d(1) by simp
  moreover have "\<forall>t \<in> set (d @ takeWhile (stale now) q). stale now t"
    using d(2) assms(2) stale_later by (auto dest: set_takeWhileD)
  ultimately show thesis by (rule that)
qed

lemma window_count_stale:
  "\<forall>t \<in> set d. stale now t \<Longrightarrow> now \<le> x \<Longrightarrow> filter (in_window x) d = []"
  using stale_later by (auto simp: filter_empty_conv in_window_def)

lemma log_inv_step:
  assumes inv: "log_inv lst hist q" and now: "lst \<le> now"
  shows "log_inv now (if snd (admit now q) then hist @ [now] else hist) (fst (admit now q))"
proof -
  obtain d where d: "hist = d @ dropWhile (stale now) q" "\<forall>t \<in> set d. stale now t"
    using log_split [OF inv now] .
  have old: "sorted hist" "\<forall>t \<in> set hist. t \<le> now" "\<And>x. length (filter (in_window x) hist) \<le> limit"
    using inv now by (auto simp: log_inv_def)
  show ?thesis
  proof (cases "limit \<le> length (dropWhile (stale now) q)")
    case True
    then show ?thesis using d old by (auto simp: admit_eq log_inv_def)
  next
    case False
    have "length (filter (in_window x) (hist @ [now])) \<le> limit" for x
    proof (cases "now \<le> x")
      case True
      then have "filter (in_window x) hist = filter (in_window x) (dropWhile (stale now) q)"
        using d window_count_stale [of d now x] by simp
      then have "length (filter (in_window x) hist) < limit"
        using False le_less_trans [OF length_filter_le, of "dropWhile (stale now) q" limit] by simp
      then show ?thesis by simp
    next
      case False
      then have "\<not> in_window x now" by (simp add: in_window_def)
      with old(3) [of x] show ?thesis by simp
    qed
    with False d old show ?thesis by (auto simp: admit_eq log_inv_def sorted_append)
  qed
qed

lemma log_inv_run:
  assumes "log_inv lst hist q" "sorted (lst # ts)"
  shows "\<exists>lst'. log_inv lst' (hist @ admitted_times admit q ts) (queue_after admit q ts) \<and>
    (\<forall>t \<in> set (lst # ts). t \<le> lst') \<and> lst' \<in> set (lst # ts)"
  using assms
proof (induction ts arbitrary: lst hist q)
  case Nil
  then show ?case by auto
next
  case (Cons now ts)
  let ?hist = "if snd (admit now q) then hist @ [now] else hist"
  have "log_inv now ?hist (fst (admit now q))"
    using log_inv_step [OF Cons.prems(1)] Cons.prems(2) by simp
  from Cons.IH [OF this] Cons.prems(2) obtain l where
    l: "log_inv l (?hist @ admitted_times admit (fst (admit now q)) ts)
         (queue_after admit (fst (admit now q)) ts)"
      "\<forall>t \<in> set (now # ts). t \<le> l" "l \<in> set (now # ts)"
    by auto
  have "?hist @ admitted_times admit (fst (admit now q)) ts = hist @ admitted_times admit q (now # ts)"
    by (simp add: split_beta)
  with l Cons.prems(2) show ?case by (intro exI [of _ l]) auto
qed

lemma admitted_window:
  assumes "sorted ts"
  shows "length (filter (in_window x) (admitted_times admit [] ts)) \<le> limit"
proof (cases ts)
  case Nil
  then show ?thesis by simp
next
  case (Cons t ts')
  with log_inv_run [OF log_inv_init, of t ts] assms
  show ?thesis by (auto simp: log_inv_def)
qed

lemma refusal_justified:
  assumes "log_inv lst hist q" "lst \<le> now" "\<not> snd (admit now q)"
  shows "limit \<le> length (filter (in_window now) hist)"
proof -
  obtain d where d: "hist = d @ dropWhile (stale now) q" "\<forall>t \<in> set d. stale now t"
    using log_split [OF assms(1,2)] .
  have q: "sorted q" "\<forall>t \<in> set hist. t \<le> now"
    using assms(1,2) by (auto simp: log_inv_def sorted_append)
  have "filter (in_window now) (dropWhile (stale now) q) = dropWhile (stale now) q"
    using fresh_after_drop [OF q(1)] q(2) d(1)
    by (auto simp: filter_id_conv in_window_def)
  with d window_count_stale [of d now now] assms(3) show ?thesis
    by (simp add: admit_eq split: if_splits)
qed

lemma refused_after_run:
  assumes "sorted (ts @ [now])" "\<not> snd (admit now (queue_after admit [] ts))"
  shows "limit \<le> length (filter (in_window now) (admitted_times admit [] ts))"
proof (cases ts)
  case Nil
  with assms show ?thesis by (simp add: admit_eq split: if_splits)
next
  case (Cons t ts')
  with log_inv_run [OF log_inv_init, of t ts] assms(1)
  obtain l where "log_inv l (admitted_times admit [] ts) (queue_after admit [] ts)" "l \<in> set ts"
    by (auto simp: sorted_append)
  with assms refusal_justified [of l _ _ now] show ?thesis
    by (auto simp: sorted_append)
qed

end

end
