(* ===== verification/Webhook.thy ===== *)
theory Webhook
  imports Py_Value Sliding_Window
begin

text \<open>
  \<open>src/orcheo/triggers/webhook/\<close>: configuration and its validators (\<open>config.py\<close>),
  requests (\<open>request.py\<close>), errors with their status codes (\<open>errors.py\<close>) and the
  per-workflow validation state (\<open>state.py\<close>): method, header and query checks, shared secret,
  HMAC signature with replay cache, rate limit, scrubbing of stored headers.

  The cryptographic digest, JSON serialisation and ISO date parsing of the standard library are the
  functions of \<open>webhook_env\<close>. \<open>validate\<close> reads the clock up to three times; the
  readings are the record \<open>readings\<close>. Strings are ASCII, so encoding is the identity.
\<close>

section \<open>Configuration\<close>

record rate_limit_config =
  rate_limit_max :: int
  interval_seconds :: int

record webhook_config =
  allowed_methods :: "string list"
  required_headers :: "(string, string) dict"
  required_query_params :: "(string, string) dict"
  shared_secret_header :: "string option"
  shared_secret :: "string option"
  hmac_header :: "string option"
  hmac_secret :: "string option"
  hmac_algorithm :: string
  hmac_timestamp_header :: "string option"
  hmac_tolerance_seconds :: int
  rate_limit :: "rate_limit_config option"

definition default_webhook_config :: webhook_config where
  "default_webhook_config =
    \<lparr>allowed_methods = [''GET'', ''POST''], required_headers = [], required_query_params = [],
     shared_secret_header = None, shared_secret = None, hmac_header = None, hmac_secret = None,
     hmac_algorithm = ''sha256'', hmac_timestamp_header = None, hmac_tolerance_seconds = 300,
     rate_limit = None\<rparr>"

datatype webhook_error =
    MethodNotAllowed string "string list"
  | MissingHeader string
  | MissingQueryParam string
  | AuthenticationFailed
  | RateLimitExceeded int int
  | NoMethodAllowed
  | UnsupportedAlgorithm string
  | SharedSecretMissing
  | SharedSecretHeaderMissing
  | HmacIncomplete
  | FieldOutOfRange
  | PyTypeError
  | PyRangeError
  | PyAttributeError

text \<open>The HTTP status carried by the error classes; \<open>None\<close> for exceptions of other types.\<close>

fun status_code :: "webhook_error \<Rightarrow> nat option" where
  "status_code (MethodNotAllowed _ _) = Some 405"
| "status_code AuthenticationFailed = Some 401"
| "status_code (RateLimitExceeded _ _) = Some 429"
| "status_code FieldOutOfRange = None"
| "status_code PyTypeError = None"
| "status_code PyRangeError = None"
| "status_code PyAttributeError = None"
| "status_code _ = Some 400"

text \<open>\<open>\{key.lower(): value ...\}\<close>: a later key overwrites an equal earlier one in place.\<close>

definition lower_keys :: "(string, string) dict \<Rightarrow> (string, string) dict" where
  "lower_keys d = fold (\<lambda>(k, v) acc. dict_set (str_lower k) v acc) d []"

definition normalize_methods :: "string list \<Rightarrow> webhook_error + string list" where
  "normalize_methods ms =
    (let methods = sort (remdups (map str_upper ms))
     in if methods = [] then Inl NoMethodAllowed else Inr methods)"

definition validate_algorithm :: "string list \<Rightarrow> string \<Rightarrow> webhook_error + string" where
  "validate_algorithm algorithms_available value =
    (let candidate = str_lower (str_strip value)
     in if candidate \<notin> set algorithms_available then Inl (UnsupportedAlgorithm value) else Inr candidate)"

definition validate_secret_configuration :: "webhook_config \<Rightarrow> webhook_error + webhook_config" where
  "validate_secret_configuration c =
    (if opt_truthy (shared_secret_header c) \<and> \<not> opt_truthy (shared_secret c) then Inl SharedSecretMissing
     else if opt_truthy (shared_secret c) \<and> \<not> opt_truthy (shared_secret_header c)
     then Inl SharedSecretHeaderMissing
     else if (opt_truthy (hmac_header c) \<and> \<not> opt_truthy (hmac_secret c)) \<or>
             (opt_truthy (hmac_secret c) \<and> \<not> opt_truthy (hmac_header c))
     then Inl HmacIncomplete
     else Inr c)"

definition rate_limit_ok :: "rate_limit_config \<Rightarrow> bool" where
  "rate_limit_ok r \<longleftrightarrow> 1 \<le> rate_limit_max r \<and> 1 \<le> interval_seconds r"

text \<open>
  Construction of a configuration: field validators in field order, then the model validator. The
  first failing one is reported.
\<close>

definition make_webhook_config :: "string list \<Rightarrow> webhook_config \<Rightarrow> webhook_error + webhook_config" where
  "make_webhook_config algorithms_available c =
    seqE (normalize_methods (allowed_methods c)) (\<lambda>methods.
    seqE (validate_algorithm algorithms_available (hmac_algorithm c)) (\<lambda>algorithm.
    seqE (checkE (0 \<le> hmac_tolerance_seconds c \<and>
        (case rate_limit c of None \<Rightarrow> True | Some r \<Rightarrow> rate_limit_ok r)) FieldOutOfRange) (\<lambda>_.
      validate_secret_configuration
        (c\<lparr>allowed_methods := methods,
           required_headers := lower_keys (required_headers c),
           shared_secret_header := map_option str_lower (shared_secret_header c),
           hmac_header := map_option str_lower (hmac_header c),
           hmac_timestamp_header := map_option str_lower (hmac_timestamp_header c),
           hmac_algorithm := algorithm\<rparr>))))"

section \<open>Requests\<close>

record webhook_request =
  req_method :: string
  req_headers :: "(string, string) dict"
  req_query_params :: "(string, string) dict"
  req_payload :: pyval
  source_ip :: "string option"

definition normalized_method :: "webhook_request \<Rightarrow> string" where
  "normalized_method r = str_upper (req_method r)"

definition normalized_headers :: "webhook_request \<Rightarrow> (string, string) dict" where
  "normalized_headers r = lower_keys (req_headers r)"

definition normalized_query :: "webhook_request \<Rightarrow> (string, string) dict" where
  "normalized_query r = req_query_params r"

section \<open>Validation state\<close>

record webhook_state =
  wh_config :: webhook_config
  recent_invocations :: "instant list"
  recent_signatures :: "(string \<times> datetime) list"
  signature_cache :: "string set"

definition new_webhook_state :: "webhook_config option \<Rightarrow> webhook_state" where
  "new_webhook_state c =
    \<lparr>wh_config = (case c of None \<Rightarrow> default_webhook_config | Some d \<Rightarrow> d),
     recent_invocations = [], recent_signatures = [], signature_cache = {}\<rparr>"

definition update_webhook_config :: "webhook_config \<Rightarrow> webhook_state \<Rightarrow> webhook_state" where
  "update_webhook_config c s =
    s\<lparr>wh_config := c, recent_invocations := [], recent_signatures := [], signature_cache := {}\<rparr>"

record webhook_env =
  hmac_hexdigest :: "string \<Rightarrow> string \<Rightarrow> string \<Rightarrow> string option" \<comment> \<open>algorithm, key, message\<close>
  json_dumps :: "pyval \<Rightarrow> string"
  fromisoformat :: "string \<Rightarrow> datetime option"
  local_instant :: "int \<Rightarrow> instant"

record readings =
  now_timestamp :: instant
  now_replay :: instant
  now_rate :: instant

section \<open>Checks that do not change state\<close>

definition validate_method :: "webhook_config \<Rightarrow> webhook_request \<Rightarrow> webhook_error + unit" where
  "validate_method c r =
    checkE (normalized_method r \<in> set (allowed_methods c))
      (MethodNotAllowed (normalized_method r) (sort (remdups (allowed_methods c))))"

fun first_mismatch :: "(string, string) dict \<Rightarrow> (string, string) dict \<Rightarrow> string option" where
  "first_mismatch [] given = None"
| "first_mismatch ((k, v) # expected) given =
    (if dict_get given k \<noteq> Some v then Some k else first_mismatch expected given)"

definition validate_required_headers :: "webhook_config \<Rightarrow> webhook_request \<Rightarrow> webhook_error + unit" where
  "validate_required_headers c r =
    (case first_mismatch (required_headers c) (normalized_headers r) of
       None \<Rightarrow> Inr () | Some k \<Rightarrow> Inl (MissingHeader k))"

definition validate_required_query_params :: "webhook_config \<Rightarrow> webhook_request \<Rightarrow> webhook_error + unit" where
  "validate_required_query_params c r =
    (case first_mismatch (required_query_params c) (normalized_query r) of
       None \<Rightarrow> Inr () | Some k \<Rightarrow> Inl (MissingQueryParam k))"

definition validate_shared_secret :: "webhook_config \<Rightarrow> webhook_request \<Rightarrow> webhook_error + unit" where
  "validate_shared_secret c r =
    (case shared_secret_header c of
       None \<Rightarrow> Inr ()
     | Some header_name \<Rightarrow>
         (case (shared_secret c, dict_get (normalized_headers r) header_name) of
            (Some expected, Some provided) \<Rightarrow> checkE (provided = expected) AuthenticationFailed
          | _ \<Rightarrow> Inl AuthenticationFailed))"

text \<open>The signature field of a header such as \<open>t=1,v1=abc\<close>: the last recognised segment wins.\<close>

fun pick_signature :: "string list \<Rightarrow> string \<Rightarrow> string" where
  "pick_signature [] candidate = candidate"
| "pick_signature (segment # segments) candidate =
    (let part = str_strip segment; (key, value) = str_split1 CHR ''='' part
     in if CHR ''='' \<in> set part \<and> str_lower key \<in> {''sha256'', ''sha512'', ''v1'', ''signature''}
        then pick_signature segments (str_strip value)
        else pick_signature segments candidate)"

definition extract_hmac_signature :: "string \<Rightarrow> webhook_error + string" where
  "extract_hmac_signature raw =
    (let stripped = str_strip raw
     in if stripped = [] then Inl AuthenticationFailed
        else let candidate = pick_signature (str_split CHR '','' stripped) stripped
          in if candidate = [] then Inl AuthenticationFailed else Inr candidate)"

definition iso_argument :: "string \<Rightarrow> string" where
  "iso_argument s = concat (map (\<lambda>c. if c = CHR ''Z'' then ''+00:00'' else [c]) s)"

definition parse_signature_timestamp ::
    "webhook_env \<Rightarrow> webhook_config \<Rightarrow> instant \<Rightarrow> string \<Rightarrow> webhook_error + datetime" where
  "parse_signature_timestamp env c now value =
    (let stripped = str_strip value in
     if stripped = [] then Inl AuthenticationFailed
     else seqE
       (if str_isdigit stripped
        then let t = int (str_to_nat stripped) * 1000000
          in if instant_ok t then Inr (Aware t 0) else Inl PyRangeError
        else case fromisoformat env (iso_argument stripped) of
            None \<Rightarrow> Inl AuthenticationFailed | Some d \<Rightarrow> Inr d)
       (\<lambda>timestamp.
        if hmac_tolerance_seconds c = 0 then Inr timestamp
        else case timestamp of
            Naive _ \<Rightarrow> Inl PyTypeError
          | Aware t _ \<Rightarrow>
              if \<bar>now - t\<bar> > seconds (hmac_tolerance_seconds c) then Inl AuthenticationFailed
              else Inr timestamp))"

fun canonical_payload_bytes :: "webhook_env \<Rightarrow> pyval \<Rightarrow> string" where
  "canonical_payload_bytes env PNone = []"
| "canonical_payload_bytes env (PBytes b) = b"
| "canonical_payload_bytes env (PStr s) = s"
| "canonical_payload_bytes env v = json_dumps env v"

fun timestamp_seconds :: "webhook_env \<Rightarrow> datetime \<Rightarrow> int" where
  "timestamp_seconds env (Aware t _) = trunc_seconds t"
| "timestamp_seconds env (Naive w) = trunc_seconds (local_instant env w)"

definition signed_message :: "webhook_env \<Rightarrow> datetime option \<Rightarrow> pyval \<Rightarrow> string" where
  "signed_message env timestamp payload =
    (case timestamp of
       None \<Rightarrow> canonical_payload_bytes env payload
     | Some d \<Rightarrow> int_str (timestamp_seconds env d) @ ''.'' @ canonical_payload_bytes env payload)"

text \<open>Signature and timestamp of a request whose HMAC is right; the replay cache is not consulted.\<close>

definition checked_signature ::
    "webhook_env \<Rightarrow> readings \<Rightarrow> webhook_config \<Rightarrow> string \<Rightarrow> string \<Rightarrow> webhook_request \<Rightarrow>
     webhook_error + (string \<times> datetime option)" where
  "checked_signature env rd c header_name secret r =
    (case dict_get (normalized_headers r) header_name of
       None \<Rightarrow> Inl AuthenticationFailed
     | Some provided_raw \<Rightarrow>
       if provided_raw = [] then Inl AuthenticationFailed else
       seqE (extract_hmac_signature provided_raw) (\<lambda>signature.
       seqE (if opt_truthy (hmac_timestamp_header c)
             then case dict_get (normalized_headers r) (the (hmac_timestamp_header c)) of
                 None \<Rightarrow> Inl AuthenticationFailed
               | Some v \<Rightarrow> if v = [] then Inl AuthenticationFailed
                   else seqE (parse_signature_timestamp env c (now_timestamp rd) v) (\<lambda>d. Inr (Some d))
             else Inr None) (\<lambda>timestamp.
       case hmac_hexdigest env (hmac_algorithm c) secret (signed_message env timestamp (req_payload r)) of
         None \<Rightarrow> Inl PyAttributeError
       | Some expected \<Rightarrow>
           if expected \<noteq> signature then Inl AuthenticationFailed else Inr (signature, timestamp))))"

section \<open>Replay cache and rate limit\<close>

text \<open>The eviction loop at the head of the deque; comparing a naive timestamp raises.\<close>

fun evict_signatures ::
    "instant \<Rightarrow> (string \<times> datetime) list \<Rightarrow> string set \<Rightarrow> ((string \<times> datetime) list \<times> string set) \<times> bool" where
  "evict_signatures cutoff [] cache = (([], cache), True)"
| "evict_signatures cutoff ((old, Naive w) # q) cache = (((old, Naive w) # q, cache), False)"
| "evict_signatures cutoff ((old, Aware t z) # q) cache =
    (if t < cutoff then evict_signatures cutoff q (cache - {old})
     else (((old, Aware t z) # q, cache), True))"

definition enforce_signature_replay ::
    "instant \<Rightarrow> string \<Rightarrow> datetime option \<Rightarrow> webhook_state \<Rightarrow> (webhook_state, webhook_error, unit) outcome" where
  "enforce_signature_replay now signature timestamp s =
    (let tolerance = max (hmac_tolerance_seconds (wh_config s)) 1;
         cutoff = now - seconds tolerance;
         ((q, cache), comparable) = evict_signatures cutoff (recent_signatures s) (signature_cache s);
         s' = s\<lparr>recent_signatures := q, signature_cache := cache\<rparr>
     in if \<not> comparable then (s', Inl PyTypeError)
        else if signature \<in> cache then (s', Inl AuthenticationFailed)
        else (s'\<lparr>signature_cache := insert signature cache,
                 recent_signatures := q @ [(signature, case timestamp of Some d \<Rightarrow> d | None \<Rightarrow> Aware now 0)]\<rparr>,
              Inr ()))"

definition validate_hmac_signature ::
    "webhook_env \<Rightarrow> readings \<Rightarrow> webhook_request \<Rightarrow> webhook_state \<Rightarrow> (webhook_state, webhook_error, unit) outcome" where
  "validate_hmac_signature env rd r s =
    (case (hmac_header (wh_config s), hmac_secret (wh_config s)) of
       (Some header_name, Some secret) \<Rightarrow>
         if secret = [] then (s, Inr ())
         else (case checked_signature env rd (wh_config s) header_name secret r of
             Inl e \<Rightarrow> (s, Inl e)
           | Inr (signature, timestamp) \<Rightarrow> enforce_signature_replay (now_replay rd) signature timestamp s)
     | _ \<Rightarrow> (s, Inr ()))"

definition validate_authentication ::
    "webhook_env \<Rightarrow> readings \<Rightarrow> webhook_request \<Rightarrow> webhook_state \<Rightarrow> (webhook_state, webhook_error, unit) outcome" where
  "validate_authentication env rd r s =
    and_then (if opt_truthy (hmac_secret (wh_config s)) then validate_hmac_signature env rd r s else (s, Inr ()))
      (\<lambda>s _. (s, if opt_truthy (shared_secret (wh_config s)) then validate_shared_secret (wh_config s) r else Inr ()))"

definition rate_admit :: "rate_limit_config \<Rightarrow> instant \<Rightarrow> instant list \<Rightarrow> instant list \<times> bool" where
  "rate_admit c now q =
    (let window_start = now - seconds (interval_seconds c);
         q' = dropWhile (\<lambda>t. t < window_start) q
     in if int (length q') \<ge> rate_limit_max c then (q', False) else (q' @ [now], True))"

definition enforce_rate_limit :: "instant \<Rightarrow> webhook_state \<Rightarrow> (webhook_state, webhook_error, unit) outcome" where
  "enforce_rate_limit now s =
    (case rate_limit (wh_config s) of
       None \<Rightarrow> (s, Inr ())
     | Some c \<Rightarrow> (case rate_admit c now (recent_invocations s) of (q, ok) \<Rightarrow>
         (s\<lparr>recent_invocations := q\<rparr>,
          if ok then Inr () else Inl (RateLimitExceeded (rate_limit_max c) (interval_seconds c)))))"

definition webhook_validate ::
    "webhook_env \<Rightarrow> readings \<Rightarrow> webhook_request \<Rightarrow> webhook_state \<Rightarrow> (webhook_state, webhook_error, unit) outcome" where
  "webhook_validate env rd r s =
    and_then (s, validate_method (wh_config s) r) (\<lambda>s _.
    and_then (s, validate_required_headers (wh_config s) r) (\<lambda>s _.
    and_then (s, validate_required_query_params (wh_config s) r) (\<lambda>s _.
    and_then (validate_authentication env rd r s) (\<lambda>s _.
    enforce_rate_limit (now_rate rd) s))))"

fun serialize_payload :: "pyval \<Rightarrow> pyval" where
  "serialize_payload (PBytes b) = PDict [(''raw'', PStr b)]"
| "serialize_payload v = v"

definition scrub_headers_for_storage :: "webhook_config \<Rightarrow> (string, string) dict \<Rightarrow> (string, string) dict" where
  "scrub_headers_for_storage c headers =
    (let h = (if opt_truthy (shared_secret_header c) then dict_pop (the (shared_secret_header c)) headers else headers)
     in if opt_truthy (hmac_header c) then dict_pop (the (hmac_header c)) h else h)"

end
