(* ===== verification/Retry_Policy.thy ===== *)
theory Retry_Policy
  imports Orcheo_Prelude
begin

text \<open>
  \<open>src/orcheo/triggers/retry.py\<close>: the exponential back-off policy of trigger runs
  (\<open>RetryPolicyConfig\<close>) and the per-run attempt counter (\<open>RetryPolicyState\<close>).

  Delays are Python floats. They are modelled by exact reals: rounding, infinities and NaN are
  left out, but the one float operation that raises, \<open>**\<close> on an overflowing power, is
  modelled (\<open>OverflowError\<close>), and so are the ranges of \<open>timedelta\<close> and
  \<open>datetime\<close>. The draw of \<open>Random.random()\<close> is the argument \<open>u\<close>, a number
  in \<open>[0, 1)\<close>; \<open>uniform(a, b)\<close> is \<open>a + (b - a) * u\<close>, as in the standard
  library.
\<close>

section \<open>Configuration\<close>

record retry_config =
  max_attempts :: int
  initial_delay_seconds :: real
  backoff_factor :: real
  max_delay_seconds :: "real option"
  jitter_factor :: real

definition default_retry_config :: retry_config where
  "default_retry_config =
    \<lparr>max_attempts = 3, initial_delay_seconds = 30, backoff_factor = 2,
     max_delay_seconds = Some 300, jitter_factor = 1 / 10\<rparr>"

text \<open>The field constraints of the model, \<open>ge\<close> and \<open>le\<close>.\<close>

definition retry_config_ok :: "retry_config \<Rightarrow> bool" where
  "retry_config_ok c \<longleftrightarrow>
    1 \<le> max_attempts c \<and>
    0 \<le> initial_delay_seconds c \<and>
    1 \<le> backoff_factor c \<and>
    (case max_delay_seconds c of None \<Rightarrow> True | Some m \<Rightarrow> 0 \<le> m) \<and>
    0 \<le> jitter_factor c \<and> jitter_factor c \<le> 1"

datatype retry_error = NegativeAttemptIndex | OverflowError

text \<open>The largest finite double; a larger power makes \<open>**\<close> raise.\<close>

definition float_max :: real where
  "float_max = (2 - 1 / 2 ^ 52) * 2 ^ 1023"

definition py_pow :: "real \<Rightarrow> nat \<Rightarrow> retry_error + real" where
  "py_pow b n = (if float_max < b ^ n then Inl OverflowError else Inr (b ^ n))"

definition uniform :: "real \<Rightarrow> real \<Rightarrow> real \<Rightarrow> real" where
  "uniform a b u = a + (b - a) * u"

definition capped_delay :: "retry_config \<Rightarrow> real \<Rightarrow> real" where
  "capped_delay c d = (case max_delay_seconds c of None \<Rightarrow> d | Some m \<Rightarrow> min d m)"

definition jittered_delay :: "retry_config \<Rightarrow> real \<Rightarrow> real \<Rightarrow> real" where
  "jittered_delay c u delay =
    (if jitter_factor c \<noteq> 0 \<and> delay \<noteq> 0
     then let window = delay * jitter_factor c in max 0 (delay + uniform (- window) window u)
     else delay)"

definition compute_delay_seconds :: "retry_config \<Rightarrow> int \<Rightarrow> real \<Rightarrow> retry_error + real" where
  "compute_delay_seconds c attempt_index u =
    (if attempt_index < 0 then Inl NegativeAttemptIndex
     else seqE (py_pow (backoff_factor c) (nat attempt_index)) (\<lambda>p.
       Inr (jittered_delay c u (capped_delay c (initial_delay_seconds c * p)))))"

section \<open>Attempt tracking\<close>

record retry_decision =
  retry_number :: int
  retry_scheduled_for :: instant
  delay_seconds :: real

record retry_state =
  rs_config :: retry_config
  scheduled_retries :: int

definition new_retry_state :: "retry_config option \<Rightarrow> retry_state" where
  "new_retry_state c =
    \<lparr>rs_config = (case c of None \<Rightarrow> default_retry_config | Some d \<Rightarrow> d), scheduled_retries = 0\<rparr>"

definition remaining_attempts :: "retry_state \<Rightarrow> int" where
  "remaining_attempts s =
    (let max_retries = max (max_attempts (rs_config s) - 1) 0
     in max 0 (max_retries - scheduled_retries s))"

definition retry_reset :: "retry_state \<Rightarrow> retry_state" where
  "retry_reset s = s\<lparr>scheduled_retries := 0\<rparr>"

text \<open>
  \<open>timedelta(seconds=d)\<close> keeps microseconds, rounded half to even, and raises beyond
  \<open>999999999\<close> days; adding it to a \<open>datetime\<close> raises outside years 1 to 9999.
\<close>

definition timedelta_us :: "real \<Rightarrow> retry_error + int" where
  "timedelta_us d =
    (let us = round_half_even (d * 1000000)
     in if \<bar>us\<bar> < 1000000000 * 86400 * 1000000 then Inr us else Inl OverflowError)"

definition add_timedelta :: "instant \<Rightarrow> int \<Rightarrow> retry_error + instant" where
  "add_timedelta t us = (if instant_ok (t + us) then Inr (t + us) else Inl OverflowError)"

definition next_retry ::
    "instant \<Rightarrow> real \<Rightarrow> instant option \<Rightarrow> retry_state \<Rightarrow> (retry_state, retry_error, retry_decision option) outcome" where
  "next_retry now u failed_at s =
    (if remaining_attempts s \<le> 0 then (s, Inr None)
     else let attempt_index = scheduled_retries s in
       case seqE (compute_delay_seconds (rs_config s) attempt_index u) (\<lambda>delay.
            seqE (timedelta_us delay) (\<lambda>td.
            seqE (add_timedelta (case failed_at of Some t \<Rightarrow> t | None \<Rightarrow> now) td) (\<lambda>scheduled_for.
              Inr (delay, scheduled_for)))) of
         Inl e \<Rightarrow> (s, Inl e)
       | Inr (delay, scheduled_for) \<Rightarrow>
           (s\<lparr>scheduled_retries := scheduled_retries s + 1\<rparr>,
            Inr (Some \<lparr>retry_number = attempt_index + 1, retry_scheduled_for = scheduled_for, delay_seconds = delay\<rparr>)))"

section \<open>Delays\<close>

lemma py_pow_Inr: "py_pow b n = Inr p \<longleftrightarrow> p = b ^ n \<and> b ^ n \<le> float_max"
  by (auto simp: py_pow_def)

lemma capped_delay_nonneg:
  "retry_config_ok c \<Longrightarrow> 0 \<le> d \<Longrightarrow> 0 \<le> capped_delay c d"
  by (auto simp: capped_delay_def retry_config_ok_def split: option.splits)

lemma capped_delay_le: "max_delay_seconds c = Some m \<Longrightarrow> capped_delay c d \<le> m"
  by (simp add: capped_delay_def)

lemma capped_delay_mono: "d \<le> e \<Longrightarrow> capped_delay c d \<le> capped_delay c e"
  by (auto simp: capped_delay_def split: option.splits)

lemma uniform_window:
  assumes "0 \<le> w" "0 \<le> u" "u < 1"
  shows "- w \<le> uniform (- w) w u" "uniform (- w) w u \<le> w"
proof -
  have "0 \<le> 2 * w * u" using assms by simp
  then show "- w \<le> uniform (- w) w u" by (simp add: uniform_def)
  have "2 * w * u \<le> 2 * w * 1" using assms by (intro mult_left_mono) auto
  then show "uniform (- w) w u \<le> w" by (simp add: uniform_def)
qed

lemma jittered_delay_bounds:
  assumes ok: "retry_config_ok c" and d: "0 \<le> d" and u: "0 \<le> u" "u < 1"
  shows "d * (1 - jitter_factor c) \<le> jittered_delay c u d"
    and "jittered_delay c u d \<le> d * (1 + jitter_factor c)"
    and "0 \<le> jittered_delay c u d"
proof -
  have j: "0 \<le> jitter_factor c" "jitter_factor c \<le> 1"
    using ok by (auto simp: retry_config_ok_def)
  then have w: "0 \<le> d * jitter_factor c" using d by simp
  note b = uniform_window [OF w u]
  have pos: "0 \<le> d * (1 - jitter_factor c)" using d j by simp
  show "d * (1 - jitter_factor c) \<le> jittered_delay c u d"
  proof -
    have "d * (1 - jitter_factor c) \<le> d + uniform (- (d * jitter_factor c)) (d * jitter_factor c) u"
      using b(1) by (simp add: algebra_simps)
    then show ?thesis by (auto simp: jittered_delay_def Let_def le_max_iff_disj)
  qed
  show "jittered_delay c u d \<le> d * (1 + jitter_factor c)"
    using b j d w by (auto simp: jittered_delay_def Let_def algebra_simps max_def)
  show "0 \<le> jittered_delay c u d"
    using d by (simp add: jittered_delay_def Let_def)
qed

lemma compute_delay_Inr:
  "compute_delay_seconds c i u = Inr d \<longleftrightarrow>
    0 \<le> i \<and> backoff_factor c ^ nat i \<le> float_max \<and>
    d = jittered_delay c u (capped_delay c (initial_delay_seconds c * backoff_factor c ^ nat i))"
  by (auto simp: compute_delay_seconds_def seqE_Inr_iff py_pow_Inr)

lemma raw_delay_nonneg:
  "retry_config_ok c \<Longrightarrow> 0 \<le> initial_delay_seconds c * backoff_factor c ^ n"
  by (simp add: retry_config_ok_def)

lemma raw_delay_mono:
  assumes "retry_config_ok c" "i \<le> j"
  shows "initial_delay_seconds c * backoff_factor c ^ i \<le> initial_delay_seconds c * backoff_factor c ^ j"
  using assms by (intro mult_left_mono power_increasing) (auto simp: retry_config_ok_def)

text \<open>C15. Every delay the policy computes is non-negative and, when a ceiling is configured,
  at most the ceiling enlarged by the jitter fraction.\<close>

theorem compute_delay_bounds:
  assumes "retry_config_ok c" "0 \<le> u" "u < 1"
    and "compute_delay_seconds c i u = Inr d"
  shows "0 \<le> d \<and> (\<forall>m. max_delay_seconds c = Some m \<longrightarrow> d \<le> m * (1 + jitter_factor c))"
proof -
  let ?r = "capped_delay c (initial_delay_seconds c * backoff_factor c ^ nat i)"
  have d: "d = jittered_delay c u ?r" using assms(4) by (simp add: compute_delay_Inr)
  have r: "0 \<le> ?r" using assms(1) by (intro capped_delay_nonneg raw_delay_nonneg)
  note b = jittered_delay_bounds [OF assms(1) r assms(2,3)]
  have "0 \<le> 1 + jitter_factor c" using assms(1) by (simp add: retry_config_ok_def)
  then have "max_delay_seconds c = Some m \<Longrightarrow> ?r * (1 + jitter_factor c) \<le> m * (1 + jitter_factor c)" for m
    by (intro mult_right_mono capped_delay_le)
  with b d show ?thesis by fastforce
qed

theorem compute_delay_bounds_witness:
  "retry_config_ok default_retry_config \<and>
   compute_delay_seconds default_retry_config 0 (1 / 2) = Inr 30 \<and> (30::real) \<le> 300 * (1 + 1 / 10)"
proof -
  have ok: "retry_config_ok default_retry_config"
    by (simp add: retry_config_ok_def default_retry_config_def)
  have "(1::real) \<le> float_max"
    by (simp add: float_max_def)
  then have c: "compute_delay_seconds default_retry_config 0 (1 / 2) = Inr 30"
    by (simp add: compute_delay_Inr default_retry_config_def jittered_delay_def capped_delay_def uniform_def)
  from compute_delay_bounds [OF ok _ _ c] have
    "\<forall>m. max_delay_seconds default_retry_config = Some m \<longrightarrow> 30 \<le> m * (1 + jitter_factor default_retry_config)"
    by simp
  then have "(30::real) \<le> 300 * (1 + 1 / 10)"
    by (simp add: default_retry_config_def)
  with ok c show ?thesis by blast
qed

section \<open>Sequences of attempts\<close>

fun retry_run ::
    "(instant \<times> real \<times> instant option) list \<Rightarrow> retry_state \<Rightarrow>
     retry_state \<times> (retry_error + retry_decision option) list" where
  "retry_run [] s = (s, [])"
| "retry_run ((now, u, failed_at) # xs) s =
    (case next_retry now u failed_at s of (s', r) \<Rightarrow>
       case retry_run xs s' of (t, rs) \<Rightarrow> (t, r # rs))"

fun issued_numbers :: "(retry_error + retry_decision option) list \<Rightarrow> int list" where
  "issued_numbers [] = []"
| "issued_numbers (Inr (Some d) # rs) = retry_number d # issued_numbers rs"
| "issued_numbers (Inr None # rs) = issued_numbers rs"
| "issued_numbers (Inl e # rs) = issued_numbers rs"

lemma next_retry_cases:
  obtains (exhausted) "remaining_attempts s \<le> 0" "next_retry now u failed_at s = (s, Inr None)"
  | (error) e where "0 < remaining_attempts s" "next_retry now u failed_at s = (s, Inl e)"
  | (issued) d where "0 < remaining_attempts s" "retry_number d = scheduled_retries s + 1"
      "next_retry now u failed_at s = (s\<lparr>scheduled_retries := scheduled_retries s + 1\<rparr>, Inr (Some d))"
proof (cases "remaining_attempts s \<le> 0")
  case True
  then show thesis by (intro exhausted) (simp_all add: next_retry_def)
next
  case False
  let ?r = "seqE (compute_delay_seconds (rs_config s) (scheduled_retries s) u) (\<lambda>delay.
            seqE (timedelta_us delay) (\<lambda>td.
            seqE (add_timedelta (case failed_at of Some t \<Rightarrow> t | None \<Rightarrow> now) td) (\<lambda>scheduled_for.
              Inr (delay, scheduled_for))))"
  show thesis
  proof (cases ?r)
    case (Inl e)
    with False error [of e] show thesis by (simp add: next_retry_def Let_def)
  next
    case (Inr p)
    obtain delay t where "p = (delay, t)" by (cases p)
    with Inr False issued [of "\<lparr>retry_number = scheduled_retries s + 1, retry_scheduled_for = t, delay_seconds = delay\<rparr>"]
    show thesis by (simp add: next_retry_def Let_def)
  qed
qed

lemma next_retry_config: "rs_config (fst (next_retry now u f s)) = rs_config s"
  by (cases rule: next_retry_cases [of s now u f]) simp_all

lemma remaining_pos_iff:
  "0 < remaining_attempts s \<longleftrightarrow> scheduled_retries s < max (max_attempts (rs_config s) - 1) 0"
  by (auto simp: remaining_attempts_def Let_def)

lemma upto_shift: "[k + 1..k + 1 + int n] = (k + 1) # [k + 1 + 1..k + 1 + int n]"
  by (simp add: upto_rec1)

lemma retry_run_numbers:
  assumes "retry_run xs s = (t, rs)"
    and "0 \<le> scheduled_retries s" "scheduled_retries s \<le> max (max_attempts (rs_config s) - 1) 0"
  shows "scheduled_retries s \<le> scheduled_retries t \<and>
    scheduled_retries t \<le> max (max_attempts (rs_config s) - 1) 0 \<and>
    issued_numbers rs = [scheduled_retries s + 1..scheduled_retries t] \<and>
    ((\<forall>e. Inl e \<notin> set rs) \<longrightarrow>
      scheduled_retries t = min (scheduled_retries s + int (length xs)) (max (max_attempts (rs_config s) - 1) 0))"
  using assms
proof (induction xs arbitrary: s t rs)
  case Nil
  then show ?case by simp
next
  case (Cons x xs)
  obtain now u f where x: "x = (now, u, f)" by (cases x)
  obtain s' r where n: "next_retry now u f s = (s', r)" by (cases "next_retry now u f s")
  obtain t' rs' where run: "retry_run xs s' = (t', rs')" by (cases "retry_run xs s'")
  have t: "t = t'" "rs = r # rs'" using Cons.prems(1) x n run by auto
  show ?case
  proof (cases rule: next_retry_cases [of s now u f])
    case exhausted
    then have "s' = s" "r = Inr None" using n by auto
    with Cons.IH [OF run] Cons.prems exhausted(1) t show ?thesis
      by (auto simp: not_less [symmetric] remaining_pos_iff min_def split: if_splits)
  next
    case (error e)
    then have "s' = s" "r = Inl e" using n by auto
    with Cons.IH [OF run] Cons.prems t show ?thesis by auto
  next
    case (issued d)
    then have s': "s' = s\<lparr>scheduled_retries := scheduled_retries s + 1\<rparr>" "r = Inr (Some d)"
      using n by auto
    have lt: "scheduled_retries s < max (max_attempts (rs_config s) - 1) 0"
      using issued(1) by (simp add: remaining_pos_iff)
    from Cons.IH [OF run] s' lt Cons.prems
    have IH: "scheduled_retries s + 1 \<le> scheduled_retries t'"
      "scheduled_retries t' \<le> max (max_attempts (rs_config s) - 1) 0"
      "issued_numbers rs' = [scheduled_retries s + 1 + 1..scheduled_retries t']"
      "(\<forall>e. Inl e \<notin> set rs') \<longrightarrow> scheduled_retries t' =
        min (scheduled_retries s + 1 + int (length xs)) (max (max_attempts (rs_config s) - 1) 0)"
      by auto
    from IH(1) have "[scheduled_retries s + 1..scheduled_retries t'] =
        (scheduled_retries s + 1) # [scheduled_retries s + 1 + 1..scheduled_retries t']"
      by (simp add: upto_rec1)
    with IH s'(2) t issued(2) show ?thesis by (auto simp: algebra_simps)
  qed
qed

text \<open>Over any sequence of failures of one run, the retry decisions are numbered 1, 2, 3
  and so on without a gap, there are never more than \<open>max_attempts - 1\<close> of them, and when no
  call raises there are exactly as many as failures until that bound is reached.\<close>

theorem retry_decisions_numbered:
  assumes "retry_run xs (new_retry_state (Some c)) = (t, rs)"
  shows "issued_numbers rs = [1..scheduled_retries t] \<and>
    scheduled_retries t \<le> max (max_attempts c - 1) 0 \<and>
    ((\<forall>e. Inl e \<notin> set rs) \<longrightarrow> scheduled_retries t = min (int (length xs)) (max (max_attempts c - 1) 0))"
  using retry_run_numbers [OF assms] by (simp add: new_retry_state_def)

theorem retry_decisions_numbered_witness:
  "issued_numbers (snd (retry_run [(0, 1 / 2, None), (5, 1 / 2, None), (9, 1 / 2, None)]
     (new_retry_state None))) = [1, 2]"
proof -
  let ?xs = "[(0, 1 / 2, None), (5, 1 / 2, None), (9, 1 / 2, None)] :: (instant \<times> real \<times> instant option) list"
  obtain t rs where run: "retry_run ?xs (new_retry_state (Some default_retry_config)) = (t, rs)"
    by (cases "retry_run ?xs (new_retry_state (Some default_retry_config))")
  have "(1::real) \<le> float_max" "(2::real) \<le> float_max" by (simp_all add: float_max_def)
  then have "scheduled_retries t = 2"
    using run by (auto simp: new_retry_state_def default_retry_config_def next_retry_def Let_def
        remaining_attempts_def compute_delay_seconds_def py_pow_def capped_delay_def jittered_delay_def
        uniform_def timedelta_us_def add_timedelta_def round_half_even_def instant_ok_def
        min_instant_def max_instant_def)
  with retry_decisions_numbered [OF run] have "issued_numbers rs = [1, 2]"
    by (simp add: upto.simps)
  moreover have "new_retry_state None = new_retry_state (Some default_retry_config)"
    by (simp add: new_retry_state_def)
  ultimately show ?thesis by (simp add: run del: retry_run.simps)
qed

section \<open>A decision is always produced within range\<close>

lemma timedelta_us_ok:
  assumes "0 \<le> d" "d \<le> 1000000000"
  obtains us where "timedelta_us d = Inr us" "0 \<le> us" "of_int us \<le> d * 1000000 + 1 / 2"
proof -
  define us where "us = round_half_even (d * 1000000)"
  have "0 \<le> us" unfolding us_def using assms by (intro round_half_even_nonneg) simp
  moreover have le: "of_int us \<le> d * 1000000 + 1 / 2"
    unfolding us_def by (rule round_half_even_bounds)
  moreover have "of_int us < (1000000000 * 86400 * 1000000 :: real)"
    using le assms(2) by linarith
  then have "us < 1000000000 * 86400 * 1000000" by linarith
  ultimately show thesis
    by (intro that [of us]) (simp_all add: timedelta_us_def us_def)
qed

text \<open>While attempts remain, the power stays a finite double and the enlarged ceiling is at
  most a billion seconds, the next failure is answered with a decision: its number is the next
  one, it is scheduled no earlier than the failure and no later than the enlarged ceiling, and the
  attempt is counted.\<close>

theorem next_retry_issues:
  assumes ok: "retry_config_ok (rs_config s)" and u: "0 \<le> u" "u < 1"
    and rem: "0 < remaining_attempts s" and nn: "0 \<le> scheduled_retries s"
    and pow: "backoff_factor (rs_config s) ^ nat (scheduled_retries s) \<le> float_max"
    and m: "max_delay_seconds (rs_config s) = Some m"
    and bound: "m * (1 + jitter_factor (rs_config s)) \<le> 1000000000"
    and t: "min_instant \<le> t" "t \<le> max_instant - 1000000000000001"
  shows "\<exists>d. next_retry now u (Some t) s = (s\<lparr>scheduled_retries := scheduled_retries s + 1\<rparr>, Inr (Some d)) \<and>
    retry_number d = scheduled_retries s + 1 \<and> t \<le> retry_scheduled_for d \<and>
    of_int (retry_scheduled_for d - t) \<le> m * (1 + jitter_factor (rs_config s)) * 1000000 + 1 / 2"
proof -
  obtain delay where delay: "compute_delay_seconds (rs_config s) (scheduled_retries s) u = Inr delay"
    using nn pow by (simp add: compute_delay_Inr)
  have d: "0 \<le> delay" "delay \<le> m * (1 + jitter_factor (rs_config s))"
    using compute_delay_bounds [OF ok u delay] m by auto
  then obtain us where us: "timedelta_us delay = Inr us" "0 \<le> us" "of_int us \<le> delay * 1000000 + 1 / 2"
    using timedelta_us_ok [of delay] bound by force
  have "of_int us \<le> (1000000000000001 :: real)" using us(3) d(2) bound by linarith
  then have "us \<le> 1000000000000001" by linarith
  then have "add_timedelta t us = Inr (t + us)"
    using us(2) t by (simp add: add_timedelta_def instant_ok_def)
  with delay us(1) rem
  have "next_retry now u (Some t) s = (s\<lparr>scheduled_retries := scheduled_retries s + 1\<rparr>,
     Inr (Some \<lparr>retry_number = scheduled_retries s + 1, retry_scheduled_for = t + us, delay_seconds = delay\<rparr>))"
    by (simp add: next_retry_def Let_def)
  moreover have "of_int us \<le> m * (1 + jitter_factor (rs_config s)) * 1000000 + 1 / 2"
    using us(3) d(2) by linarith
  ultimately show ?thesis using us(2) by simp
qed

theorem next_retry_issues_witness:
  "\<exists>d. next_retry 0 0 (Some 1700000000000000) (new_retry_state None) =
     (new_retry_state None\<lparr>scheduled_retries := 1\<rparr>, Inr (Some d)) \<and> retry_number d = 1"
proof -
  have "(1::real) \<le> float_max" by (simp add: float_max_def)
  then show ?thesis
    using next_retry_issues [of "new_retry_state None" 0 300 1700000000000000 0]
    by (force simp: new_retry_state_def default_retry_config_def retry_config_ok_def
        remaining_attempts_def min_instant_def max_instant_def)
qed

section \<open>Limits of the policy\<close>

text \<open>The ceiling does not protect the power: once the power of the back-off factor leaves the
  range of a double, the computation raises although the capped delay would be the ceiling, and
  the attempt counter does not advance, so every later failure of the run raises again.\<close>

theorem backoff_overflow_is_stuck:
  "next_retry now u failed_at
     \<lparr>rs_config = default_retry_config\<lparr>max_attempts := 2000\<rparr>, scheduled_retries = 1024\<rparr> =
   (\<lparr>rs_config = default_retry_config\<lparr>max_attempts := 2000\<rparr>, scheduled_retries = 1024\<rparr>, Inl OverflowError)"
proof -
  have "float_max < 2 ^ 1024"
    by (simp add: float_max_def)
  then show ?thesis
    by (simp add: next_retry_def remaining_attempts_def default_retry_config_def
        compute_delay_seconds_def py_pow_def)
qed

text \<open>\<open>max_delay_seconds\<close> is not a ceiling of the delay that is scheduled: jitter is added
  after the cap, and the default policy can answer with a delay above its own ceiling.\<close>

theorem delay_exceeds_ceiling:
  "\<exists>u d. 0 \<le> u \<and> u < 1 \<and> compute_delay_seconds default_retry_config 4 u = Inr d \<and>
    max_delay_seconds default_retry_config = Some 300 \<and> 300 < d"
proof -
  have "(2::real) ^ 4 \<le> float_max" by (simp add: float_max_def)
  then have "compute_delay_seconds default_retry_config 4 (3 / 4) = Inr 315"
    by (simp add: compute_delay_Inr default_retry_config_def jittered_delay_def capped_delay_def uniform_def)
  then show ?thesis
    by (intro exI [of _ "3 / 4"] exI [of _ 315]) (simp add: default_retry_config_def)
qed

end
