(* ===== verification/Manual_Trigger.thy ===== *)
theory Manual_Trigger
  imports Py_Value
begin

text \<open>
  \<open>src/orcheo/triggers/manual.py\<close>: configuration of manual triggers, batch dispatch requests
  with their validators, and the resolution of a request into runs. Runnable configurations are
  carried as the dictionaries their models dump to. The field validators of a model are all run and
  their errors collected; the model validators run when there are none.
\<close>

section \<open>Configuration\<close>

datatype manual_error =
    BlankLabel
  | BlankActor
  | NegativeCooldown
  | DispatchedInFuture
  | WrongRunCount
  | NaiveDatetime

record manual_config =
  mt_label :: string
  allowed_actors :: "string list"
  require_comment :: bool
  default_payload :: "(string, pyval) dict"
  cooldown_seconds :: int
  mt_last_dispatched :: "datetime option"

definition normalize_label :: "string \<Rightarrow> manual_error list \<times> string" where
  "normalize_label value = (let normalized = str_strip value
     in if normalized = [] then ([BlankLabel], normalized) else ([], normalized))"

fun normalize_actors_loop :: "string list \<Rightarrow> string list \<Rightarrow> string set \<Rightarrow> string list" where
  "normalize_actors_loop [] deduped seen = deduped"
| "normalize_actors_loop (actor # actors) deduped seen =
    (let normalized = str_strip actor in
     if normalized = [] then normalize_actors_loop actors deduped seen
     else let key = str_lower normalized in
       if key \<in> seen then normalize_actors_loop actors deduped seen
       else normalize_actors_loop actors (deduped @ [normalized]) (insert key seen))"

definition normalize_actors :: "string list \<Rightarrow> string list" where
  "normalize_actors value = normalize_actors_loop value [] {}"

definition validate_cooldown :: "instant \<Rightarrow> manual_config \<Rightarrow> manual_error list + manual_config" where
  "validate_cooldown now c =
    (if cooldown_seconds c = 0 then Inr c
     else case mt_last_dispatched c of
         None \<Rightarrow> Inr c
       | Some (Naive w) \<Rightarrow> Inl [NaiveDatetime]
       | Some (Aware t z) \<Rightarrow> if now - t < 0 then Inl [DispatchedInFuture] else Inr c)"

definition make_manual_config :: "instant \<Rightarrow> manual_config \<Rightarrow> manual_error list + manual_config" where
  "make_manual_config now c =
    (let (label_errors, lbl) = normalize_label (mt_label c);
         errors = label_errors @ (if cooldown_seconds c < 0 then [NegativeCooldown] else [])
     in if errors \<noteq> [] then Inl errors
        else validate_cooldown now (c\<lparr>mt_label := lbl, allowed_actors := normalize_actors (allowed_actors c)\<rparr>))"

section \<open>Dispatch requests\<close>

record dispatch_item =
  item_version :: "uuid option"
  item_payload :: "(string, pyval) dict"
  item_config :: "pyval option"

record dispatch_request =
  dr_workflow :: uuid
  dr_actor :: string
  dr_runs :: "dispatch_item list"
  dr_label :: "string option"

record dispatch_run =
  run_version :: uuid
  run_payload :: "(string, pyval) dict"
  run_config :: "pyval option"

definition normalize_request_label :: "string option \<Rightarrow> manual_error list \<times> string option" where
  "normalize_request_label value = (case value of
     None \<Rightarrow> ([], None)
   | Some v \<Rightarrow> (case normalize_label v of (errors, l) \<Rightarrow> (errors, Some l)))"

definition make_dispatch_request :: "dispatch_request \<Rightarrow> manual_error list + dispatch_request" where
  "make_dispatch_request r =
    (let actor = str_strip (dr_actor r);
         (label_errors, lbl) = normalize_request_label (dr_label r);
         errors = (if actor = [] then [BlankActor] else []) @
           (if dr_runs r = [] \<or> 100 < length (dr_runs r) then [WrongRunCount] else []) @ label_errors
     in if errors \<noteq> [] then Inl errors else Inr (r\<lparr>dr_actor := actor, dr_label := lbl\<rparr>))"

definition trigger_label :: "dispatch_request \<Rightarrow> string" where
  "trigger_label r = (if opt_truthy (dr_label r) then the (dr_label r)
     else if length (dr_runs r) = 1 then ''manual'' else ''manual_batch'')"

definition resolve_runs :: "uuid \<Rightarrow> dispatch_request \<Rightarrow> dispatch_run list" where
  "resolve_runs default_version r =
    map (\<lambda>item. \<lparr>run_version = (case item_version item of Some v \<Rightarrow> v | None \<Rightarrow> default_version),
                run_payload = item_payload item, run_config = item_config item\<rparr>) (dr_runs r)"

section \<open>Laws\<close>

lemma normalize_actors_loop_inv:
  assumes "distinct (map str_lower deduped)" "seen = set (map str_lower deduped)"
    and "\<forall>a \<in> set deduped. a \<noteq> [] \<and> str_strip a = a"
  shows "distinct (map str_lower (normalize_actors_loop actors deduped seen)) \<and>
    (\<forall>a \<in> set (normalize_actors_loop actors deduped seen). a \<noteq> [] \<and> str_strip a = a) \<and>
    str_lower ` set (normalize_actors_loop actors deduped seen) =
      seen \<union> (\<lambda>a. str_lower (str_strip a)) ` {a \<in> set actors. str_strip a \<noteq> []}"
  using assms
proof (induction actors arbitrary: deduped seen)
  case Nil
  then show ?case by simp
next
  case (Cons actor actors)
  consider "str_strip actor = []" | "str_strip actor \<noteq> []" "str_lower (str_strip actor) \<in> seen"
    | "str_strip actor \<noteq> []" "str_lower (str_strip actor) \<notin> seen" by blast
  then show ?case
  proof cases
    case 1
    with Cons.IH [OF Cons.prems] show ?thesis by (auto simp: Let_def)
  next
    case 2
    with Cons.IH [OF Cons.prems] show ?thesis by (auto simp: Let_def)
  next
    case 3
    let ?d = "deduped @ [str_strip actor]" and ?s = "insert (str_lower (str_strip actor)) seen"
    have "distinct (map str_lower ?d)" "?s = set (map str_lower ?d)"
      "\<forall>a \<in> set ?d. a \<noteq> [] \<and> str_strip a = a"
      using Cons.prems 3 by auto
    note ih = Cons.IH [OF this]
    have eq: "normalize_actors_loop (actor # actors) deduped seen = normalize_actors_loop actors ?d ?s"
      using 3 by (simp add: Let_def)
    have img: "(\<lambda>a. str_lower (str_strip a)) ` {a \<in> set (actor # actors). str_strip a \<noteq> []} =
        insert (str_lower (str_strip actor)) ((\<lambda>a. str_lower (str_strip a)) ` {a \<in> set actors. str_strip a \<noteq> []})"
    proof -
      have "{a \<in> set (actor # actors). str_strip a \<noteq> []} = insert actor {a \<in> set actors. str_strip a \<noteq> []}"
        using 3(1) by auto
      then show ?thesis by (simp only: image_insert)
    qed
    show ?thesis unfolding eq img Un_insert_right by (rule ih [unfolded Un_insert_left])
  qed
qed

lemma normalize_actors_spec:
  "distinct (map str_lower (normalize_actors actors)) \<and>
   (\<forall>a \<in> set (normalize_actors actors). a \<noteq> [] \<and> str_strip a = a) \<and>
   str_lower ` set (normalize_actors actors) =
     (\<lambda>a. str_lower (str_strip a)) ` {a \<in> set actors. str_strip a \<noteq> []}"
  using normalize_actors_loop_inv [of "[]" "{}" actors] by (simp only: normalize_actors_def) simp

text \<open>The permitted actors of a validated configuration are stripped, non-blank and pairwise
  different up to case, and an actor is listed (up to case and surrounding blanks) exactly when some
  non-blank entry of the input names it.\<close>

theorem manual_config_actors:
  assumes "make_manual_config now raw = Inr c"
  shows "distinct (map str_lower (allowed_actors c)) \<and>
    (\<forall>a \<in> set (allowed_actors c). a \<noteq> [] \<and> str_strip a = a) \<and>
    (\<forall>x. x \<in> str_lower ` set (allowed_actors c) \<longleftrightarrow>
      (\<exists>a \<in> set (allowed_actors raw). str_strip a \<noteq> [] \<and> x = str_lower (str_strip a)))"
proof -
  have "allowed_actors c = normalize_actors (allowed_actors raw)"
    using assms by (auto simp: make_manual_config_def validate_cooldown_def Let_def
        split: prod.splits if_splits option.splits datetime.splits)
  with normalize_actors_spec [of "allowed_actors raw"] show ?thesis by auto
qed

definition sample_manual :: manual_config where
  "sample_manual = \<lparr>mt_label = '' run '', allowed_actors = [''Ann'', '' ann '', '' '', ''Bob''],
     require_comment = False, default_payload = [], cooldown_seconds = 5,
     mt_last_dispatched = Some (Aware 10 0)\<rparr>"

theorem manual_config_actors_witness:
  "\<exists>c. make_manual_config 20 sample_manual = Inr c \<and> distinct (map str_lower (allowed_actors c)) \<and>
    allowed_actors c = [''Ann'', ''Bob'']"
proof -
  let ?c = "sample_manual\<lparr>mt_label := ''run'', allowed_actors := [''Ann'', ''Bob'']\<rparr>"
  have "normalize_label (mt_label sample_manual) = ([], ''run'')"
    "normalize_actors (allowed_actors sample_manual) = [''Ann'', ''Bob'']"
    by code_simp+
  then have "make_manual_config 20 sample_manual = Inr ?c"
    by (simp add: make_manual_config_def validate_cooldown_def sample_manual_def)
  with manual_config_actors [OF this] show ?thesis by (intro exI [of _ ?c]) simp
qed

text \<open>A validated request resolves to its items in order, between 1 and 100 runs, each on the
  version it names or else on the default one, with its own payload; the label recorded is never blank.\<close>

theorem manual_dispatch_resolved:
  assumes "make_dispatch_request raw = Inr r"
  shows "length (resolve_runs v r) = length (dr_runs raw) \<and> 1 \<le> length (dr_runs raw) \<and>
    length (dr_runs raw) \<le> 100 \<and> str_strip (trigger_label r) \<noteq> [] \<and> str_strip (dr_actor r) \<noteq> [] \<and>
    (\<forall>i < length (dr_runs raw).
      run_version (resolve_runs v r ! i) = (case item_version (dr_runs raw ! i) of Some w \<Rightarrow> w | None \<Rightarrow> v) \<and>
      run_payload (resolve_runs v r ! i) = item_payload (dr_runs raw ! i) \<and>
      run_config (resolve_runs v r ! i) = item_config (dr_runs raw ! i))"
proof -
  obtain le lbl where l: "normalize_request_label (dr_label raw) = (le, lbl)" by fastforce
  with assms have ok: "str_strip (dr_actor raw) \<noteq> []" "dr_runs raw \<noteq> []" "length (dr_runs raw) \<le> 100" "le = []"
    and r: "r = raw\<lparr>dr_actor := str_strip (dr_actor raw), dr_label := lbl\<rparr>"
    by (auto simp: make_dispatch_request_def Let_def split: if_splits)
  have "lbl = Some x \<Longrightarrow> x \<noteq> [] \<and> str_strip x = x" for x
    using l ok(4) by (auto simp: normalize_request_label_def normalize_label_def Let_def split: option.splits if_splits)
  moreover have "str_strip ''manual'' \<noteq> []" "str_strip ''manual_batch'' \<noteq> []" by code_simp+
  ultimately have "str_strip (trigger_label r) \<noteq> []"
    by (cases lbl) (auto simp: trigger_label_def r)
  with ok r show ?thesis by (simp add: resolve_runs_def Suc_le_eq)
qed

theorem manual_dispatch_resolved_witness:
  "\<exists>r. make_dispatch_request \<lparr>dr_workflow = 1, dr_actor = '' me '',
      dr_runs = [\<lparr>item_version = None, item_payload = [], item_config = None\<rparr>], dr_label = None\<rparr> = Inr r \<and>
    length (resolve_runs 7 r) = 1 \<and> run_version (resolve_runs 7 r ! 0) = 7"
proof -
  let ?raw = "\<lparr>dr_workflow = 1, dr_actor = '' me '',
      dr_runs = [\<lparr>item_version = None, item_payload = [], item_config = None\<rparr>], dr_label = None\<rparr>"
  have "str_strip '' me '' = ''me''" by code_simp
  then have "make_dispatch_request ?raw = Inr (?raw\<lparr>dr_actor := ''me''\<rparr>)"
    by (simp add: make_dispatch_request_def normalize_request_label_def)
  with manual_dispatch_resolved [OF this, of 7] show ?thesis
    by (intro exI [of _ "?raw\<lparr>dr_actor := ''me''\<rparr>"]) simp
qed

end
