(* ===== verification/Credential_Health.thy ===== *)
theory Credential_Health
  imports Orcheo_Prelude
begin

text \<open>
  Health of the credentials a workflow uses: status records (\<open>src/orcheo/models/credential_health.py\<close>),
  reports and the error that blocks a run (\<open>src/orcheo/vault/oauth/models.py\<close>), and the cached
  reports of the OAuth service (\<open>src/orcheo/vault/oauth/service.py\<close>) through which it guards
  dispatch. The interface \<open>health_guard\<close> is what the trigger layer relies on; the service
  provides it.
\<close>

section \<open>Status and issuance policy\<close>

datatype health_status = Unknown | Healthy | Unhealthy

record credential_health =
  ch_status :: health_status
  ch_checked_at :: "instant option"
  ch_reason :: "string option"

definition health_update :: "instant \<Rightarrow> health_status \<Rightarrow> string option \<Rightarrow> credential_health \<Rightarrow> credential_health" where
  "health_update now status reason h =
    h\<lparr>ch_status := status, ch_checked_at := Some now, ch_reason := reason\<rparr>"

record issuance_policy =
  require_refresh_token :: bool
  rotation_period_days :: "int option"
  expiry_threshold_minutes :: int

definition requires_rotation :: "instant \<Rightarrow> instant option \<Rightarrow> issuance_policy \<Rightarrow> bool" where
  "requires_rotation now last_rotated_at p =
    (case (rotation_period_days p, last_rotated_at) of
       (Some days, Some rotated) \<Rightarrow> now \<ge> rotated + seconds (days * 86400)
     | _ \<Rightarrow> False)"

section \<open>Reports\<close>

record health_result =
  hr_credential :: uuid
  hr_name :: string
  hr_provider :: string
  hr_status :: health_status
  hr_checked_at :: "instant option"
  hr_reason :: "string option"

record health_report =
  rep_workflow :: uuid
  rep_results :: "health_result list"
  rep_checked_at :: instant

definition report_is_healthy :: "health_report \<Rightarrow> bool" where
  "report_is_healthy r \<longleftrightarrow> (\<forall>x \<in> set (rep_results r). hr_status x = Healthy)"

text \<open>\<open>show\<close> prints an identifier.\<close>

definition report_failures :: "(uuid \<Rightarrow> string) \<Rightarrow> health_report \<Rightarrow> string list" where
  "report_failures show_id r =
    map (\<lambda>x. if opt_truthy (hr_reason x) then the (hr_reason x)
             else ''Credential '' @ show_id (hr_credential x) @ '' reported unhealthy'')
      (filter (\<lambda>x. hr_status x = Unhealthy) (rep_results r))"

definition health_error_message :: "(uuid \<Rightarrow> string) \<Rightarrow> health_report \<Rightarrow> string" where
  "health_error_message show_id r =
    (let joined = str_join ''; '' (report_failures show_id r);
         failures = (if joined = [] then ''unknown reason'' else joined)
     in ''Workflow '' @ show_id (rep_workflow r) @ '' has unhealthy credentials: '' @ failures)"

section \<open>The guard\<close>

record oauth_service =
  reports :: "(uuid, health_report) dict"

definition is_workflow_healthy :: "oauth_service \<Rightarrow> uuid \<Rightarrow> bool" where
  "is_workflow_healthy g w = (case dict_get (reports g) w of None \<Rightarrow> True | Some r \<Rightarrow> report_is_healthy r)"

definition get_report :: "oauth_service \<Rightarrow> uuid \<Rightarrow> health_report option" where
  "get_report g w = dict_get (reports g) w"

definition require_healthy :: "oauth_service \<Rightarrow> uuid \<Rightarrow> health_report + unit" where
  "require_healthy g w = (case dict_get (reports g) w of
     None \<Rightarrow> Inr () | Some r \<Rightarrow> if report_is_healthy r then Inr () else Inl r)"

text \<open>\<open>TriggerLayer._ensure_healthy\<close> over any guard; the error is the offending report.\<close>

definition ensure_healthy ::
    "('g \<Rightarrow> uuid \<Rightarrow> bool) \<Rightarrow> ('g \<Rightarrow> uuid \<Rightarrow> health_report option) \<Rightarrow> 'g option \<Rightarrow> uuid \<Rightarrow> health_report + unit" where
  "ensure_healthy healthy report guard w =
    (case guard of
       None \<Rightarrow> Inr ()
     | Some g \<Rightarrow> if healthy g w then Inr ()
         else (case report g w of None \<Rightarrow> Inr () | Some r \<Rightarrow> Inl r))"

locale health_guard =
  fixes healthy :: "'g \<Rightarrow> uuid \<Rightarrow> bool"
    and report :: "'g \<Rightarrow> uuid \<Rightarrow> health_report option"
  assumes unhealthy_reported: "\<not> healthy g w \<Longrightarrow> \<exists>r. report g w = Some r \<and> \<not> report_is_healthy r"
begin

lemma ensure_healthy_Inr:
  "ensure_healthy healthy report guard w = Inr u \<longleftrightarrow> (case guard of None \<Rightarrow> True | Some g \<Rightarrow> healthy g w)"
proof (cases guard)
  case None
  then show ?thesis by (simp add: ensure_healthy_def)
next
  case (Some g)
  then show ?thesis using unhealthy_reported [of g w] by (auto simp: ensure_healthy_def)
qed

lemma ensure_healthy_Inl:
  assumes "ensure_healthy healthy report guard w = Inl r"
  shows "\<exists>g. guard = Some g \<and> report g w = Some r \<and> \<not> report_is_healthy r"
proof (cases guard)
  case None
  with assms show ?thesis by (simp add: ensure_healthy_def)
next
  case (Some g)
  with assms show ?thesis using unhealthy_reported [of g w] by (auto simp: ensure_healthy_def split: if_splits)
qed

end

interpretation oauth: health_guard is_workflow_healthy get_report
  by unfold_locales (auto simp: is_workflow_healthy_def get_report_def split: option.splits)

lemma require_healthy_ensure:
  "require_healthy g w = ensure_healthy is_workflow_healthy get_report (Some g) w"
  by (simp add: require_healthy_def ensure_healthy_def is_workflow_healthy_def get_report_def split: option.splits)

end
