(* ===== verification/Trigger_Layer.thy ===== *)
theory Trigger_Layer
  imports Webhook Cron Retry_Policy Manual_Trigger Credential_Health
begin

text \<open>
  \<open>src/orcheo/triggers/layer/\<close>: the trigger layer, which keeps the webhook, cron and retry state
  of all workflows (\<open>state.py\<close>, \<open>core.py\<close>) and the operations its mixins add (\<open>webhook.py\<close>,
  \<open>cron.py\<close>, \<open>manual.py\<close>, \<open>retry.py\<close>, \<open>cleanup.py\<close>). Each operation is a function on the
  record \<open>layer_state\<close>; readings of the clock and the jitter draw are arguments. The health guard is
  the service of \<open>Credential_Health\<close> in its current state. Logging is omitted.
\<close>

section \<open>State\<close>

record cleanup_config =
  max_retry_states :: int
  max_completed_workflows :: int
  cleanup_interval_hours :: int
  completed_workflow_ttl_hours :: int

definition default_cleanup_config :: cleanup_config where
  "default_cleanup_config = \<lparr>max_retry_states = 1000, max_completed_workflows = 500,
     cleanup_interval_hours = 1, completed_workflow_ttl_hours = 24\<rparr>"

record layer_state =
  cleanup_cfg :: cleanup_config
  guard :: "oauth_service option"
  webhook_states :: "(uuid, webhook_state) dict"
  cron_states :: "(uuid, cron_state) dict"
  cron_run_index :: "(uuid, uuid) dict"
  retry_configs :: "(uuid, retry_config) dict"
  retry_states :: "(uuid, retry_state) dict"
  run_workflows :: "(uuid, uuid) dict"
  completed_workflows :: "(uuid, instant) dict"
  last_cleanup :: instant

definition new_layer :: "instant \<Rightarrow> cleanup_config option \<Rightarrow> oauth_service option \<Rightarrow> layer_state" where
  "new_layer now c g = \<lparr>cleanup_cfg = (case c of Some d \<Rightarrow> d | None \<Rightarrow> default_cleanup_config), guard = g,
     webhook_states = [], cron_states = [], cron_run_index = [], retry_configs = [], retry_states = [],
     run_workflows = [], completed_workflows = [], last_cleanup = now\<rparr>"

definition set_health_guard :: "oauth_service option \<Rightarrow> layer_state \<Rightarrow> layer_state" where
  "set_health_guard g s = s\<lparr>guard := g\<rparr>"

datatype layer_error =
    WebhookError webhook_error
  | CronError cron_error
  | RetryError retry_error
  | HealthError health_report

definition layer_ensure_healthy :: "uuid \<Rightarrow> layer_state \<Rightarrow> layer_error + unit" where
  "layer_ensure_healthy w s =
    (case ensure_healthy is_workflow_healthy get_report (guard s) w of
       Inl r \<Rightarrow> Inl (HealthError r) | Inr u \<Rightarrow> Inr u)"

section \<open>Webhook triggers\<close>

record trigger_dispatch =
  td_triggered_by :: string
  td_actor :: string
  td_payload :: "(string, pyval) dict"

definition configure_webhook :: "uuid \<Rightarrow> webhook_config \<Rightarrow> layer_state \<Rightarrow> layer_state \<times> webhook_config" where
  "configure_webhook w c s =
    (let (d, st) = dict_setdefault w (new_webhook_state None) (webhook_states s);
         st' = update_webhook_config c st
     in (s\<lparr>webhook_states := dict_set w st' d\<rparr>, wh_config st'))"

definition get_webhook_config :: "uuid \<Rightarrow> layer_state \<Rightarrow> layer_state \<times> webhook_config" where
  "get_webhook_config w s =
    (let (d, st) = dict_setdefault w (new_webhook_state None) (webhook_states s)
     in (s\<lparr>webhook_states := d\<rparr>, wh_config st))"

definition str_dict :: "(string, string) dict \<Rightarrow> pyval" where
  "str_dict d = PDict (map (\<lambda>(k, v). (k, PStr v)) d)"

definition prepare_webhook_dispatch ::
    "webhook_env \<Rightarrow> readings \<Rightarrow> uuid \<Rightarrow> webhook_request \<Rightarrow> layer_state \<Rightarrow>
     (layer_state, layer_error, trigger_dispatch) outcome" where
  "prepare_webhook_dispatch env rd w r s =
    and_then (s, layer_ensure_healthy w s) (\<lambda>s _.
      let (d, st) = dict_setdefault w (new_webhook_state None) (webhook_states s);
          (st', res) = webhook_validate env rd r st;
          s' = s\<lparr>webhook_states := dict_set w st' d\<rparr>
      in case res of
          Inl e \<Rightarrow> (s', Inl (WebhookError e))
        | Inr _ \<Rightarrow> (s', Inr \<lparr>td_triggered_by = ''webhook'', td_actor = ''webhook'',
            td_payload = [(''body'', serialize_payload (req_payload r)),
              (''headers'', str_dict (scrub_headers_for_storage (wh_config st') (normalized_headers r))),
              (''query_params'', str_dict (normalized_query r)),
              (''source_ip'', case source_ip r of None \<Rightarrow> PNone | Some ip \<Rightarrow> PStr ip)]\<rparr>))"

section \<open>Cron triggers\<close>

record cron_plan =
  cp_workflow :: uuid
  cp_scheduled_for :: instant
  cp_timezone :: string

definition configure_cron :: "uuid \<Rightarrow> cron_config \<Rightarrow> datetime option \<Rightarrow> layer_state \<Rightarrow> layer_state" where
  "configure_cron w c dispatched s =
    s\<lparr>cron_states := dict_set w (case dict_get (cron_states s) w of
        None \<Rightarrow> new_cron_state (Some c) dispatched
      | Some st \<Rightarrow> update_cron_config c dispatched st) (cron_states s)\<rparr>"

definition get_cron_config :: "uuid \<Rightarrow> layer_state \<Rightarrow> cron_config option" where
  "get_cron_config w s = map_option cs_config (dict_get (cron_states s) w)"

definition get_cron_last_dispatched_at :: "uuid \<Rightarrow> layer_state \<Rightarrow> datetime option" where
  "get_cron_last_dispatched_at w s = Option.bind (dict_get (cron_states s) w) last_dispatched_at"

definition drop_workflow_index :: "uuid \<Rightarrow> (uuid, uuid) dict \<Rightarrow> (uuid, uuid) dict" where
  "drop_workflow_index w d = filter (\<lambda>(r, w'). w' \<noteq> w) d"

definition remove_cron_config :: "uuid \<Rightarrow> layer_state \<Rightarrow> layer_state \<times> bool" where
  "remove_cron_config w s =
    (let removed = dict_get (cron_states s) w \<noteq> None;
         s' = s\<lparr>cron_states := dict_pop w (cron_states s)\<rparr>
     in (if removed then s'\<lparr>cron_run_index := drop_workflow_index w (cron_run_index s')\<rparr> else s', removed))"

text \<open>One iteration of the collection loop; an exception is logged and the workflow skipped.\<close>

definition collect_one ::
    "cron_env \<Rightarrow> oauth_service option \<Rightarrow> instant \<Rightarrow> uuid \<Rightarrow> cron_state \<Rightarrow> cron_state \<times> cron_plan option" where
  "collect_one env g now w st =
    (if (case g of Some h \<Rightarrow> \<not> is_workflow_healthy h w | None \<Rightarrow> False) then (st, None)
     else case peek_due env now st of
         (st', Inl e) \<Rightarrow> (st', None)
       | (st', Inr None) \<Rightarrow> (st', None)
       | (st', Inr (Some due_at)) \<Rightarrow>
           (st', if \<not> can_dispatch st' then None
             else Some \<lparr>cp_workflow = w, cp_scheduled_for = due_at, cp_timezone = cron_timezone (cs_config st')\<rparr>))"

fun collect_loop ::
    "cron_env \<Rightarrow> oauth_service option \<Rightarrow> instant \<Rightarrow> (uuid, cron_state) dict \<Rightarrow> (uuid, cron_state) dict \<times> cron_plan list" where
  "collect_loop env g now [] = ([], [])"
| "collect_loop env g now ((w, st) # rest) =
    (let (st', plan) = collect_one env g now w st; (rest', plans) = collect_loop env g now rest
     in ((w, st') # rest', (case plan of None \<Rightarrow> plans | Some p \<Rightarrow> p # plans)))"

definition collect_due_cron_dispatches ::
    "cron_env \<Rightarrow> datetime \<Rightarrow> layer_state \<Rightarrow> layer_state \<times> cron_plan list" where
  "collect_due_cron_dispatches env now s =
    (let t = (case now of Naive u \<Rightarrow> u | Aware u z \<Rightarrow> u);
         (d, plans) = collect_loop env (guard s) t (cron_states s)
     in (s\<lparr>cron_states := d\<rparr>, plans))"

definition commit_cron_dispatch :: "cron_env \<Rightarrow> uuid \<Rightarrow> layer_state \<Rightarrow> (layer_state, layer_error, unit) outcome" where
  "commit_cron_dispatch env w s =
    (case dict_get (cron_states s) w of
       None \<Rightarrow> (s, Inr ())
     | Some st \<Rightarrow> (case consume_due env st of
         (st', res) \<Rightarrow> (s\<lparr>cron_states := dict_set w st' (cron_states s)\<rparr>,
           case res of Inl e \<Rightarrow> Inl (CronError e) | Inr _ \<Rightarrow> Inr ())))"

definition register_cron_run :: "uuid \<Rightarrow> layer_state \<Rightarrow> (layer_state, layer_error, unit) outcome" where
  "register_cron_run r s =
    (case dict_get (run_workflows s) r of
       None \<Rightarrow> (s, Inr ())
     | Some w \<Rightarrow>
         let s = s\<lparr>cron_run_index := dict_set r w (cron_run_index s)\<rparr> in
         (case dict_get (cron_states s) w of
            None \<Rightarrow> (s, Inr ())
          | Some st \<Rightarrow> (case register_run r st of
              (st', Inl e) \<Rightarrow> (s\<lparr>cron_run_index := dict_pop r (cron_run_index s)\<rparr>, Inl (CronError e))
            | (st', Inr _) \<Rightarrow> (s\<lparr>cron_states := dict_set w st' (cron_states s)\<rparr>, Inr ()))))"

definition release_cron_run :: "uuid \<Rightarrow> layer_state \<Rightarrow> layer_state" where
  "release_cron_run r s =
    (case dict_get (cron_run_index s) r of
       None \<Rightarrow> s
     | Some w \<Rightarrow>
         let s = s\<lparr>cron_run_index := dict_pop r (cron_run_index s)\<rparr> in
         (case dict_get (cron_states s) w of
            None \<Rightarrow> s
          | Some st \<Rightarrow> s\<lparr>cron_states := dict_set w (release_run r st) (cron_states s)\<rparr>))"

text \<open>The runs come as a set; \<open>ids\<close> enumerates it.\<close>

definition sync_cron_active_runs :: "uuid \<Rightarrow> uuid list \<Rightarrow> layer_state \<Rightarrow> layer_state" where
  "sync_cron_active_runs w ids s =
    (case dict_get (cron_states s) w of
       None \<Rightarrow> s
     | Some st \<Rightarrow>
         s\<lparr>cron_states := dict_set w (sync_active_runs (set ids) st) (cron_states s),
           cron_run_index := fold (\<lambda>r d. dict_set r w d) ids (drop_workflow_index w (cron_run_index s))\<rparr>)"

section \<open>Manual dispatch\<close>

record manual_plan =
  mp_triggered_by :: string
  mp_actor :: string
  mp_runs :: "dispatch_run list"

definition prepare_manual_dispatch :: "dispatch_request \<Rightarrow> uuid \<Rightarrow> manual_plan" where
  "prepare_manual_dispatch r default_version =
    \<lparr>mp_triggered_by = trigger_label r, mp_actor = dr_actor r, mp_runs = resolve_runs default_version r\<rparr>"

section \<open>Clean-up\<close>

definition cleanup_completed_workflows :: "instant \<Rightarrow> layer_state \<Rightarrow> layer_state" where
  "cleanup_completed_workflows now s =
    (let ttl = seconds (completed_workflow_ttl_hours (cleanup_cfg s) * 3600);
         expired = map fst (filter (\<lambda>(w, completed_at). now - completed_at > ttl) (completed_workflows s));
         d = dict_pops expired (completed_workflows s);
         bound = max_completed_workflows (cleanup_cfg s)
     in s\<lparr>completed_workflows :=
          (if int (length d) > bound
           then dict_pops (map fst (take (nat (int (length d) - bound)) (sort_key snd d))) d
           else d)\<rparr>)"

definition maybe_cleanup_states :: "instant \<Rightarrow> layer_state \<Rightarrow> layer_state" where
  "maybe_cleanup_states now s =
    (if now - last_cleanup s \<ge> seconds (cleanup_interval_hours (cleanup_cfg s) * 3600) \<or>
        int (length (retry_states s)) > max_retry_states (cleanup_cfg s)
     then (cleanup_completed_workflows now s)\<lparr>last_cleanup := now\<rparr>
     else s)"

definition get_state_metrics :: "layer_state \<Rightarrow> (string, nat) dict" where
  "get_state_metrics s =
    [(''webhook_states'', length (webhook_states s)), (''cron_states'', length (cron_states s)),
     (''retry_configs'', length (retry_configs s)), (''retry_states'', length (retry_states s)),
     (''run_workflows'', length (run_workflows s)), (''completed_workflows'', length (completed_workflows s)),
     (''cron_run_index'', length (cron_run_index s))]"

definition remove_workflow :: "instant \<Rightarrow> uuid \<Rightarrow> layer_state \<Rightarrow> layer_state" where
  "remove_workflow now w s =
    (let runs = map fst (filter (\<lambda>(r, w'). w' = w) (run_workflows s))
     in s\<lparr>webhook_states := dict_pop w (webhook_states s),
          cron_states := dict_pop w (cron_states s),
          retry_configs := dict_pop w (retry_configs s),
          retry_states := dict_pops runs (retry_states s),
          run_workflows := dict_pops runs (run_workflows s),
          cron_run_index := dict_pops runs (cron_run_index s),
          completed_workflows := dict_set w now (completed_workflows s)\<rparr>)"

definition layer_reset :: "instant \<Rightarrow> layer_state \<Rightarrow> layer_state" where
  "layer_reset now s =
    s\<lparr>webhook_states := [], cron_states := [], cron_run_index := [], retry_configs := [],
      retry_states := [], run_workflows := [], completed_workflows := [], last_cleanup := now\<rparr>"

section \<open>Retries\<close>

definition get_retry_policy_config :: "uuid \<Rightarrow> layer_state \<Rightarrow> layer_state \<times> retry_config" where
  "get_retry_policy_config w s =
    (let (d, c) = dict_setdefault w default_retry_config (retry_configs s)
     in (s\<lparr>retry_configs := d\<rparr>, c))"

definition configure_retry_policy :: "uuid \<Rightarrow> retry_config \<Rightarrow> layer_state \<Rightarrow> layer_state \<times> retry_config" where
  "configure_retry_policy w c s =
    get_retry_policy_config w (s\<lparr>retry_configs := dict_set w c (retry_configs s)\<rparr>)"

definition track_run :: "instant \<Rightarrow> uuid \<Rightarrow> uuid \<Rightarrow> layer_state \<Rightarrow> layer_state" where
  "track_run now w r s =
    maybe_cleanup_states now
      (s\<lparr>run_workflows := dict_set r w (run_workflows s),
         retry_states := dict_set r (new_retry_state (Some
           (case dict_get (retry_configs s) w of Some c \<Rightarrow> c | None \<Rightarrow> default_retry_config))) (retry_states s)\<rparr>)"

definition next_retry_for_run ::
    "instant \<Rightarrow> real \<Rightarrow> uuid \<Rightarrow> instant option \<Rightarrow> layer_state \<Rightarrow>
     (layer_state, layer_error, retry_decision option) outcome" where
  "next_retry_for_run now u r failed_at s =
    (case dict_get (retry_states s) r of
       None \<Rightarrow> (s, Inr None)
     | Some st \<Rightarrow> (case next_retry now u failed_at st of
         (st', Inl e) \<Rightarrow> (s\<lparr>retry_states := dict_set r st' (retry_states s)\<rparr>, Inl (RetryError e))
       | (st', Inr None) \<Rightarrow>
           (s\<lparr>retry_states := dict_pop r (retry_states s), run_workflows := dict_pop r (run_workflows s)\<rparr>, Inr None)
       | (st', Inr (Some d)) \<Rightarrow> (s\<lparr>retry_states := dict_set r st' (retry_states s)\<rparr>, Inr (Some d))))"

definition clear_retry_state :: "instant \<Rightarrow> uuid \<Rightarrow> layer_state \<Rightarrow> layer_state" where
  "clear_retry_state now r s =
    (let w = dict_get (run_workflows s) r;
         s' = s\<lparr>run_workflows := dict_pop r (run_workflows s), retry_states := dict_pop r (retry_states s)\<rparr>
     in case w of None \<Rightarrow> s' | Some w \<Rightarrow> s'\<lparr>completed_workflows := dict_set w now (completed_workflows s)\<rparr>)"

end
