(* ===== verification/Webhook_Laws.thy ===== *)
theory Webhook_Laws
  imports Webhook
begin

text \<open>
  What the webhook checks guarantee: which requests are accepted, that a signature is accepted at
  most once while its timestamp is within the tolerance, that no window admits more requests than
  the limit, and which headers reach storage.
\<close>

section \<open>Normalised dictionaries\<close>

lemma lower_keys_get_fold:
  "dict_get (fold (\<lambda>(k, v) acc. dict_set (str_lower k) v acc) d acc) j \<noteq> None \<longleftrightarrow>
    j \<in> str_lower ` fst ` set d \<or> dict_get acc j \<noteq> None"
  by (induction d arbitrary: acc) (auto split: if_splits)

lemma dict_ok_lower_keys [simp]: "dict_ok (lower_keys d)"
proof -
  have "dict_ok acc \<Longrightarrow> dict_ok (fold (\<lambda>(k, v) acc. dict_set (str_lower k) v acc) d acc)" for acc
    by (induction d arbitrary: acc) auto
  then show ?thesis by (simp add: lower_keys_def)
qed

lemma lower_keys_dom: "dict_get (lower_keys d) j \<noteq> None \<longleftrightarrow> j \<in> str_lower ` fst ` set d"
  using lower_keys_get_fold [of d "[]" j] by (simp add: lower_keys_def)

lemma first_mismatch_None:
  "first_mismatch expected given = None \<longleftrightarrow> (\<forall>(k, v) \<in> set expected. dict_get given k = Some v)"
  by (induction expected given rule: first_mismatch.induct) auto

section \<open>The stages of validation\<close>

lemma validate_hmac_signature_config:
  "wh_config (fst (validate_hmac_signature env rd r s)) = wh_config s"
  by (auto simp: validate_hmac_signature_def enforce_signature_replay_def Let_def
      split: option.splits sum.splits prod.splits)

lemma validate_authentication_config:
  "wh_config (fst (validate_authentication env rd r s)) = wh_config s"
  using validate_hmac_signature_config [of env rd r s]
  by (auto simp: validate_authentication_def and_then_def split: sum.splits prod.splits)

lemma enforce_rate_limit_config: "wh_config (fst (enforce_rate_limit now s)) = wh_config s"
  by (simp add: enforce_rate_limit_def split: option.splits prod.splits)

lemma webhook_validate_Inr:
  "webhook_validate env rd r s = (t, Inr u) \<longleftrightarrow>
    validate_method (wh_config s) r = Inr () \<and>
    validate_required_headers (wh_config s) r = Inr () \<and>
    validate_required_query_params (wh_config s) r = Inr () \<and>
    (\<exists>s1. validate_authentication env rd r s = (s1, Inr ()) \<and>
      enforce_rate_limit (now_rate rd) s1 = (t, Inr ()))"
  by (auto simp: webhook_validate_def and_then_Inr_iff)

lemma webhook_validate_cases:
  obtains (early) e where "webhook_validate env rd r s = (s, Inl e)"
  | (unauthentic) s1 e where "validate_authentication env rd r s = (s1, Inl e)"
      "webhook_validate env rd r s = (s1, Inl e)"
  | (authentic) s1 where "validate_authentication env rd r s = (s1, Inr ())"
      "webhook_validate env rd r s = enforce_rate_limit (now_rate rd) s1"
proof (cases "\<exists>e. webhook_validate env rd r s = (s, Inl e)")
  case True
  then show thesis using early by blast
next
  case False
  then have "webhook_validate env rd r s =
      and_then (validate_authentication env rd r s) (\<lambda>s _. enforce_rate_limit (now_rate rd) s)"
    by (auto simp: webhook_validate_def and_then_def split: sum.splits)
  then show thesis
    using unauthentic authentic
    by (cases "validate_authentication env rd r s"; cases "snd (validate_authentication env rd r s)") auto
qed

lemma webhook_validate_config: "wh_config (fst (webhook_validate env rd r s)) = wh_config s"
proof (cases rule: webhook_validate_cases [of env rd r s])
  case (early e)
  then show ?thesis by simp
next
  case (unauthentic s1 e)
  then show ?thesis using validate_authentication_config [of env rd r s] by simp
next
  case (authentic s1)
  then show ?thesis
    using validate_authentication_config [of env rd r s] by (simp add: enforce_rate_limit_config)
qed

lemma freshness_check_Inr:
  "(case ts of Naive _ \<Rightarrow> Inl e1 | Aware t z \<Rightarrow> if \<bar>now - t\<bar> > tol then Inl e2 else Inr ts) = Inr d \<Longrightarrow>
    \<exists>t z. d = Aware t z \<and> \<bar>now - t\<bar> \<le> tol"
  by (cases ts) (auto split: if_splits)

lemma parse_signature_timestamp_fresh:
  assumes "parse_signature_timestamp env c now v = Inr d" "hmac_tolerance_seconds c \<noteq> 0"
  shows "\<exists>t z. d = Aware t z \<and> \<bar>now - t\<bar> \<le> seconds (hmac_tolerance_seconds c)"
proof -
  have "str_strip v \<noteq> []"
    using assms(1) by (auto simp: parse_signature_timestamp_def Let_def)
  with assms show ?thesis
    unfolding parse_signature_timestamp_def Let_def
    by (simp only: if_False seqE_Inr_iff) (elim exE conjE, erule freshness_check_Inr)
qed

lemma checked_signature_Inr:
  assumes "checked_signature env rd c h k r = Inr (signature, timestamp)"
  obtains raw where
    "dict_get (normalized_headers r) h = Some raw" "extract_hmac_signature raw = Inr signature"
    "hmac_hexdigest env (hmac_algorithm c) k (signed_message env timestamp (req_payload r)) = Some signature"
    "opt_truthy (hmac_timestamp_header c) \<Longrightarrow>
      \<exists>v d. parse_signature_timestamp env c (now_timestamp rd) v = Inr d \<and> timestamp = Some d"
proof -
  obtain raw where raw: "dict_get (normalized_headers r) h = Some raw" "raw \<noteq> []"
    using assms by (auto simp: checked_signature_def split: option.splits if_splits)
  let ?ts = "if opt_truthy (hmac_timestamp_header c)
     then case dict_get (normalized_headers r) (the (hmac_timestamp_header c)) of
         None \<Rightarrow> Inl AuthenticationFailed
       | Some v \<Rightarrow> if v = [] then Inl AuthenticationFailed
           else seqE (parse_signature_timestamp env c (now_timestamp rd) v) (\<lambda>d. Inr (Some d))
     else Inr None"
  from assms raw obtain sg ts where
    sg: "extract_hmac_signature raw = Inr sg" and ts: "?ts = Inr ts" and
    h: "(case hmac_hexdigest env (hmac_algorithm c) k (signed_message env ts (req_payload r)) of
         None \<Rightarrow> Inl PyAttributeError
       | Some expected \<Rightarrow>
           if expected \<noteq> sg then Inl AuthenticationFailed else Inr (sg, ts)) = Inr (signature, timestamp)"
    unfolding checked_signature_def by (simp only: option.case if_False seqE_Inr_iff) blast
  have "sg = signature" "ts = timestamp"
    "hmac_hexdigest env (hmac_algorithm c) k (signed_message env ts (req_payload r)) = Some sg"
    using h by (auto split: option.splits if_splits)
  moreover have "opt_truthy (hmac_timestamp_header c) \<Longrightarrow>
      \<exists>v d. parse_signature_timestamp env c (now_timestamp rd) v = Inr d \<and> ts = Some d"
    using ts by (auto simp: seqE_Inr_iff simp del: opt_truthy_simps split: option.splits if_splits)
  ultimately show thesis using that raw(1) sg by simp
qed

text \<open>C1. A request is accepted only if its method is allowed, every required header and query
  parameter has the configured value, the shared secret header carries the secret, and the signature
  header carries the HMAC of the canonical payload (prefixed by the timestamp when one is required,
  which then lies within the tolerance of the clock).\<close>

theorem accepted_request_is_authentic:
  assumes "webhook_validate env rd r s = (t, Inr u)"
  shows "str_upper (req_method r) \<in> set (allowed_methods (wh_config s)) \<and>
    (\<forall>(k, v) \<in> set (required_headers (wh_config s)). dict_get (normalized_headers r) k = Some v) \<and>
    (\<forall>(k, v) \<in> set (required_query_params (wh_config s)). dict_get (req_query_params r) k = Some v) \<and>
    (\<forall>h k. hmac_header (wh_config s) = Some h \<longrightarrow> hmac_secret (wh_config s) = Some k \<longrightarrow> k \<noteq> [] \<longrightarrow>
      (\<exists>raw signature timestamp. dict_get (normalized_headers r) h = Some raw \<and>
        extract_hmac_signature raw = Inr signature \<and>
        hmac_hexdigest env (hmac_algorithm (wh_config s)) k (signed_message env timestamp (req_payload r)) =
          Some signature \<and>
        (opt_truthy (hmac_timestamp_header (wh_config s)) \<longrightarrow> hmac_tolerance_seconds (wh_config s) \<noteq> 0 \<longrightarrow>
          (\<exists>sent z. timestamp = Some (Aware sent z) \<and>
            \<bar>now_timestamp rd - sent\<bar> \<le> seconds (hmac_tolerance_seconds (wh_config s)))))) \<and>
    (\<forall>h k. shared_secret_header (wh_config s) = Some h \<longrightarrow> shared_secret (wh_config s) = Some k \<longrightarrow> k \<noteq> [] \<longrightarrow>
      dict_get (normalized_headers r) h = Some k)"
proof -
  obtain s1 where
    m: "validate_method (wh_config s) r = Inr ()"
      "validate_required_headers (wh_config s) r = Inr ()"
      "validate_required_query_params (wh_config s) r = Inr ()" and
    a: "validate_authentication env rd r s = (s1, Inr ())"
    using assms by (auto simp: webhook_validate_Inr)
  have h: "hmac_header (wh_config s) = Some h \<Longrightarrow> hmac_secret (wh_config s) = Some k \<Longrightarrow> k \<noteq> [] \<Longrightarrow>
      \<exists>signature timestamp. checked_signature env rd (wh_config s) h k r = Inr (signature, timestamp)" for h k
    using a by (auto simp: validate_authentication_def validate_hmac_signature_def and_then_Inr_iff
        split: if_splits sum.splits)
  have s2: "opt_truthy (shared_secret (wh_config s)) \<Longrightarrow> validate_shared_secret (wh_config s) r = Inr ()"
    using a validate_hmac_signature_config [of env rd r s]
    by (auto simp: validate_authentication_def and_then_Inr_iff split: if_splits)
  have shared: "shared_secret_header (wh_config s) = Some h \<Longrightarrow> shared_secret (wh_config s) = Some k \<Longrightarrow> k \<noteq> [] \<Longrightarrow>
      dict_get (normalized_headers r) h = Some k" for h k
    using s2 by (auto simp: validate_shared_secret_def checkE_def split: option.splits if_splits)
  from m have
    "str_upper (req_method r) \<in> set (allowed_methods (wh_config s))"
    "\<forall>(k, v) \<in> set (required_headers (wh_config s)). dict_get (normalized_headers r) k = Some v"
    "\<forall>(k, v) \<in> set (required_query_params (wh_config s)). dict_get (req_query_params r) k = Some v"
    by (auto simp: validate_method_def normalized_method_def validate_required_headers_def
        validate_required_query_params_def normalized_query_def first_mismatch_None [symmetric]
        split: option.splits)
  moreover have "hmac_header (wh_config s) = Some h \<Longrightarrow> hmac_secret (wh_config s) = Some k \<Longrightarrow> k \<noteq> [] \<Longrightarrow>
      \<exists>raw signature timestamp. dict_get (normalized_headers r) h = Some raw \<and>
        extract_hmac_signature raw = Inr signature \<and>
        hmac_hexdigest env (hmac_algorithm (wh_config s)) k (signed_message env timestamp (req_payload r)) =
          Some signature \<and>
        (opt_truthy (hmac_timestamp_header (wh_config s)) \<longrightarrow> hmac_tolerance_seconds (wh_config s) \<noteq> 0 \<longrightarrow>
          (\<exists>sent z. timestamp = Some (Aware sent z) \<and>
            \<bar>now_timestamp rd - sent\<bar> \<le> seconds (hmac_tolerance_seconds (wh_config s))))" for h k
    by (drule (2) h, elim exE, erule checked_signature_Inr)
      (blast dest: parse_signature_timestamp_fresh)
  ultimately show ?thesis using shared by blast
qed

section \<open>The replay cache\<close>

definition sig_inv :: "webhook_state \<Rightarrow> bool" where
  "sig_inv s \<longleftrightarrow>
    signature_cache s = fst ` set (recent_signatures s) \<and> distinct (map fst (recent_signatures s))"

lemma sig_inv_new [simp]: "sig_inv (new_webhook_state c)"
  by (simp add: sig_inv_def new_webhook_state_def)

lemma sig_inv_update_config [simp]: "sig_inv (update_webhook_config c s)"
  by (simp add: sig_inv_def update_webhook_config_def)

lemma evict_signatures_inv:
  assumes "evict_signatures cutoff q cache = ((q', cache'), ok)"
    and "cache = fst ` set q" "distinct (map fst q)"
  shows "cache' = fst ` set q' \<and> distinct (map fst q')"
  using assms
proof (induction cutoff q cache rule: evict_signatures.induct)
  case (3 cutoff old t z q cache)
  then show ?case by (auto split: if_splits)
qed auto

lemma evict_signatures_keeps:
  assumes "evict_signatures cutoff q cache = ((q', cache'), ok)"
    and "(sg, Aware t z) \<in> set q" "cutoff \<le> t"
  shows "(sg, Aware t z) \<in> set q'"
  using assms
proof (induction cutoff q cache rule: evict_signatures.induct)
  case (3 cutoff old t' z' q cache)
  then show ?case by (auto split: if_splits)
qed auto

lemma enforce_signature_replay_inv:
  assumes "sig_inv s"
  shows "sig_inv (fst (enforce_signature_replay now signature timestamp s))"
proof -
  obtain q cache ok where
    e: "evict_signatures (now - seconds (max (hmac_tolerance_seconds (wh_config s)) 1))
          (recent_signatures s) (signature_cache s) = ((q, cache), ok)"
    by (metis surj_pair)
  from evict_signatures_inv [OF e] assms
  have "cache = fst ` set q" "distinct (map fst q)" by (auto simp: sig_inv_def)
  with e show ?thesis by (auto simp: enforce_signature_replay_def sig_inv_def Let_def)
qed

lemma validate_authentication_inv:
  "sig_inv s \<Longrightarrow> sig_inv (fst (validate_authentication env rd r s))"
  using enforce_signature_replay_inv
  by (auto simp: validate_authentication_def validate_hmac_signature_def and_then_def
      split: option.splits sum.splits prod.splits) (metis fst_conv)+

lemma enforce_rate_limit_signatures:
  "recent_signatures (fst (enforce_rate_limit now s)) = recent_signatures s"
  "signature_cache (fst (enforce_rate_limit now s)) = signature_cache s"
  by (simp_all add: enforce_rate_limit_def split: option.splits prod.splits)

lemma webhook_validate_inv: "sig_inv s \<Longrightarrow> sig_inv (fst (webhook_validate env rd r s))"
  using validate_authentication_inv [of s env rd r] enforce_rate_limit_signatures
  by (cases rule: webhook_validate_cases [of env rd r s]) (auto simp: sig_inv_def)

text \<open>An entry whose timestamp is not older than the cutoff survives one more request.\<close>

lemma enforce_signature_replay_keeps:
  assumes "(sg, Aware t z) \<in> set (recent_signatures s)"
    and "now \<le> t + seconds (max (hmac_tolerance_seconds (wh_config s)) 1)"
  shows "(sg, Aware t z) \<in> set (recent_signatures (fst (enforce_signature_replay now signature timestamp s)))"
proof -
  obtain q cache ok where
    e: "evict_signatures (now - seconds (max (hmac_tolerance_seconds (wh_config s)) 1))
          (recent_signatures s) (signature_cache s) = ((q, cache), ok)"
    by (metis surj_pair)
  from evict_signatures_keeps [OF e assms(1)] assms(2) have "(sg, Aware t z) \<in> set q" by simp
  with e show ?thesis by (auto simp: enforce_signature_replay_def Let_def)
qed

lemma webhook_validate_keeps:
  assumes "(sg, Aware t z) \<in> set (recent_signatures s)"
    and "now_replay rd \<le> t + seconds (max (hmac_tolerance_seconds (wh_config s)) 1)"
  shows "(sg, Aware t z) \<in> set (recent_signatures (fst (webhook_validate env rd r s)))"
proof -
  have a: "(sg, Aware t z) \<in> set (recent_signatures (fst (validate_authentication env rd r s)))"
    using assms enforce_signature_replay_keeps [OF assms]
    by (auto simp: validate_authentication_def validate_hmac_signature_def and_then_def
        split: option.splits sum.splits prod.splits) (metis fst_conv)+
  then show ?thesis
    using assms(1) enforce_rate_limit_signatures
    by (cases rule: webhook_validate_cases [of env rd r s]) auto
qed

text \<open>A cached signature is refused.\<close>

lemma cached_signature_refused:
  assumes inv: "sig_inv s" and entry: "(sg, Aware t z) \<in> set (recent_signatures s)"
    and now: "now_replay rd \<le> t + seconds (max (hmac_tolerance_seconds (wh_config s)) 1)"
    and h: "hmac_header (wh_config s) = Some h" "hmac_secret (wh_config s) = Some k" "k \<noteq> []"
    and sg: "checked_signature env rd (wh_config s) h k r = Inr (sg, timestamp)"
  shows "snd (webhook_validate env rd r s) \<noteq> Inr ()"
proof
  assume "snd (webhook_validate env rd r s) = Inr ()"
  then obtain s1 where "validate_authentication env rd r s = (s1, Inr ())"
    using webhook_validate_Inr [of env rd r s "fst (webhook_validate env rd r s)" "()"] by (metis prod.collapse)
  then have ok: "snd (enforce_signature_replay (now_replay rd) sg timestamp s) = Inr ()"
    using h sg by (auto simp: validate_authentication_def validate_hmac_signature_def and_then_Inr_iff)
  obtain q cache b where
    e: "evict_signatures (now_replay rd - seconds (max (hmac_tolerance_seconds (wh_config s)) 1))
          (recent_signatures s) (signature_cache s) = ((q, cache), b)"
    by (metis surj_pair)
  from evict_signatures_keeps [OF e entry] now have "(sg, Aware t z) \<in> set q" by simp
  moreover have "cache = fst ` set q" using evict_signatures_inv [OF e] inv by (simp add: sig_inv_def)
  ultimately have "sg \<in> cache" by (metis fst_conv image_eqI)
  with e ok show False by (simp add: enforce_signature_replay_def Let_def split: if_splits)
qed

fun webhook_run :: "webhook_env \<Rightarrow> (readings \<times> webhook_request) list \<Rightarrow> webhook_state \<Rightarrow> webhook_state" where
  "webhook_run env [] s = s"
| "webhook_run env ((rd, r) # xs) s = webhook_run env xs (fst (webhook_validate env rd r s))"

lemma webhook_run_keeps:
  assumes "sig_inv s" "(sg, Aware t z) \<in> set (recent_signatures s)"
    and "\<forall>(rd, r) \<in> set xs. now_replay rd \<le> t + seconds (max (hmac_tolerance_seconds (wh_config s)) 1)"
  shows "sig_inv (webhook_run env xs s) \<and>
    (sg, Aware t z) \<in> set (recent_signatures (webhook_run env xs s)) \<and>
    wh_config (webhook_run env xs s) = wh_config s"
  using assms
proof (induction xs arbitrary: s)
  case Nil
  then show ?case by simp
next
  case (Cons x xs)
  obtain rd r where x: "x = (rd, r)" by (cases x)
  let ?s = "fst (webhook_validate env rd r s)"
  have "sig_inv ?s" "(sg, Aware t z) \<in> set (recent_signatures ?s)" "wh_config ?s = wh_config s"
    using Cons.prems x webhook_validate_inv webhook_validate_keeps webhook_validate_config by auto
  with Cons.IH [of ?s] Cons.prems(3) x show ?case by auto
qed

text \<open>Acceptance and a rate-limit refusal both mean that authentication succeeded.\<close>

lemma authentication_not_limited:
  "snd (validate_authentication env rd r s) \<noteq> Inl (RateLimitExceeded a b)"
proof -
  have x: "extract_hmac_signature raw \<noteq> Inl (RateLimitExceeded a b)" for raw
    by (simp add: extract_hmac_signature_def Let_def)
  have p: "parse_signature_timestamp env c n v \<noteq> Inl (RateLimitExceeded a b)" for c n v
    by (auto simp: parse_signature_timestamp_def Let_def seqE_def split: option.split datetime.split)
  have c: "checked_signature env rd c h k r \<noteq> Inl (RateLimitExceeded a b)" for c h k
    using x p by (auto simp: checked_signature_def seqE_Inl_iff split: option.splits if_splits)
  have "snd (enforce_signature_replay n g ts s) \<noteq> Inl (RateLimitExceeded a b)" for n g ts
    by (simp add: enforce_signature_replay_def Let_def split: prod.splits)
  with c have "snd (validate_hmac_signature env rd r s) \<noteq> Inl (RateLimitExceeded a b)"
    by (auto simp: validate_hmac_signature_def split: option.splits sum.splits prod.splits)
  moreover have "validate_shared_secret c r \<noteq> Inl (RateLimitExceeded a b)" for c
    by (auto simp: validate_shared_secret_def split: option.splits)
  ultimately show ?thesis
    by (auto simp: validate_authentication_def and_then_def split: sum.splits prod.splits)
qed

lemma reached_rate_stage:
  assumes "snd (webhook_validate env rd r s) = Inr () \<or>
    snd (webhook_validate env rd r s) = Inl (RateLimitExceeded a b)"
  shows "snd (validate_authentication env rd r s) = Inr () \<and>
    webhook_validate env rd r s = enforce_rate_limit (now_rate rd) (fst (validate_authentication env rd r s))"
proof -
  have "validate_method c r \<noteq> Inl (RateLimitExceeded a b)"
    "validate_required_headers c r \<noteq> Inl (RateLimitExceeded a b)"
    "validate_required_query_params c r \<noteq> Inl (RateLimitExceeded a b)" for c
    by (auto simp: validate_method_def validate_required_headers_def validate_required_query_params_def
        split: option.splits)
  with assms authentication_not_limited [of env rd r s a b] show ?thesis
    by (auto simp: webhook_validate_def and_then_def split: sum.splits prod.splits)
qed

lemma authentic_records:
  assumes ok: "snd (validate_authentication env rd r s) = Inr ()"
    and h: "hmac_header (wh_config s) = Some h" "hmac_secret (wh_config s) = Some k" "k \<noteq> []"
    and sg: "checked_signature env rd (wh_config s) h k r = Inr (sg, timestamp)"
  shows "(sg, case timestamp of Some d \<Rightarrow> d | None \<Rightarrow> Aware (now_replay rd) 0)
    \<in> set (recent_signatures (fst (validate_authentication env rd r s)))"
proof -
  let ?e = "enforce_signature_replay (now_replay rd) sg timestamp s"
  have "validate_hmac_signature env rd r s = ?e"
    using h sg by (simp add: validate_hmac_signature_def)
  then have a: "snd ?e = Inr ()" "fst (validate_authentication env rd r s) = fst ?e"
    using ok h by (auto simp: validate_authentication_def and_then_def split: sum.splits prod.splits)
  then show ?thesis
    by (auto simp: enforce_signature_replay_def Let_def split: if_splits prod.splits)
qed

lemma replay_after:
  assumes inv: "sig_inv s"
    and h: "hmac_header (wh_config s) = Some h" "hmac_secret (wh_config s) = Some k" "k \<noteq> []"
    and res: "snd (webhook_validate env rd r s) = Inr () \<or>
      snd (webhook_validate env rd r s) = Inl (RateLimitExceeded a b)"
    and sg: "checked_signature env rd (wh_config s) h k r = Inr (sg, timestamp)"
    and t: "(case timestamp of Some d \<Rightarrow> d | None \<Rightarrow> Aware (now_replay rd) 0) = Aware t z"
    and between: "\<forall>(rd', r') \<in> set ((rd2, r2) # xs).
      now_replay rd' \<le> t + seconds (max (hmac_tolerance_seconds (wh_config s)) 1)"
    and same: "checked_signature env rd2 (wh_config s) h k r2 = Inr (sg, timestamp2)"
  shows "snd (webhook_validate env rd2 r2 (webhook_run env xs (fst (webhook_validate env rd r s)))) \<noteq> Inr ()"
proof -
  let ?s = "fst (webhook_validate env rd r s)"
  have c: "wh_config ?s = wh_config s" "sig_inv ?s"
    using inv webhook_validate_config webhook_validate_inv by auto
  have "(sg, Aware t z) \<in> set (recent_signatures ?s)"
    using reached_rate_stage [OF res] authentic_records [OF _ h sg] t
    by (simp add: enforce_rate_limit_signatures)
  with c between have r: "sig_inv (webhook_run env xs ?s)"
    "(sg, Aware t z) \<in> set (recent_signatures (webhook_run env xs ?s))"
    "wh_config (webhook_run env xs ?s) = wh_config s"
    using webhook_run_keeps [of ?s sg t z xs env] by auto
  show ?thesis
    using between h same r(3) by (intro cached_signature_refused [OF r(1,2)]) auto
qed

text \<open>C6. A signature that was accepted once is not accepted again as long as the replay check runs
  before its recorded time plus the tolerance, whatever requests arrive in between: the recorded
  time is the signed timestamp, or the time of acceptance when no timestamp header is configured.\<close>

theorem signature_not_replayed:
  assumes "sig_inv s"
    and "hmac_header (wh_config s) = Some h" "hmac_secret (wh_config s) = Some k" "k \<noteq> []"
    and "snd (webhook_validate env rd r s) = Inr ()"
    and "checked_signature env rd (wh_config s) h k r = Inr (sg, timestamp)"
    and "(case timestamp of Some d \<Rightarrow> d | None \<Rightarrow> Aware (now_replay rd) 0) = Aware t z"
    and "\<forall>(rd', r') \<in> set ((rd2, r2) # xs).
      now_replay rd' \<le> t + seconds (max (hmac_tolerance_seconds (wh_config s)) 1)"
    and "checked_signature env rd2 (wh_config s) h k r2 = Inr (sg, timestamp2)"
  shows "snd (webhook_validate env rd2 r2 (webhook_run env xs (fst (webhook_validate env rd r s)))) \<noteq> Inr ()"
  using assms(1-4) disjI1 [OF assms(5)] assms(6-9) by (rule replay_after)

definition sample_env :: webhook_env where
  "sample_env = \<lparr>hmac_hexdigest = (\<lambda>alg key msg. Some (key @ ''-'' @ msg)), json_dumps = (\<lambda>v. ''json''),
     fromisoformat = (\<lambda>s. if s = ''a'' then Some (Aware 1000000000 0)
       else if s = ''b'' then Some (Aware 1000900000 0) else None),
     local_instant = (\<lambda>w. w)\<rparr>"

definition sample_config :: webhook_config where
  "sample_config = default_webhook_config\<lparr>hmac_header := Some ''sig'', hmac_secret := Some ''k'',
     hmac_timestamp_header := Some ''ts'', rate_limit := Some \<lparr>rate_limit_max = 1, interval_seconds = 60\<rparr>\<rparr>"

definition sample_request :: "string \<Rightarrow> webhook_request" where
  "sample_request ts = \<lparr>req_method = ''post'', req_headers = [(''Sig'', ''k-1000.body''), (''TS'', ts)],
     req_query_params = [], req_payload = PStr ''body'', source_ip = None\<rparr>"

definition sample_readings :: "instant \<Rightarrow> readings" where
  "sample_readings t = \<lparr>now_timestamp = t, now_replay = t, now_rate = t\<rparr>"

theorem accepted_request_is_authentic_witness:
  "''POST'' \<in> set (allowed_methods sample_config) \<and>
   (\<exists>raw. dict_get (normalized_headers (sample_request ''a'')) ''sig'' = Some raw)"
proof -
  let ?s = "new_webhook_state (Some sample_config)"
  let ?v = "webhook_validate sample_env (sample_readings 1000000000) (sample_request ''a'') ?s"
  have "snd ?v = Inr ()" by code_simp
  then have "?v = (fst ?v, Inr ())" by (simp add: prod_eq_iff)
  note accepted_request_is_authentic [OF this]
  moreover have "str_upper (req_method (sample_request ''a'')) = ''POST''" by code_simp
  moreover have "wh_config ?s = sample_config" "hmac_header sample_config = Some ''sig''"
    "hmac_secret sample_config = Some ''k''"
    by (simp_all add: new_webhook_state_def sample_config_def)
  ultimately show ?thesis by auto
qed

theorem signature_not_replayed_witness:
  "snd (webhook_validate sample_env (sample_readings 1299000000) (sample_request ''b'')
     (webhook_run sample_env [] (fst (webhook_validate sample_env (sample_readings 1000000000)
       (sample_request ''a'') (new_webhook_state (Some sample_config)))))) \<noteq> Inr ()"
proof (rule signature_not_replayed)
  let ?s = "new_webhook_state (Some sample_config)"
  show "sig_inv ?s" by simp
  show "hmac_header (wh_config ?s) = Some ''sig''" "hmac_secret (wh_config ?s) = Some ''k''" "''k'' \<noteq> []"
    by (simp_all add: new_webhook_state_def sample_config_def)
  show "snd (webhook_validate sample_env (sample_readings 1000000000) (sample_request ''a'') ?s) = Inr ()"
    by code_simp
  show "checked_signature sample_env (sample_readings 1000000000) (wh_config ?s) ''sig'' ''k'' (sample_request ''a'')
      = Inr (''k-1000.body'', Some (Aware 1000000000 0))"
    by code_simp
  show "checked_signature sample_env (sample_readings 1299000000) (wh_config ?s) ''sig'' ''k'' (sample_request ''b'')
      = Inr (''k-1000.body'', Some (Aware 1000900000 0))"
    by code_simp
  show "\<forall>(rd', r') \<in> set [(sample_readings 1299000000, sample_request ''b'')].
      now_replay rd' \<le> 1000000000 + seconds (max (hmac_tolerance_seconds (wh_config ?s)) 1)"
    by code_simp
qed simp


text \<open>A request refused by the rate limiter has already spent its signature: sending the same
  signed request again within the tolerance is refused even when the window has room.\<close>

theorem rate_limited_request_burns_signature:
  assumes "sig_inv s"
    and "hmac_header (wh_config s) = Some h" "hmac_secret (wh_config s) = Some k" "k \<noteq> []"
    and "snd (webhook_validate env rd r s) = Inl (RateLimitExceeded a b)"
    and "checked_signature env rd (wh_config s) h k r = Inr (sg, timestamp)"
    and "(case timestamp of Some d \<Rightarrow> d | None \<Rightarrow> Aware (now_replay rd) 0) = Aware t z"
    and "\<forall>(rd', r') \<in> set ((rd2, r) # xs).
      now_replay rd' \<le> t + seconds (max (hmac_tolerance_seconds (wh_config s)) 1)"
    and "checked_signature env rd2 (wh_config s) h k r = Inr (sg, timestamp)"
  shows "snd (webhook_validate env rd2 r (webhook_run env xs (fst (webhook_validate env rd r s)))) \<noteq> Inr ()"
  using assms(1-4) disjI2 [OF assms(5)] assms(6-9) by (rule replay_after)

definition limited_state :: webhook_state where
  "limited_state = (new_webhook_state (Some sample_config))\<lparr>recent_invocations := [999000000]\<rparr>"

theorem rate_limited_request_burns_signature_witness:
  "snd (webhook_validate sample_env (sample_readings 1100000000) (sample_request ''a'')
     (webhook_run sample_env [] (fst (webhook_validate sample_env (sample_readings 1000000000)
       (sample_request ''a'') limited_state)))) \<noteq> Inr ()"
proof (rule rate_limited_request_burns_signature)
  show "sig_inv limited_state"
    by (simp add: sig_inv_def limited_state_def new_webhook_state_def)
  show "hmac_header (wh_config limited_state) = Some ''sig''" "hmac_secret (wh_config limited_state) = Some ''k''"
    "''k'' \<noteq> []"
    by (simp_all add: limited_state_def new_webhook_state_def sample_config_def)
  show "snd (webhook_validate sample_env (sample_readings 1000000000) (sample_request ''a'') limited_state)
      = Inl (RateLimitExceeded 1 60)"
    by code_simp
  show "checked_signature sample_env (sample_readings 1000000000) (wh_config limited_state) ''sig'' ''k''
      (sample_request ''a'') = Inr (''k-1000.body'', Some (Aware 1000000000 0))"
    by code_simp
  show "checked_signature sample_env (sample_readings 1100000000) (wh_config limited_state) ''sig'' ''k''
      (sample_request ''a'') = Inr (''k-1000.body'', Some (Aware 1000000000 0))"
    by code_simp
  show "\<forall>(rd', r') \<in> set [(sample_readings 1100000000, sample_request ''a'')].
      now_replay rd' \<le> 1000000000 + seconds (max (hmac_tolerance_seconds (wh_config limited_state)) 1)"
    by code_simp
qed simp

section \<open>The rate limit\<close>

interpretation webhook_window: sliding_window
  "\<lambda>now t. t < now - seconds (interval_seconds c)" "nat (rate_limit_max c)" "rate_admit c" for c
  by unfold_locales (auto simp: rate_admit_def Let_def nat_le_iff)

lemma enforce_rate_limit_eq:
  "rate_limit (wh_config s) = Some c \<Longrightarrow>
    enforce_rate_limit now s =
      (s\<lparr>recent_invocations := fst (rate_admit c now (recent_invocations s))\<rparr>,
       if snd (rate_admit c now (recent_invocations s)) then Inr ()
       else Inl (RateLimitExceeded (rate_limit_max c) (interval_seconds c)))"
  by (simp add: enforce_rate_limit_def split_beta)

lemma validate_authentication_invocations:
  "recent_invocations (fst (validate_authentication env rd r s)) = recent_invocations s"
  by (auto simp: validate_authentication_def validate_hmac_signature_def enforce_signature_replay_def
      Let_def and_then_def split: option.splits sum.splits prod.splits)

text \<open>The times at which a sequence of requests is accepted.\<close>

fun accepted_at :: "webhook_env \<Rightarrow> (readings \<times> webhook_request) list \<Rightarrow> webhook_state \<Rightarrow> instant list" where
  "accepted_at env [] s = []"
| "accepted_at env ((rd, r) # xs) s =
    (case webhook_validate env rd r s of (s', res) \<Rightarrow>
       (if res = Inr () then now_rate rd # accepted_at env xs s' else accepted_at env xs s'))"

lemma accepted_at_admitted:
  assumes "rate_limit (wh_config s) = Some c" "sorted (map (\<lambda>(rd, r). now_rate rd) xs)"
  shows "\<exists>ts. sorted ts \<and> set ts \<subseteq> set (map (\<lambda>(rd, r). now_rate rd) xs) \<and>
    accepted_at env xs s = admitted_times (rate_admit c) (recent_invocations s) ts"
  using assms
proof (induction xs arbitrary: s)
  case Nil
  then show ?case by (intro exI [of _ "[]"]) simp
next
  case (Cons x xs)
  obtain rd r where x: "x = (rd, r)" by (cases x)
  let ?v = "webhook_validate env rd r s" and ?ms = "map (\<lambda>(rd, r). now_rate rd) xs"
  have c: "rate_limit (wh_config (fst ?v)) = Some c"
    using Cons.prems(1) webhook_validate_config by simp
  from Cons.IH [OF c] Cons.prems(2) obtain ts where
    ts: "sorted ts" "set ts \<subseteq> set ?ms"
      "accepted_at env xs (fst ?v) = admitted_times (rate_admit c) (recent_invocations (fst ?v)) ts"
    by auto
  show ?case
  proof (cases "recent_invocations (fst ?v) = recent_invocations s \<and> snd ?v \<noteq> Inr ()")
    case True
    with ts x show ?thesis by (intro exI [of _ ts]) (auto simp: split_beta)
  next
    case False
    have "webhook_validate env rd r s = enforce_rate_limit (now_rate rd) (fst (validate_authentication env rd r s))"
      using False validate_authentication_invocations [of env rd r s]
      by (cases rule: webhook_validate_cases [of env rd r s]) auto
    then have v: "?v = (fst ?v, snd ?v)"
      "recent_invocations (fst ?v) = fst (rate_admit c (now_rate rd) (recent_invocations s))"
      "snd ?v = Inr () \<longleftrightarrow> snd (rate_admit c (now_rate rd) (recent_invocations s))"
      using Cons.prems(1) validate_authentication_config [of env rd r s]
        validate_authentication_invocations [of env rd r s]
      by (simp_all add: enforce_rate_limit_eq)
    have "sorted (now_rate rd # ts)"
      using ts(1,2) Cons.prems(2) x by (auto simp: subset_iff)
    with ts v(2,3) x show ?thesis
      by (intro exI [of _ "now_rate rd # ts"]) (auto simp: split_beta)
  qed
qed

text \<open>C17. With a rate limit of \<open>limit\<close> requests per \<open>interval_seconds\<close> and a clock that does
  not run backwards, no window of that length ever contains more than \<open>limit\<close> accepted requests,
  wherever it ends.\<close>

theorem accepted_rate_bounded:
  assumes "rate_limit c = Some l" "sorted (map (\<lambda>(rd, r). now_rate rd) xs)"
  shows "length (filter (\<lambda>t. x - seconds (interval_seconds l) \<le> t \<and> t \<le> x)
      (accepted_at env xs (new_webhook_state (Some c)))) \<le> nat (rate_limit_max l)"
proof -
  obtain ts where ts: "sorted ts"
    "accepted_at env xs (new_webhook_state (Some c)) = admitted_times (rate_admit l) [] ts"
    using accepted_at_admitted [of "new_webhook_state (Some c)" l xs env] assms
    by (auto simp: new_webhook_state_def)
  have "webhook_window.in_window l x = (\<lambda>t. x - seconds (interval_seconds l) \<le> t \<and> t \<le> x)"
    by (simp add: fun_eq_iff webhook_window.in_window_def not_less)
  with webhook_window.admitted_window [OF ts(1), of l x] ts(2) show ?thesis by simp
qed

theorem accepted_rate_bounded_witness:
  "length (filter (\<lambda>t. 40000000 \<le> t \<and> t \<le> 100000000)
     (accepted_at sample_env
       [(sample_readings 50000000, sample_request ''a''), (sample_readings 60000000, sample_request ''a'')]
       (new_webhook_state (Some (default_webhook_config\<lparr>rate_limit := Some \<lparr>rate_limit_max = 1, interval_seconds = 60\<rparr>\<rparr>)))))
   \<le> 1"
  using accepted_rate_bounded [of "default_webhook_config\<lparr>rate_limit := Some \<lparr>rate_limit_max = 1, interval_seconds = 60\<rparr>\<rparr>"
      "\<lparr>rate_limit_max = 1, interval_seconds = 60\<rparr>"
      "[(sample_readings 50000000, sample_request ''a''), (sample_readings 60000000, sample_request ''a'')]"
      100000000 sample_env]
  by (simp add: sample_readings_def seconds_def del: accepted_at.simps)

section \<open>Stored headers\<close>

lemma make_webhook_config_headers:
  "make_webhook_config algs raw = Inr c \<Longrightarrow>
    shared_secret_header c = map_option str_lower (shared_secret_header raw) \<and>
    hmac_header c = map_option str_lower (hmac_header raw)"
  by (auto simp: make_webhook_config_def seqE_Inr_iff validate_secret_configuration_def split: if_splits)

lemma scrub_get:
  "dict_get (scrub_headers_for_storage c d) k =
    (if (opt_truthy (shared_secret_header c) \<and> shared_secret_header c = Some k) \<or>
        (opt_truthy (hmac_header c) \<and> hmac_header c = Some k)
     then None else dict_get d k)"
  by (cases "shared_secret_header c"; cases "hmac_header c") (simp_all add: scrub_headers_for_storage_def Let_def)

lemma lower_header_eq:
  "(opt_truthy (map_option str_lower x) \<and> map_option str_lower x = Some k) \<longleftrightarrow>
    (\<exists>h. x = Some h \<and> h \<noteq> [] \<and> k = str_lower h)"
  by (cases x) (auto simp: str_lower_def)

text \<open>Under a configuration that passed validation, the headers stored with a run are the
  lower-cased request headers without the shared-secret header and the signature header, in whatever
  case either side spelled them; every other header is kept.\<close>

theorem stored_headers_scrubbed:
  assumes "make_webhook_config algs raw = Inr c"
  shows "dict_get (scrub_headers_for_storage c (normalized_headers r)) k =
    (if (\<exists>h. (shared_secret_header raw = Some h \<or> hmac_header raw = Some h) \<and> h \<noteq> [] \<and> k = str_lower h)
     then None else dict_get (normalized_headers r) k)"
proof -
  have "(\<exists>h. (shared_secret_header raw = Some h \<or> hmac_header raw = Some h) \<and> h \<noteq> [] \<and> k = str_lower h) \<longleftrightarrow>
      (\<exists>h. shared_secret_header raw = Some h \<and> h \<noteq> [] \<and> k = str_lower h) \<or>
      (\<exists>h. hmac_header raw = Some h \<and> h \<noteq> [] \<and> k = str_lower h)"
    by blast
  with make_webhook_config_headers [OF assms] show ?thesis
    by (simp only: scrub_get lower_header_eq)
qed

theorem stored_headers_scrubbed_witness:
  "\<exists>c. make_webhook_config [''sha256'']
      (default_webhook_config\<lparr>shared_secret_header := Some ''X-Key'', shared_secret := Some ''s''\<rparr>) = Inr c \<and>
    dict_get (scrub_headers_for_storage c (normalized_headers
      \<lparr>req_method = ''GET'', req_headers = [(''X-KEY'', ''s''), (''Accept'', ''*'')],
       req_query_params = [], req_payload = PNone, source_ip = None\<rparr>)) ''x-key'' = None"
proof -
  let ?raw = "default_webhook_config\<lparr>shared_secret_header := Some ''X-Key'', shared_secret := Some ''s''\<rparr>"
  have "\<exists>c. make_webhook_config [''sha256''] ?raw = Inr c"
  proof -
    have "\<not> isl (make_webhook_config [''sha256''] ?raw)" by code_simp
    then show ?thesis by (cases "make_webhook_config [''sha256''] ?raw") auto
  qed
  then obtain c where c: "make_webhook_config [''sha256''] ?raw = Inr c" by blast
  have "str_lower ''X-Key'' = ''x-key''" by code_simp
  with c stored_headers_scrubbed [OF c] show ?thesis
    by (intro exI [of _ c]) (auto simp: default_webhook_config_def)
qed

end
