(* ===== verification/Cron_Laws.thy ===== *)
theory Cron_Laws
  imports Cron
begin

text \<open>
  Laws of the cron trigger: the computed occurrence is the next scheduled wall time in the window
  (\<open>next_after_is_next\<close>), dispatch is in order and never early, what the overlap guard and the
  frequency check guarantee. The behaviour of \<open>croniter\<close> and of the zone database enters as the
  hypotheses \<open>croniter_ok\<close> and \<open>zone_ok\<close>.
\<close>

section \<open>Documented behaviour of the environment\<close>

text \<open>\<open>get_next\<close> returns the next wall time that matches, on the grid of the expression (whole
  minutes, or seconds for six fields); \<open>match\<close> itself ignores what is finer than the grid.\<close>

definition croniter_ok :: "cron_env \<Rightarrow> string \<Rightarrow> int \<Rightarrow> bool" where
  "croniter_ok env e grid \<longleftrightarrow> (\<forall>w w'. cr_next env e w = Some w' \<longrightarrow>
     w < w' \<and> cr_match env e w' \<and> (\<forall>v. w < v \<and> v < w' \<and> grid dvd v \<longrightarrow> \<not> cr_match env e v))"

text \<open>PEP 495: a reading without the fold bit denotes the first instant with that reading, and a later
  reading than that of an instant outside the repeated hour lies later.\<close>

definition zone_ok :: "cron_env \<Rightarrow> string \<Rightarrow> bool" where
  "zone_ok env z \<longleftrightarrow>
     (\<forall>t. from_local env z (to_local env z t) = t) \<and>
     (\<forall>w. \<not> fold_bit (to_local env z (from_local env z \<lparr>wall = w, fold_bit = False\<rparr>))) \<and>
     (\<forall>t w. \<not> fold_bit (to_local env z t) \<and> wall (to_local env z t) < w \<longrightarrow>
        t < from_local env z \<lparr>wall = w, fold_bit = False\<rparr>)"

lemma croniter_okD:
  "croniter_ok env e grid \<Longrightarrow> cr_next env e w = Some w' \<Longrightarrow> w < w'"
  "croniter_ok env e grid \<Longrightarrow> cr_next env e w = Some w' \<Longrightarrow> cr_match env e w'"
  "croniter_ok env e grid \<Longrightarrow> cr_next env e w = Some w' \<Longrightarrow> cr_match env e v \<Longrightarrow> grid dvd v \<Longrightarrow>
    w < v \<Longrightarrow> w' \<le> v"
  by (auto simp: croniter_ok_def not_less [symmetric])

lemma zone_okD:
  "zone_ok env z \<Longrightarrow> from_local env z (to_local env z t) = t"
  "zone_ok env z \<Longrightarrow> \<not> fold_bit (to_local env z (from_local env z \<lparr>wall = w, fold_bit = False\<rparr>))"
  "zone_ok env z \<Longrightarrow> \<not> fold_bit (to_local env z t) \<Longrightarrow> wall (to_local env z t) < w \<Longrightarrow>
    t < from_local env z \<lparr>wall = w, fold_bit = False\<rparr>"
  by (auto simp: zone_ok_def)

section \<open>The next occurrence\<close>

text \<open>Where the search begins, and whether that reading itself counts: a reference before the window
  is moved to its start, which counts.\<close>

definition search_from :: "cron_env \<Rightarrow> cron_occurrence \<Rightarrow> datetime \<Rightarrow> bool \<Rightarrow> local_time \<times> bool" where
  "search_from env occ reference inclusive =
    (case occ_start occ of
       Some s \<Rightarrow> if wall (local_naive env occ reference) < wall (local_naive env occ s)
         then (local_naive env occ s, True) else (local_naive env occ reference, inclusive)
     | None \<Rightarrow> (local_naive env occ reference, inclusive))"

definition scheduled_wall :: "cron_env \<Rightarrow> cron_occurrence \<Rightarrow> datetime \<Rightarrow> bool \<Rightarrow> int \<Rightarrow> bool" where
  "scheduled_wall env occ reference inclusive v \<longleftrightarrow>
    (case search_from env occ reference inclusive of (l, incl) \<Rightarrow> wall l < v \<or> (incl \<and> wall l = v)) \<and>
    (case occ_end occ of None \<Rightarrow> True | Some e \<Rightarrow> v \<le> wall (local_naive env occ e)) \<and>
    cr_match env (occ_expression occ) v"

lemma next_after_alt:
  "next_after env occ reference inclusive =
    (case search_from env occ reference inclusive of (l, incl) \<Rightarrow>
      seqE (if incl \<and> cr_match env (occ_expression occ) (wall l) then Inr l
            else case cr_next env (occ_expression occ) (wall l) of
              None \<Rightarrow> Inl BadDate | Some w \<Rightarrow> Inr \<lparr>wall = w, fold_bit = False\<rparr>)
        (\<lambda>candidate. case occ_end occ of
           Some e \<Rightarrow> if wall candidate > wall (local_naive env occ e) then Inr None else Inr (Some candidate)
         | None \<Rightarrow> Inr (Some candidate)))"
  by (cases "occ_start occ"; cases "occ_end occ") (auto simp: next_after_def search_from_def Let_def)

text \<open>Candidate of the search, before the end of the window is looked at.\<close>

lemma next_after_Inr:
  assumes "next_after env occ reference inclusive = Inr res"
  obtains l incl c where "search_from env occ reference inclusive = (l, incl)"
    "(incl \<and> cr_match env (occ_expression occ) (wall l) \<and> c = l) \<or>
     (\<not> (incl \<and> cr_match env (occ_expression occ) (wall l)) \<and>
      cr_next env (occ_expression occ) (wall l) = Some (wall c) \<and> \<not> fold_bit c)"
    "res = (if case occ_end occ of None \<Rightarrow> True | Some e \<Rightarrow> wall c \<le> wall (local_naive env occ e)
            then Some c else None)"
proof -
  obtain l incl where l: "search_from env occ reference inclusive = (l, incl)" by fastforce
  from assms l obtain c where
    c: "(if incl \<and> cr_match env (occ_expression occ) (wall l) then Inr l
        else case cr_next env (occ_expression occ) (wall l) of
          None \<Rightarrow> Inl BadDate | Some w \<Rightarrow> Inr \<lparr>wall = w, fold_bit = False\<rparr>) = Inr c"
    and res: "(case occ_end occ of
           Some e \<Rightarrow> if wall c > wall (local_naive env occ e) then Inr None else Inr (Some c)
         | None \<Rightarrow> Inr (Some c)) = (Inr res :: cron_error + local_time option)"
    unfolding next_after_alt by (simp only: prod.case seqE_Inr_iff) (elim exE conjE, rule that)
  show thesis
  proof (rule that [OF l])
    show "(incl \<and> cr_match env (occ_expression occ) (wall l) \<and> c = l) \<or>
        (\<not> (incl \<and> cr_match env (occ_expression occ) (wall l)) \<and>
         cr_next env (occ_expression occ) (wall l) = Some (wall c) \<and> \<not> fold_bit c)"
      using c by (auto split: if_splits option.splits)
    show "res = (if case occ_end occ of None \<Rightarrow> True | Some e \<Rightarrow> wall c \<le> wall (local_naive env occ e)
        then Some c else None)"
      using res by (auto split: if_splits option.splits)
  qed
qed

text \<open>C7. The computed occurrence is the earliest wall time on the grid that the expression matches,
  that is not before the reference (after it, unless the reference counts) nor before the start, and
  not after the end of the window; no occurrence is returned exactly when there is no such time.\<close>

theorem next_after_is_next:
  assumes "croniter_ok env (occ_expression occ) grid"
    and "next_after env occ reference inclusive = Inr res"
  shows "(case res of
      Some c \<Rightarrow> scheduled_wall env occ reference inclusive (wall c) \<and>
        (\<forall>v. grid dvd v \<and> scheduled_wall env occ reference inclusive v \<longrightarrow> wall c \<le> v)
    | None \<Rightarrow> \<forall>v. grid dvd v \<longrightarrow> \<not> scheduled_wall env occ reference inclusive v)"
proof -
  obtain l incl c where l: "search_from env occ reference inclusive = (l, incl)"
    and c: "(incl \<and> cr_match env (occ_expression occ) (wall l) \<and> c = l) \<or>
      (\<not> (incl \<and> cr_match env (occ_expression occ) (wall l)) \<and>
       cr_next env (occ_expression occ) (wall l) = Some (wall c) \<and> \<not> fold_bit c)"
    and res: "res = (if case occ_end occ of None \<Rightarrow> True | Some e \<Rightarrow> wall c \<le> wall (local_naive env occ e)
            then Some c else None)"
    using next_after_Inr [OF assms(2)] .
  have least: "wall c \<le> v" if "grid dvd v" "wall l < v \<or> (incl \<and> wall l = v)" "cr_match env (occ_expression occ) v" for v
    using c that croniter_okD(3) [OF assms(1)] by auto
  have c_ok: "(wall l < wall c \<or> (incl \<and> wall l = wall c)) \<and> cr_match env (occ_expression occ) (wall c)"
    using c croniter_okD(1,2) [OF assms(1)] by auto
  show ?thesis
  proof (cases "case occ_end occ of None \<Rightarrow> True | Some e \<Rightarrow> wall c \<le> wall (local_naive env occ e)")
    case True
    with res l c_ok least show ?thesis by (auto simp: scheduled_wall_def)
  next
    case False
    then obtain e where e: "occ_end occ = Some e" "wall (local_naive env occ e) < wall c"
      by (auto split: option.splits)
    with res l least show ?thesis by (fastforce simp: scheduled_wall_def)
  qed
qed

section \<open>Dispatching in order\<close>

text \<open>The dispatch loop: at every tick the due time is looked up and, when there is one, consumed.
  The result lists the ticks that fired with the fire time.\<close>

fun cron_ticks :: "cron_env \<Rightarrow> instant list \<Rightarrow> cron_state \<Rightarrow> (instant \<times> instant) list" where
  "cron_ticks env [] s = []"
| "cron_ticks env (now # nows) s =
    (case peek_due env now s of
       (s', Inr (Some due)) \<Rightarrow> (case consume_due env s' of
           (s'', Inr fired) \<Rightarrow> (now, fired) # cron_ticks env nows s''
         | (s'', Inl e) \<Rightarrow> cron_ticks env nows s'')
     | (s', _) \<Rightarrow> cron_ticks env nows s')"

definition plain :: "cron_env \<Rightarrow> cron_config \<Rightarrow> datetime \<Rightarrow> bool" where
  "plain env c d \<longleftrightarrow> \<not> fold_bit (local_naive env (to_occurrence c) d)"

text \<open>A fire time comes from a matching wall time within the window.\<close>

definition fires_at :: "cron_env \<Rightarrow> cron_config \<Rightarrow> instant \<Rightarrow> bool" where
  "fires_at env c f \<longleftrightarrow> (\<exists>w. f = from_local env (cron_timezone c) \<lparr>wall = w, fold_bit = False\<rparr> \<and>
     cr_match env (cron_expression c) w \<and>
     (\<forall>e. end_at c = Some e \<longrightarrow> w \<le> wall (local_naive env (to_occurrence c) e)))"

definition schedule_inv :: "cron_env \<Rightarrow> cron_config \<Rightarrow> instant option \<Rightarrow> cron_state \<Rightarrow> bool" where
  "schedule_inv env c past s \<longleftrightarrow>
     cs_config s = c \<and> occurrence s = to_occurrence c \<and>
     (case next_fire_at s of
        Some f \<Rightarrow> plain env c (Aware f 0) \<and> fires_at env c f \<and> (\<forall>d. past = Some d \<longrightarrow> d < f)
      | None \<Rightarrow> (case last_dispatched_at s of
            Some d \<Rightarrow> plain env c d \<and> (\<forall>d'. past = Some d' \<longrightarrow> d' = datetime_instant env d)
          | None \<Rightarrow> past = None))"

lemma local_time_plain: "\<not> fold_bit c \<Longrightarrow> c = \<lparr>wall = wall c, fold_bit = False\<rparr>"
  by (cases c) simp

lemma next_after_plain:
  assumes env: "croniter_ok env (cron_expression c) grid" "zone_ok env (cron_timezone c)"
    and nx: "next_after env (to_occurrence c) r inclusive = Inr (Some t)"
    and plain: "plain env c r" "\<forall>d. start_at c = Some d \<longrightarrow> plain env c d"
  shows "plain env c (Aware (from_local env (cron_timezone c) t) z) \<and>
    fires_at env c (from_local env (cron_timezone c) t) \<and>
    (\<not> inclusive \<longrightarrow> datetime_instant env r < from_local env (cron_timezone c) t)"
proof -
  let ?occ = "to_occurrence c"
  obtain l incl t' where l: "search_from env ?occ r inclusive = (l, incl)"
    and cand': "(incl \<and> cr_match env (occ_expression ?occ) (wall l) \<and> t' = l) \<or>
      (\<not> (incl \<and> cr_match env (occ_expression ?occ) (wall l)) \<and>
       cr_next env (occ_expression ?occ) (wall l) = Some (wall t') \<and> \<not> fold_bit t')"
    and res: "Some t = (if case occ_end ?occ of None \<Rightarrow> True | Some e \<Rightarrow> wall t' \<le> wall (local_naive env ?occ e)
       then Some t' else None)"
    by (rule next_after_Inr [OF nx])
  have t': "t' = t" using res by (simp split: if_splits)
  have fin: "case occ_end ?occ of None \<Rightarrow> True | Some e \<Rightarrow> wall t \<le> wall (local_naive env ?occ e)"
    using res unfolding t' by (rule contrapos_pp) simp
  note cand = cand' [unfolded t']
  have l_plain: "\<not> fold_bit l" and l_ge: "wall (local_naive env ?occ r) \<le> wall l"
    and l_gt: "\<not> inclusive \<Longrightarrow> incl \<Longrightarrow> wall (local_naive env ?occ r) < wall l"
    using l plain by (auto simp: search_from_def plain_def to_occurrence_def split: option.splits if_splits)
  have t_plain: "\<not> fold_bit t" using cand l_plain by auto
  have match: "cr_match env (cron_expression c) (wall t)"
    and later: "\<not> inclusive \<Longrightarrow> wall (local_naive env ?occ r) < wall t"
    using cand croniter_okD(1,2) [OF env(1)] l_ge l_gt by (force simp: to_occurrence_def)+
  from t_plain have t: "t = \<lparr>wall = wall t, fold_bit = False\<rparr>" by (rule local_time_plain)
  have "plain env c (Aware (from_local env (cron_timezone c) t) z)"
    using zone_okD(2) [OF env(2), of "wall t"] t by (simp add: plain_def local_naive_def to_occurrence_def)
  moreover have "fires_at env c (from_local env (cron_timezone c) t)"
    using t match fin unfolding fires_at_def
    by (intro exI [of _ "wall t"]) (auto simp: to_occurrence_def split: option.splits)
  moreover have "\<not> inclusive \<longrightarrow> datetime_instant env r < from_local env (cron_timezone c) t"
  proof
    assume "\<not> inclusive"
    from later [OF this] plain(1) zone_okD(3) [OF env(2), of "datetime_instant env r" "wall t"] t
    show "datetime_instant env r < from_local env (cron_timezone c) t"
      by (simp add: plain_def local_naive_def to_occurrence_def)
  qed
  ultimately show ?thesis by blast
qed

lemma schedule_inv_next:
  assumes "schedule_inv env c past s" "next_fire_at s = Some f"
  shows "cs_config s = c" "occurrence s = to_occurrence c" "plain env c (Aware f 0)" "fires_at env c f"
    "past = Some d \<Longrightarrow> d < f"
  using assms by (auto simp: schedule_inv_def)

lemma ensure_next_inv:
  assumes env: "croniter_ok env (cron_expression c) grid" "zone_ok env (cron_timezone c)"
    and inv: "schedule_inv env c past s"
    and now: "plain env c (Aware now 0)" and start: "\<forall>d. start_at c = Some d \<longrightarrow> plain env c d"
  shows "schedule_inv env c past (fst (ensure_next env now s))"
proof (cases "next_fire_at s")
  case (Some f)
  with inv show ?thesis by (simp add: ensure_next_def)
next
  case None
  have s: "cs_config s = c" "occurrence s = to_occurrence c"
    using inv by (auto simp: schedule_inv_def)
  define r incl where "r = (case last_dispatched_at s of Some d \<Rightarrow> d
      | None \<Rightarrow> (case start_at c of Some d \<Rightarrow> d | None \<Rightarrow> Aware now 0))"
    and "incl = (last_dispatched_at s = None)"
  have eq: "ensure_next env now s = (case next_after env (to_occurrence c) r incl of
      Inl e \<Rightarrow> (s, Inl e)
    | Inr next_time \<Rightarrow> (s\<lparr>next_fire_at := in_utc env (to_occurrence c) next_time\<rparr>, Inr ()))"
    using None s by (simp add: ensure_next_def r_def incl_def split: option.splits sum.splits)
  have r: "plain env c r"
    using inv None now start by (auto simp: schedule_inv_def r_def split: option.splits)
  have past: "past = Some d \<Longrightarrow> \<not> incl \<and> d = datetime_instant env r" for d
    using inv None by (auto simp: schedule_inv_def r_def incl_def split: option.splits)
  show ?thesis
  proof (cases "next_after env (to_occurrence c) r incl")
    case (Inl e)
    with eq inv show ?thesis by simp
  next
    case (Inr res)
    show ?thesis
    proof (cases res)
      case None
      with eq inv Inr \<open>next_fire_at s = None\<close> show ?thesis by (simp add: schedule_inv_def in_utc_def)
    next
      case (Some t)
      from next_after_plain [OF env Inr [unfolded Some] r start] past s eq Inr Some show ?thesis
        by (auto simp: schedule_inv_def in_utc_def to_occurrence_def)
    qed
  qed
qed

lemma peek_due_inv:
  assumes "croniter_ok env (cron_expression c) grid" "zone_ok env (cron_timezone c)"
    and "schedule_inv env c past s"
    and "plain env c (Aware now 0)" "\<forall>d. start_at c = Some d \<longrightarrow> plain env c d"
  shows "schedule_inv env c past (fst (peek_due env now s))"
  using ensure_next_inv [OF assms]
  by (cases "ensure_next env now s"; cases "snd (ensure_next env now s)") (auto simp: peek_due_def)

lemma peek_due_Some:
  "peek_due env now s = (s', Inr (Some t)) \<Longrightarrow> next_fire_at s' = Some t \<and> t \<le> now"
  by (auto simp: peek_due_def and_then_Inr_iff split: option.splits if_splits)

lemma consume_due_inv:
  assumes env: "croniter_ok env (cron_expression c) grid" "zone_ok env (cron_timezone c)"
    and inv: "schedule_inv env c past s" and f: "next_fire_at s = Some f"
    and start: "\<forall>d. start_at c = Some d \<longrightarrow> plain env c d"
    and res: "consume_due env s = (s', res)"
  shows "case res of Inr f' \<Rightarrow> f' = f \<and> schedule_inv env c (Some f) s' | Inl _ \<Rightarrow> schedule_inv env c past s'"
proof -
  note s = schedule_inv_next [OF inv f]
  show ?thesis
  proof (cases "next_after env (to_occurrence c) (Aware f 0) False")
    case (Inl e)
    with res f s(1-4) inv show ?thesis by (auto simp: consume_due_def Let_def schedule_inv_def)
  next
    case (Inr r)
    show ?thesis
    proof (cases r)
      case None
      with res f s(1-3) Inr show ?thesis by (auto simp: consume_due_def Let_def schedule_inv_def in_utc_def)
    next
      case (Some t)
      from next_after_plain [OF env Inr [unfolded Some] s(3) start] res f s(1,2) Inr Some show ?thesis
        by (auto simp: consume_due_def Let_def schedule_inv_def in_utc_def to_occurrence_def)
    qed
  qed
qed

lemma cron_ticks_inv:
  assumes env: "croniter_ok env (cron_expression c) grid" "zone_ok env (cron_timezone c)"
    and start: "\<forall>d. start_at c = Some d \<longrightarrow> plain env c d"
    and "schedule_inv env c past s" "\<forall>now \<in> set nows. plain env c (Aware now 0)"
  shows "sorted_wrt (<) (map snd (cron_ticks env nows s)) \<and>
    (\<forall>(now, f) \<in> set (cron_ticks env nows s). f \<le> now \<and> fires_at env c f \<and> (\<forall>d. past = Some d \<longrightarrow> d < f))"
  using assms(4-)
proof (induction nows arbitrary: s past)
  case Nil
  then show ?case by simp
next
  case (Cons now nows)
  obtain s1 r1 where p: "peek_due env now s = (s1, r1)" by fastforce
  have inv1: "schedule_inv env c past s1"
    using peek_due_inv [OF env Cons.prems(1) _ start, of now] Cons.prems(2) p by simp
  show ?case
  proof (cases "\<exists>due. r1 = Inr (Some due)")
    case False
    then have "cron_ticks env (now # nows) s = cron_ticks env nows s1"
      using p by (auto split: sum.splits option.splits)
    with Cons.IH [OF inv1] Cons.prems(2) show ?thesis by simp
  next
    case True
    then obtain f where f: "r1 = Inr (Some f)" by blast
    have nf: "next_fire_at s1 = Some f" "f \<le> now" using peek_due_Some p f by blast+
    obtain s2 r2 where q: "consume_due env s1 = (s2, r2)" by fastforce
    note inv2 = consume_due_inv [OF env inv1 nf(1) start q]
    show ?thesis
    proof (cases r2)
      case (Inl e)
      with inv2 Cons.IH [of past s2] Cons.prems(2) p f q show ?thesis by simp
    next
      case (Inr f')
      with inv2 have f': "f' = f" "schedule_inv env c (Some f) s2" by auto
      note ih = Cons.IH [OF f'(2)]
      have eq: "cron_ticks env (now # nows) s = (now, f) # cron_ticks env nows s2"
        using p f q Inr f' by simp
      show ?thesis
        unfolding eq using ih Cons.prems(2) nf(2) schedule_inv_next(4,5) [OF inv1 nf(1)]
        by (fastforce intro: less_trans)
    qed
  qed
qed

text \<open>The dispatch loop never fires early, never fires twice for one occurrence and never goes
  back: fire times increase strictly, each lies at or before its tick, comes from a wall time that
  matches the expression within the window, and lies after the dispatch recorded before a restart. The
  references must lie outside repeated hours.\<close>

theorem cron_dispatch_in_order:
  assumes "croniter_ok env (cron_expression c) grid" "zone_ok env (cron_timezone c)"
    and "\<forall>d. start_at c = Some d \<or> dispatched = Some d \<longrightarrow> plain env c d"
    and "\<forall>now \<in> set nows. plain env c (Aware now 0)"
  shows "sorted_wrt (<) (map snd (cron_ticks env nows (new_cron_state (Some c) dispatched))) \<and>
    (\<forall>(now, f) \<in> set (cron_ticks env nows (new_cron_state (Some c) dispatched)).
      f \<le> now \<and> fires_at env c f \<and> (\<forall>d. dispatched = Some d \<longrightarrow> datetime_instant env d < f))"
proof -
  let ?s = "new_cron_state (Some c) dispatched"
  have "schedule_inv env c (map_option (datetime_instant env) dispatched) ?s"
    using assms(3) by (auto simp: schedule_inv_def new_cron_state_def split: option.splits)
  from cron_ticks_inv [OF assms(1,2) _ this assms(4)] assms(3) show ?thesis by auto
qed

section \<open>A zone with one change of offset, and a periodic expression\<close>

text \<open>Summer time (UTC+2) ends at \<open>sample_change\<close>, when the clock is set back by an hour; the
  expression matches every quarter of an hour.\<close>

definition sample_change :: instant where
  "sample_change = 36000000000"

definition autumn_env :: cron_env where
  "autumn_env = \<lparr>cr_valid = (\<lambda>e. e \<noteq> []), cr_match = (\<lambda>e w. 900000000 dvd w),
     cr_next = (\<lambda>e w. Some ((w div 900000000 + 1) * 900000000)), zone_known = (\<lambda>z. z = ''Europe/Berlin''),
     to_local = (\<lambda>z t. if t < sample_change then \<lparr>wall = t + 7200000000, fold_bit = False\<rparr>
       else \<lparr>wall = t + 3600000000, fold_bit = t + 3600000000 < sample_change + 7200000000\<rparr>),
     from_local = (\<lambda>z l. if wall l < sample_change + 7200000000
         \<and> \<not> (sample_change + 3600000000 \<le> wall l \<and> fold_bit l)
       then wall l - 7200000000 else wall l - 3600000000),
     system_instant = (\<lambda>w. w)\<rparr>"

lemma next_multiple:
  fixes w :: int
  assumes "0 < P"
  shows "w < (w div P + 1) * P" and "P dvd v \<Longrightarrow> w < v \<Longrightarrow> (w div P + 1) * P \<le> v"
proof -
  have w: "w = w div P * P + w mod P" "0 \<le> w mod P" "w mod P < P" using assms by simp_all
  have "(w div P + 1) * P = w div P * P + P" by (simp add: distrib_right)
  with w show "w < (w div P + 1) * P" by linarith
  assume "P dvd v" "w < v"
  then obtain k where k: "v = k * P" by (metis dvd_def mult.commute)
  have "w div P < k"
  proof (rule ccontr)
    assume "\<not> w div P < k"
    then have "k * P \<le> w div P * P" using assms by simp
    with w \<open>w < v\<close> k show False by linarith
  qed
  then show "(w div P + 1) * P \<le> v" unfolding k using assms by (intro mult_right_mono) auto
qed

lemma autumn_croniter_ok: "croniter_ok autumn_env e grid"
  using next_multiple [of 900000000] by (fastforce simp: croniter_ok_def autumn_env_def)

lemma autumn_zone_ok: "zone_ok autumn_env z"
  by (simp add: zone_ok_def autumn_env_def sample_change_def)

definition quarter_hourly :: cron_config where
  "quarter_hourly = \<lparr>cron_expression = ''*/15 * * * *'', cron_timezone = ''Europe/Berlin'',
     allow_overlapping = False, start_at = None, end_at = Some (Aware 35100000000 0)\<rparr>"

theorem next_after_is_next_witness:
  "\<exists>c. next_after autumn_env (to_occurrence quarter_hourly) (Aware 100000000 0) False = Inr (Some c) \<and>
    scheduled_wall autumn_env (to_occurrence quarter_hourly) (Aware 100000000 0) False (wall c)"
proof -
  have "next_after autumn_env (to_occurrence quarter_hourly) (Aware 100000000 0) False =
      Inr (Some \<lparr>wall = 8100000000, fold_bit = False\<rparr>)"
    by code_simp
  with next_after_is_next [OF autumn_croniter_ok this] show ?thesis by simp
qed

theorem cron_dispatch_in_order_witness:
  "map snd (cron_ticks autumn_env [900000000, 950000000, 2000000000, 2000000000]
      (new_cron_state (Some quarter_hourly) (Some (Aware 0 0)))) = [900000000, 1800000000] \<and>
   sorted_wrt (<) (map snd (cron_ticks autumn_env [900000000, 950000000, 2000000000, 2000000000]
      (new_cron_state (Some quarter_hourly) (Some (Aware 0 0)))))"
proof
  show "map snd (cron_ticks autumn_env [900000000, 950000000, 2000000000, 2000000000]
      (new_cron_state (Some quarter_hourly) (Some (Aware 0 0)))) = [900000000, 1800000000]"
    by code_simp
  have "\<forall>d. start_at quarter_hourly = Some d \<or> Some (Aware 0 0) = Some d \<longrightarrow> plain autumn_env quarter_hourly d"
    "\<forall>now \<in> set [900000000, 950000000, 2000000000, 2000000000]. plain autumn_env quarter_hourly (Aware now 0)"
    by (simp_all add: quarter_hourly_def plain_def local_naive_def autumn_env_def sample_change_def)
  from cron_dispatch_in_order [OF autumn_croniter_ok autumn_zone_ok this]
  show "sorted_wrt (<) (map snd (cron_ticks autumn_env [900000000, 950000000, 2000000000, 2000000000]
      (new_cron_state (Some quarter_hourly) (Some (Aware 0 0)))))"
    by blast
qed

text \<open>Inside the repeated hour the order is lost: a schedule first evaluated there fires at the
  reference, then takes the next reading without its fold bit and fires for a time three quarters of
  an hour before the first.\<close>

theorem cron_fires_backwards_in_fold:
  "cron_ticks autumn_env [sample_change, sample_change]
      (new_cron_state (Some (quarter_hourly\<lparr>end_at := None\<rparr>)) None) =
    [(sample_change, sample_change), (sample_change, sample_change - 2700000000)]"
  by code_simp

section \<open>The frequency check\<close>

text \<open>Every day at 00:00 and at 00:01.\<close>

definition twice_env :: cron_env where
  "twice_env = autumn_env\<lparr>cr_match := (\<lambda>e w. w mod 86400000000 \<in> {0, 60000000}),
     cr_next := (\<lambda>e w. Some (if w mod 86400000000 < 60000000 then w div 86400000000 * 86400000000 + 60000000
       else (w div 86400000000 + 1) * 86400000000))\<rparr>"

lemma next_of_two:
  fixes w :: int
  assumes "0 < m" "m < D"
  defines "nxt \<equiv> (if w mod D < m then w div D * D + m else (w div D + 1) * D)"
  shows "w < nxt" "nxt mod D = 0 \<or> nxt mod D = m" "v mod D = 0 \<or> v mod D = m \<Longrightarrow> w < v \<Longrightarrow> nxt \<le> v"
proof -
  have w: "w = w div D * D + w mod D" "0 \<le> w mod D" "w mod D < D" using assms by simp_all
  have D: "(w div D + 1) * D = w div D * D + D" by (simp add: distrib_right)
  show "w < nxt" unfolding nxt_def D by (cases "w mod D < m") (simp_all only: if_True if_False, (use w in linarith)+)
  show "nxt mod D = 0 \<or> nxt mod D = m" unfolding nxt_def using assms by auto
  assume v: "v mod D = 0 \<or> v mod D = m" "w < v"
  have v_eq: "v = v div D * D + v mod D" by simp
  have le: "w div D \<le> v div D" using \<open>w < v\<close> assms by (intro zdiv_mono1) auto
  show "nxt \<le> v"
  proof (cases "w div D = v div D")
    case True
    then have "w div D * D = v div D * D" by simp
    then have "w mod D < v mod D" using w(1) v_eq \<open>w < v\<close> by linarith
    with v w True v_eq show ?thesis by (auto simp: nxt_def)
  next
    case False
    then have "(w div D + 1) * D \<le> v div D * D" using le assms by (intro mult_right_mono) auto
    moreover have "0 \<le> v mod D" using assms by simp
    ultimately have "w div D * D + D \<le> v" using D v_eq by linarith
    with assms(1,2) D show ?thesis by (auto simp: nxt_def)
  qed
qed

lemma twice_croniter_ok: "croniter_ok twice_env e 60000000"
proof -
  define nxt where "nxt w = (if w mod 86400000000 < 60000000 then w div 86400000000 * 86400000000 + 60000000
      else (w div 86400000000 + 1) * 86400000000)" for w :: int
  have n: "w < nxt w" "nxt w mod 86400000000 = 0 \<or> nxt w mod 86400000000 = 60000000"
    "v mod 86400000000 = 0 \<or> v mod 86400000000 = 60000000 \<Longrightarrow> w < v \<Longrightarrow> nxt w \<le> v" for w v
    unfolding nxt_def by (rule next_of_two; simp)+
  have env: "cr_next twice_env e w = Some (nxt w)"
    "cr_match twice_env e w \<longleftrightarrow> w mod 86400000000 = 0 \<or> w mod 86400000000 = 60000000" for w
    by (simp_all add: twice_env_def nxt_def)
  show ?thesis unfolding croniter_ok_def env using n by (metis leD option.inject)
qed

definition twice_daily :: cron_config where
  "twice_daily = default_cron_config\<lparr>cron_expression := ''0,1 0 * * *'', cron_timezone := ''Europe/Berlin''\<rparr>"

text \<open>Whether a configuration without overlapping is accepted depends on the time of day at which
  it is validated: only the first interval from the current time is looked at. An expression with two
  occurrences a minute apart is rejected in the evening and accepted between the two.\<close>

theorem overlap_check_depends_on_clock:
  "croniter_ok twice_env (cron_expression twice_daily) 60000000 \<and>
   make_cron_config twice_env 82800000000 twice_daily = Inl [FiresTooOften ''0,1 0 * * *'' 60] \<and>
   make_cron_config twice_env 30000000 twice_daily = Inr twice_daily"
proof (intro conjI)
  show "croniter_ok twice_env (cron_expression twice_daily) 60000000" by (rule twice_croniter_ok)
  show "make_cron_config twice_env 82800000000 twice_daily = Inl [FiresTooOften ''0,1 0 * * *'' 60]"
    by code_simp
  show "make_cron_config twice_env 30000000 twice_daily = Inr twice_daily"
    by (simp add: make_cron_config_def twice_daily_def default_cron_config_def validate_expression_def
        validate_timezone_def validate_window_def validate_overlap_frequency_def twice_env_def autumn_env_def
        seconds_def high_frequency_threshold_seconds_def)
qed

end
