(* ===== verification/Trigger_Layer_Laws.thy ===== *)
theory Trigger_Layer_Laws
  imports Trigger_Layer Webhook_Laws Cron_Laws
begin

text \<open>
  Laws of the trigger layer. Its operations are the steps of the relation \<open>layer_step\<close>; the
  invariant \<open>run_inv\<close> ties the runs that block a schedule to the index through which they are
  released, and holds in every reachable state. Further: dispatch is guarded by credential health,
  collection is exact and repeatable, clean-up bounds what it cleans, removal purges a workflow.
\<close>

section \<open>Operations as steps\<close>

text \<open>\<open>own r\<close> is the workflow a run belongs to. A run is registered when it is not active yet.\<close>

inductive layer_step :: "cron_env \<Rightarrow> (uuid \<Rightarrow> uuid) \<Rightarrow> layer_state \<Rightarrow> layer_state \<Rightarrow> bool"
  for env :: cron_env and own :: "uuid \<Rightarrow> uuid" where
  configure_webhook: "layer_step env own s (fst (configure_webhook w wc s))"
| read_webhook: "layer_step env own s (fst (get_webhook_config w s))"
| webhook: "layer_step env own s (fst (prepare_webhook_dispatch wenv rd w r s))"
| configure_cron: "layer_step env own s (configure_cron w c d s)"
| remove_cron: "layer_step env own s (fst (remove_cron_config w s))"
| collect: "layer_step env own s (fst (collect_due_cron_dispatches env now s))"
| commit: "layer_step env own s (fst (commit_cron_dispatch env w s))"
| register: "(\<And>w st. dict_get (cron_states s) w = Some st \<Longrightarrow> run \<notin> active_runs st) \<Longrightarrow>
    layer_step env own s (fst (register_cron_run run s))"
| release: "layer_step env own s (release_cron_run run s)"
| sync: "(\<And>run. run \<in> set ids \<Longrightarrow> own run = w) \<Longrightarrow> layer_step env own s (sync_cron_active_runs w ids s)"
| set_guard: "layer_step env own s (set_health_guard g s)"
| configure_retry: "layer_step env own s (fst (configure_retry_policy w rc s))"
| read_retry: "layer_step env own s (fst (get_retry_policy_config w s))"
| track: "own run = w \<Longrightarrow> layer_step env own s (track_run t w run s)"
| retry: "layer_step env own s (fst (next_retry_for_run t u run failed_at s))"
| clear_retry: "layer_step env own s (clear_retry_state t run s)"
| remove: "layer_step env own s (remove_workflow t w s)"
| reset: "layer_step env own s (layer_reset t s)"

definition layer_reachable :: "cron_env \<Rightarrow> (uuid \<Rightarrow> uuid) \<Rightarrow> layer_state \<Rightarrow> bool" where
  "layer_reachable env own s \<longleftrightarrow> (\<exists>now c g. (layer_step env own)\<^sup>*\<^sup>* (new_layer now c g) s)"

definition run_inv :: "(uuid \<Rightarrow> uuid) \<Rightarrow> layer_state \<Rightarrow> bool" where
  "run_inv own s \<longleftrightarrow> dict_ok (cron_run_index s) \<and> dict_ok (run_workflows s) \<and>
    (\<forall>r w. dict_get (run_workflows s) r = Some w \<longrightarrow> own r = w) \<and>
    (\<forall>r w. dict_get (cron_run_index s) r = Some w \<longrightarrow> own r = w) \<and>
    (\<forall>w st r. dict_get (cron_states s) w = Some st \<and> r \<in> active_runs st \<longrightarrow>
      dict_get (cron_run_index s) r = Some w)"

lemma run_invI:
  assumes "dict_ok (cron_run_index s)" "dict_ok (run_workflows s)"
    and "\<And>r w. dict_get (run_workflows s) r = Some w \<Longrightarrow> own r = w"
    and "\<And>r w. dict_get (cron_run_index s) r = Some w \<Longrightarrow> own r = w"
    and "\<And>w st r. dict_get (cron_states s) w = Some st \<Longrightarrow> r \<in> active_runs st \<Longrightarrow>
      dict_get (cron_run_index s) r = Some w"
  shows "run_inv own s"
  using assms by (auto simp: run_inv_def)

lemma run_invD:
  assumes "run_inv own s"
  shows "dict_ok (cron_run_index s)" "dict_ok (run_workflows s)"
    "dict_get (run_workflows s) r = Some w \<Longrightarrow> own r = w"
    "dict_get (cron_run_index s) r = Some w \<Longrightarrow> own r = w"
    "dict_get (cron_states s) w = Some st \<Longrightarrow> r \<in> active_runs st \<Longrightarrow> dict_get (cron_run_index s) r = Some w"
  using assms by (auto simp: run_inv_def)

text \<open>What the invariant looks at.\<close>

lemma run_inv_frame:
  assumes "run_inv own s" "cron_run_index t = cron_run_index s" "run_workflows t = run_workflows s"
    and "\<And>w st. dict_get (cron_states t) w = Some st \<Longrightarrow>
      active_runs st = {} \<or> (\<exists>st'. dict_get (cron_states s) w = Some st' \<and> active_runs st \<subseteq> active_runs st')"
  shows "run_inv own t"
proof -
  note inv = run_invD [OF assms(1)]
  show ?thesis
  proof (rule run_invI)
    fix w st r
    assume "dict_get (cron_states t) w = Some st" "r \<in> active_runs st"
    with assms(4) [of w st] obtain st' where "dict_get (cron_states s) w = Some st'" "r \<in> active_runs st'"
      by auto
    then show "dict_get (cron_run_index t) r = Some w" using inv(5) assms(2) by simp
  qed (use inv(1-4) assms(2,3) in simp_all)
qed

lemma drop_index_get:
  "dict_ok d \<Longrightarrow> dict_get (drop_workflow_index w d) r =
    (case dict_get d r of None \<Rightarrow> None | Some w' \<Rightarrow> if w' \<noteq> w then Some w' else None)"
  unfolding drop_workflow_index_def by (rule dict_get_filter_value)

lemma dict_ok_drop_index [simp]: "dict_ok d \<Longrightarrow> dict_ok (drop_workflow_index w d)"
  unfolding drop_workflow_index_def by (rule dict_ok_filter)

lemma fold_set_get:
  "dict_get (fold (\<lambda>r d. dict_set r w d) ids d) r = (if r \<in> set ids then Some w else dict_get d r)"
  by (induction ids arbitrary: d) auto

lemma fold_set_ok [simp]: "dict_ok d \<Longrightarrow> dict_ok (fold (\<lambda>r d. dict_set r w d) ids d)"
  by (induction ids arbitrary: d) auto

section \<open>Cron states under the operations\<close>

lemma ensure_next_active [simp]:
  "active_runs (fst (ensure_next env now st)) = active_runs st"
  by (auto simp: ensure_next_def split: option.splits sum.splits)

lemma peek_due_active [simp]:
  "active_runs (fst (peek_due env now st)) = active_runs st"
  by (cases "ensure_next env now st"; cases "snd (ensure_next env now st)")
     (use ensure_next_active [of env now st] in \<open>auto simp: peek_due_def\<close>)

lemma consume_due_active [simp]: "active_runs (fst (consume_due env st)) = active_runs st"
  by (auto simp: consume_due_def Let_def split: option.splits sum.splits)

lemma collect_one_active [simp]: "active_runs (fst (collect_one env g now w st)) = active_runs st"
proof -
  obtain st' res where p: "peek_due env now st = (st', res)" by fastforce
  then have "active_runs st' = active_runs st" using peek_due_active [of env now st] by simp
  with p show ?thesis by (simp add: collect_one_def split: sum.split option.split)
qed

lemma collect_loop_get:
  "dict_get (fst (collect_loop env g now d)) w =
    map_option (\<lambda>st. fst (collect_one env g now w st)) (dict_get d w)"
  by (induction d) (auto simp: split_beta)

lemma cleanup_frame [simp]:
  "cron_run_index (cleanup_completed_workflows t s) = cron_run_index s"
  "run_workflows (cleanup_completed_workflows t s) = run_workflows s"
  "cron_states (cleanup_completed_workflows t s) = cron_states s"
  "retry_states (cleanup_completed_workflows t s) = retry_states s"
  "cleanup_cfg (cleanup_completed_workflows t s) = cleanup_cfg s"
  by (simp_all add: cleanup_completed_workflows_def Let_def)

lemma maybe_cleanup_frame [simp]:
  "cron_run_index (maybe_cleanup_states t s) = cron_run_index s"
  "run_workflows (maybe_cleanup_states t s) = run_workflows s"
  "cron_states (maybe_cleanup_states t s) = cron_states s"
  "retry_states (maybe_cleanup_states t s) = retry_states s"
  "cleanup_cfg (maybe_cleanup_states t s) = cleanup_cfg s"
  by (simp_all add: maybe_cleanup_states_def)

lemma webhook_frame [simp]:
  "cron_run_index (fst (prepare_webhook_dispatch wenv rd w r s)) = cron_run_index s"
  "run_workflows (fst (prepare_webhook_dispatch wenv rd w r s)) = run_workflows s"
  "cron_states (fst (prepare_webhook_dispatch wenv rd w r s)) = cron_states s"
  by (cases "layer_ensure_healthy w s";
      simp add: prepare_webhook_dispatch_def Let_def split: prod.split sum.split)+

section \<open>The invariant is kept\<close>

lemma configure_cron_inv: "run_inv own s \<Longrightarrow> run_inv own (configure_cron w c d s)"
  by (rule run_inv_frame [of own s])
     (auto simp: configure_cron_def new_cron_state_def update_cron_config_def Let_def
        split: option.splits if_splits)

lemma remove_cron_inv:
  assumes "run_inv own s"
  shows "run_inv own (fst (remove_cron_config w s))"
proof (cases "dict_get (cron_states s) w")
  case None
  with assms show ?thesis
    by - (rule run_inv_frame [of own s], auto simp: remove_cron_config_def split: if_splits)
next
  case (Some st)
  note inv = run_invD [OF assms]
  show ?thesis
    by (rule run_invI)
       (use Some inv in \<open>auto simp: remove_cron_config_def Let_def drop_index_get split: option.splits if_splits\<close>)
qed

lemma collect_inv:
  "run_inv own s \<Longrightarrow> run_inv own (fst (collect_due_cron_dispatches env now s))"
  by (rule run_inv_frame [of own s])
     (auto simp: collect_due_cron_dispatches_def split_beta Let_def collect_loop_get)

lemma commit_inv: "run_inv own s \<Longrightarrow> run_inv own (fst (commit_cron_dispatch env w s))"
  by (rule run_inv_frame [of own s])
     (auto simp: commit_cron_dispatch_def split_beta split: option.splits if_splits)

lemma register_inv:
  assumes inv: "run_inv own s"
    and fresh: "\<And>w st. dict_get (cron_states s) w = Some st \<Longrightarrow> r \<notin> active_runs st"
  shows "run_inv own (fst (register_cron_run r s))"
proof (cases "dict_get (run_workflows s) r")
  case None
  with inv show ?thesis by (simp add: register_cron_run_def)
next
  case (Some w)
  note inv = run_invD [OF inv]
  show ?thesis
    by (rule run_invI)
       (use Some inv fresh in \<open>auto simp: register_cron_run_def Let_def register_run_def
          split: option.splits if_splits\<close>)
qed

lemma release_inv:
  assumes "run_inv own s"
  shows "run_inv own (release_cron_run r s)"
proof (cases "dict_get (cron_run_index s) r")
  case None
  with assms show ?thesis by (simp add: release_cron_run_def)
next
  case (Some w)
  note inv = run_invD [OF assms]
  show ?thesis
    by (rule run_invI)
       (use Some inv in \<open>auto simp: release_cron_run_def Let_def release_run_def split: option.splits if_splits\<close>)
qed

lemma sync_inv:
  assumes "run_inv own s" "\<And>r. r \<in> set ids \<Longrightarrow> own r = w"
  shows "run_inv own (sync_cron_active_runs w ids s)"
proof (cases "dict_get (cron_states s) w")
  case None
  with assms(1) show ?thesis by (simp add: sync_cron_active_runs_def)
next
  case (Some st)
  note inv = run_invD [OF assms(1)]
  have other: "w' = w" if "dict_get (cron_states s) w' = Some st'" "r \<in> active_runs st'" "r \<in> set ids" for w' st' r
    using inv(4,5) that assms(2) by metis
  show ?thesis
    by (rule run_invI)
       (use Some inv assms(2) other in \<open>auto simp: sync_cron_active_runs_def sync_active_runs_def fold_set_get
          drop_index_get split: option.splits if_splits\<close>)
qed

lemma track_inv: "run_inv own s \<Longrightarrow> own r = w \<Longrightarrow> run_inv own (track_run t w r s)"
  by (auto simp: run_inv_def track_run_def)

lemma retry_inv: "run_inv own s \<Longrightarrow> run_inv own (fst (next_retry_for_run t u r f s))"
  by (auto simp: run_inv_def next_retry_for_run_def split: option.splits prod.splits sum.splits if_splits)

lemma clear_retry_inv: "run_inv own s \<Longrightarrow> run_inv own (clear_retry_state t r s)"
  by (auto simp: run_inv_def clear_retry_state_def Let_def split: option.splits if_splits)

lemma workflow_runs_iff:
  "dict_ok d \<Longrightarrow> r \<in> set (map fst (filter (\<lambda>(r, w'). w' = w) d)) \<longleftrightarrow> dict_get d r = Some w"
  by (auto simp: dict_get_iff image_iff)

lemma remove_workflow_inv:
  assumes "run_inv own s"
  shows "run_inv own (remove_workflow t w s)"
proof -
  note inv = run_invD [OF assms]
  let ?runs = "map fst (filter (\<lambda>(r, w'). w' = w) (run_workflows s))"
  have runs: "r \<in> set ?runs \<longleftrightarrow> dict_get (run_workflows s) r = Some w" for r
    using workflow_runs_iff [OF inv(2)] .
  have other: "r \<notin> set ?runs"
    if "w' \<noteq> w" "dict_get (cron_states s) w' = Some st" "r \<in> active_runs st" for w' st r
    using that inv(3-5) runs by metis
  show ?thesis
    by (rule run_invI)
       (use inv other in \<open>auto simp: remove_workflow_def Let_def simp del: set_map split: if_splits\<close>)
qed

lemma layer_step_inv: "layer_step env own s t \<Longrightarrow> run_inv own s \<Longrightarrow> run_inv own t"
proof (induction rule: layer_step.induct)
  case (configure_retry s w rc)
  then show ?case
    by (auto simp: run_inv_def configure_retry_policy_def get_retry_policy_config_def split_beta)
next
  case (read_retry s w)
  then show ?case by (auto simp: run_inv_def get_retry_policy_config_def split_beta)
next
  case (configure_webhook s w wc)
  then show ?case by (auto simp: run_inv_def configure_webhook_def split_beta Let_def)
next
  case (read_webhook s w)
  then show ?case by (auto simp: run_inv_def get_webhook_config_def split_beta)
next
  case (webhook s wenv rd w r)
  then show ?case by (simp add: run_inv_def)
next
  case (set_guard s g)
  then show ?case by (simp add: run_inv_def set_health_guard_def)
next
  case (reset s t)
  then show ?case by (simp add: run_inv_def layer_reset_def)
qed (auto intro: configure_cron_inv remove_cron_inv collect_inv commit_inv register_inv release_inv sync_inv
    track_inv retry_inv clear_retry_inv remove_workflow_inv)

lemma reachable_inv: "layer_reachable env own s \<Longrightarrow> run_inv own s"
proof -
  assume "layer_reachable env own s"
  then obtain now c g where "(layer_step env own)\<^sup>*\<^sup>* (new_layer now c g) s"
    by (auto simp: layer_reachable_def)
  then show ?thesis
  proof (induction rule: rtranclp_induct)
    case base
    then show ?case by (simp add: run_inv_def new_layer_def)
  next
    case (step t u)
    then show ?case using layer_step_inv by blast
  qed
qed

section \<open>Overlap protection\<close>


definition hourly_layer :: layer_state where
  "hourly_layer = fst (register_cron_run 7 (track_run 0 1 7 (configure_cron 1 quarter_hourly None (new_layer 0 None None))))"

lemma hourly_reachable: "layer_reachable autumn_env (\<lambda>r. 1) hourly_layer"
proof -
  let ?s0 = "new_layer 0 None None"
  let ?s1 = "configure_cron 1 quarter_hourly None ?s0"
  let ?s2 = "track_run 0 1 7 ?s1"
  have "layer_step autumn_env (\<lambda>r. 1) ?s0 ?s1" by (rule layer_step.configure_cron)
  moreover have "layer_step autumn_env (\<lambda>r. 1) ?s1 ?s2" by (rule layer_step.track) simp
  moreover have "layer_step autumn_env (\<lambda>r. 1) ?s2 hourly_layer"
    unfolding hourly_layer_def
    by (rule layer_step.register)
       (auto simp: track_run_def configure_cron_def new_layer_def new_cron_state_def Let_def split: if_splits)
  ultimately have "(layer_step autumn_env (\<lambda>r. 1))\<^sup>*\<^sup>* ?s0 hourly_layer"
    by (rule converse_rtranclp_into_rtranclp [OF _ converse_rtranclp_into_rtranclp [OF _ r_into_rtranclp]])
  then show ?thesis unfolding layer_reachable_def by blast
qed

lemma hourly_layer_eq:
  "hourly_layer = (new_layer 0 None None)\<lparr>
     cron_states := [(1, (new_cron_state (Some quarter_hourly) None)\<lparr>active_runs := {7}\<rparr>)],
     cron_run_index := [(7, 1)], run_workflows := [(7, 1)],
     retry_states := [(7, new_retry_state (Some default_retry_config))]\<rparr>"
  by (simp add: hourly_layer_def register_cron_run_def track_run_def configure_cron_def new_layer_def
      maybe_cleanup_states_def default_cleanup_config_def seconds_def new_cron_state_def Let_def register_run_def
      can_dispatch_def)


text \<open>Registering a run under overlap protection: with no active run the registration succeeds
  and makes it the only one, so the schedule is blocked; with an active run it is refused with
  \<open>CronOverlapError\<close> and no workflow's active runs change.\<close>

theorem overlap_registration:
  assumes "dict_get (run_workflows s) run = Some w" "dict_get (cron_states s) w = Some st"
    and "\<not> allow_overlapping (cs_config st)"
  shows "(active_runs st = {} \<longrightarrow> (\<exists>s' st'. register_cron_run run s = (s', Inr ()) \<and>
      dict_get (cron_states s') w = Some st' \<and> active_runs st' = {run} \<and> \<not> can_dispatch st' \<and>
      dict_get (cron_run_index s') run = Some w)) \<and>
    (active_runs st \<noteq> {} \<longrightarrow> (\<exists>s'. register_cron_run run s = (s', Inl (CronError CronOverlap)) \<and>
      cron_states s' = cron_states s))"
proof (cases "active_runs st = {}")
  case True
  let ?st = "st\<lparr>active_runs := {run}\<rparr>"
  have "register_cron_run run s = (s\<lparr>cron_run_index := dict_set run w (cron_run_index s),
      cron_states := dict_set w ?st (cron_states s)\<rparr>, Inr ())"
    using assms True by (simp add: register_cron_run_def register_run_def can_dispatch_def Let_def)
  moreover have "\<not> can_dispatch ?st" using assms(3) by (simp add: can_dispatch_def)
  ultimately show ?thesis using True by simp
next
  case False
  with assms have "\<not> can_dispatch st" by (simp add: can_dispatch_def)
  with assms False show ?thesis by (simp add: register_cron_run_def register_run_def Let_def)
qed

theorem overlap_registration_witness:
  "\<exists>s'. register_cron_run 8 (track_run 0 1 8 hourly_layer) = (s', Inl (CronError CronOverlap))"
proof -
  let ?s = "track_run 0 1 8 hourly_layer" and ?st = "(new_cron_state (Some quarter_hourly) None)\<lparr>active_runs := {7}\<rparr>"
  have "dict_get (run_workflows ?s) 8 = Some 1" "dict_get (cron_states ?s) 1 = Some ?st"
    by (simp_all add: track_run_def hourly_layer_eq)
  moreover have "\<not> allow_overlapping (cs_config ?st)"
    by (simp add: new_cron_state_def quarter_hourly_def Let_def)
  moreover have "active_runs ?st \<noteq> {}" by simp
  ultimately show ?thesis using overlap_registration by blast
qed

text \<open>Registering a run that is already active is refused, but it also drops the run from the
  index: its release then has no effect and the schedule stays blocked.\<close>

theorem double_registration_blocks:
  "snd (register_cron_run 7 hourly_layer) = Inl (CronError CronOverlap) \<and>
   map_option can_dispatch (dict_get (cron_states
     (release_cron_run 7 (fst (register_cron_run 7 hourly_layer)))) 1) = Some False"
  by (simp add: hourly_layer_eq register_cron_run_def release_cron_run_def register_run_def can_dispatch_def
      new_cron_state_def quarter_hourly_def Let_def)

section \<open>Guarded dispatch\<close>

text \<open>C18. A webhook dispatch is prepared exactly when the credentials of the workflow are not known
  to be unhealthy and the request passes the workflow's webhook checks (a workflow without webhook
  configuration has the default one); the states of other workflows and of other triggers do not
  change, and unhealthy credentials leave the layer as it was.\<close>

theorem webhook_dispatch_guarded:
  assumes "prepare_webhook_dispatch wenv rd w r s = (s', res)"
  shows "(isl res \<longleftrightarrow>
      (\<exists>g. guard s = Some g \<and> \<not> is_workflow_healthy g w) \<or>
      isl (snd (webhook_validate wenv rd r (case dict_get (webhook_states s) w of
        Some st \<Rightarrow> st | None \<Rightarrow> new_webhook_state None)))) \<and>
    (\<forall>w'. w' \<noteq> w \<longrightarrow> dict_get (webhook_states s') w' = dict_get (webhook_states s) w') \<and>
    s'\<lparr>webhook_states := webhook_states s\<rparr> = s \<and>
    ((\<exists>g. guard s = Some g \<and> \<not> is_workflow_healthy g w) \<longrightarrow>
      s' = s \<and> (\<exists>rep. res = Inl (HealthError rep) \<and> \<not> report_is_healthy rep))"
proof (cases "ensure_healthy is_workflow_healthy get_report (guard s) w")
  case (Inl rep)
  with oauth.ensure_healthy_Inl [OF this] oauth.ensure_healthy_Inr [of "guard s" w "()"] assms
  show ?thesis by (auto simp: prepare_webhook_dispatch_def layer_ensure_healthy_def split: option.splits)
next
  case (Inr u)
  let ?st = "case dict_get (webhook_states s) w of Some st \<Rightarrow> st | None \<Rightarrow> new_webhook_state None"
  have h: "\<not> (\<exists>g. guard s = Some g \<and> \<not> is_workflow_healthy g w)"
    using oauth.ensure_healthy_Inr [of "guard s" w u] Inr by auto
  obtain d where d: "dict_setdefault w (new_webhook_state None) (webhook_states s) = (d, ?st)"
    and d_other: "\<And>w'. w' \<noteq> w \<Longrightarrow> dict_get d w' = dict_get (webhook_states s) w'"
    by (cases "dict_get (webhook_states s) w") (auto simp: dict_setdefault_def)
  obtain st' v where v: "webhook_validate wenv rd r ?st = (st', v)" by fastforce
  show ?thesis
  proof (cases v)
    case (Inl e)
    have "prepare_webhook_dispatch wenv rd w r s = (s\<lparr>webhook_states := dict_set w st' d\<rparr>, Inl (WebhookError e))"
      using Inr d v Inl by (simp add: prepare_webhook_dispatch_def layer_ensure_healthy_def)
    with assms h d_other v Inl show ?thesis by auto
  next
    case (Inr u')
    have "\<exists>td. prepare_webhook_dispatch wenv rd w r s = (s\<lparr>webhook_states := dict_set w st' d\<rparr>, Inr td)"
      using \<open>ensure_healthy is_workflow_healthy get_report (guard s) w = Inr u\<close> d v Inr
      by (simp add: prepare_webhook_dispatch_def layer_ensure_healthy_def)
    with assms h d_other v Inr show ?thesis by auto
  qed
qed

definition sick_service :: oauth_service where
  "sick_service = \<lparr>reports = [(1, \<lparr>rep_workflow = 1, rep_results = [\<lparr>hr_credential = 3, hr_name = ''k'',
     hr_provider = ''p'', hr_status = Unhealthy, hr_checked_at = None, hr_reason = None\<rparr>], rep_checked_at = 0\<rparr>)]\<rparr>"

theorem webhook_dispatch_guarded_witness:
  "fst (prepare_webhook_dispatch sample_env (sample_readings 0) 1 (sample_request ''a'') (new_layer 0 None (Some sick_service)))
    = new_layer 0 None (Some sick_service)"
proof -
  let ?s = "new_layer 0 None (Some sick_service)"
  let ?v = "prepare_webhook_dispatch sample_env (sample_readings 0) 1 (sample_request ''a'') ?s"
  have "\<exists>g. guard ?s = Some g \<and> \<not> is_workflow_healthy g 1"
    by (simp add: new_layer_def sick_service_def is_workflow_healthy_def report_is_healthy_def)
  with webhook_dispatch_guarded [of sample_env "sample_readings 0" 1 "sample_request ''a''" ?s "fst ?v" "snd ?v"]
  show ?thesis by simp
qed

section \<open>Collecting due schedules\<close>

lemma peek_due_stable:
  assumes "peek_due env now st = (st', res)"
  shows "peek_due env now st' = (st', res)"
proof (cases "next_fire_at st")
  case (Some f)
  with assms show ?thesis by (auto simp: peek_due_def ensure_next_def)
next
  case None
  obtain st1 r1 where e: "ensure_next env now st = (st1, r1)" by fastforce
  have "ensure_next env now st1 = (st1, r1)"
    using e None by (auto simp: ensure_next_def in_utc_def split: option.splits sum.splits)
  with e assms show ?thesis by (cases r1) (auto simp: peek_due_def)
qed

lemma collect_one_stable:
  assumes "collect_one env g now w st = (st', p)"
  shows "collect_one env g now w st' = (st', p)"
proof -
  obtain st1 res where k: "peek_due env now st = (st1, res)" by fastforce
  note k' = peek_due_stable [OF k]
  show ?thesis
    using assms k k' by (auto simp: collect_one_def split: if_splits sum.splits option.splits)
qed

lemma collect_loop_stable:
  "collect_loop env g now (fst (collect_loop env g now d)) = collect_loop env g now d"
proof (induction d)
  case Nil
  then show ?case by simp
next
  case (Cons kv d)
  obtain w st where kv: "kv = (w, st)" by (cases kv)
  obtain st' p where one: "collect_one env g now w st = (st', p)" by fastforce
  obtain d' ps where rest: "collect_loop env g now d = (d', ps)" by fastforce
  from Cons.IH rest have "collect_loop env g now d' = (d', ps)" by simp
  with kv one collect_one_stable [OF one] rest show ?case by simp
qed

lemma collect_loop_plans:
  "p \<in> set (snd (collect_loop env g now d)) \<longleftrightarrow>
    (\<exists>(w, st) \<in> set d. snd (collect_one env g now w st) = Some p)"
  by (induction d) (auto simp: split_beta split: option.splits)

lemma collect_one_Some:
  "snd (collect_one env g now w st) = Some p \<longleftrightarrow>
    (\<forall>h. g = Some h \<longrightarrow> is_workflow_healthy h w) \<and> can_dispatch st \<and>
    (\<exists>due. snd (peek_due env now st) = Inr (Some due) \<and>
      p = \<lparr>cp_workflow = w, cp_scheduled_for = due, cp_timezone = cron_timezone (cs_config st)\<rparr>)"
proof -
  obtain st' res where k: "peek_due env now st = (st', res)" by fastforce
  have "cs_config (fst (ensure_next env now st)) = cs_config st"
    by (auto simp: ensure_next_def split: option.splits sum.splits)
  then have "cs_config st' = cs_config st"
    using k by (cases "ensure_next env now st"; cases "snd (ensure_next env now st)") (auto simp: peek_due_def)
  moreover have "active_runs st' = active_runs st" using peek_due_active [of env now st] k by simp
  ultimately show ?thesis
    using k by (cases g; cases res) (auto simp: collect_one_def can_dispatch_def split: option.splits)
qed

lemma collect_loop_mem:
  "(\<exists>p \<in> set (snd (collect_loop env g now d)). cp_workflow p = w \<and> cp_scheduled_for p = due) \<longleftrightarrow>
    (\<exists>st. (w, st) \<in> set d \<and> (\<forall>h. g = Some h \<longrightarrow> is_workflow_healthy h w) \<and> can_dispatch st \<and>
      snd (peek_due env now st) = Inr (Some due))" (is "?l \<longleftrightarrow> ?r")
proof
  assume ?l
  then obtain p w' st where p: "(w', st) \<in> set d" "snd (collect_one env g now w' st) = Some p"
    "cp_workflow p = w" "cp_scheduled_for p = due"
    by (auto simp: collect_loop_plans)
  with collect_one_Some [of env g now w' st p] have "w' = w" "(\<forall>h. g = Some h \<longrightarrow> is_workflow_healthy h w)"
    "can_dispatch st" "snd (peek_due env now st) = Inr (Some due)" by auto
  with p(1) show ?r by blast
next
  assume ?r
  then obtain st where st: "(w, st) \<in> set d" "\<forall>h. g = Some h \<longrightarrow> is_workflow_healthy h w" "can_dispatch st"
    "snd (peek_due env now st) = Inr (Some due)" by blast
  let ?p = "\<lparr>cp_workflow = w, cp_scheduled_for = due, cp_timezone = cron_timezone (cs_config st)\<rparr>"
  have "snd (collect_one env g now w st) = Some ?p" using st collect_one_Some by blast
  with st(1) have "?p \<in> set (snd (collect_loop env g now d))" using collect_loop_plans by blast
  then show ?l by (rule bexI [rotated]) simp
qed

text \<open>C19. Collection plans exactly the workflows with a cron trigger that are healthy, have a due
  occurrence and may dispatch, each with its due time, never in the future; it consumes nothing, so
  collecting again at the same time gives the same plans.\<close>

theorem cron_collection_exact:
  assumes "dict_ok (cron_states s)"
  shows "(\<forall>w due. (\<exists>p \<in> set (snd (collect_due_cron_dispatches env (Aware now z) s)).
        cp_workflow p = w \<and> cp_scheduled_for p = due) \<longleftrightarrow>
      (\<exists>st. dict_get (cron_states s) w = Some st \<and> (\<forall>g. guard s = Some g \<longrightarrow> is_workflow_healthy g w) \<and>
        can_dispatch st \<and> snd (peek_due env now st) = Inr (Some due))) \<and>
    (\<forall>p \<in> set (snd (collect_due_cron_dispatches env (Aware now z) s)). cp_scheduled_for p \<le> now) \<and>
    snd (collect_due_cron_dispatches env (Aware now z) (fst (collect_due_cron_dispatches env (Aware now z) s))) =
      snd (collect_due_cron_dispatches env (Aware now z) s)"
proof (intro conjI)
  have eq: "collect_due_cron_dispatches env (Aware now z) s =
      (s\<lparr>cron_states := fst (collect_loop env (guard s) now (cron_states s))\<rparr>,
       snd (collect_loop env (guard s) now (cron_states s)))" for s
    by (simp add: collect_due_cron_dispatches_def split_beta)
  show mem: "\<forall>w due. (\<exists>p \<in> set (snd (collect_due_cron_dispatches env (Aware now z) s)).
        cp_workflow p = w \<and> cp_scheduled_for p = due) \<longleftrightarrow>
      (\<exists>st. dict_get (cron_states s) w = Some st \<and> (\<forall>g. guard s = Some g \<longrightarrow> is_workflow_healthy g w) \<and>
        can_dispatch st \<and> snd (peek_due env now st) = Inr (Some due))"
    unfolding eq snd_conv collect_loop_mem dict_get_iff [OF assms] by blast
  have due: "due \<le> now" if "snd (peek_due env now st) = Inr (Some due)" for st due
    using peek_due_Some [of env now st "fst (peek_due env now st)" due] that by (simp add: prod_eq_iff)
  show "\<forall>p \<in> set (snd (collect_due_cron_dispatches env (Aware now z) s)). cp_scheduled_for p \<le> now"
    using mem due by blast
  show "snd (collect_due_cron_dispatches env (Aware now z) (fst (collect_due_cron_dispatches env (Aware now z) s))) =
      snd (collect_due_cron_dispatches env (Aware now z) s)"
    by (simp add: eq collect_loop_stable)
qed

theorem cron_collection_exact_witness:
  "\<exists>p \<in> set (snd (collect_due_cron_dispatches autumn_env (Aware 900000000 0)
      (configure_cron 1 quarter_hourly (Some (Aware 0 0)) (new_layer 0 None None)))).
    cp_workflow p = 1 \<and> cp_scheduled_for p = 900000000"
proof -
  let ?s = "configure_cron 1 quarter_hourly (Some (Aware 0 0)) (new_layer 0 None None)"
  let ?st = "new_cron_state (Some quarter_hourly) (Some (Aware 0 0))"
  have "dict_ok (cron_states ?s)" "dict_get (cron_states ?s) 1 = Some ?st" "guard ?s = None"
    by (simp_all add: configure_cron_def new_layer_def dict_ok_def)
  moreover have "can_dispatch ?st" by (simp add: can_dispatch_def new_cron_state_def Let_def)
  moreover have "snd (peek_due autumn_env 900000000 ?st) = Inr (Some 900000000)" by code_simp
  ultimately show ?thesis using cron_collection_exact [of ?s autumn_env 900000000 0] by fastforce
qed

section \<open>Clean-up\<close>

text \<open>C20. A clean-up keeps only workflows that completed within the time to live, at most
  \<open>max_completed_workflows\<close> of them, and the most recent ones: whatever is dropped without having
  expired completed no later than anything kept. Nothing else of the layer changes.\<close>

theorem cleanup_bounds_completed:
  assumes "dict_ok (completed_workflows s)" "0 \<le> max_completed_workflows (cleanup_cfg s)"
  shows "set (completed_workflows (cleanup_completed_workflows now s)) \<subseteq> set (completed_workflows s) \<and>
    int (length (completed_workflows (cleanup_completed_workflows now s))) \<le> max_completed_workflows (cleanup_cfg s) \<and>
    (\<forall>(w, t) \<in> set (completed_workflows (cleanup_completed_workflows now s)).
      now - t \<le> seconds (completed_workflow_ttl_hours (cleanup_cfg s) * 3600)) \<and>
    (\<forall>(w, t) \<in> set (completed_workflows s) - set (completed_workflows (cleanup_completed_workflows now s)).
      now - t > seconds (completed_workflow_ttl_hours (cleanup_cfg s) * 3600) \<or>
      (\<forall>(w', t') \<in> set (completed_workflows (cleanup_completed_workflows now s)). t \<le> t')) \<and>
    (cleanup_completed_workflows now s)\<lparr>completed_workflows := completed_workflows s\<rparr> = s"
proof -
  define ttl where "ttl = seconds (completed_workflow_ttl_hours (cleanup_cfg s) * 3600)"
  define c where "c = completed_workflows s"
  define old where "old = filter (\<lambda>(w, completed_at). now - completed_at > ttl) c"
  define d where "d = dict_pops (map fst old) c"
  define bound where "bound = max_completed_workflows (cleanup_cfg s)"
  define n where "n = nat (int (length d) - bound)"
  define evicted where "evicted = (if int (length d) > bound then take n (sort_key snd d) else [])"
  let ?r = "completed_workflows (cleanup_completed_workflows now s)"
  have r: "?r = dict_pops (map fst evicted) d"
    by (simp add: cleanup_completed_workflows_def Let_def ttl_def c_def old_def d_def bound_def n_def evicted_def)
  have ok_c: "dict_ok c" and ok_d: "dict_ok d" using assms(1) by (simp_all add: c_def d_def)
  have mem_d: "x \<in> set d \<longleftrightarrow> x \<in> set c \<and> \<not> (case x of (w, t) \<Rightarrow> now - t > ttl)" for x
    unfolding d_def using dict_pops_mem [OF ok_c, of old] by (auto simp: old_def)
  have sub: "set evicted \<subseteq> set d" by (auto simp: evicted_def dest: in_set_takeD)
  have mem_r: "x \<in> set ?r \<longleftrightarrow> x \<in> set d \<and> x \<notin> set evicted" for x
    unfolding r by (rule dict_pops_mem [OF ok_d sub])
  have "distinct evicted" using dict_ok_distinct [OF ok_d] by (simp add: evicted_def)
  from dict_pops_length [OF ok_d sub this] assms(2)
  have len: "int (length ?r) \<le> bound"
    by (auto simp: r evicted_def n_def bound_def)
  have recent: "snd x \<le> snd y" if "x \<in> set evicted" "y \<in> set ?r" for x y
  proof -
    have n: "x \<in> set (take n (sort_key snd d))" using that(1) by (auto simp: evicted_def split: if_splits)
    have "y \<in> set (sort_key snd d)" "y \<notin> set (take n (sort_key snd d))"
      using that mem_r by (auto simp: evicted_def split: if_splits)
    then have "y \<in> set (drop n (sort_key snd d))" by (metis UnE append_take_drop_id set_append)
    with n show ?thesis by (intro sorted_take_drop [of snd "sort_key snd d"]) simp_all
  qed
  have "(cleanup_completed_workflows now s)\<lparr>completed_workflows := completed_workflows s\<rparr> = s"
    by (simp add: cleanup_completed_workflows_def Let_def)
  moreover have "set ?r \<subseteq> set c" using mem_r mem_d by blast
  moreover have "\<forall>(w, t) \<in> set ?r. now - t \<le> ttl" using mem_r mem_d by fastforce
  moreover have "\<forall>(w, t) \<in> set c - set ?r. now - t > ttl \<or> (\<forall>(w', t') \<in> set ?r. t \<le> t')"
    using mem_r mem_d recent by fastforce
  ultimately show ?thesis using len unfolding ttl_def c_def bound_def by blast
qed

definition busy_layer :: layer_state where
  "busy_layer = (new_layer 0 (Some (default_cleanup_config\<lparr>max_completed_workflows := 1\<rparr>)) None)\<lparr>
     completed_workflows := [(1, 0), (2, 90000000000), (3, 80000000000)]\<rparr>"

theorem cleanup_bounds_completed_witness:
  "completed_workflows (cleanup_completed_workflows 100000000000 busy_layer) = [(2, 90000000000)] \<and>
   int (length (completed_workflows (cleanup_completed_workflows 100000000000 busy_layer))) \<le> 1"
proof
  show "completed_workflows (cleanup_completed_workflows 100000000000 busy_layer) = [(2, 90000000000)]"
    by (simp add: busy_layer_def cleanup_completed_workflows_def new_layer_def default_cleanup_config_def seconds_def)
  have "dict_ok (completed_workflows busy_layer)" "0 \<le> max_completed_workflows (cleanup_cfg busy_layer)"
    "max_completed_workflows (cleanup_cfg busy_layer) = 1"
    by (simp_all add: busy_layer_def new_layer_def dict_ok_def)
  from cleanup_bounds_completed [OF this(1,2), of 100000000000] this(3)
  show "int (length (completed_workflows (cleanup_completed_workflows 100000000000 busy_layer))) \<le> 1" by simp
qed

section \<open>Removing a workflow\<close>

text \<open>Removing a workflow forgets its webhook, cron and retry configuration and every tracked run
  of it (with its retry state and index entry), marks it completed now, and leaves every other workflow
  and the runs of other workflows as they were.\<close>

theorem remove_workflow_purges:
  assumes "dict_ok (run_workflows s)"
  shows "dict_get (webhook_states (remove_workflow t w s)) w = None \<and>
    dict_get (cron_states (remove_workflow t w s)) w = None \<and>
    dict_get (retry_configs (remove_workflow t w s)) w = None \<and>
    dict_get (completed_workflows (remove_workflow t w s)) w = Some t \<and>
    (\<forall>r. dict_get (run_workflows (remove_workflow t w s)) r \<noteq> Some w) \<and>
    (\<forall>r. if dict_get (run_workflows s) r = Some w
      then dict_get (retry_states (remove_workflow t w s)) r = None \<and>
        dict_get (cron_run_index (remove_workflow t w s)) r = None
      else dict_get (retry_states (remove_workflow t w s)) r = dict_get (retry_states s) r \<and>
        dict_get (cron_run_index (remove_workflow t w s)) r = dict_get (cron_run_index s) r \<and>
        dict_get (run_workflows (remove_workflow t w s)) r = dict_get (run_workflows s) r) \<and>
    (\<forall>w'. w' \<noteq> w \<longrightarrow> dict_get (webhook_states (remove_workflow t w s)) w' = dict_get (webhook_states s) w' \<and>
      dict_get (cron_states (remove_workflow t w s)) w' = dict_get (cron_states s) w' \<and>
      dict_get (retry_configs (remove_workflow t w s)) w' = dict_get (retry_configs s) w')"
proof -
  have "r \<in> set (map fst (filter (\<lambda>(r, w'). w' = w) (run_workflows s))) \<longleftrightarrow> dict_get (run_workflows s) r = Some w" for r
    using workflow_runs_iff [OF assms] .
  then show ?thesis by (simp add: remove_workflow_def Let_def del: set_map)
qed

theorem remove_workflow_purges_witness:
  "dict_get (cron_states (remove_workflow 5 1 hourly_layer)) 1 = None \<and>
   dict_get (cron_run_index (remove_workflow 5 1 hourly_layer)) 7 = None"
proof -
  have "dict_ok (run_workflows hourly_layer)" "dict_get (run_workflows hourly_layer) 7 = Some 1"
    by (simp_all add: hourly_layer_eq dict_ok_def)
  with remove_workflow_purges [of hourly_layer 5 1] show ?thesis by metis
qed

text \<open>The configured maximum of retry states is not a bound: exceeding it triggers a clean-up, but
  no clean-up drops a retry state, so tracking \<open>n\<close> runs leaves \<open>n\<close> of them for every \<open>n\<close>. And a run
  whose retry state was cleared keeps its index entry when its workflow is removed.\<close>

theorem retry_states_unbounded:
  "length (retry_states (fold (\<lambda>r. track_run t w r) [0..<n] (new_layer 0 c g))) = n \<and>
   dict_get (cron_run_index (remove_workflow 9 1 (clear_retry_state 8 7 hourly_layer))) 7 = Some 1"
proof
  have "length (retry_states (fold (\<lambda>r. track_run t w r) [0..<n] (new_layer 0 c g))) = n \<and>
      set (map fst (retry_states (fold (\<lambda>r. track_run t w r) [0..<n] (new_layer 0 c g)))) = {0..<n}"
  proof (induction n)
    case 0
    then show ?case by (simp add: new_layer_def)
  next
    case (Suc n)
    define u where "u = fold (\<lambda>r. track_run t w r) [0..<n] (new_layer 0 c g)"
    obtain x where x: "retry_states (track_run t w n u) = dict_set n x (retry_states u)"
      by (simp add: track_run_def)
    have u: "length (retry_states u) = n" "set (map fst (retry_states u)) = {0..<n}"
      using Suc unfolding u_def by blast+
    have "n \<notin> set (map fst (retry_states u))" unfolding u(2) by simp
    then have "length (retry_states (track_run t w n u)) = Suc n"
      unfolding x using dict_set_length_new u(1) by metis
    moreover have "set (map fst (retry_states (track_run t w n u))) = insert n {0..<n}"
      unfolding x dict_set_keys u(2) ..
    moreover have "fold (\<lambda>r. track_run t w r) [0..<Suc n] (new_layer 0 c g) = track_run t w n u"
      by (simp add: u_def)
    ultimately show ?case by auto
  qed
  then show "length (retry_states (fold (\<lambda>r. track_run t w r) [0..<n] (new_layer 0 c g))) = n" by blast
  show "dict_get (cron_run_index (remove_workflow 9 1 (clear_retry_state 8 7 hourly_layer))) 7 = Some 1"
    by (simp add: hourly_layer_eq clear_retry_state_def remove_workflow_def)
qed

end
