(* ===== verification/Workflow_Entities.thy ===== *)
theory Workflow_Entities
  imports Py_Value
begin

text \<open>
  The domain entities of \<open>src/orcheo/models/\<close>: audited models (\<open>base.py\<close>), workflow handles
  (\<open>workflow_refs.py\<close>), teams (\<open>team.py\<close>), workflows with publishing and upload state, and runs
  with their life cycle (\<open>workflow_entities.py\<close>). An operation that reads the clock twice takes two
  readings. Text is ASCII.
\<close>

section \<open>Audited models\<close>

record audit_record =
  ar_actor :: string
  ar_action :: string
  ar_at :: instant
  ar_metadata :: "(string, pyval) dict"

record audited =
  entity_id :: uuid
  created_at :: instant
  updated_at :: instant
  audit_log :: "audit_record list"

definition record_event ::
    "instant \<Rightarrow> string \<Rightarrow> string \<Rightarrow> (string, pyval) dict \<Rightarrow> 'a audited_scheme \<Rightarrow> 'a audited_scheme" where
  "record_event now actor action metadata e =
    e\<lparr>audit_log := audit_log e @ [\<lparr>ar_actor = actor, ar_action = action, ar_at = now, ar_metadata = metadata\<rparr>],
      updated_at := now\<rparr>"

section \<open>Identifiers as text\<close>

definition hex_char :: "nat \<Rightarrow> char" where
  "hex_char n = (if n < 10 then char_of (48 + n) else char_of (87 + n))"

fun hex_text :: "nat \<Rightarrow> nat \<Rightarrow> string" where
  "hex_text 0 n = []"
| "hex_text (Suc k) n = hex_text k (n div 16) @ [hex_char (n mod 16)]"

text \<open>\<open>str(uuid)\<close>: 32 digits in groups of 8, 4, 4, 4 and 12.\<close>

definition uuid_text :: "uuid \<Rightarrow> string" where
  "uuid_text u =
    (let h = hex_text 32 u
     in str_join ''-'' [take 8 h, take 4 (drop 8 h), take 4 (drop 12 h), take 4 (drop 16 h), drop 20 h])"

section \<open>Handles\<close>

datatype entity_error =
    EmptyHandle
  | HandleTooLong
  | HandlePattern
  | HandleIsUuid
  | EmptyTeamSlug
  | TeamSlugPattern
  | AlreadyPublished
  | NotPublished
  | NotPending
  | NotRunning
  | NotActive
  | AlreadyCompleted

definition lower_alnum :: "char \<Rightarrow> bool" where
  "lower_alnum c = (let n = (of_char c :: nat) in (97 \<le> n \<and> n \<le> 122) \<or> (48 \<le> n \<and> n \<le> 57))"

text \<open>\<open>^[a-z0-9]+(?:-[a-z0-9]+)*$\<close>: the segments between hyphens are non-empty.\<close>

definition handle_pattern :: "string \<Rightarrow> bool" where
  "handle_pattern s \<longleftrightarrow> list_all (\<lambda>seg. seg \<noteq> [] \<and> list_all lower_alnum seg) (str_split CHR ''-'' s)"

definition hex_digit :: "char \<Rightarrow> bool" where
  "hex_digit c = (let n = (of_char c :: nat) in (48 \<le> n \<and> n \<le> 57) \<or> (97 \<le> n \<and> n \<le> 102) \<or> (65 \<le> n \<and> n \<le> 70))"

text \<open>Digits as \<open>int(_, 16)\<close> takes them: single underscores may stand between digits.\<close>

fun hex_digits :: "string \<Rightarrow> bool" where
  "hex_digits [] = False"
| "hex_digits [c] = hex_digit c"
| "hex_digits (c # d # cs) = (hex_digit c \<and> (if d = CHR ''_'' then hex_digits cs else hex_digits (d # cs)))"

definition hex_literal :: "string \<Rightarrow> bool" where
  "hex_literal s =
    (let t = str_strip s;
         u = (if str_startswith t ''+'' \<or> str_startswith t ''-'' then drop 1 t else t)
     in if str_startswith u ''0x'' \<or> str_startswith u ''0X''
        then hex_digits (if str_startswith (drop 2 u) ''_'' then drop 3 u else drop 2 u)
        else hex_digits u)"

fun remove_all :: "string \<Rightarrow> nat \<Rightarrow> string \<Rightarrow> string" where
  "remove_all pat skip [] = []"
| "remove_all pat (Suc skip) (c # cs) = remove_all pat skip cs"
| "remove_all pat 0 (c # cs) =
    (if str_startswith (c # cs) pat then remove_all pat (length pat - 1) cs else c # remove_all pat 0 cs)"

definition strip_braces :: "string \<Rightarrow> string" where
  "strip_braces s = (let b = (\<lambda>c. c = CHR ''{'' \<or> c = CHR ''}'') in rev (dropWhile b (rev (dropWhile b s))))"

text \<open>Whether \<open>UUID(value)\<close> succeeds: 32 characters that read as a hexadecimal number once
  prefixes, braces and hyphens are gone, and a number that is not negative.\<close>

definition workflow_ref_is_uuid :: "string \<Rightarrow> bool" where
  "workflow_ref_is_uuid value =
    (let hex = filter (\<lambda>c. c \<noteq> CHR ''-'') (strip_braces (remove_all ''uuid:'' 0 (remove_all ''urn:'' 0 value)))
     in length hex = 32 \<and> hex_literal hex)"

definition workflow_handle_max_length :: nat where
  "workflow_handle_max_length = 64"

definition normalize_workflow_handle :: "string option \<Rightarrow> entity_error + string option" where
  "normalize_workflow_handle value =
    (case value of
       None \<Rightarrow> Inr None
     | Some v \<Rightarrow>
         let normalized = str_lower (str_strip v) in
         if normalized = [] then Inl EmptyHandle
         else if length normalized > workflow_handle_max_length then Inl HandleTooLong
         else if \<not> handle_pattern normalized then Inl HandlePattern
         else if workflow_ref_is_uuid normalized then Inl HandleIsUuid
         else Inr (Some normalized))"

section \<open>Teams\<close>

definition char_alnum :: "char \<Rightarrow> bool" where
  "char_alnum c = (lower_alnum (char_lower c))"

definition normalize_team_slug :: "string \<Rightarrow> entity_error + string" where
  "normalize_team_slug value =
    (let candidate = str_lower (str_strip value)
     in if candidate = [] then Inl EmptyTeamSlug
        else if \<not> list_all (\<lambda>c. char_alnum c \<or> c = CHR ''-'' \<or> c = CHR ''_'') candidate then Inl TeamSlugPattern
        else Inr candidate)"

section \<open>Workflows\<close>

text \<open>\<open>re.sub("[^a-z0-9]+", "-", s)\<close>; the flag tells that the last character was replaced.\<close>

fun slug_sub :: "bool \<Rightarrow> string \<Rightarrow> string" where
  "slug_sub replaced [] = []"
| "slug_sub replaced (c # cs) =
    (if lower_alnum c then c # slug_sub False cs
     else if replaced then slug_sub True cs else CHR ''-'' # slug_sub True cs)"

definition strip_hyphens :: "string \<Rightarrow> string" where
  "strip_hyphens s = rev (dropWhile (\<lambda>c. c = CHR ''-'') (rev (dropWhile (\<lambda>c. c = CHR ''-'') s)))"

text \<open>\<open>fresh\<close> is the random identifier used for a value that is blank.\<close>

definition slugify :: "string \<Rightarrow> string \<Rightarrow> string" where
  "slugify fresh value =
    (let v = str_lower (str_strip value); normalized = strip_hyphens (slug_sub False v)
     in if normalized \<noteq> [] then normalized else if v \<noteq> [] then v else fresh)"

fun dedupe_loop :: "string list \<Rightarrow> string list \<Rightarrow> string list" where
  "dedupe_loop [] deduped = deduped"
| "dedupe_loop (tag # tags) deduped =
    (let key = str_lower (str_strip tag)
     in if key \<noteq> [] \<and> key \<notin> set deduped then dedupe_loop tags (deduped @ [key]) else dedupe_loop tags deduped)"

definition dedupe_tags :: "string list \<Rightarrow> string list" where
  "dedupe_tags value = dedupe_loop value []"

record upload_error =
  ue_message :: string
  ue_occurred_at :: instant

record workflow = audited +
  wf_name :: string
  wf_handle :: "string option"
  wf_slug :: string
  wf_tags :: "string list"
  is_archived :: bool
  is_public :: bool
  published_at :: "instant option"
  published_by :: "string option"
  require_login :: bool
  wf_upload_error :: "upload_error option"

definition publish ::
    "instant \<Rightarrow> instant \<Rightarrow> bool \<Rightarrow> string \<Rightarrow> 'a workflow_scheme \<Rightarrow> ('a workflow_scheme, entity_error, unit) outcome" where
  "publish now now' login actor w =
    (if is_public w then (w, Inl AlreadyPublished)
     else (record_event now' actor ''workflow_published'' [(''require_login'', PBool login)]
       (w\<lparr>is_public := True, published_at := Some now, published_by := Some actor, require_login := login\<rparr>), Inr ()))"

definition revoke_publish ::
    "instant \<Rightarrow> string \<Rightarrow> 'a workflow_scheme \<Rightarrow> ('a workflow_scheme, entity_error, unit) outcome" where
  "revoke_publish now actor w =
    (if \<not> is_public w then (w, Inl NotPublished)
     else (record_event now actor ''workflow_unpublished'' [(''require_login'', PBool (require_login w))]
       (w\<lparr>is_public := False, published_at := None, published_by := None, require_login := False\<rparr>), Inr ()))"

definition normalize_upload_message :: "string \<Rightarrow> string" where
  "normalize_upload_message message =
    (let stripped = str_strip message; m = (if stripped = [] then ''Workflow upload failed.'' else stripped)
     in if length m > 4000 then take 3997 m @ ''...'' else m)"

definition mark_upload_error :: "instant \<Rightarrow> instant \<Rightarrow> string \<Rightarrow> string \<Rightarrow> 'a workflow_scheme \<Rightarrow> 'a workflow_scheme" where
  "mark_upload_error now now' message actor w =
    (let m = normalize_upload_message message
     in record_event now' actor ''workflow_upload_failed'' [(''message'', PStr m)]
          (w\<lparr>wf_upload_error := Some \<lparr>ue_message = m, ue_occurred_at = now\<rparr>\<rparr>))"

definition clear_upload_error :: "instant \<Rightarrow> string \<Rightarrow> 'a workflow_scheme \<Rightarrow> 'a workflow_scheme" where
  "clear_upload_error now actor w =
    (case wf_upload_error w of
       None \<Rightarrow> w
     | Some e \<Rightarrow> record_event now actor ''workflow_upload_recovered'' [(''message'', PStr (ue_message e))]
         (w\<lparr>wf_upload_error := None\<rparr>))"

section \<open>Runs\<close>

datatype run_status = Pending | Running | Succeeded | Failed | Cancelled

definition is_terminal :: "run_status \<Rightarrow> bool" where
  "is_terminal st \<longleftrightarrow> st \<in> {Succeeded, Failed, Cancelled}"

record workflow_run = audited +
  wr_version :: uuid
  wr_status :: run_status
  triggered_by :: string
  input_payload :: "(string, pyval) dict"
  output_payload :: "(string, pyval) dict option"
  started_at :: "instant option"
  completed_at :: "instant option"
  run_error :: "string option"

definition new_run :: "instant \<Rightarrow> uuid \<Rightarrow> uuid \<Rightarrow> string \<Rightarrow> (string, pyval) dict \<Rightarrow> workflow_run" where
  "new_run now i version trigger payload =
    \<lparr>entity_id = i, created_at = now, updated_at = now, audit_log = [], wr_version = version, wr_status = Pending,
     triggered_by = trigger, input_payload = payload, output_payload = None, started_at = None,
     completed_at = None, run_error = None\<rparr>"

definition mark_started ::
    "instant \<Rightarrow> instant \<Rightarrow> string \<Rightarrow> 'a workflow_run_scheme \<Rightarrow> ('a workflow_run_scheme, entity_error, unit) outcome" where
  "mark_started now now' actor r =
    (if wr_status r \<noteq> Pending then (r, Inl NotPending)
     else (record_event now' actor ''run_started'' [] (r\<lparr>wr_status := Running, started_at := Some now\<rparr>), Inr ()))"

definition mark_succeeded ::
    "instant \<Rightarrow> instant \<Rightarrow> string \<Rightarrow> (string, pyval) dict option \<Rightarrow> 'a workflow_run_scheme \<Rightarrow>
     ('a workflow_run_scheme, entity_error, unit) outcome" where
  "mark_succeeded now now' actor output r =
    (if wr_status r \<noteq> Running then (r, Inl NotRunning)
     else (record_event now' actor ''run_succeeded'' []
       (r\<lparr>wr_status := Succeeded, completed_at := Some now,
          output_payload := Some (case output of Some d \<Rightarrow> d | None \<Rightarrow> []), run_error := None\<rparr>), Inr ()))"

definition mark_failed ::
    "instant \<Rightarrow> instant \<Rightarrow> string \<Rightarrow> string \<Rightarrow> 'a workflow_run_scheme \<Rightarrow>
     ('a workflow_run_scheme, entity_error, unit) outcome" where
  "mark_failed now now' actor err r =
    (if wr_status r \<notin> {Pending, Running} then (r, Inl NotActive)
     else (record_event now' actor ''run_failed'' [(''error'', PStr err)]
       (r\<lparr>wr_status := Failed, completed_at := Some now, run_error := Some err\<rparr>), Inr ()))"

definition mark_cancelled ::
    "instant \<Rightarrow> instant \<Rightarrow> string \<Rightarrow> string option \<Rightarrow> 'a workflow_run_scheme \<Rightarrow>
     ('a workflow_run_scheme, entity_error, unit) outcome" where
  "mark_cancelled now now' actor reason r =
    (if is_terminal (wr_status r) then (r, Inl AlreadyCompleted)
     else (record_event now' actor ''run_cancelled'' (if opt_truthy reason then [(''reason'', PStr (the reason))] else [])
       (r\<lparr>wr_status := Cancelled, completed_at := Some now, run_error := reason\<rparr>), Inr ()))"

end
