(* ===== verification/Workspaces.thy ===== *)
theory Workspaces
  imports Workflow_Entities
begin

text \<open>
  Workspaces (\<open>src/orcheo/workspace/\<close>): the identity models (\<open>models.py\<close>), the in-memory repository
  (\<open>repository.py\<close>), the resolver with its membership cache (\<open>resolver.py\<close>) and the service that
  manages members and invitations (\<open>service.py\<close>). The digest of tokens and the delivery of mail are
  parameters; identifiers, tokens and clock readings are arguments. The cache reads a clock of its own.
\<close>

section \<open>Models\<close>

datatype workspace_role = Owner | Admin | Editor | Viewer

definition role_rank :: "workspace_role \<Rightarrow> nat" where
  "role_rank r = (case r of Viewer \<Rightarrow> 0 | Editor \<Rightarrow> 1 | Admin \<Rightarrow> 2 | Owner \<Rightarrow> 3)"

definition role_includes :: "workspace_role \<Rightarrow> workspace_role \<Rightarrow> bool" where
  "role_includes r other \<longleftrightarrow> role_rank r \<ge> role_rank other"

definition role_text :: "workspace_role \<Rightarrow> string" where
  "role_text r = (case r of Owner \<Rightarrow> ''owner'' | Admin \<Rightarrow> ''admin'' | Editor \<Rightarrow> ''editor'' | Viewer \<Rightarrow> ''viewer'')"

datatype workspace_status = WsActive | WsSuspended | WsDeleted

datatype invitation_status = InvPending | InvAccepted | InvRevoked

datatype workspace_error =
    SlugEmpty
  | SlugPattern
  | NameEmpty
  | EmailInvalid
  | SlugConflict string
  | WorkspaceNotFound
  | MembershipExists
  | NoMembership
  | MembershipLimit
  | RoleTooLow
  | InvitationExists
  | InvitationNotFound
  | InvitationForeign
  | InvitationResolved invitation_status
  | InvitationWasRevoked
  | InvitationExpired
  | EmailMissing
  | EmailUnverified
  | EmailMismatch
  | NoMemberships
  | WorkspaceInactive workspace_status
  | NotAMember
  | SelectorRequired
  | MailFailed

definition normalize_email :: "string \<Rightarrow> workspace_error + string" where
  "normalize_email value =
    (let candidate = str_lower (str_strip value) in
     if candidate = [] \<or> length (filter (\<lambda>c. c = CHR ''@'') candidate) \<noteq> 1 \<or> str_startswith candidate ''@''
     then Inl EmailInvalid
     else let (local_part, domain) = str_split1 CHR ''@'' candidate in
       if local_part = [] \<or> CHR ''.'' \<notin> set domain \<or> domain = [] \<or> List.last domain = CHR ''.'' then Inl EmailInvalid
       else Inr candidate)"

definition normalize_slug :: "string \<Rightarrow> workspace_error + string" where
  "normalize_slug value =
    (let candidate = str_lower (str_strip value) in
     if candidate = [] then Inl SlugEmpty
     else if \<not> list_all (\<lambda>c. char_alnum c \<or> c = CHR ''-'' \<or> c = CHR ''_'') candidate then Inl SlugPattern
     else Inr candidate)"

record workspace_quotas =
  max_workflows :: int
  max_concurrent_runs :: int
  max_credentials :: int
  max_storage_rows :: int
  max_hosted_apps :: int
  max_app_upload_reservations :: int
  max_app_deployments :: int
  max_app_bundle_bytes :: int
  max_app_storage_bytes :: int
  max_app_storage_rows :: int
  max_app_sessions :: int
  max_app_invocations_per_minute :: int
  max_app_concurrent_runs :: int

definition default_quotas :: workspace_quotas where
  "default_quotas = \<lparr>max_workflows = 100, max_concurrent_runs = 25, max_credentials = 200, max_storage_rows = 1000000,
     max_hosted_apps = 25, max_app_upload_reservations = 5, max_app_deployments = 50,
     max_app_bundle_bytes = 250 * 1024 * 1024, max_app_storage_bytes = 1024 * 1024 * 1024,
     max_app_storage_rows = 100000, max_app_sessions = 10000, max_app_invocations_per_minute = 1000,
     max_app_concurrent_runs = 25\<rparr>"

record workspace =
  sp_id :: uuid
  sp_slug :: string
  sp_name :: string
  sp_status :: workspace_status
  sp_quotas :: workspace_quotas
  sp_deleted_at :: "instant option"
  sp_created_at :: instant
  sp_updated_at :: instant

definition new_workspace ::
    "uuid \<Rightarrow> instant \<Rightarrow> instant \<Rightarrow> string \<Rightarrow> string \<Rightarrow> workspace_quotas option \<Rightarrow> workspace_error + workspace" where
  "new_workspace i now now' slug name quotas =
    seqE (normalize_slug slug) (\<lambda>slug.
      if str_strip name = [] then Inl NameEmpty
      else Inr \<lparr>sp_id = i, sp_slug = slug, sp_name = str_strip name, sp_status = WsActive,
        sp_quotas = (case quotas of Some q \<Rightarrow> q | None \<Rightarrow> default_quotas), sp_deleted_at = None,
        sp_created_at = now, sp_updated_at = now'\<rparr>)"

record workspace_membership =
  mb_id :: uuid
  mb_workspace :: uuid
  mb_user :: string
  mb_email :: "string option"
  mb_user_name :: "string option"
  mb_role :: workspace_role
  mb_created_at :: instant

record invitation =
  iv_id :: uuid
  iv_workspace :: uuid
  iv_email :: string
  iv_role :: workspace_role
  iv_token_hash :: string
  iv_status :: invitation_status
  iv_invited_by :: "string option"
  iv_accepted_by :: "string option"
  iv_created_at :: instant
  iv_expires_at :: instant
  iv_accepted_at :: "instant option"

definition invitation_expired :: "instant \<Rightarrow> invitation \<Rightarrow> bool" where
  "invitation_expired now iv \<longleftrightarrow> now \<ge> iv_expires_at iv"

record audit_event =
  ev_id :: uuid
  ev_workspace :: uuid
  ev_action :: string
  ev_actor :: "string option"
  ev_subject :: "string option"
  ev_resource_type :: "string option"
  ev_resource :: "string option"
  ev_details :: "(string, pyval) dict"
  ev_created_at :: instant

record workspace_context =
  wc_workspace :: uuid
  wc_slug :: string
  wc_user :: string
  wc_role :: workspace_role
  wc_quotas :: workspace_quotas

definition has_role :: "workspace_role \<Rightarrow> workspace_context \<Rightarrow> bool" where
  "has_role required c = role_includes (wc_role c) required"

section \<open>The repository\<close>

record workspace_repo =
  rp_workspaces :: "(uuid, workspace) dict"
  rp_slugs :: "(string, uuid) dict"
  rp_members :: "(uuid \<times> string, workspace_membership) dict"
  rp_events :: "audit_event list"
  rp_invitations :: "(uuid, invitation) dict"

definition new_repo :: workspace_repo where
  "new_repo = \<lparr>rp_workspaces = [], rp_slugs = [], rp_members = [], rp_events = [], rp_invitations = []\<rparr>"

type_synonym 'a repo_op = "workspace_repo \<Rightarrow> (workspace_repo, workspace_error, 'a) outcome"

definition repo_create_workspace :: "workspace \<Rightarrow> workspace repo_op" where
  "repo_create_workspace w r =
    (case normalize_slug (sp_slug w) of
       Inl e \<Rightarrow> (r, Inl e)
     | Inr slug \<Rightarrow>
         if dict_get (rp_slugs r) slug \<noteq> None then (r, Inl (SlugConflict slug))
         else (r\<lparr>rp_workspaces := dict_set (sp_id w) w (rp_workspaces r),
                 rp_slugs := dict_set slug (sp_id w) (rp_slugs r)\<rparr>, Inr w))"

definition get_workspace :: "uuid \<Rightarrow> workspace_repo \<Rightarrow> workspace_error + workspace" where
  "get_workspace i r = (case dict_get (rp_workspaces r) i of None \<Rightarrow> Inl WorkspaceNotFound | Some w \<Rightarrow> Inr w)"

definition get_workspaces :: "uuid list \<Rightarrow> workspace_repo \<Rightarrow> workspace list" where
  "get_workspaces is r = List.map_filter (dict_get (rp_workspaces r)) (rev (remdups (rev is)))"

definition get_workspace_by_slug :: "string \<Rightarrow> workspace_repo \<Rightarrow> workspace_error + workspace" where
  "get_workspace_by_slug slug r =
    seqE (normalize_slug slug) (\<lambda>s.
      case dict_get (rp_slugs r) s of None \<Rightarrow> Inl WorkspaceNotFound | Some i \<Rightarrow> get_workspace i r)"

definition repo_list_workspaces :: "bool \<Rightarrow> workspace_repo \<Rightarrow> workspace list" where
  "repo_list_workspaces include_inactive r =
    sort_key sp_slug (filter (\<lambda>w. include_inactive \<or> sp_status w = WsActive) (map snd (rp_workspaces r)))"

definition update_status :: "instant \<Rightarrow> uuid \<Rightarrow> workspace_status \<Rightarrow> workspace repo_op" where
  "update_status now i st r =
    and_then (r, get_workspace i r) (\<lambda>r w.
      let w = w\<lparr>sp_status := st, sp_deleted_at := (if st = WsDeleted then Some now else None)\<rparr>
      in (r\<lparr>rp_workspaces := dict_set i w (rp_workspaces r)\<rparr>, Inr w))"

definition delete_workspace :: "uuid \<Rightarrow> unit repo_op" where
  "delete_workspace i r =
    and_then (r, get_workspace i r) (\<lambda>r w.
      (r\<lparr>rp_slugs := dict_pop (sp_slug w) (rp_slugs r),
         rp_workspaces := dict_pop (sp_id w) (rp_workspaces r),
         rp_members := filter (\<lambda>(k, m). fst k \<noteq> sp_id w) (rp_members r),
         rp_events := filter (\<lambda>e. ev_workspace e \<noteq> sp_id w) (rp_events r),
         rp_invitations := filter (\<lambda>(k, iv). iv_workspace iv \<noteq> sp_id w) (rp_invitations r)\<rparr>, Inr ()))"

definition add_membership :: "workspace_membership \<Rightarrow> workspace_membership repo_op" where
  "add_membership m r =
    (let k = (mb_workspace m, mb_user m) in
     if dict_get (rp_workspaces r) (mb_workspace m) = None then (r, Inl WorkspaceNotFound)
     else if dict_get (rp_members r) k \<noteq> None then (r, Inl MembershipExists)
     else (r\<lparr>rp_members := dict_set k m (rp_members r)\<rparr>, Inr m))"

definition get_membership :: "uuid \<Rightarrow> string \<Rightarrow> workspace_repo \<Rightarrow> workspace_error + workspace_membership" where
  "get_membership i u r = (case dict_get (rp_members r) (i, u) of None \<Rightarrow> Inl NoMembership | Some m \<Rightarrow> Inr m)"

definition remove_membership :: "uuid \<Rightarrow> string \<Rightarrow> unit repo_op" where
  "remove_membership i u r =
    (if dict_get (rp_members r) (i, u) = None then (r, Inl NoMembership)
     else (r\<lparr>rp_members := dict_pop (i, u) (rp_members r)\<rparr>, Inr ()))"

definition update_membership_role :: "uuid \<Rightarrow> string \<Rightarrow> workspace_role \<Rightarrow> workspace_membership repo_op" where
  "update_membership_role i u role r =
    and_then (r, get_membership i u r) (\<lambda>r m.
      let m = m\<lparr>mb_role := role\<rparr> in (r\<lparr>rp_members := dict_set (i, u) m (rp_members r)\<rparr>, Inr m))"

definition update_membership_identity :: "uuid \<Rightarrow> string \<Rightarrow> string option \<Rightarrow> string option \<Rightarrow> workspace_membership repo_op" where
  "update_membership_identity i u email name r =
    and_then (r, get_membership i u r) (\<lambda>r m.
      if email = None \<and> name = None then (r, Inr m)
      else let m = m\<lparr>mb_email := (if email = None then mb_email m else email),
             mb_user_name := (if name = None then mb_user_name m else name)\<rparr>
        in (r\<lparr>rp_members := dict_set (i, u) m (rp_members r)\<rparr>, Inr m))"

definition memberships_for_user :: "string \<Rightarrow> workspace_repo \<Rightarrow> workspace_membership list" where
  "memberships_for_user u r = filter (\<lambda>m. mb_user m = u) (map snd (rp_members r))"

definition memberships_for_email :: "string \<Rightarrow> workspace_repo \<Rightarrow> workspace_membership list" where
  "memberships_for_email email r =
    filter (\<lambda>m. case mb_email m of None \<Rightarrow> False | Some e \<Rightarrow> str_lower (str_strip e) = str_lower (str_strip email))
      (map snd (rp_members r))"

definition reassign_membership :: "uuid \<Rightarrow> string \<Rightarrow> string \<Rightarrow> workspace_membership repo_op" where
  "reassign_membership i from_user to_user r =
    and_then (r, get_membership i from_user r) (\<lambda>r m.
      if from_user = to_user then (r, Inr m)
      else if dict_get (rp_members r) (i, to_user) \<noteq> None then (r, Inl MembershipExists)
      else let m = m\<lparr>mb_user := to_user\<rparr>
        in (r\<lparr>rp_members := dict_set (i, to_user) m (dict_pop (i, from_user) (rp_members r))\<rparr>, Inr m))"

definition memberships_for_workspace :: "uuid \<Rightarrow> workspace_repo \<Rightarrow> workspace_membership list" where
  "memberships_for_workspace i r = filter (\<lambda>m. mb_workspace m = i) (map snd (rp_members r))"

definition record_audit_event :: "audit_event \<Rightarrow> workspace_repo \<Rightarrow> workspace_repo" where
  "record_audit_event e r = r\<lparr>rp_events := rp_events r @ [e]\<rparr>"

definition list_audit_events :: "uuid \<Rightarrow> nat \<Rightarrow> workspace_repo \<Rightarrow> audit_event list" where
  "list_audit_events i limit r =
    (let events = filter (\<lambda>e. ev_workspace e = i) (rp_events r)
     in rev (if limit = 0 then events else drop (length events - limit) events))"

definition find_pending_invitation :: "uuid \<Rightarrow> string \<Rightarrow> workspace_repo \<Rightarrow> workspace_error + invitation option" where
  "find_pending_invitation i email r =
    seqE (normalize_email email) (\<lambda>e.
      Inr (find (\<lambda>iv. iv_workspace iv = i \<and> iv_email iv = e \<and> iv_status iv = InvPending) (map snd (rp_invitations r))))"

definition add_invitation :: "invitation \<Rightarrow> invitation repo_op" where
  "add_invitation iv r =
    (if dict_get (rp_workspaces r) (iv_workspace iv) = None then (r, Inl WorkspaceNotFound)
     else and_then (r, if iv_status iv = InvPending then find_pending_invitation (iv_workspace iv) (iv_email iv) r else Inr None)
       (\<lambda>r existing. if existing \<noteq> None then (r, Inl InvitationExists)
         else (r\<lparr>rp_invitations := dict_set (iv_id iv) iv (rp_invitations r)\<rparr>, Inr iv)))"

definition get_invitation :: "uuid \<Rightarrow> workspace_repo \<Rightarrow> workspace_error + invitation" where
  "get_invitation i r = (case dict_get (rp_invitations r) i of None \<Rightarrow> Inl InvitationNotFound | Some iv \<Rightarrow> Inr iv)"

definition get_invitation_by_token_hash :: "string \<Rightarrow> workspace_repo \<Rightarrow> workspace_error + invitation" where
  "get_invitation_by_token_hash h r =
    (case find (\<lambda>iv. iv_token_hash iv = h) (map snd (rp_invitations r)) of
       None \<Rightarrow> Inl InvitationNotFound | Some iv \<Rightarrow> Inr iv)"

definition repo_list_invitations :: "uuid \<Rightarrow> bool \<Rightarrow> workspace_repo \<Rightarrow> invitation list" where
  "repo_list_invitations i include_inactive r =
    sort_key (\<lambda>iv. - iv_created_at iv)
      (filter (\<lambda>iv. iv_workspace iv = i \<and> (include_inactive \<or> iv_status iv = InvPending)) (map snd (rp_invitations r)))"

definition update_invitation :: "invitation \<Rightarrow> invitation repo_op" where
  "update_invitation iv r =
    (if dict_get (rp_invitations r) (iv_id iv) = None then (r, Inl InvitationNotFound)
     else (r\<lparr>rp_invitations := dict_set (iv_id iv) iv (rp_invitations r)\<rparr>, Inr iv))"

definition accept_invitation_atomic ::
    "instant \<Rightarrow> workspace_membership \<Rightarrow> string \<Rightarrow> invitation \<Rightarrow> workspace_repo \<Rightarrow> workspace_repo \<times> workspace_membership \<times> invitation" where
  "accept_invitation_atomic now m email iv r =
    (let k = (mb_workspace m, mb_user m);
         final = (case dict_get (rp_members r) k of
             None \<Rightarrow> m\<lparr>mb_email := Some email\<rparr>
           | Some old \<Rightarrow> old\<lparr>mb_email := (if email \<noteq> [] then Some email else mb_email old)\<rparr>);
         accepted = iv\<lparr>iv_status := InvAccepted, iv_accepted_by := Some (mb_user m), iv_accepted_at := Some now\<rparr>
     in (r\<lparr>rp_members := dict_set k final (rp_members r),
           rp_invitations := dict_set (iv_id iv) accepted (rp_invitations r)\<rparr>, final, accepted))"

section \<open>The membership cache and the resolver\<close>

record membership_cache =
  mc_ttl :: int
  mc_entries :: "(string, workspace_membership list \<times> int) dict"

definition cache_get :: "int \<Rightarrow> string \<Rightarrow> membership_cache \<Rightarrow> membership_cache \<times> workspace_membership list option" where
  "cache_get clock u c =
    (case dict_get (mc_entries c) u of
       None \<Rightarrow> (c, None)
     | Some (ms, expires) \<Rightarrow>
         if expires \<le> clock then (c\<lparr>mc_entries := dict_pop u (mc_entries c)\<rparr>, None) else (c, Some ms))"

definition cache_put :: "int \<Rightarrow> string \<Rightarrow> workspace_membership list \<Rightarrow> membership_cache \<Rightarrow> membership_cache" where
  "cache_put clock u ms c = c\<lparr>mc_entries := dict_set u (ms, clock + mc_ttl c) (mc_entries c)\<rparr>"

definition cache_invalidate :: "string \<Rightarrow> membership_cache \<Rightarrow> membership_cache" where
  "cache_invalidate u c = c\<lparr>mc_entries := dict_pop u (mc_entries c)\<rparr>"

definition list_memberships :: "int \<Rightarrow> int \<Rightarrow> string \<Rightarrow> workspace_repo \<Rightarrow> membership_cache \<Rightarrow> membership_cache \<times> workspace_membership list" where
  "list_memberships clock clock' u r c =
    (case cache_get clock u c of
       (c', Some ms) \<Rightarrow> (c', ms)
     | (c', None) \<Rightarrow> let ms = memberships_for_user u r in (cache_put clock' u ms c', ms))"

definition select_membership :: "workspace_membership list \<Rightarrow> uuid \<Rightarrow> workspace_error + workspace_membership" where
  "select_membership ms i = (case find (\<lambda>m. mb_workspace m = i) ms of None \<Rightarrow> Inl NotAMember | Some m \<Rightarrow> Inr m)"

definition select_primary_membership :: "workspace_membership list \<Rightarrow> workspace_error + workspace_membership" where
  "select_primary_membership ms = (case ms of [m] \<Rightarrow> Inr m | _ \<Rightarrow> Inl SelectorRequired)"

definition enforce_active :: "workspace \<Rightarrow> workspace_error + unit" where
  "enforce_active w = (if sp_status w = WsActive then Inr () else Inl (WorkspaceInactive (sp_status w)))"

definition make_context :: "workspace \<Rightarrow> workspace_membership \<Rightarrow> workspace_error + workspace_context" where
  "make_context w m =
    seqE (normalize_slug (sp_slug w)) (\<lambda>s.
      Inr \<lparr>wc_workspace = sp_id w, wc_slug = s, wc_user = mb_user m, wc_role = mb_role m, wc_quotas = sp_quotas w\<rparr>)"

text \<open>The choice of a workspace, given the memberships of the user.\<close>

definition choose_workspace :: "workspace_membership list \<Rightarrow> string option \<Rightarrow> workspace_repo \<Rightarrow> workspace_error + workspace_context" where
  "choose_workspace ms slug r =
    (if ms = [] then Inl NoMemberships
     else case slug of
         Some s \<Rightarrow> seqE (get_workspace_by_slug s r) (\<lambda>w. seqE (select_membership ms (sp_id w)) (\<lambda>m.
             seqE (enforce_active w) (\<lambda>_. make_context w m)))
       | None \<Rightarrow> seqE (select_primary_membership ms) (\<lambda>m. seqE (get_workspace (mb_workspace m) r) (\<lambda>w.
             seqE (enforce_active w) (\<lambda>_. make_context w m))))"

section \<open>The service\<close>

record workspace_service =
  sv_repo :: workspace_repo
  sv_cache :: membership_cache
  sv_ttl_hours :: int
  sv_base_url :: string

type_synonym 'a service_op = "workspace_service \<Rightarrow> (workspace_service, workspace_error, 'a) outcome"

text \<open>What an operation draws: identifiers and readings of the clock.\<close>

record service_draws =
  dw_id :: uuid
  dw_member :: uuid
  dw_event :: uuid
  dw_now :: instant
  dw_now2 :: instant
  dw_now3 :: instant
  dw_event_at :: instant

record invitation_mail =
  ml_to :: string
  ml_workspace :: string
  ml_role :: string
  ml_url :: string
  ml_expires_at :: instant
  ml_invited_by :: "string option"

definition max_memberships_per_user :: nat where "max_memberships_per_user = 3"

definition on_repo :: "(workspace_repo, workspace_error, 'a) outcome \<Rightarrow> 'a service_op" where
  "on_repo x s = (s\<lparr>sv_repo := fst x\<rparr>, snd x)"

definition invalidate :: "string \<Rightarrow> workspace_service \<Rightarrow> workspace_service" where
  "invalidate u s = s\<lparr>sv_cache := cache_invalidate u (sv_cache s)\<rparr>"

definition audit_entry ::
    "service_draws \<Rightarrow> uuid \<Rightarrow> string \<Rightarrow> string \<Rightarrow> string option \<Rightarrow> string \<Rightarrow> string \<Rightarrow> (string, pyval) dict \<Rightarrow> audit_event" where
  "audit_entry d ws action actor subject rtype rid details =
    \<lparr>ev_id = dw_event d, ev_workspace = ws, ev_action = action, ev_actor = Some actor, ev_subject = subject,
     ev_resource_type = Some rtype, ev_resource = Some rid, ev_details = details, ev_created_at = dw_event_at d\<rparr>"

definition audit :: "audit_event \<Rightarrow> workspace_service \<Rightarrow> workspace_service" where
  "audit e s = s\<lparr>sv_repo := record_audit_event e (sv_repo s)\<rparr>"

definition ensure_membership_capacity :: "string \<Rightarrow> uuid option \<Rightarrow> workspace_repo \<Rightarrow> workspace_error + unit" where
  "ensure_membership_capacity u ws r =
    (let ms = memberships_for_user u r in
     if (case ws of None \<Rightarrow> False | Some i \<Rightarrow> list_ex (\<lambda>m. mb_workspace m = i) ms) then Inr ()
     else if length ms \<ge> max_memberships_per_user then Inl MembershipLimit
     else Inr ())"

definition new_membership ::
    "uuid \<Rightarrow> instant \<Rightarrow> uuid \<Rightarrow> string \<Rightarrow> string option \<Rightarrow> string option \<Rightarrow> workspace_role \<Rightarrow> workspace_membership" where
  "new_membership i now ws u email name role =
    \<lparr>mb_id = i, mb_workspace = ws, mb_user = u, mb_email = email, mb_user_name = name, mb_role = role, mb_created_at = now\<rparr>"

text \<open>When the owner cannot be added, the workspace is deleted again.\<close>

definition enroll_owner :: "service_draws \<Rightarrow> workspace \<Rightarrow> workspace_membership \<Rightarrow> (workspace \<times> workspace_membership) service_op" where
  "enroll_owner d w m s =
    (case and_then (s, ensure_membership_capacity (mb_user m) None (sv_repo s)) (\<lambda>s _. on_repo (add_membership m (sv_repo s)) s) of
       (s', Inl e) \<Rightarrow> (case delete_workspace (sp_id w) (sv_repo s') of
           (r, Inl e') \<Rightarrow> (s'\<lparr>sv_repo := r\<rparr>, Inl e')
         | (r, Inr _) \<Rightarrow> (s'\<lparr>sv_repo := r\<rparr>, Inl e))
     | (s', Inr _) \<Rightarrow>
         (invalidate (mb_user m) (audit (audit_entry d (sp_id w) ''workspace.created'' (mb_user m) (Some (mb_user m)) ''workspace''
            (uuid_text (sp_id w)) []) s'), Inr (w, m)))"

definition create_workspace ::
    "service_draws \<Rightarrow> string \<Rightarrow> string \<Rightarrow> string \<Rightarrow> workspace_quotas option \<Rightarrow> string option \<Rightarrow>
     string option \<Rightarrow> (workspace \<times> workspace_membership) service_op" where
  "create_workspace d slug name owner quotas email owner_name s =
    and_then (s, seqE (normalize_slug slug) (\<lambda>slug. new_workspace (dw_id d) (dw_now d) (dw_now2 d) slug name quotas)) (\<lambda>s w.
    and_then (on_repo (repo_create_workspace w (sv_repo s)) s) (\<lambda>s w.
      enroll_owner d w (new_membership (dw_member d) (dw_now3 d) (sp_id w) owner email owner_name Owner) s))"

definition ensure_default_workspace :: "service_draws \<Rightarrow> string \<Rightarrow> string \<Rightarrow> workspace service_op" where
  "ensure_default_workspace d slug name s =
    (case get_workspace_by_slug slug (sv_repo s) of
       Inr w \<Rightarrow> (s, Inr w)
     | Inl _ \<Rightarrow> and_then (s, new_workspace (dw_id d) (dw_now d) (dw_now2 d) slug name None)
         (\<lambda>s w. on_repo (repo_create_workspace w (sv_repo s)) s))"

definition set_status ::
    "service_draws \<Rightarrow> workspace_status \<Rightarrow> string \<Rightarrow> uuid \<Rightarrow> workspace service_op" where
  "set_status d st action i s =
    and_then (on_repo (update_status (dw_now d) i st (sv_repo s)) s) (\<lambda>s w.
      (audit (audit_entry d (sp_id w) action ''system'' None ''workspace'' (uuid_text (sp_id w)) []) s, Inr w))"

definition deactivate_workspace :: "service_draws \<Rightarrow> uuid \<Rightarrow> workspace service_op" where
  "deactivate_workspace d = set_status d WsSuspended ''workspace.suspended''"

definition reactivate_workspace :: "service_draws \<Rightarrow> uuid \<Rightarrow> workspace service_op" where
  "reactivate_workspace d = set_status d WsActive ''workspace.reactivated''"

definition soft_delete_workspace :: "service_draws \<Rightarrow> uuid \<Rightarrow> workspace service_op" where
  "soft_delete_workspace d = set_status d WsDeleted ''workspace.deleted''"

definition hard_delete_workspace :: "service_draws \<Rightarrow> uuid \<Rightarrow> unit service_op" where
  "hard_delete_workspace d i s =
    (let ms = memberships_for_workspace i (sv_repo s);
         s = audit (audit_entry d i ''workspace.purged'' ''system'' None ''workspace'' (uuid_text i) []) s
     in and_then (on_repo (delete_workspace i (sv_repo s)) s) (\<lambda>s _. (fold (\<lambda>m. invalidate (mb_user m)) ms s, Inr ())))"

definition admin_or_system :: "workspace_role option \<Rightarrow> workspace_error + unit" where
  "admin_or_system actor_role =
    (case actor_role of
       None \<Rightarrow> Inr ()
     | Some r \<Rightarrow> if role_includes r Admin then Inr () else Inl RoleTooLow)"

definition actor_text :: "workspace_role option \<Rightarrow> string" where
  "actor_text actor_role = (case actor_role of Some r \<Rightarrow> role_text r | None \<Rightarrow> ''system'')"

definition invite_member ::
    "service_draws \<Rightarrow> uuid \<Rightarrow> string \<Rightarrow> workspace_role \<Rightarrow> workspace_role option \<Rightarrow> workspace_membership service_op" where
  "invite_member d ws u role actor_role s =
    and_then (s, admin_or_system actor_role) (\<lambda>s _.
    and_then (s, ensure_membership_capacity u (Some ws) (sv_repo s)) (\<lambda>s _.
    and_then (on_repo (add_membership (new_membership (dw_member d) (dw_now d) ws u None None role) (sv_repo s)) s) (\<lambda>s m.
      (invalidate u s, Inr m))))"

definition remove_member ::
    "service_draws \<Rightarrow> uuid \<Rightarrow> string \<Rightarrow> workspace_role option \<Rightarrow> unit service_op" where
  "remove_member d ws u actor_role s =
    and_then (s, admin_or_system actor_role) (\<lambda>s _.
    and_then (on_repo (remove_membership ws u (sv_repo s)) s) (\<lambda>s _.
      (invalidate u (audit (audit_entry d ws ''workspace.membership.removed'' (actor_text actor_role) (Some u)
         ''membership'' u []) s), Inr ())))"

definition update_member_role ::
    "service_draws \<Rightarrow> uuid \<Rightarrow> string \<Rightarrow> workspace_role \<Rightarrow> workspace_role option \<Rightarrow> workspace_membership service_op" where
  "update_member_role d ws u role actor_role s =
    and_then (s, admin_or_system actor_role) (\<lambda>s _.
    and_then (on_repo (update_membership_role ws u role (sv_repo s)) s) (\<lambda>s m.
      (invalidate u (audit (audit_entry d ws ''workspace.membership.updated'' (actor_text actor_role) (Some u)
         ''membership'' u [(''role'', PStr (role_text role))]) s), Inr m)))"

definition record_member_identity :: "uuid \<Rightarrow> string \<Rightarrow> string option \<Rightarrow> string option \<Rightarrow> workspace_service \<Rightarrow> workspace_service" where
  "record_member_identity ws u email name s =
    (if email = None \<and> name = None then s
     else fst (on_repo (update_membership_identity ws u email name (sv_repo s)) s))"

definition invitation_audit ::
    "service_draws \<Rightarrow> uuid \<Rightarrow> string \<Rightarrow> string option \<Rightarrow> invitation \<Rightarrow> (string, pyval) dict \<Rightarrow>
     workspace_service \<Rightarrow> workspace_service" where
  "invitation_audit d ws action actor iv details s =
    audit (audit_entry d ws action (if opt_truthy actor then the actor else ''system'') (Some (iv_email iv)) ''invitation''
      (uuid_text (iv_id iv)) details) s"

text \<open>\<open>deliver\<close> tells whether the sender takes the mail; a sender that raises leaves the invitation stored.\<close>

definition send_invitation_email ::
    "(invitation_mail \<Rightarrow> bool) \<Rightarrow> invitation \<Rightarrow> string \<Rightarrow> string option \<Rightarrow> workspace_service \<Rightarrow> workspace_error + unit" where
  "send_invitation_email deliver iv token workspace_name s =
    (let name = (case workspace_name of
           Some n \<Rightarrow> n
         | None \<Rightarrow> (case get_workspace (iv_workspace iv) (sv_repo s) of Inr w \<Rightarrow> sp_name w | Inl _ \<Rightarrow> ''your workspace''))
     in if deliver \<lparr>ml_to = iv_email iv, ml_workspace = name, ml_role = role_text (iv_role iv),
          ml_url = sv_base_url s @ ''/invitations/accept?token='' @ token, ml_expires_at = iv_expires_at iv,
          ml_invited_by = iv_invited_by iv\<rparr>
        then Inr () else Inl MailFailed)"

definition create_invitation ::
    "(string \<Rightarrow> string) \<Rightarrow> (invitation_mail \<Rightarrow> bool) \<Rightarrow> service_draws \<Rightarrow> string \<Rightarrow> uuid \<Rightarrow> string \<Rightarrow>
     workspace_role \<Rightarrow> string option \<Rightarrow> workspace_role option \<Rightarrow> string option \<Rightarrow> invitation service_op" where
  "create_invitation hash deliver d token ws email role invited_by actor_role workspace_name s =
    and_then (s, admin_or_system actor_role) (\<lambda>s _.
    and_then (s, normalize_email email) (\<lambda>s email.
      let iv = \<lparr>iv_id = dw_id d, iv_workspace = ws, iv_email = email, iv_role = role, iv_token_hash = hash token,
            iv_status = InvPending, iv_invited_by = invited_by, iv_accepted_by = None, iv_created_at = dw_now d,
            iv_expires_at = dw_now d + seconds (sv_ttl_hours s * 3600), iv_accepted_at = None\<rparr>
      in and_then (on_repo (add_invitation iv (sv_repo s)) s) (\<lambda>s iv.
        let s = invitation_audit d ws ''workspace.invitation.created'' invited_by iv
              [(''role'', PStr (role_text role)), (''email'', PStr email)] s
        in and_then (s, send_invitation_email deliver iv token workspace_name s) (\<lambda>s _. (s, Inr iv)))))"

definition revoke_invitation ::
    "service_draws \<Rightarrow> uuid \<Rightarrow> uuid \<Rightarrow> workspace_role option \<Rightarrow> string option \<Rightarrow> invitation service_op" where
  "revoke_invitation d ws i actor_role actor s =
    and_then (s, admin_or_system actor_role) (\<lambda>s _.
    and_then (s, get_invitation i (sv_repo s)) (\<lambda>s iv.
      if iv_workspace iv \<noteq> ws then (s, Inl InvitationForeign)
      else if iv_status iv \<noteq> InvPending then (s, Inl (InvitationResolved (iv_status iv)))
      else and_then (on_repo (update_invitation (iv\<lparr>iv_status := InvRevoked\<rparr>) (sv_repo s)) s) (\<lambda>s iv.
        (invitation_audit d ws ''workspace.invitation.revoked'' actor iv [] s, Inr iv))))"

definition accept_invitation ::
    "(string \<Rightarrow> string) \<Rightarrow> service_draws \<Rightarrow> string \<Rightarrow> string \<Rightarrow> string option \<Rightarrow> bool \<Rightarrow>
     workspace_membership service_op" where
  "accept_invitation hash d token u email verified s =
    and_then (s, get_invitation_by_token_hash (hash token) (sv_repo s)) (\<lambda>s iv.
      case iv_status iv of
        InvRevoked \<Rightarrow> (s, Inl InvitationWasRevoked)
      | InvAccepted \<Rightarrow>
          if iv_accepted_by iv = Some u then (s, get_membership (iv_workspace iv) u (sv_repo s))
          else (s, Inl InvitationNotFound)
      | InvPending \<Rightarrow>
          if invitation_expired (dw_now d) iv then (s, Inl InvitationExpired)
          else and_then (s, if opt_truthy email then seqE (normalize_email (the email)) (\<lambda>e. Inr (Some e)) else Inr None) (\<lambda>s e.
            case e of
              None \<Rightarrow> (s, Inl EmailMissing)
            | Some e \<Rightarrow>
                if \<not> verified then (s, Inl EmailUnverified)
                else if e \<noteq> iv_email iv then (s, Inl EmailMismatch)
                else and_then (s, ensure_membership_capacity u (Some (iv_workspace iv)) (sv_repo s)) (\<lambda>s _.
                  let (r, m, accepted) = accept_invitation_atomic (dw_now3 d)
                        (new_membership (dw_member d) (dw_now2 d) (iv_workspace iv) u None None (iv_role iv)) (iv_email iv) iv (sv_repo s)
                  in (invalidate u (invitation_audit d (iv_workspace iv) ''workspace.invitation.accepted'' (Some u)
                       accepted [] (s\<lparr>sv_repo := r\<rparr>)), Inr m))))"

definition memberships_of ::
    "int \<Rightarrow> int \<Rightarrow> string \<Rightarrow> (workspace \<times> workspace_membership) list service_op" where
  "memberships_of clock clock' u s =
    (let (c, ms) = list_memberships clock clock' u (sv_repo s) (sv_cache s); s = s\<lparr>sv_cache := c\<rparr>
     in (s, if list_all (\<lambda>m. dict_get (rp_workspaces (sv_repo s)) (mb_workspace m) \<noteq> None) ms
         then Inr (map (\<lambda>m. (the (dict_get (rp_workspaces (sv_repo s)) (mb_workspace m)), m)) ms)
         else Inl WorkspaceNotFound))"

fun purge_loop :: "(uuid \<Rightarrow> service_draws) \<Rightarrow> instant \<Rightarrow> workspace list \<Rightarrow> workspace list service_op" where
  "purge_loop d cutoff [] s = (s, Inr [])"
| "purge_loop d cutoff (w # ws) s =
    (if sp_status w \<noteq> WsDeleted \<or> (case sp_deleted_at w of None \<Rightarrow> True | Some t \<Rightarrow> t > cutoff)
     then purge_loop d cutoff ws s
     else and_then (hard_delete_workspace (d (sp_id w)) (sp_id w) s) (\<lambda>s _.
       and_then (purge_loop d cutoff ws s) (\<lambda>s purged. (s, Inr (w # purged)))))"

definition purge_deleted_workspaces ::
    "(uuid \<Rightarrow> service_draws) \<Rightarrow> instant \<Rightarrow> int \<Rightarrow> workspace list service_op" where
  "purge_deleted_workspaces d now retention_days s =
    purge_loop d (now - seconds (retention_days * 86400)) (repo_list_workspaces True (sv_repo s)) s"

definition resolve_workspace :: "int \<Rightarrow> int \<Rightarrow> string \<Rightarrow> string option \<Rightarrow> workspace_context service_op" where
  "resolve_workspace clock clock' u slug s =
    (let (c, ms) = list_memberships clock clock' u (sv_repo s) (sv_cache s); s = s\<lparr>sv_cache := c\<rparr>
     in (s, choose_workspace ms slug (sv_repo s)))"

definition new_workspace_service :: "int \<Rightarrow> int \<Rightarrow> string \<Rightarrow> workspace_service" where
  "new_workspace_service cache_ttl ttl_hours base_url =
    \<lparr>sv_repo = new_repo, sv_cache = \<lparr>mc_ttl = cache_ttl, mc_entries = []\<rparr>, sv_ttl_hours = ttl_hours, sv_base_url = base_url\<rparr>"

end
