(* ===== verification/Rate_Limits.thy ===== *)
theory Rate_Limits
  imports Sliding_Window Workspaces
begin

text \<open>
  The keyed rate limiters of the backend: authentication attempts per address and per identity
  (\<open>authentication/rate_limit.py\<close>) and API calls per workspace with the workspace quotas
  (\<open>workspace_governance.py\<close>). Both keep a dictionary of sliding windows, so both provide the
  interface \<open>sliding_window\<close>. Redis is outside the program: its answer to a transaction is the value
  \<open>redis_reply\<close>.
\<close>

section \<open>A dictionary of windows\<close>

definition window_admit :: "int \<Rightarrow> int \<Rightarrow> instant \<Rightarrow> instant list \<Rightarrow> instant list \<times> bool" where
  "window_admit limit interval timestamp bucket =
    (let window_start = timestamp - seconds interval;
         bucket = dropWhile (\<lambda>t. t \<le> window_start) bucket
     in if int (length bucket) \<ge> limit then (bucket, False) else (bucket @ [timestamp], True))"

definition bucket_hit ::
    "int \<Rightarrow> int \<Rightarrow> string \<Rightarrow> instant \<Rightarrow> (string, instant list) dict \<Rightarrow> (string, instant list) dict \<times> bool" where
  "bucket_hit limit interval key timestamp events =
    (let (d, bucket) = dict_setdefault key [] events; (bucket', ok) = window_admit limit interval timestamp bucket
     in (dict_set key bucket' d, ok))"

interpretation limiter_window: sliding_window
  "\<lambda>now t. t \<le> now - seconds interval" "nat limit" "window_admit limit interval" for limit interval
  by unfold_locales (auto simp: window_admit_def Let_def nat_le_iff)

lemma bucket_hit_get:
  "dict_get (fst (bucket_hit limit interval key t events)) k =
    (if k = key then Some (fst (window_admit limit interval t (case dict_get events key of Some b \<Rightarrow> b | None \<Rightarrow> [])))
     else dict_get events k)"
  by (auto simp: bucket_hit_def dict_setdefault_def split_beta Let_def split: option.splits)

lemma bucket_hit_ok:
  "snd (bucket_hit limit interval key t events) =
    snd (window_admit limit interval t (case dict_get events key of Some b \<Rightarrow> b | None \<Rightarrow> []))"
  by (auto simp: bucket_hit_def dict_setdefault_def split_beta Let_def split: option.splits)

section \<open>Authentication attempts\<close>

datatype limiter_error = RateLimited string int

record limiter =
  lim_limit :: int
  lim_interval :: int
  lim_code :: string
  lim_events :: "(string, instant list) dict"

definition new_limiter :: "int \<Rightarrow> int \<Rightarrow> string \<Rightarrow> limiter" where
  "new_limiter limit interval code =
    \<lparr>lim_limit = max limit 0, lim_interval = max interval 1, lim_code = code, lim_events = []\<rparr>"

definition hit :: "string \<Rightarrow> instant \<Rightarrow> limiter \<Rightarrow> (limiter, limiter_error, unit) outcome" where
  "hit key timestamp l =
    (if lim_limit l = 0 \<or> key = [] then (l, Inr ())
     else case bucket_hit (lim_limit l) (lim_interval l) key timestamp (lim_events l) of
         (d, ok) \<Rightarrow> (l\<lparr>lim_events := d\<rparr>, if ok then Inr () else Inl (RateLimited (lim_code l) (lim_interval l))))"

definition limiter_reset :: "limiter \<Rightarrow> limiter" where
  "limiter_reset l = l\<lparr>lim_events := []\<rparr>"

record auth_limiter =
  al_ip :: limiter
  al_identity :: limiter

definition new_auth_limiter :: "int \<Rightarrow> int \<Rightarrow> int \<Rightarrow> auth_limiter" where
  "new_auth_limiter ip_limit identity_limit interval =
    \<lparr>al_ip = new_limiter ip_limit interval ''auth.rate_limited.ip'',
     al_identity = new_limiter identity_limit interval ''auth.rate_limited.identity''\<rparr>"

definition check_ip :: "string option \<Rightarrow> instant \<Rightarrow> auth_limiter \<Rightarrow> (auth_limiter, limiter_error, unit) outcome" where
  "check_ip ip now a = (if opt_truthy ip
     then (case hit (the ip) now (al_ip a) of (l, r) \<Rightarrow> (a\<lparr>al_ip := l\<rparr>, r)) else (a, Inr ()))"

definition check_identity :: "string option \<Rightarrow> instant \<Rightarrow> auth_limiter \<Rightarrow> (auth_limiter, limiter_error, unit) outcome" where
  "check_identity identity now a = (if opt_truthy identity
     then (case hit (the identity) now (al_identity a) of (l, r) \<Rightarrow> (a\<lparr>al_identity := l\<rparr>, r)) else (a, Inr ()))"

definition auth_limiter_reset :: "auth_limiter \<Rightarrow> auth_limiter" where
  "auth_limiter_reset a = a\<lparr>al_ip := limiter_reset (al_ip a), al_identity := limiter_reset (al_identity a)\<rparr>"

section \<open>Workspaces\<close>

datatype quota_error =
    WorkspaceRateLimit int
  | ConcurrentRuns int int
  | WorkflowQuota int nat
  | StorageQuota int nat
  | CredentialQuota int nat

text \<open>The transaction failed, or counted the members of the window with the new one included; then
  removing the new one, where it is asked for, may fail.\<close>

datatype redis_reply = RedisDown | Counted nat bool

record governance =
  api_rate_limit :: int
  api_rate_interval :: int
  api_events :: "(string, instant list) dict"

definition new_governance :: "int \<Rightarrow> int \<Rightarrow> governance" where
  "new_governance limit interval =
    \<lparr>api_rate_limit = max limit 0, api_rate_interval = max interval 1, api_events = []\<rparr>"

definition check_in_memory :: "string \<Rightarrow> instant \<Rightarrow> governance \<Rightarrow> (governance, quota_error, unit) outcome" where
  "check_in_memory workspace_id now g =
    (case bucket_hit (api_rate_limit g) (api_rate_interval g) workspace_id now (api_events g) of
       (d, ok) \<Rightarrow> (g\<lparr>api_events := d\<rparr>, if ok then Inr () else Inl (WorkspaceRateLimit (api_rate_interval g))))"

definition check_api_rate_limit ::
    "redis_reply option \<Rightarrow> string \<Rightarrow> instant \<Rightarrow> governance \<Rightarrow> (governance, quota_error, unit) outcome" where
  "check_api_rate_limit redis workspace_id now g =
    (if api_rate_limit g = 0 \<or> workspace_id = [] then (g, Inr ())
     else case redis of
         None \<Rightarrow> check_in_memory workspace_id now g
       | Some RedisDown \<Rightarrow> check_in_memory workspace_id now g
       | Some (Counted count removed) \<Rightarrow>
           if int count > api_rate_limit g
           then (if removed then (g, Inl (WorkspaceRateLimit (api_rate_interval g)))
                 else check_in_memory workspace_id now g)
           else (g, Inr ()))"

definition ensure_concurrent_run_capacity :: "int \<Rightarrow> int \<Rightarrow> quota_error + unit" where
  "ensure_concurrent_run_capacity active limit =
    (if limit \<le> 0 \<or> active < limit then Inr () else Inl (ConcurrentRuns limit active))"

text \<open>Each stored workflow is given by its numbers of versions and of runs.\<close>

definition ensure_workspace_workflow_quota :: "(nat \<times> nat) list \<Rightarrow> workspace_quotas \<Rightarrow> quota_error + unit" where
  "ensure_workspace_workflow_quota workflows q =
    (let storage_rows = length workflows + (sum_list (map fst workflows) + sum_list (map snd workflows))
     in if int (length workflows) \<ge> max_workflows q then Inl (WorkflowQuota (max_workflows q) (length workflows))
        else if int storage_rows \<ge> max_storage_rows q then Inl (StorageQuota (max_storage_rows q) storage_rows)
        else Inr ())"

definition ensure_workspace_credential_quota :: "nat \<Rightarrow> workspace_quotas \<Rightarrow> quota_error + unit" where
  "ensure_workspace_credential_quota credentials q =
    (if int credentials \<ge> max_credentials q then Inl (CredentialQuota (max_credentials q) credentials) else Inr ())"

section \<open>Laws\<close>

text \<open>The times at which attempts under a key are accepted, among attempts under any keys.\<close>

fun accepted_hits :: "string \<Rightarrow> (string \<times> instant) list \<Rightarrow> limiter \<Rightarrow> instant list" where
  "accepted_hits k [] l = []"
| "accepted_hits k ((key, t) # hits) l =
    (case hit key t l of (l', r) \<Rightarrow>
      if key = k \<and> r = Inr () then t # accepted_hits k hits l' else accepted_hits k hits l')"

lemma hit_config [simp]:
  "lim_limit (fst (hit key t l)) = lim_limit l" "lim_interval (fst (hit key t l)) = lim_interval l"
  by (simp_all add: hit_def split_beta)

lemma accepted_hits_admitted:
  assumes "lim_limit l \<noteq> 0" "k \<noteq> []"
  shows "accepted_hits k hits l =
    admitted_times (window_admit (lim_limit l) (lim_interval l))
      (case dict_get (lim_events l) k of Some b \<Rightarrow> b | None \<Rightarrow> []) (map snd (filter (\<lambda>h. fst h = k) hits))"
  using assms
proof (induction hits arbitrary: l)
  case Nil
  then show ?case by simp
next
  case (Cons h hits)
  obtain key t where h: "h = (key, t)" by (cases h)
  have ih: "accepted_hits k hits (fst (hit key t l)) =
      admitted_times (window_admit (lim_limit l) (lim_interval l))
        (case dict_get (lim_events (fst (hit key t l))) k of Some b \<Rightarrow> b | None \<Rightarrow> [])
        (map snd (filter (\<lambda>h. fst h = k) hits))"
    using Cons.IH [of "fst (hit key t l)"] Cons.prems by simp
  show ?case
  proof (cases "key = k")
    case True
    then show ?thesis
      using ih Cons.prems by (simp add: h hit_def split_beta bucket_hit_get bucket_hit_ok)
  next
    case False
    then have "dict_get (lim_events (fst (hit key t l))) k = dict_get (lim_events l) k"
      by (simp add: hit_def split_beta bucket_hit_get)
    with ih False show ?thesis by (simp add: h split_beta)
  qed
qed

lemma accepted_hits_bounded:
  assumes "sorted (map snd hits)" "0 < lim_limit l" "lim_events l = []" "k \<noteq> []"
  shows "int (length (filter (\<lambda>t. x - seconds (lim_interval l) < t \<and> t \<le> x) (accepted_hits k hits l))) \<le> lim_limit l"
proof -
  let ?ts = "map snd (filter (\<lambda>h. fst h = k) hits)"
  have "sorted ?ts" using assms(1) by (induction hits) auto
  note limiter_window.admitted_window [OF this, of "lim_interval l" x "lim_limit l"]
  moreover have "limiter_window.in_window (lim_interval l) x = (\<lambda>t. x - seconds (lim_interval l) < t \<and> t \<le> x)"
    by (simp add: fun_eq_iff limiter_window.in_window_def not_le)
  ultimately show ?thesis
    using accepted_hits_admitted [of l k hits] assms(2-4) by simp
qed

text \<open>C21. However attempts under different keys interleave, no key gets more than \<open>limit\<close>
  attempts accepted within any half-open window of the interval; a limit of zero or less disables the
  limiter.\<close>

theorem auth_attempts_bounded:
  assumes "sorted (map snd hits)" "k \<noteq> []"
  shows "if limit \<le> 0
    then accepted_hits k hits (new_limiter limit interval code) = map snd (filter (\<lambda>h. fst h = k) hits)
    else int (length (filter (\<lambda>t. x - seconds (max interval 1) < t \<and> t \<le> x)
      (accepted_hits k hits (new_limiter limit interval code)))) \<le> limit"
proof (cases "limit \<le> 0")
  case True
  have "hit key t (new_limiter limit interval code) = (new_limiter limit interval code, Inr ())" for key t
    using True by (simp add: hit_def new_limiter_def)
  then have "accepted_hits k hits (new_limiter limit interval code) = map snd (filter (\<lambda>h. fst h = k) hits)"
    by (induction hits) auto
  with True show ?thesis by simp
next
  case False
  with accepted_hits_bounded [OF assms(1), of "new_limiter limit interval code" k x] assms(2)
  show ?thesis by (simp add: new_limiter_def)
qed

theorem auth_attempts_bounded_witness:
  "int (length (filter (\<lambda>t. 40000000 - seconds 60 < t \<and> t \<le> 40000000)
     (accepted_hits ''a'' [(''a'', 0), (''b'', 1), (''a'', 2), (''a'', 3)] (new_limiter 2 60 ''c'')))) \<le> 2"
  using auth_attempts_bounded [of "[(''a'', 0), (''b'', 1), (''a'', 2), (''a'', 3)]" "''a''" 2 60 "''c''" 40000000]
  by simp

end
