(* ===== verification/Workflow_Entities_Laws.thy ===== *)
theory Workflow_Entities_Laws
  imports Workflow_Entities
begin

text \<open>
  Laws of the entities: the life cycle of a run as a step relation with its invariant and its final
  states, publishing, the normal forms of handles and slugs.
\<close>

section \<open>The life cycle of a run\<close>

inductive run_step :: "workflow_run \<Rightarrow> workflow_run \<Rightarrow> bool" where
  start: "run_step r (fst (mark_started t t' actor r))"
| succeed: "run_step r (fst (mark_succeeded t t' actor out r))"
| fail: "run_step r (fst (mark_failed t t' actor err r))"
| cancel: "run_step r (fst (mark_cancelled t t' actor reason r))"

inductive_simps run_step_iff: "run_step r r'"

definition run_actions :: "workflow_run \<Rightarrow> string list" where
  "run_actions r = map ar_action (audit_log r)"

definition start_actions :: "workflow_run \<Rightarrow> string list" where
  "start_actions r = (if started_at r = None then [] else [''run_started''])"

definition lifecycle :: "workflow_run \<Rightarrow> bool" where
  "lifecycle r \<longleftrightarrow> (case wr_status r of
      Pending \<Rightarrow> started_at r = None \<and> completed_at r = None \<and> output_payload r = None \<and> run_error r = None \<and>
        run_actions r = []
    | Running \<Rightarrow> started_at r \<noteq> None \<and> completed_at r = None \<and> output_payload r = None \<and> run_error r = None \<and>
        run_actions r = [''run_started'']
    | Succeeded \<Rightarrow> started_at r \<noteq> None \<and> completed_at r \<noteq> None \<and> output_payload r \<noteq> None \<and> run_error r = None \<and>
        run_actions r = [''run_started'', ''run_succeeded'']
    | Failed \<Rightarrow> completed_at r \<noteq> None \<and> output_payload r = None \<and> run_error r \<noteq> None \<and>
        run_actions r = start_actions r @ [''run_failed'']
    | Cancelled \<Rightarrow> completed_at r \<noteq> None \<and> output_payload r = None \<and>
        run_actions r = start_actions r @ [''run_cancelled''])"

lemma lifecycle_step: "run_step r r' \<Longrightarrow> lifecycle r \<Longrightarrow> lifecycle r'"
proof (induction rule: run_step.induct)
  case (start r t t' actor)
  then show ?case
    by (cases "wr_status r") (auto simp: mark_started_def lifecycle_def run_actions_def record_event_def)
next
  case (succeed r t t' actor out)
  then show ?case
    by (cases "wr_status r") (auto simp: mark_succeeded_def lifecycle_def run_actions_def record_event_def start_actions_def)
next
  case (fail r t t' actor err)
  then show ?case
    by (cases "wr_status r") (auto simp: mark_failed_def lifecycle_def run_actions_def record_event_def start_actions_def)
next
  case (cancel r t t' actor reason)
  then show ?case
    by (cases "wr_status r")
      (auto simp: mark_cancelled_def is_terminal_def lifecycle_def run_actions_def record_event_def start_actions_def)
qed

text \<open>C9. Whatever operations are attempted on a new run and in whatever order, its fields agree with
  its status: start and completion times are set exactly as the status says, an output exists only
  after success and an error only after failure or cancellation, and the audit log is the one history
  that leads to the status.\<close>

theorem run_lifecycle:
  assumes "run_step\<^sup>*\<^sup>* (new_run now i version trigger payload) r"
  shows "lifecycle r"
  using assms
proof (induction rule: rtranclp_induct)
  case base
  then show ?case by (simp add: lifecycle_def new_run_def run_actions_def)
next
  case (step s r)
  then show ?case using lifecycle_step by blast
qed

theorem run_lifecycle_witness:
  "lifecycle (fst (mark_failed 5 6 ''w'' ''boom'' (fst (mark_started 3 4 ''w'' (new_run 1 2 3 ''manual'' [])))))"
proof (rule run_lifecycle)
  show "run_step\<^sup>*\<^sup>* (new_run 1 2 3 ''manual'' [])
      (fst (mark_failed 5 6 ''w'' ''boom'' (fst (mark_started 3 4 ''w'' (new_run 1 2 3 ''manual'' [])))))"
    by (meson converse_rtranclp_into_rtranclp rtranclp.rtrancl_refl run_step.fail run_step.start)
qed

text \<open>A finished run is final: every further operation raises, and no sequence of operations
  changes anything of the run.\<close>

theorem finished_run_final:
  assumes "is_terminal (wr_status r)"
  shows "(\<forall>r'. run_step\<^sup>*\<^sup>* r r' \<longleftrightarrow> r' = r) \<and>
    mark_started t t' actor r = (r, Inl NotPending) \<and> mark_succeeded t t' actor out r = (r, Inl NotRunning) \<and>
    mark_failed t t' actor err r = (r, Inl NotActive) \<and> mark_cancelled t t' actor reason r = (r, Inl AlreadyCompleted)"
proof -
  have ops: "mark_started t t' actor r = (r, Inl NotPending)" "mark_succeeded t t' actor out r = (r, Inl NotRunning)"
    "mark_failed t t' actor err r = (r, Inl NotActive)" "mark_cancelled t t' actor reason r = (r, Inl AlreadyCompleted)"
    for t t' actor out err reason
    using assms by (auto simp: mark_started_def mark_succeeded_def mark_failed_def mark_cancelled_def is_terminal_def)
  have "run_step r r' \<longleftrightarrow> r' = r" for r'
    using ops by (auto simp: run_step_iff)
  note same = this
  have "r' = r" if "run_step\<^sup>*\<^sup>* r r'" for r'
    using that
  proof (induction rule: rtranclp_induct)
    case (step s s')
    then show ?case using same by simp
  qed simp
  with ops show ?thesis by auto
qed

theorem finished_run_final_witness:
  "snd (mark_cancelled 7 8 ''u'' None (fst (mark_failed 5 6 ''w'' ''boom'' (new_run 1 2 3 ''manual'' [])))) =
    Inl AlreadyCompleted"
proof -
  let ?r = "fst (mark_failed 5 6 ''w'' ''boom'' (new_run 1 2 3 ''manual'' []))"
  have "is_terminal (wr_status ?r)" by (simp add: mark_failed_def new_run_def record_event_def is_terminal_def)
  from finished_run_final [OF this] show ?thesis by simp
qed

section \<open>Publishing and upload state\<close>

definition workflow_ok :: "'a workflow_scheme \<Rightarrow> bool" where
  "workflow_ok w \<longleftrightarrow>
    (is_public w \<longleftrightarrow> published_at w \<noteq> None) \<and> (is_public w \<longleftrightarrow> published_by w \<noteq> None) \<and>
    (require_login w \<longrightarrow> is_public w) \<and>
    (\<forall>e. wf_upload_error w = Some e \<longrightarrow> 1 \<le> length (ue_message e) \<and> length (ue_message e) \<le> 4000)"

lemma upload_message_length:
  "1 \<le> length (normalize_upload_message m) \<and> length (normalize_upload_message m) \<le> 4000"
  by (auto simp: normalize_upload_message_def Let_def Suc_le_eq)

text \<open>C22. Publication fields stay consistent under every operation: publisher, time and login
  requirement are recorded exactly while the workflow is public, a stored upload failure has between 1
  and 4000 characters; publishing twice and revoking twice are refused, and revoking undoes publishing
  up to the audit trail.\<close>

theorem publication_consistent:
  assumes "workflow_ok w"
  shows "workflow_ok (fst (publish t t' login actor w)) \<and> workflow_ok (fst (revoke_publish t actor w)) \<and>
    workflow_ok (mark_upload_error t t' msg actor w) \<and> workflow_ok (clear_upload_error t actor w) \<and>
    (snd (publish t t' login actor w) = Inr () \<longleftrightarrow> \<not> is_public w) \<and>
    (snd (revoke_publish t actor w) = Inr () \<longleftrightarrow> is_public w) \<and>
    (\<not> is_public w \<longrightarrow>
      (\<exists>w'. revoke_publish u actor' (fst (publish t t' login actor w)) = (w', Inr ()) \<and>
        w'\<lparr>audit_log := audit_log w, updated_at := updated_at w\<rparr> = w))"
proof (intro conjI)
  show "workflow_ok (fst (publish t t' login actor w))" "workflow_ok (fst (revoke_publish t actor w))"
    "workflow_ok (mark_upload_error t t' msg actor w)" "workflow_ok (clear_upload_error t actor w)"
    using assms upload_message_length [of msg]
    by (auto simp: workflow_ok_def publish_def revoke_publish_def mark_upload_error_def clear_upload_error_def
        record_event_def Let_def split: option.splits)
  show "snd (publish t t' login actor w) = Inr () \<longleftrightarrow> \<not> is_public w" by (simp add: publish_def)
  show "snd (revoke_publish t actor w) = Inr () \<longleftrightarrow> is_public w" by (simp add: revoke_publish_def)
  show "\<not> is_public w \<longrightarrow>
      (\<exists>w'. revoke_publish u actor' (fst (publish t t' login actor w)) = (w', Inr ()) \<and>
        w'\<lparr>audit_log := audit_log w, updated_at := updated_at w\<rparr> = w)"
  proof
    assume "\<not> is_public w"
    with assms have "is_public w = False" "published_at w = None" "published_by w = None" "require_login w = False"
      by (auto simp: workflow_ok_def)
    then show "\<exists>w'. revoke_publish u actor' (fst (publish t t' login actor w)) = (w', Inr ()) \<and>
        w'\<lparr>audit_log := audit_log w, updated_at := updated_at w\<rparr> = w"
      by (simp add: publish_def revoke_publish_def record_event_def)
  qed
qed

definition sample_workflow :: workflow where
  "sample_workflow = \<lparr>entity_id = 1, created_at = 0, updated_at = 0, audit_log = [], wf_name = ''w'',
     wf_handle = None, wf_slug = ''w'', wf_tags = [], is_archived = False, is_public = False, published_at = None,
     published_by = None, require_login = False, wf_upload_error = None\<rparr>"

theorem publication_consistent_witness:
  "\<exists>w'. revoke_publish 4 ''b'' (fst (publish 2 3 True ''a'' sample_workflow)) = (w', Inr ()) \<and>
    w'\<lparr>audit_log := [], updated_at := 0\<rparr> = sample_workflow"
proof -
  have "workflow_ok sample_workflow" "\<not> is_public sample_workflow"
    by (simp_all add: workflow_ok_def sample_workflow_def)
  with publication_consistent [of sample_workflow 2 3 True "''a''" _ 4 "''b''"]
  have "\<exists>w'. revoke_publish 4 ''b'' (fst (publish 2 3 True ''a'' sample_workflow)) = (w', Inr ()) \<and>
    w'\<lparr>audit_log := audit_log sample_workflow, updated_at := updated_at sample_workflow\<rparr> = sample_workflow"
    by blast
  then show ?thesis by (simp add: sample_workflow_def)
qed

section \<open>Normal forms of handles and slugs\<close>

lemma lower_alnum_fixed: "lower_alnum c \<Longrightarrow> char_lower c = c \<and> \<not> char_space c"
  by (auto simp: lower_alnum_def char_lower_def char_space_def Let_def)

lemma hyphen_fixed: "char_lower CHR ''-'' = CHR ''-'' \<and> \<not> char_space CHR ''-''"
  by code_simp

lemma normal_text:
  assumes "\<forall>c \<in> set s. lower_alnum c \<or> c = CHR ''-''"
  shows "str_lower (str_strip s) = s"
proof -
  have c: "char_lower c = c \<and> \<not> char_space c" if "c \<in> set s" for c
    using assms that lower_alnum_fixed hyphen_fixed by blast
  have "dropWhile char_space t = t" if "set t \<subseteq> set s" for t
    using that c by (cases t) auto
  then have "dropWhile char_space s = s" "dropWhile char_space (rev s) = rev s" by simp_all
  then have "str_strip s = s" by (simp add: str_strip_def)
  moreover have "str_lower s = s" using c by (simp add: str_lower_def map_idI)
  ultimately show ?thesis by simp
qed

lemma str_split_chars:
  "list_all (\<lambda>seg. list_all P seg) (str_split d s) \<Longrightarrow> \<forall>c \<in> set s. P c \<or> c = d"
  by (induction d s rule: str_split.induct) (auto split: if_splits list.splits)

lemma handle_pattern_chars: "handle_pattern s \<Longrightarrow> \<forall>c \<in> set s. lower_alnum c \<or> c = CHR ''-''"
  unfolding handle_pattern_def by (rule str_split_chars) (simp add: list_all_iff)

lemma handle_pattern_ends:
  assumes "handle_pattern s"
  shows "s \<noteq> [] \<and> hd s \<noteq> CHR ''-''"
  using assms by (cases s) (auto simp: handle_pattern_def split: if_splits)

text \<open>A handle that normalisation accepts is a fixed point of it (so storing and looking up a
  handle by any spelling that normalises agree); it is at most 64 characters of \<open>a-z\<close>, \<open>0-9\<close> and
  hyphens, does not start with a hyphen, and is not the text of a UUID, so a reference is never both.\<close>

theorem handle_normal_form:
  assumes "normalize_workflow_handle (Some v) = Inr (Some h)"
  shows "normalize_workflow_handle (Some h) = Inr (Some h) \<and> length h \<le> 64 \<and> h \<noteq> [] \<and> hd h \<noteq> CHR ''-'' \<and>
    (\<forall>c \<in> set h. lower_alnum c \<or> c = CHR ''-'') \<and> \<not> workflow_ref_is_uuid h"
proof -
  have h: "h = str_lower (str_strip v)" "length h \<le> 64" "handle_pattern h" "\<not> workflow_ref_is_uuid h" "h \<noteq> []"
    using assms by (auto simp: normalize_workflow_handle_def workflow_handle_max_length_def Let_def split: if_splits)
  note chars = handle_pattern_chars [OF h(3)]
  have "normalize_workflow_handle (Some h) = Inr (Some h)"
    using h(2-5) normal_text [OF chars]
    by (simp add: normalize_workflow_handle_def workflow_handle_max_length_def)
  with h chars handle_pattern_ends [OF h(3)] show ?thesis by blast
qed

theorem handle_normal_form_witness:
  "normalize_workflow_handle (Some '' Daily-Report2 '') = Inr (Some ''daily-report2'') \<and>
   normalize_workflow_handle (Some ''daily-report2'') = Inr (Some ''daily-report2'')"
proof -
  have "normalize_workflow_handle (Some '' Daily-Report2 '') = Inr (Some ''daily-report2'')" by code_simp
  with handle_normal_form [OF this] show ?thesis by blast
qed

text \<open>Words of letters and digits separated by single hyphens; the flag tells that a hyphen precedes.\<close>

fun hyphenated :: "bool \<Rightarrow> string \<Rightarrow> bool" where
  "hyphenated b [] = True"
| "hyphenated b (c # cs) =
    (if lower_alnum c then hyphenated False cs else c = CHR ''-'' \<and> \<not> b \<and> hyphenated True cs)"

lemma hyphen_not_alnum: "\<not> lower_alnum CHR ''-''"
  by code_simp

lemma slug_sub_hyphenated: "hyphenated b (slug_sub b s)"
  by (induction b s rule: slug_sub.induct) (auto simp: hyphen_not_alnum)

lemma slug_sub_fixed: "hyphenated b s \<Longrightarrow> slug_sub b s = s"
  by (induction b s rule: slug_sub.induct) (auto split: if_splits)

lemma hyphenated_chars: "hyphenated b s \<Longrightarrow> \<forall>c \<in> set s. lower_alnum c \<or> c = CHR ''-''"
  by (induction b s rule: hyphenated.induct) (auto split: if_splits)

lemma hyphenated_weaken: "hyphenated b s \<Longrightarrow> hyphenated False s"
  by (cases s) (auto split: if_splits)

lemma hyphenated_dropWhile: "hyphenated b s \<Longrightarrow> hyphenated False (dropWhile (\<lambda>c. c = CHR ''-'') s)"
proof (induction s arbitrary: b)
  case Nil
  then show ?case by simp
next
  case (Cons c cs)
  show ?case
  proof (cases "c = CHR ''-''")
    case True
    with Cons.prems have "hyphenated True cs" by (simp add: hyphen_not_alnum)
    from Cons.IH [OF this] True show ?thesis by simp
  next
    case False
    with hyphenated_weaken [OF Cons.prems] show ?thesis by simp
  qed
qed

lemma hyphenated_prefix: "hyphenated b (s @ t) \<Longrightarrow> hyphenated b s"
  by (induction b s rule: hyphenated.induct) (auto split: if_splits)

lemma strip_hyphens_hyphenated:
  assumes "hyphenated b s"
  shows "hyphenated False (strip_hyphens s)"
proof -
  let ?P = "\<lambda>c. c = CHR ''-''" and ?t = "dropWhile (\<lambda>c. c = CHR ''-'') s"
  have "rev ?t = takeWhile ?P (rev ?t) @ dropWhile ?P (rev ?t)" by simp
  then have "?t = rev (dropWhile ?P (rev ?t)) @ rev (takeWhile ?P (rev ?t))"
    by (metis rev_append rev_rev_ident)
  then show ?thesis
    using hyphenated_dropWhile [OF assms] hyphenated_prefix unfolding strip_hyphens_def by metis
qed

lemma strip_hyphens_idem: "strip_hyphens (strip_hyphens s) = strip_hyphens s"
  unfolding strip_hyphens_def by (simp only: dropWhile_idem_rev rev_rev_ident dropWhile_idem)

definition slug_normal :: "string \<Rightarrow> bool" where
  "slug_normal s \<longleftrightarrow> s \<noteq> [] \<and> hyphenated False s \<and> strip_hyphens s = s"

lemma slugify_normal:
  assumes "slug_normal s"
  shows "slugify f s = s"
proof -
  have s: "s \<noteq> []" "hyphenated False s" "strip_hyphens s = s" using assms by (simp_all add: slug_normal_def)
  have "str_lower (str_strip s) = s" by (rule normal_text [OF hyphenated_chars [OF s(2)]])
  then show ?thesis using s slug_sub_fixed [OF s(2)] by (simp add: slugify_def)
qed

text \<open>Slugs are stable: the model validator that derives the slug runs again at every later
  assignment to a field, and derives the same slug, whether it came from a name, from a name without
  any letter or digit, or from a random identifier.\<close>

theorem slug_stable:
  assumes "slug_normal fresh"
  shows "slugify fresh' (slugify fresh v) = slugify fresh v \<and> slugify fresh v \<noteq> [] \<and>
    (slug_normal (slugify fresh v) \<or> slugify fresh v = str_lower (str_strip v))"
proof -
  let ?v = "str_lower (str_strip v)"
  let ?n = "strip_hyphens (slug_sub False ?v)"
  have n: "slug_normal ?n" if "?n \<noteq> []"
    using that strip_hyphens_hyphenated [OF slug_sub_hyphenated] strip_hyphens_idem by (simp add: slug_normal_def)
  consider "?n \<noteq> []" | "?n = []" "?v \<noteq> []" | "?n = []" "?v = []" by blast
  then show ?thesis
  proof cases
    case 1
    then have "slugify fresh v = ?n" by (simp add: slugify_def Let_def)
    with n [OF 1] slugify_normal [OF n [OF 1]] 1 show ?thesis by simp
  next
    case 2
    then have s: "slugify fresh v = ?v" by (simp add: slugify_def Let_def)
    have "str_lower (str_strip ?v) = ?v" by (simp add: str_strip_lower)
    with 2 s show ?thesis by (simp add: slugify_def Let_def)
  next
    case 3
    then have "slugify fresh v = fresh" by (simp add: slugify_def Let_def)
    with assms slugify_normal [OF assms] show ?thesis by (simp add: slug_normal_def)
  qed
qed

theorem slug_stable_witness:
  "slugify ''u'' '' My  Flow! '' = ''my-flow'' \<and>
   slugify ''w'' (slugify ''u'' '' My  Flow! '') = slugify ''u'' '' My  Flow! ''"
proof
  show "slugify ''u'' '' My  Flow! '' = ''my-flow''" by code_simp
  have "slug_normal ''u''" by code_simp
  from slug_stable [OF this]
  show "slugify ''w'' (slugify ''u'' '' My  Flow! '') = slugify ''u'' '' My  Flow! ''" by blast
qed

end
