(* ===== verification/Edge_Conditions.thy ===== *)
theory Edge_Conditions
  imports Py_Value
begin

text \<open>
  Conditions (\<open>edges/conditions.py\<close>), the branching edges built on them
  (\<open>edges/branching.py\<close>: if-else, switch and while), reading of node results
  (\<open>runtime/results.py\<close>) and the edges that route on them (\<open>edges/results.py\<close>). A workflow
  state is the dictionary of its fields. The textual form \<open>str(v)\<close> of floats, bytes and containers
  is the language's and a parameter \<open>show\<close>; text is ASCII, where \<open>casefold\<close> is \<open>lower\<close>.
\<close>

section \<open>Comparison of operands\<close>

datatype comparison_operator =
    Equals | NotEquals | GreaterThan | GreaterThanOrEqual | LessThan | LessThanOrEqual
  | Contains | NotContains | In | NotIn | IsTruthy | IsFalsy

datatype condition_error = OperandTypes | NoContainer

definition normalise_case :: "bool \<Rightarrow> pyval \<Rightarrow> pyval" where
  "normalise_case case_sensitive v =
    (case v of PStr s \<Rightarrow> if case_sensitive then v else PStr (str_lower s) | _ \<Rightarrow> v)"

fun py_str :: "(pyval \<Rightarrow> string) \<Rightarrow> pyval \<Rightarrow> string" where
  "py_str show (PStr s) = s"
| "py_str show (PInt i) = int_str i"
| "py_str show (PBool b) = (if b then ''True'' else ''False'')"
| "py_str show PNone = ''None''"
| "py_str show v = show v"

fun str_contains :: "string \<Rightarrow> string \<Rightarrow> bool" where
  "str_contains sub [] = (sub = [])"
| "str_contains sub (c # cs) = (str_startswith (c # cs) sub \<or> str_contains sub cs)"

definition str_or_bytes :: "pyval \<Rightarrow> bool" where
  "str_or_bytes v = (case v of PStr _ \<Rightarrow> True | PBytes _ \<Rightarrow> True | _ \<Rightarrow> False)"

text \<open>Whether the container includes the member. A list or mapping is no key of a mapping, and a
  string is never sought in \<open>bytes\<close>: both raise \<open>TypeError\<close>.\<close>

definition membership :: "(pyval \<Rightarrow> string) \<Rightarrow> pyval \<Rightarrow> pyval \<Rightarrow> condition_error + bool" where
  "membership show container member =
    (case container of
       PDict d \<Rightarrow> (case member of
           PList _ \<Rightarrow> Inl OperandTypes
         | PDict _ \<Rightarrow> Inl OperandTypes
         | PStr k \<Rightarrow> Inr (dict_get d k \<noteq> None)
         | _ \<Rightarrow> Inr False)
     | PStr s \<Rightarrow> Inr (str_contains (py_str show member) s)
     | PBytes _ \<Rightarrow> Inl OperandTypes
     | PList xs \<Rightarrow> Inr (list_ex (py_eq member) xs)
     | _ \<Rightarrow> Inl NoContainer)"

definition contains :: "(pyval \<Rightarrow> string) \<Rightarrow> pyval \<Rightarrow> pyval \<Rightarrow> bool \<Rightarrow> condition_error + bool" where
  "contains show container member expect =
    seqE (membership show container member) (\<lambda>result. Inr (if expect then result else \<not> result))"

definition compared :: "bool option \<Rightarrow> condition_error + bool" where
  "compared r = (case r of Some b \<Rightarrow> Inr b | None \<Rightarrow> Inl OperandTypes)"

definition evaluate_condition ::
    "(pyval \<Rightarrow> string) \<Rightarrow> pyval \<Rightarrow> pyval \<Rightarrow> comparison_operator \<Rightarrow> bool \<Rightarrow> condition_error + bool" where
  "evaluate_condition show left right operator case_sensitive =
    (let left_value = normalise_case case_sensitive left;
         right_value = normalise_case case_sensitive right
     in case operator of
          Equals \<Rightarrow> Inr (py_eq left_value right_value)
        | NotEquals \<Rightarrow> Inr (\<not> py_eq left_value right_value)
        | GreaterThan \<Rightarrow> compared (py_less right_value left_value)
        | GreaterThanOrEqual \<Rightarrow> compared (py_less_eq right_value left_value)
        | LessThan \<Rightarrow> compared (py_less left_value right_value)
        | LessThanOrEqual \<Rightarrow> compared (py_less_eq left_value right_value)
        | IsTruthy \<Rightarrow> Inr (truthy left_value)
        | IsFalsy \<Rightarrow> Inr (\<not> truthy left_value)
        | Contains \<Rightarrow> contains show left_value right_value True
        | NotContains \<Rightarrow> contains show left_value right_value False
        | In \<Rightarrow> contains show right_value left_value True
        | NotIn \<Rightarrow> contains show right_value left_value False)"

section \<open>Combination\<close>

record condition =
  cond_left :: pyval
  cond_operator :: comparison_operator
  cond_right :: pyval
  cond_case_sensitive :: bool

datatype combinator = AndLogic | OrLogic

record evaluation =
  ev_index :: nat
  ev_left :: pyval
  ev_right :: pyval
  ev_operator :: comparison_operator
  ev_case_sensitive :: bool
  ev_result :: bool

fun evaluate_from ::
    "(pyval \<Rightarrow> string) \<Rightarrow> pyval \<Rightarrow> nat \<Rightarrow> condition list \<Rightarrow> condition_error + evaluation list" where
  "evaluate_from show default_left index [] = Inr []"
| "evaluate_from show default_left index (c # cs) =
    (let left_operand = (if cond_left c \<noteq> PNone then cond_left c else default_left)
     in seqE (evaluate_condition show left_operand (cond_right c) (cond_operator c) (cond_case_sensitive c))
          (\<lambda>outcome. seqE (evaluate_from show default_left (Suc index) cs)
            (\<lambda>rest. Inr (\<lparr>ev_index = index, ev_left = left_operand, ev_right = cond_right c,
               ev_operator = cond_operator c, ev_case_sensitive = cond_case_sensitive c,
               ev_result = outcome\<rparr> # rest))))"

definition combine_condition_results ::
    "(pyval \<Rightarrow> string) \<Rightarrow> condition list \<Rightarrow> combinator \<Rightarrow> pyval \<Rightarrow> condition_error + (bool \<times> evaluation list)" where
  "combine_condition_results show conditions combinator default_left =
    (if conditions = [] then Inr (False, [])
     else seqE (evaluate_from show default_left 0 conditions)
       (\<lambda>evaluations.
          let results = map ev_result evaluations;
              aggregated = (case combinator of AndLogic \<Rightarrow> list_all id results | OrLogic \<Rightarrow> list_ex id results)
          in Inr (aggregated, evaluations)))"

section \<open>Branching edges\<close>

record if_else =
  ie_conditions :: "condition list"
  ie_logic :: combinator

text \<open>The defaults of the field, and its minimal length.\<close>

definition make_if_else :: "condition list option \<Rightarrow> combinator \<Rightarrow> if_else option" where
  "make_if_else conditions logic =
    (case conditions of
       None \<Rightarrow> Some \<lparr>ie_conditions = [\<lparr>cond_left = PBool True, cond_operator = IsTruthy, cond_right = PNone,
           cond_case_sensitive = True\<rparr>], ie_logic = logic\<rparr>
     | Some cs \<Rightarrow> if cs = [] then None else Some \<lparr>ie_conditions = cs, ie_logic = logic\<rparr>)"

definition if_else_run :: "(pyval \<Rightarrow> string) \<Rightarrow> if_else \<Rightarrow> condition_error + string" where
  "if_else_run show e =
    seqE (combine_condition_results show (ie_conditions e) (ie_logic e) PNone)
      (\<lambda>(outcome, _). Inr (if outcome then ''true'' else ''false''))"

record switch_case =
  sc_match :: pyval
  sc_branch_key :: "string option"
  sc_case_sensitive :: "bool option"

record switch =
  sw_value :: pyval
  sw_case_sensitive :: bool
  sw_default_branch_key :: string
  sw_cases :: "switch_case list"

definition branch_char :: "char \<Rightarrow> bool" where
  "branch_char c = (let n = (of_char c :: nat) in
     (48 \<le> n \<and> n \<le> 57) \<or> (65 \<le> n \<and> n \<le> 90) \<or> (97 \<le> n \<and> n \<le> 122) \<or> c = CHR ''_'' \<or> c = CHR ''-'')"

definition coerce_branch_key :: "string option \<Rightarrow> string \<Rightarrow> string" where
  "coerce_branch_key candidate fallback =
    (let stripped = (case candidate of Some s \<Rightarrow> str_strip s | None \<Rightarrow> [])
     in if stripped \<noteq> [] then stripped
        else let slug = filter branch_char
                 (map (\<lambda>c. if c = CHR '' '' then CHR ''_'' else c) (str_lower (str_strip fallback)))
             in if slug \<noteq> [] then slug else fallback)"

definition resolve_case :: "switch \<Rightarrow> switch_case \<Rightarrow> nat \<Rightarrow> pyval \<Rightarrow> string \<times> bool" where
  "resolve_case sw c index normalised_value =
    (let case_sensitive = (case sc_case_sensitive c of Some b \<Rightarrow> b | None \<Rightarrow> sw_case_sensitive sw);
         branch_key = coerce_branch_key (sc_branch_key c) (''case_'' @ digits_of (index + 1));
         expected = normalise_case case_sensitive (sc_match c)
     in (branch_key, py_eq normalised_value expected))"

fun switch_from :: "switch \<Rightarrow> pyval \<Rightarrow> nat \<Rightarrow> switch_case list \<Rightarrow> string" where
  "switch_from sw processed index [] = sw_default_branch_key sw"
| "switch_from sw processed index (c # cs) =
    (let (branch, is_match) = resolve_case sw c index processed
     in if is_match then branch else switch_from sw processed (Suc index) cs)"

definition switch_run :: "switch \<Rightarrow> string" where
  "switch_run sw = switch_from sw (normalise_case (sw_case_sensitive sw) (sw_value sw)) 0 (sw_cases sw)"

section \<open>Reading node results\<close>

type_synonym wf_state = "(string, pyval) dict"

definition results_map :: "wf_state \<Rightarrow> (string, pyval) dict" where
  "results_map state = (case dict_get state ''node_results'' of Some (PDict d) \<Rightarrow> d | _ \<Rightarrow> [])"

definition node_result :: "wf_state \<Rightarrow> string \<Rightarrow> (string, pyval) dict" where
  "node_result state node_name = (case dict_get (results_map state) node_name of Some (PDict d) \<Rightarrow> d | _ \<Rightarrow> [])"

text \<open>\<open>d.get(k)\<close>.\<close>

definition get_or_none :: "(string, pyval) dict \<Rightarrow> string \<Rightarrow> pyval" where
  "get_or_none d k = (case dict_get d k of Some v \<Rightarrow> v | None \<Rightarrow> PNone)"

fun first_result_field :: "wf_state \<Rightarrow> string \<Rightarrow> string list \<Rightarrow> pyval" where
  "first_result_field state field [] = PNone"
| "first_result_field state field (producer # producers) =
    (case dict_get (results_map state) producer of
       Some (PDict d) \<Rightarrow> (if get_or_none d field \<noteq> PNone then get_or_none d field
                          else first_result_field state field producers)
     | _ \<Rightarrow> first_result_field state field producers)"

text \<open>Messages are mappings here; the message objects of the chat library are outside the program.
  A role that cannot be hashed cannot be compared with a set of names.\<close>

definition assistant_text :: "pyval \<Rightarrow> condition_error + string list" where
  "assistant_text message = (case message of
     PDict m \<Rightarrow>
       (let role = (if truthy (get_or_none m ''role'') then get_or_none m ''role'' else get_or_none m ''type'')
        in case role of
             PList _ \<Rightarrow> Inl OperandTypes
           | PDict _ \<Rightarrow> Inl OperandTypes
           | _ \<Rightarrow>
               if role \<noteq> PStr ''assistant'' \<and> role \<noteq> PStr ''ai'' then Inr []
               else case get_or_none m ''content'' of
                   PStr s \<Rightarrow> Inr (if str_strip s \<noteq> [] then [s] else [])
                 | _ \<Rightarrow> Inr [])
   | _ \<Rightarrow> Inr [])"

fun assistant_texts_from :: "pyval list \<Rightarrow> condition_error + string list" where
  "assistant_texts_from [] = Inr []"
| "assistant_texts_from (m # ms) =
    seqE (assistant_text m) (\<lambda>t. seqE (assistant_texts_from ms) (\<lambda>ts. Inr (t @ ts)))"

definition assistant_message_texts :: "wf_state \<Rightarrow> condition_error + string list" where
  "assistant_message_texts state =
    (case dict_get state ''messages'' of
       Some (PList messages) \<Rightarrow> assistant_texts_from (rev messages)
     | _ \<Rightarrow> Inr [])"

record result_flag =
  rf_result_node :: string
  rf_flag :: string
  rf_true_route :: string
  rf_false_route :: string

definition result_flag_run :: "result_flag \<Rightarrow> wf_state \<Rightarrow> string" where
  "result_flag_run e state =
    (if truthy (get_or_none (node_result state (rf_result_node e)) (rf_flag e))
     then rf_true_route e else rf_false_route e)"

record result_field_route =
  rr_result_node :: string
  rr_field :: string
  rr_allowed_routes :: "string list"
  rr_fallback_route :: string

definition result_field_route_run :: "(pyval \<Rightarrow> string) \<Rightarrow> result_field_route \<Rightarrow> wf_state \<Rightarrow> string" where
  "result_field_route_run show e state =
    (let v = get_or_none (node_result state (rr_result_node e)) (rr_field e);
         route = (if truthy v then py_str show v else [])
     in if route \<noteq> [] \<and> (rr_allowed_routes e = [] \<or> route \<in> set (rr_allowed_routes e)) then route
        else rr_fallback_route e)"

section \<open>The while edge\<close>

record while_edge =
  wh_name :: string
  wh_conditions :: "condition list"
  wh_logic :: combinator
  wh_max_iterations :: "int option"

definition make_while ::
    "string \<Rightarrow> condition list option \<Rightarrow> combinator \<Rightarrow> int option \<Rightarrow> while_edge option" where
  "make_while name conditions logic max_iterations =
    (let cs = (case conditions of
         None \<Rightarrow> [\<lparr>cond_left = PNone, cond_operator = LessThan, cond_right = PNone, cond_case_sensitive = True\<rparr>]
       | Some cs \<Rightarrow> cs)
     in if cs = [] \<or> (case max_iterations of Some m \<Rightarrow> m < 1 | None \<Rightarrow> False) then None
        else Some \<lparr>wh_name = name, wh_conditions = cs, wh_logic = logic, wh_max_iterations = max_iterations\<rparr>)"

text \<open>\<open>bool\<close> is a kind of \<open>int\<close> in the source's language.\<close>

fun int_of :: "pyval \<Rightarrow> int option" where
  "int_of (PInt i) = Some i"
| "int_of (PBool b) = Some (if b then 1 else 0)"
| "int_of _ = None"

definition current_iteration :: "while_edge \<Rightarrow> wf_state \<Rightarrow> pyval" where
  "current_iteration e state =
    (let iteration = get_or_none (node_result state (wh_name e)) ''iteration''
     in case int_of iteration of Some i \<Rightarrow> if i \<ge> 0 then iteration else PInt 0 | None \<Rightarrow> PInt 0)"

definition while_run :: "(pyval \<Rightarrow> string) \<Rightarrow> while_edge \<Rightarrow> wf_state \<Rightarrow> condition_error + string" where
  "while_run show e state =
    (let iteration = current_iteration e state
     in seqE (combine_condition_results show (wh_conditions e) (wh_logic e) iteration)
       (\<lambda>(outcome, _).
          let guard = (case wh_max_iterations e of Some m \<Rightarrow> the (int_of iteration) \<ge> m | None \<Rightarrow> False);
              should_continue = (if guard then False else outcome)
          in Inr (if should_continue then ''continue'' else ''exit'')))"

end
