(* ===== verification/Edge_Routing.thy ===== *)
theory Edge_Routing
  imports Edge_Conditions
begin

text \<open>
  From the configured edges to the compiled graph: entries of edge lists
  (\<open>graph/normalization.py\<close>), edge instances and their router (\<open>graph/edges.py\<close>), conditional edges
  (\<open>graph/conditional.py\<close>) and parallel branches (\<open>graph/parallel.py\<close>). The graph itself is a library
  object: it is the list of the calls made on it. A router is the function of the workflow state that
  is registered for a conditional edge; one destination is a list of one, as the library treats it.
\<close>

section \<open>Vertices and edge entries\<close>

definition START :: string where "START = ''__start__''"
definition END :: string where "END = ''__end__''"

definition normalise_vertex :: "string \<Rightarrow> string" where
  "normalise_vertex name = (if name = ''START'' then START else if name = ''END'' then END else name)"

datatype graph_error =
    InvalidEdgeEntry
  | EndpointsNotStrings
  | SourceMissing
  | PathMissing
  | MappingMissing
  | TargetsMissing
  | TargetsNotStrings
  | EdgeNameMissing
  | UnknownEdgeType
  | EdgeInvalid
  | Unrouted string
  | EdgeFailed condition_error

text \<open>An entry is a mapping or unpacks into two values: a list of two, a text of two characters
  (\<open>bytes\<close> would give numbers).\<close>

definition edge_endpoints :: "pyval \<Rightarrow> graph_error + (pyval \<times> pyval)" where
  "edge_endpoints entry =
    (case entry of
       PDict d \<Rightarrow> Inr (get_or_none d ''source'', get_or_none d ''target'')
     | PList [a, b] \<Rightarrow> Inr (a, b)
     | PStr [c, d] \<Rightarrow> Inr (PStr [c], PStr [d])
     | PBytes [c, d] \<Rightarrow> Inr (PInt (of_char c), PInt (of_char d))
     | _ \<Rightarrow> Inl InvalidEdgeEntry)"

definition normalise_edge :: "pyval \<Rightarrow> graph_error + (string \<times> string)" where
  "normalise_edge entry =
    seqE (edge_endpoints entry)
      (\<lambda>p. case p of (PStr source, PStr target) \<Rightarrow> Inr (source, target) | _ \<Rightarrow> Inl EndpointsNotStrings)"

fun normalise_edges :: "pyval list \<Rightarrow> graph_error + (string \<times> string) list" where
  "normalise_edges [] = Inr []"
| "normalise_edges (e # es) =
    seqE (normalise_edge e) (\<lambda>p. seqE (normalise_edges es) (\<lambda>ps. Inr (p # ps)))"

section \<open>Edge instances and routers\<close>

text \<open>An edge routes to a value or to a list of values; \<open>Send\<close> names its vertex itself.\<close>

datatype edge_item = Val pyval | SendTo string pyval
datatype edge_output = One edge_item | Many "edge_item list"
datatype destination = ToVertex string | ToSend string pyval

type_synonym edge = "wf_state \<Rightarrow> graph_error + edge_output"
type_synonym router = "wf_state \<Rightarrow> graph_error + destination list"

text \<open>\<open>classes\<close> gives the edge class registered under a name: it validates the parameters.\<close>

definition build_edge ::
    "(pyval \<Rightarrow> string) \<Rightarrow> (string \<Rightarrow> ((string, pyval) dict \<Rightarrow> 'e option) option) \<Rightarrow> (string, pyval) dict \<Rightarrow>
     graph_error + (string \<times> 'e)" where
  "build_edge show classes d =
    (let edge_type = get_or_none d ''type''; edge_name = get_or_none d ''name''
     in if \<not> truthy edge_name then Inl EdgeNameMissing
        else case classes (py_str show edge_type) of
            None \<Rightarrow> Inl UnknownEdgeType
          | Some edge_class \<Rightarrow>
              (case edge_class (filter (\<lambda>(k, v). k \<noteq> ''type'') d) of
                 None \<Rightarrow> Inl EdgeInvalid
               | Some e \<Rightarrow> Inr (py_str show edge_name, e)))"

fun build_edges_from ::
    "(pyval \<Rightarrow> string) \<Rightarrow> (string \<Rightarrow> ((string, pyval) dict \<Rightarrow> 'e option) option) \<Rightarrow> (string, pyval) dict list \<Rightarrow>
     (string, 'e) dict \<Rightarrow> graph_error + (string, 'e) dict" where
  "build_edges_from show classes [] instances = Inr instances"
| "build_edges_from show classes (d # ds) instances =
    seqE (build_edge show classes d) (\<lambda>(n, e). build_edges_from show classes ds (dict_set n e instances))"

definition build_edges ::
    "(pyval \<Rightarrow> string) \<Rightarrow> (string \<Rightarrow> ((string, pyval) dict \<Rightarrow> 'e option) option) \<Rightarrow> (string, pyval) dict list \<Rightarrow>
     graph_error + (string, 'e) dict" where
  "build_edges show classes edges = build_edges_from show classes edges []"

definition coerce_edge_destination ::
    "(pyval \<Rightarrow> string) \<Rightarrow> edge_item \<Rightarrow> (string, string) dict \<Rightarrow> string option \<Rightarrow> graph_error + destination" where
  "coerce_edge_destination show value mapping default_target =
    (case value of
       SendTo v arg \<Rightarrow> Inr (ToSend v arg)
     | Val v \<Rightarrow>
         (case dict_get mapping (py_str show v) of
            Some d \<Rightarrow> Inr (ToVertex d)
          | None \<Rightarrow> (case default_target of Some d \<Rightarrow> Inr (ToVertex d) | None \<Rightarrow> Inl (Unrouted (py_str show v)))))"

fun coerce_all ::
    "(pyval \<Rightarrow> string) \<Rightarrow> edge_item list \<Rightarrow> (string, string) dict \<Rightarrow> string option \<Rightarrow>
     graph_error + destination list" where
  "coerce_all show [] mapping default_target = Inr []"
| "coerce_all show (v # vs) mapping default_target =
    seqE (coerce_edge_destination show v mapping default_target)
      (\<lambda>d. seqE (coerce_all show vs mapping default_target) (\<lambda>ds. Inr (d # ds)))"

text \<open>The values of a result: a list is a sequence of destinations.\<close>

definition output_items :: "edge_output \<Rightarrow> edge_item list" where
  "output_items out = (case out of Many items \<Rightarrow> items | One (Val (PList vs)) \<Rightarrow> map Val vs | One v \<Rightarrow> [v])"

definition normalised_mapping :: "(pyval \<Rightarrow> string) \<Rightarrow> (string, pyval) dict \<Rightarrow> (string, string) dict" where
  "normalised_mapping show mapping = map (\<lambda>(key, target). (key, normalise_vertex (py_str show target))) mapping"

definition resolved_default :: "pyval \<Rightarrow> string option" where
  "resolved_default default_target =
    (case default_target of PStr s \<Rightarrow> if s \<noteq> [] then Some (normalise_vertex s) else None | _ \<Rightarrow> None)"

definition build_edge_router ::
    "(pyval \<Rightarrow> string) \<Rightarrow> edge \<Rightarrow> (string, pyval) dict \<Rightarrow> pyval \<Rightarrow> router" where
  "build_edge_router show edge mapping default_target state =
    seqE (edge state)
      (\<lambda>out. coerce_all show (output_items out) (normalised_mapping show mapping) (resolved_default default_target))"

section \<open>Conditional edges\<close>

fun walk_path :: "string list \<Rightarrow> pyval \<Rightarrow> pyval" where
  "walk_path [] current = current"
| "walk_path (key # keys) current =
    (case current of PDict d \<Rightarrow> walk_path keys (get_or_none d key) | _ \<Rightarrow> PNone)"

definition condition_key :: "(pyval \<Rightarrow> string) \<Rightarrow> pyval \<Rightarrow> string" where
  "condition_key show current =
    (case current of
       PBool b \<Rightarrow> (if b then ''true'' else ''false'')
     | PNone \<Rightarrow> ''null''
     | v \<Rightarrow> py_str show v)"

definition make_condition ::
    "(pyval \<Rightarrow> string) \<Rightarrow> string \<Rightarrow> (string, string) dict \<Rightarrow> string option \<Rightarrow> router" where
  "make_condition show path mapping default_target state =
    (let key = condition_key show (walk_path (str_split CHR ''.'' path) (PDict state))
     in case dict_get mapping key of
          Some d \<Rightarrow> Inr [ToVertex d]
        | None \<Rightarrow> (case default_target of Some d \<Rightarrow> Inr [ToVertex d] | None \<Rightarrow> Inl (Unrouted key)))"

definition destination_path_map :: "(pyval \<Rightarrow> string) \<Rightarrow> (string, pyval) dict \<Rightarrow> pyval \<Rightarrow> string set" where
  "destination_path_map show mapping default_target =
    set (map (\<lambda>(_, target). normalise_vertex (py_str show target)) mapping) \<union> set_option (resolved_default default_target)"

datatype graph_call =
    AddNode string
  | AddEdge string string
  | AddConditional string router "string set"

definition add_conditional_edges ::
    "(pyval \<Rightarrow> string) \<Rightarrow> (string, pyval) dict \<Rightarrow> (string, edge) dict \<Rightarrow> graph_call list \<Rightarrow>
     graph_error + graph_call list" where
  "add_conditional_edges show config edge_instances graph =
    (case get_or_none config ''source'' of
       PStr source \<Rightarrow>
         if source = [] then Inl SourceMissing
         else (case get_or_none config ''path'' of
           PStr path \<Rightarrow>
             if path = [] then Inl PathMissing
             else (case get_or_none config ''mapping'' of
               PDict mapping \<Rightarrow>
                 if mapping = [] then Inl MappingMissing
                 else let default_target = get_or_none config ''default'';
                          router = (case dict_get edge_instances path of
                              Some edge \<Rightarrow> build_edge_router show edge mapping default_target
                            | None \<Rightarrow> make_condition show path (normalised_mapping show mapping)
                                (resolved_default default_target))
                      in Inr (graph @ [AddConditional (normalise_vertex source) router
                           (destination_path_map show mapping default_target)])
             | _ \<Rightarrow> Inl MappingMissing)
         | _ \<Rightarrow> Inl PathMissing)
     | _ \<Rightarrow> Inl SourceMissing)"

section \<open>Parallel branches\<close>

text \<open>The elements of an iterable that is no text.\<close>

definition iterable_items :: "pyval \<Rightarrow> pyval list option" where
  "iterable_items v =
    (case v of
       PList xs \<Rightarrow> Some xs
     | PDict d \<Rightarrow> Some (map (\<lambda>kv. PStr (fst kv)) d)
     | PBytes s \<Rightarrow> Some (map (\<lambda>c. PInt (of_char c)) s)
     | _ \<Rightarrow> None)"

fun target_names :: "pyval list \<Rightarrow> graph_error + string list" where
  "target_names [] = Inr []"
| "target_names (PStr s # vs) = seqE (target_names vs) (\<lambda>ts. Inr (normalise_vertex s # ts))"
| "target_names (_ # vs) = Inl TargetsNotStrings"

definition add_parallel_branches ::
    "(string, pyval) dict \<Rightarrow> graph_call list \<Rightarrow> graph_error + graph_call list" where
  "add_parallel_branches config graph =
    (case get_or_none config ''source'' of
       PStr source \<Rightarrow>
         if source = [] then Inl SourceMissing
         else (case iterable_items (get_or_none config ''targets'') of
             None \<Rightarrow> Inl TargetsMissing
           | Some items \<Rightarrow> seqE (target_names items) (\<lambda>targets.
               if targets = [] then Inl TargetsNotStrings
               else let graph = graph @ map (AddEdge (normalise_vertex source)) targets
                    in Inr (case get_or_none config ''join'' of
                         PStr join \<Rightarrow> if join \<noteq> [] then graph @ map (\<lambda>t. AddEdge t (normalise_vertex join)) targets
                                      else graph
                       | _ \<Rightarrow> graph)))
     | _ \<Rightarrow> Inl SourceMissing)"

end
