(* ===== verification/Edge_Laws.thy ===== *)
theory Edge_Laws
  imports Edge_Routing
begin

text \<open>
  Properties of conditions, branching edges and routing: which operand types a comparison accepts,
  how the operators relate, how several conditions combine, which branch a switch takes, and that a
  registered router only answers with destinations the graph was told about.
\<close>

section \<open>Operand types\<close>

datatype operand_type = Nothing | Number | Text | Bytes | Sequence | Mapping

fun type_of :: "pyval \<Rightarrow> operand_type" where
  "type_of PNone = Nothing"
| "type_of (PBool _) = Number"
| "type_of (PInt _) = Number"
| "type_of (PFloat _) = Number"
| "type_of (PStr _) = Text"
| "type_of (PBytes _) = Bytes"
| "type_of (PList _) = Sequence"
| "type_of (PDict _) = Mapping"

definition orderable :: "operand_type \<Rightarrow> operand_type \<Rightarrow> bool" where
  "orderable t u \<longleftrightarrow> t = u \<and> t \<in> {Number, Text, Bytes}"

definition holds_members :: "operand_type \<Rightarrow> operand_type \<Rightarrow> bool" where
  "holds_members c m \<longleftrightarrow> c = Text \<or> c = Sequence \<or> c = Mapping \<and> m \<notin> {Sequence, Mapping}"

fun operands_fit :: "comparison_operator \<Rightarrow> operand_type \<Rightarrow> operand_type \<Rightarrow> bool" where
  "operands_fit Equals t u = True"
| "operands_fit NotEquals t u = True"
| "operands_fit IsTruthy t u = True"
| "operands_fit IsFalsy t u = True"
| "operands_fit Contains t u = holds_members t u"
| "operands_fit NotContains t u = holds_members t u"
| "operands_fit In t u = holds_members u t"
| "operands_fit NotIn t u = holds_members u t"
| "operands_fit GreaterThan t u = orderable t u"
| "operands_fit GreaterThanOrEqual t u = orderable t u"
| "operands_fit LessThan t u = orderable t u"
| "operands_fit LessThanOrEqual t u = orderable t u"

definition is_ordering :: "comparison_operator \<Rightarrow> bool" where
  "is_ordering op \<longleftrightarrow> op \<in> {GreaterThan, GreaterThanOrEqual, LessThan, LessThanOrEqual}"

lemma type_of_normalise [simp]: "type_of (normalise_case cs v) = type_of v"
  by (cases v) (simp_all add: normalise_case_def)

lemma py_less_types:
  "type_of v \<noteq> Sequence \<Longrightarrow> py_less v w \<noteq> None \<longleftrightarrow> orderable (type_of v) (type_of w)"
  by (cases v; cases w) (simp_all add: orderable_def)

lemma py_less_eq_types:
  "type_of v \<noteq> Sequence \<Longrightarrow> py_less_eq v w \<noteq> None \<longleftrightarrow> orderable (type_of v) (type_of w)"
  by (cases v; cases w) (simp_all add: orderable_def)

lemma list_less_types: "type_of v = Sequence \<Longrightarrow> type_of w \<noteq> Sequence \<Longrightarrow> py_less v w = None \<and> py_less_eq v w = None"
  by (cases v; cases w) simp_all

lemma compared_ok: "(\<exists>b. compared r = Inr b) \<longleftrightarrow> r \<noteq> None"
  by (cases r) (simp_all add: compared_def)

lemma membership_ok: "(\<exists>b. membership show c m = Inr b) \<longleftrightarrow> holds_members (type_of c) (type_of m)"
  by (cases c; cases m) (auto simp: membership_def holds_members_def)

lemma contains_ok: "(\<exists>b. contains show c m ex = Inr b) \<longleftrightarrow> holds_members (type_of c) (type_of m)"
  unfolding membership_ok [of "show", symmetric] by (auto simp: contains_def seqE_Inr_iff)

lemma ordering_ok:
  assumes "\<not> (type_of v = Sequence \<and> type_of w = Sequence)"
  shows "(\<exists>b. compared (py_less v w) = Inr b) \<longleftrightarrow> orderable (type_of v) (type_of w)"
    and "(\<exists>b. compared (py_less_eq v w) = Inr b) \<longleftrightarrow> orderable (type_of v) (type_of w)"
  using assms py_less_types [of v w] py_less_eq_types [of v w] list_less_types [of v w]
  by (cases "type_of v = Sequence"; simp add: compared_ok orderable_def; fail)+

lemma orderable_sym: "orderable t u = orderable u t"
  by (auto simp: orderable_def)

text \<open>A comparison evaluates exactly when the types of its operands fit the operator, whatever
  their values and the case option; two lists under an ordering operator are left out, since their
  elements decide. A comparison never fails in another way than by the two errors of the source, and
  the missing container is reported exactly for numbers and \<open>None\<close>.\<close>

theorem condition_types:
  assumes "is_ordering op \<longrightarrow> \<not> (type_of l = Sequence \<and> type_of r = Sequence)"
  shows "((\<exists>b. evaluate_condition show l r op cs = Inr b) \<longleftrightarrow> operands_fit op (type_of l) (type_of r)) \<and>
    (evaluate_condition show l r op cs = Inl NoContainer \<longleftrightarrow>
      (op \<in> {Contains, NotContains} \<and> type_of l \<in> {Nothing, Number}) \<or>
      (op \<in> {In, NotIn} \<and> type_of r \<in> {Nothing, Number}))"
proof
  let ?l = "normalise_case cs l" and ?r = "normalise_case cs r"
  have o: "(\<exists>b. compared (py_less ?l ?r) = Inr b) = orderable (type_of l) (type_of r)"
      "(\<exists>b. compared (py_less ?r ?l) = Inr b) = orderable (type_of l) (type_of r)"
      "(\<exists>b. compared (py_less_eq ?l ?r) = Inr b) = orderable (type_of l) (type_of r)"
      "(\<exists>b. compared (py_less_eq ?r ?l) = Inr b) = orderable (type_of l) (type_of r)"
    if "\<not> (type_of l = Sequence \<and> type_of r = Sequence)"
    using that ordering_ok [of ?l ?r] ordering_ok [of ?r ?l] orderable_sym by auto
  show "(\<exists>b. evaluate_condition show l r op cs = Inr b) \<longleftrightarrow> operands_fit op (type_of l) (type_of r)"
    using assms o by (cases op) (simp_all add: evaluate_condition_def Let_def is_ordering_def contains_ok)
  have m: "contains show c m ex = Inl NoContainer \<longleftrightarrow> type_of c \<in> {Nothing, Number}" for c m ex
    by (cases c; cases m) (simp_all add: contains_def membership_def)
  have c: "compared x \<noteq> Inl NoContainer" for x
    by (cases x) (simp_all add: compared_def)
  show "evaluate_condition show l r op cs = Inl NoContainer \<longleftrightarrow>
      (op \<in> {Contains, NotContains} \<and> type_of l \<in> {Nothing, Number}) \<or>
      (op \<in> {In, NotIn} \<and> type_of r \<in> {Nothing, Number})"
    using c by (cases op) (simp_all add: evaluate_condition_def Let_def m)
qed

theorem condition_types_witness:
  "evaluate_condition (\<lambda>_. []) (PInt 3) (PStr ''a'') In True \<noteq> Inl NoContainer \<and>
   (\<exists>b. evaluate_condition (\<lambda>_. []) (PInt 3) (PStr ''a'') In True = Inr b) \<and>
   \<not> (\<exists>b. evaluate_condition (\<lambda>_. []) (PInt 3) (PStr ''a'') LessThan True = Inr b)"
  using condition_types [of In "PInt 3" "PStr ''a''" "\<lambda>_. []" True]
    condition_types [of LessThan "PInt 3" "PStr ''a''" "\<lambda>_. []" True]
  by (simp add: is_ordering_def holds_members_def orderable_def)

lemma default_while_raises:
  assumes "make_while name None logic m = Some e"
  shows "while_run show e state = Inl OperandTypes"
proof -
  have e: "e = \<lparr>wh_name = name, wh_conditions = [\<lparr>cond_left = PNone, cond_operator = LessThan,
      cond_right = PNone, cond_case_sensitive = True\<rparr>], wh_logic = logic, wh_max_iterations = m\<rparr>"
    using assms by (auto simp: make_while_def split: if_splits)
  have "type_of (current_iteration e state) = Number" for e
    by (cases "get_or_none (node_result state (wh_name e)) ''iteration''")
      (auto simp: current_iteration_def Let_def)
  then have "py_less (normalise_case True (current_iteration e state)) PNone = None"
    using py_less_types [of "normalise_case True (current_iteration e state)" PNone] by (simp add: orderable_def)
  then show ?thesis
    by (simp add: while_run_def e combine_condition_results_def evaluate_condition_def Let_def compared_def
        normalise_case_def)
qed

section \<open>Relations between the operators\<close>

definition neg :: "condition_error + bool \<Rightarrow> condition_error + bool" where
  "neg r = seqE r (\<lambda>b. Inr (\<not> b))"

lemma py_less_total:
  assumes "orderable (type_of v) (type_of w)"
  shows "\<exists>a b. py_less v w = Some a \<and> py_less w v = Some b \<and> py_less_eq v w = Some (\<not> b) \<and>
    (if py_eq v w then \<not> a \<and> \<not> b else a \<noteq> b)"
proof (cases "type_of v")
  case Number
  then obtain x y where "num_of v = Some x" "num_of w = Some y"
    using assms by (cases v; cases w) (auto simp: orderable_def)
  moreover from this have "py_eq v w \<longleftrightarrow> x = y" by (auto simp: py_eq_num)
  ultimately show ?thesis by (auto simp: py_less_num py_less_eq_num)
qed (use assms in \<open>cases v; cases w; force simp: orderable_def\<close>)+

text \<open>The operators are consistent with each other: the negated operators negate (errors stay),
  the flipped ones flip, and for operands that can be ordered exactly one of less, equal and greater
  holds, with the non-strict operators as their unions. So a workflow that routes on an operator and
  on its complement takes exactly one of the two branches.\<close>

theorem operators_consistent:
  "evaluate_condition show l r NotEquals cs = neg (evaluate_condition show l r Equals cs) \<and>
   evaluate_condition show l r NotContains cs = neg (evaluate_condition show l r Contains cs) \<and>
   evaluate_condition show l r NotIn cs = neg (evaluate_condition show l r In cs) \<and>
   evaluate_condition show l r IsFalsy cs = neg (evaluate_condition show l r IsTruthy cs) \<and>
   evaluate_condition show l r GreaterThan cs = evaluate_condition show r l LessThan cs \<and>
   evaluate_condition show l r GreaterThanOrEqual cs = evaluate_condition show r l LessThanOrEqual cs \<and>
   evaluate_condition show l r In cs = evaluate_condition show r l Contains cs \<and>
   (orderable (type_of l) (type_of r) \<longrightarrow>
     (\<exists>lt eq gt. evaluate_condition show l r LessThan cs = Inr lt \<and> evaluate_condition show l r Equals cs = Inr eq \<and>
        evaluate_condition show l r GreaterThan cs = Inr gt \<and>
        length (filter id [lt, eq, gt]) = 1 \<and>
        evaluate_condition show l r LessThanOrEqual cs = Inr (lt \<or> eq) \<and>
        evaluate_condition show l r GreaterThanOrEqual cs = Inr (gt \<or> eq)))"
proof (intro conjI impI)
  let ?l = "normalise_case cs l" and ?r = "normalise_case cs r"
  have flip: "contains show c m False = neg (contains show c m True)" for c m
    by (cases "membership show c m") (simp_all add: contains_def neg_def)
  show "evaluate_condition show l r NotEquals cs = neg (evaluate_condition show l r Equals cs)"
    "evaluate_condition show l r NotContains cs = neg (evaluate_condition show l r Contains cs)"
    "evaluate_condition show l r NotIn cs = neg (evaluate_condition show l r In cs)"
    "evaluate_condition show l r IsFalsy cs = neg (evaluate_condition show l r IsTruthy cs)"
    "evaluate_condition show l r GreaterThan cs = evaluate_condition show r l LessThan cs"
    "evaluate_condition show l r GreaterThanOrEqual cs = evaluate_condition show r l LessThanOrEqual cs"
    "evaluate_condition show l r In cs = evaluate_condition show r l Contains cs"
    by (simp_all add: evaluate_condition_def Let_def flip) (simp_all add: neg_def)
  assume o: "orderable (type_of l) (type_of r)"
  then obtain a b where ab: "py_less ?l ?r = Some a" "py_less ?r ?l = Some b" "py_less_eq ?l ?r = Some (\<not> b)"
      "if py_eq ?l ?r then \<not> a \<and> \<not> b else a \<noteq> b"
    using py_less_total [of ?l ?r] by auto
  have "py_less_eq ?r ?l = Some (\<not> a)"
    using py_less_total [of ?r ?l] o ab by (auto simp: orderable_sym)
  with ab show "\<exists>lt eq gt. evaluate_condition show l r LessThan cs = Inr lt \<and> evaluate_condition show l r Equals cs = Inr eq \<and>
        evaluate_condition show l r GreaterThan cs = Inr gt \<and>
        length (filter id [lt, eq, gt]) = 1 \<and>
        evaluate_condition show l r LessThanOrEqual cs = Inr (lt \<or> eq) \<and>
        evaluate_condition show l r GreaterThanOrEqual cs = Inr (gt \<or> eq)"
    by (intro exI [of _ a] exI [of _ "py_eq ?l ?r"] exI [of _ b])
      (auto simp: evaluate_condition_def Let_def compared_def split: if_splits)
qed

theorem operators_consistent_witness:
  "\<exists>lt eq gt. evaluate_condition (\<lambda>_. []) (PInt 1) (PFloat 1) LessThan True = Inr lt \<and>
     evaluate_condition (\<lambda>_. []) (PInt 1) (PFloat 1) Equals True = Inr eq \<and>
     evaluate_condition (\<lambda>_. []) (PInt 1) (PFloat 1) GreaterThan True = Inr gt \<and> length (filter id [lt, eq, gt]) = 1"
proof -
  have "orderable (type_of (PInt 1)) (type_of (PFloat 1))" by (simp add: orderable_def)
  with operators_consistent [of "\<lambda>_. []" "PInt 1" "PFloat 1" True] show ?thesis by blast
qed

section \<open>Several conditions\<close>

definition condition_result :: "(pyval \<Rightarrow> string) \<Rightarrow> pyval \<Rightarrow> condition \<Rightarrow> condition_error + bool" where
  "condition_result show default_left c =
    evaluate_condition show (if cond_left c = PNone then default_left else cond_left c) (cond_right c)
      (cond_operator c) (cond_case_sensitive c)"

lemma evaluate_from_Inr:
  "evaluate_from show dl n cs = Inr evs \<Longrightarrow>
    map (condition_result show dl) cs = map (\<lambda>ev. Inr (ev_result ev)) evs \<and> map ev_index evs = [n..<n + length cs]"
proof (induction cs arbitrary: n evs)
  case Nil
  then show ?case by simp
next
  case (Cons c cs)
  let ?l = "if cond_left c \<noteq> PNone then cond_left c else dl"
  obtain x rest where x: "evaluate_condition show ?l (cond_right c) (cond_operator c) (cond_case_sensitive c) = Inr x"
    and rest: "evaluate_from show dl (Suc n) cs = Inr rest"
    and evs: "map ev_index evs = n # map ev_index rest" "map ev_result evs = x # map ev_result rest"
    using Cons.prems by (auto simp: Let_def seqE_Inr_iff)
  have "condition_result show dl c = Inr x" using x by (simp add: condition_result_def split: if_splits)
  moreover have "map (\<lambda>ev. Inr (ev_result ev) :: condition_error + bool) evs =
      Inr x # map (\<lambda>ev. Inr (ev_result ev)) rest"
    using arg_cong [OF evs(2), of "map (Inr :: bool \<Rightarrow> condition_error + bool)"] by (simp add: comp_def)
  moreover have "[n..<n + length (c # cs)] = n # [Suc n..<Suc n + length cs]"
    by (subst upt_conv_Cons) simp_all
  ultimately show ?case
    using Cons.IH [OF rest] evs(1) by (simp del: upt_Suc)
qed

lemma evaluate_from_Inl:
  "evaluate_from show dl n cs = Inl e \<longleftrightarrow>
    (\<exists>i < length cs. condition_result show dl (cs ! i) = Inl e \<and>
      (\<forall>j < i. \<exists>x. condition_result show dl (cs ! j) = Inr x))"
proof (induction cs arbitrary: n)
  case Nil
  then show ?case by simp
next
  case (Cons c cs)
  let ?l = "if cond_left c \<noteq> PNone then cond_left c else dl"
  have c: "evaluate_condition show ?l (cond_right c) (cond_operator c) (cond_case_sensitive c) = condition_result show dl c"
    by (simp add: condition_result_def)
  show ?case
  proof (cases "condition_result show dl c")
    case (Inl f)
    then have "evaluate_from show dl n (c # cs) = Inl f" using c by (simp add: Let_def)
    moreover have "(\<exists>i < length (c # cs). condition_result show dl ((c # cs) ! i) = Inl e \<and>
        (\<forall>j < i. \<exists>x. condition_result show dl ((c # cs) ! j) = Inr x)) \<longleftrightarrow> f = e"
      using Inl by (force simp: less_Suc_eq_0_disj nth_Cons')
    ultimately show ?thesis by simp
  next
    case (Inr x)
    then have "evaluate_from show dl n (c # cs) = Inl e \<longleftrightarrow> evaluate_from show dl (Suc n) cs = Inl e"
      using c by (simp add: Let_def seqE_Inl_iff)
    moreover have "(\<exists>i < length (c # cs). condition_result show dl ((c # cs) ! i) = Inl e \<and>
        (\<forall>j < i. \<exists>x. condition_result show dl ((c # cs) ! j) = Inr x)) \<longleftrightarrow>
      (\<exists>i < length cs. condition_result show dl (cs ! i) = Inl e \<and>
        (\<forall>j < i. \<exists>x. condition_result show dl (cs ! j) = Inr x))"
      using Inr by (simp add: Ex_less_Suc2 All_less_Suc2 del: ex_simps)
    ultimately show ?thesis using Cons.IH by simp
  qed
qed

text \<open>Several conditions: the aggregate is the conjunction or the disjunction of all results, the
  evaluations list them in order, and the first condition that fails makes the whole evaluation fail,
  also where earlier results already decide. No condition at all counts as false.\<close>

theorem combined_conditions:
  "(cs = [] \<longrightarrow> combine_condition_results show cs logic dl = Inr (False, [])) \<and>
   (combine_condition_results show cs logic dl = Inr (b, evs) \<longrightarrow>
      map (condition_result show dl) cs = map (\<lambda>ev. Inr (ev_result ev)) evs \<and> map ev_index evs = [0..<length cs] \<and>
      (cs \<noteq> [] \<longrightarrow> b = (case logic of
          AndLogic \<Rightarrow> (\<forall>c \<in> set cs. condition_result show dl c = Inr True)
        | OrLogic \<Rightarrow> (\<exists>c \<in> set cs. condition_result show dl c = Inr True)))) \<and>
   (combine_condition_results show cs logic dl = Inl e \<longleftrightarrow>
      (\<exists>i < length cs. condition_result show dl (cs ! i) = Inl e \<and>
        (\<forall>j < i. \<exists>x. condition_result show dl (cs ! j) = Inr x)))"
proof (intro conjI impI)
  assume "combine_condition_results show cs logic dl = Inr (b, evs)"
  then have f: "evaluate_from show dl 0 cs = Inr evs"
      and b: "cs \<noteq> [] \<Longrightarrow> b = (case logic of AndLogic \<Rightarrow> list_all id (map ev_result evs)
        | OrLogic \<Rightarrow> list_ex id (map ev_result evs))"
    by (auto simp: combine_condition_results_def seqE_Inr_iff Let_def split: if_splits)
  from evaluate_from_Inr [OF f]
  show m: "map (condition_result show dl) cs = map (\<lambda>ev. Inr (ev_result ev)) evs" "map ev_index evs = [0..<length cs]"
    by simp_all
  have "set (map (condition_result show dl) cs) = set (map (\<lambda>ev. Inr (ev_result ev)) evs)" by (simp only: m)
  then have s: "condition_result show dl ` set cs = (\<lambda>ev. Inr (ev_result ev)) ` set evs" by simp
  have "(\<forall>c \<in> set cs. condition_result show dl c = Inr True) \<longleftrightarrow>
      (\<forall>x \<in> condition_result show dl ` set cs. x = Inr True)" by blast
  then have all: "(\<forall>c \<in> set cs. condition_result show dl c = Inr True) \<longleftrightarrow> list_all id (map ev_result evs)"
    by (simp add: s list_all_iff)
  have "(\<exists>c \<in> set cs. condition_result show dl c = Inr True) \<longleftrightarrow>
      (\<exists>x \<in> condition_result show dl ` set cs. x = Inr True)" by blast
  then have ex: "(\<exists>c \<in> set cs. condition_result show dl c = Inr True) \<longleftrightarrow> list_ex id (map ev_result evs)"
    by (simp only: s list_ex_iff) force
  show "b = (case logic of
          AndLogic \<Rightarrow> (\<forall>c \<in> set cs. condition_result show dl c = Inr True)
        | OrLogic \<Rightarrow> (\<exists>c \<in> set cs. condition_result show dl c = Inr True))" if "cs \<noteq> []"
    using b [OF that] all ex by (cases logic) simp_all
next
  show "combine_condition_results show cs logic dl = Inl e \<longleftrightarrow>
      (\<exists>i < length cs. condition_result show dl (cs ! i) = Inl e \<and>
        (\<forall>j < i. \<exists>x. condition_result show dl (cs ! j) = Inr x))"
    using evaluate_from_Inl [of "show" dl 0 cs e]
    by (auto simp: combine_condition_results_def seqE_Inl_iff Let_def)
qed (simp add: combine_condition_results_def)

text \<open>An \<open>or\<close> whose first condition holds still fails when the second one cannot be evaluated.\<close>

theorem combined_conditions_witness:
  "combine_condition_results (\<lambda>_. [])
     [\<lparr>cond_left = PBool True, cond_operator = IsTruthy, cond_right = PNone, cond_case_sensitive = True\<rparr>,
      \<lparr>cond_left = PInt 1, cond_operator = LessThan, cond_right = PStr ''2'', cond_case_sensitive = True\<rparr>]
     OrLogic PNone = Inl OperandTypes"
proof -
  let ?cs = "[\<lparr>cond_left = PBool True, cond_operator = IsTruthy, cond_right = PNone, cond_case_sensitive = True\<rparr>,
      \<lparr>cond_left = PInt 1, cond_operator = LessThan, cond_right = PStr ''2'', cond_case_sensitive = True\<rparr>]"
  have "condition_result (\<lambda>_. []) PNone (?cs ! 1) = Inl OperandTypes"
    "condition_result (\<lambda>_. []) PNone (?cs ! 0) = Inr True"
    by (simp_all add: condition_result_def evaluate_condition_def compared_def normalise_case_def)
  then have "1 < length ?cs \<and> condition_result (\<lambda>_. []) PNone (?cs ! 1) = Inl OperandTypes \<and>
      (\<forall>j < 1. \<exists>x. condition_result (\<lambda>_. []) PNone (?cs ! j) = Inr x)"
    by (metis One_nat_def length_Cons lessI less_one list.size(3))
  then have "\<exists>i < length ?cs. condition_result (\<lambda>_. []) PNone (?cs ! i) = Inl OperandTypes \<and>
      (\<forall>j < i. \<exists>x. condition_result (\<lambda>_. []) PNone (?cs ! j) = Inr x)"
    by (intro exI [of _ 1]) simp
  then show ?thesis
    using combined_conditions [of ?cs "\<lambda>_. []" OrLogic PNone _ _ OperandTypes] by (simp only:)
qed

section \<open>Switches\<close>

lemma normalise_idem [simp]: "normalise_case False (normalise_case cs v) = normalise_case False v"
  by (cases v) (auto simp: normalise_case_def)

lemma switch_from_cases:
  "(\<forall>i < length cs. \<not> snd (resolve_case sw (cs ! i) (n + i) v)) \<and> switch_from sw v n cs = sw_default_branch_key sw \<or>
   (\<exists>i < length cs. snd (resolve_case sw (cs ! i) (n + i) v) \<and>
      (\<forall>j < i. \<not> snd (resolve_case sw (cs ! j) (n + j) v)) \<and>
      switch_from sw v n cs = fst (resolve_case sw (cs ! i) (n + i) v))"
proof (induction cs arbitrary: n)
  case Nil
  then show ?case by simp
next
  case (Cons c cs)
  show ?case
  proof (cases "snd (resolve_case sw c n v)")
    case True
    then show ?thesis by (intro disjI2 exI [of _ 0]) (simp add: split_beta)
  next
    case False
    with Cons.IH [of "Suc n"] show ?thesis
      by (simp add: split_beta Ex_less_Suc2 All_less_Suc2)
  qed
qed

text \<open>A switch takes the first case that matches, under the key of the case or one derived from
  its position, and the default only if none matches. But an option of a case that differs from the
  option of the edge only reaches the expected text: a case made insensitive matches no text that
  holds a capital letter under a sensitive edge, and a sensitive case that expects a capital letter
  never matches under an insensitive edge.\<close>

theorem switch_first_match:
  "(let v = normalise_case (sw_case_sensitive sw) (sw_value sw); hit = (\<lambda>i. snd (resolve_case sw (sw_cases sw ! i) i v))
    in (\<forall>i < length (sw_cases sw). \<not> hit i) \<and> switch_run sw = sw_default_branch_key sw \<or>
       (\<exists>i < length (sw_cases sw). hit i \<and> (\<forall>j < i. \<not> hit j) \<and>
          switch_run sw = coerce_branch_key (sc_branch_key (sw_cases sw ! i)) (''case_'' @ digits_of (i + 1)))) \<and>
   (sw_case_sensitive sw \<and> sw_value sw = PStr s \<and> str_lower s \<noteq> s \<and>
      (\<forall>c \<in> set (sw_cases sw). sc_case_sensitive c = Some False) \<longrightarrow> switch_run sw = sw_default_branch_key sw) \<and>
   (\<not> sw_case_sensitive sw \<and> (\<forall>c \<in> set (sw_cases sw). sc_case_sensitive c = Some True \<and>
      (\<exists>m. sc_match c = PStr m \<and> str_lower m \<noteq> m)) \<longrightarrow> switch_run sw = sw_default_branch_key sw)"
    (is "?A \<and> (?P \<longrightarrow> _) \<and> (?Q \<longrightarrow> _)")
proof (intro conjI impI)
  note run = switch_from_cases [of "sw_cases sw" sw 0 "normalise_case (sw_case_sensitive sw) (sw_value sw)"]
  show ?A using run by (auto simp: switch_run_def Let_def resolve_case_def)
  show "switch_run sw = sw_default_branch_key sw" if P: ?P
  proof -
    have "\<not> snd (resolve_case sw c i (PStr s))" if "c \<in> set (sw_cases sw)" for c i
    proof -
      have "sc_case_sensitive c = Some False" "str_lower s \<noteq> s" using P that by auto
      then show ?thesis
        by (cases "sc_match c") (auto simp: resolve_case_def Let_def normalise_case_def)
    qed
    with run P show ?thesis by (auto simp: switch_run_def normalise_case_def)
  qed
  show "switch_run sw = sw_default_branch_key sw" if Q: ?Q
  proof -
    have "\<not> snd (resolve_case sw c i (normalise_case False v))" if c: "c \<in> set (sw_cases sw)" for c i v
    proof -
      obtain m where "sc_match c = PStr m" "str_lower m \<noteq> m" "sc_case_sensitive c = Some True"
        using bspec [OF conjunct2 [OF Q] c] by blast
      then show ?thesis
        by (cases v) (auto simp: resolve_case_def Let_def normalise_case_def)
    qed
    with run Q show ?thesis by (auto simp: switch_run_def)
  qed
qed

theorem switch_first_match_witness:
  "switch_run \<lparr>sw_value = PStr ''Yes'', sw_case_sensitive = True, sw_default_branch_key = ''default'',
     sw_cases = [\<lparr>sc_match = PStr ''yes'', sc_branch_key = Some ''go'', sc_case_sensitive = Some False\<rparr>]\<rparr> = ''default''"
proof -
  have "str_lower ''Yes'' \<noteq> ''Yes''" by code_simp
  then show ?thesis
    using switch_first_match [of "\<lparr>sw_value = PStr ''Yes'', sw_case_sensitive = True, sw_default_branch_key = ''default'',
      sw_cases = [\<lparr>sc_match = PStr ''yes'', sc_branch_key = Some ''go'', sc_case_sensitive = Some False\<rparr>]\<rparr>" "''Yes''"]
    by simp
qed

section \<open>Routing\<close>

lemma dict_get_mapped: "dict_get (map (\<lambda>(k, v). (k, f v)) d) k = map_option f (dict_get d k)"
  by (induction d) auto

lemma normalised_mapping_range:
  "dict_get (normalised_mapping show mapping) k = Some v \<Longrightarrow> v \<in> destination_path_map show mapping dt"
  unfolding normalised_mapping_def dict_get_mapped destination_path_map_def
  by (auto dest!: dict_get_mem simp: image_iff split: prod.splits)

lemma resolved_default_range: "resolved_default dt = Some v \<Longrightarrow> v \<in> destination_path_map show mapping dt"
  by (simp add: destination_path_map_def)

definition known_destination :: "string set \<Rightarrow> destination \<Rightarrow> bool" where
  "known_destination dests d = (case d of ToVertex v \<Rightarrow> v \<in> dests | ToSend _ _ \<Rightarrow> True)"

lemma coerce_all_known:
  assumes "coerce_all show items (normalised_mapping show mapping) (resolved_default dt) = Inr ds"
  shows "list_all (known_destination (destination_path_map show mapping dt)) ds \<and> length ds = length items"
  using assms
proof (induction items arbitrary: ds)
  case Nil
  then show ?case by simp
next
  case (Cons item items)
  then obtain d ds' where d: "coerce_edge_destination show item (normalised_mapping show mapping) (resolved_default dt) = Inr d"
    and ds: "ds = d # ds'" "coerce_all show items (normalised_mapping show mapping) (resolved_default dt) = Inr ds'"
    by (auto simp: seqE_Inr_iff)
  have "known_destination (destination_path_map show mapping dt) d"
    using d normalised_mapping_range [of "show" mapping _ _ dt] resolved_default_range [of dt _ "show" mapping]
    by (auto simp: coerce_edge_destination_def known_destination_def split: edge_item.splits option.splits)
  with Cons.IH [OF ds(2)] ds(1) show ?case by simp
qed

lemma coerce_all_default: "resolved_default dt = Some d \<Longrightarrow> \<exists>ds. coerce_all show items mapping (resolved_default dt) = Inr ds"
  by (induction items) (auto simp: coerce_edge_destination_def split: edge_item.splits option.splits)


definition sample_branch :: "(string, pyval) dict" where
  "sample_branch = [(''source'', PStr ''check''), (''path'', PStr ''inputs.kind''),
     (''mapping'', PDict [(''a'', PStr ''left''), (''true'', PStr ''END'')]), (''default'', PStr ''right'')]"


end
