(* ===== verification/Credential_Refs.thy ===== *)
theory Credential_Refs
  imports Workflow_Entities
begin

text \<open>
  References to credentials and their resolution at run time: placeholders \<open>[[name#path]]\<close>
  (\<open>runtime/credentials/references.py\<close>) and the resolver with its per-run caches
  (\<open>runtime/credentials/resolver.py\<close>). The vault is outside this component: what it answers during a
  run is the record \<open>vault_answers\<close>.
\<close>

section \<open>Placeholders\<close>

record credential_reference =
  cr_identifier :: string
  cr_payload_path :: "string list"

datatype reference_error = EmptyIdentifier

definition path_parts :: "string \<Rightarrow> string list" where
  "path_parts raw = filter (\<lambda>p. p \<noteq> []) (map str_strip (str_split CHR ''.'' raw))"

definition split_placeholder_body :: "string \<Rightarrow> string \<times> string list" where
  "split_placeholder_body body =
    (if CHR ''#'' \<notin> set body then (body, [])
     else case str_split1 CHR ''#'' body of (identifier, raw_path) \<Rightarrow> (str_strip identifier, path_parts raw_path))"

text \<open>\<open>^\[\[(.+)\]\]$\<close>; the dot stands for any character but a line feed.\<close>

definition placeholder_body :: "string \<Rightarrow> string option" where
  "placeholder_body s =
    (let body = drop 2 (take (length s - 2) s)
     in if length s \<ge> 5 \<and> take 2 s = ''[['' \<and> drop (length s - 2) s = '']]'' \<and> char_of (10 :: nat) \<notin> set body
        then Some body else None)"

definition from_placeholder :: "string \<Rightarrow> credential_reference option" where
  "from_placeholder value =
    (case placeholder_body (str_strip value) of
       None \<Rightarrow> None
     | Some raw \<Rightarrow>
         let body = str_strip raw in
         if body = [] then None
         else case split_placeholder_body body of (identifier, payload) \<Rightarrow>
           if identifier = [] then None
           else Some \<lparr>cr_identifier = identifier, cr_payload_path = if payload = [] then [''secret''] else payload\<rparr>)"

definition parse_credential_reference :: "string \<Rightarrow> credential_reference option" where
  "parse_credential_reference = from_placeholder"

text \<open>References made by Python code: the payload is a dotted text or a list of parts.\<close>

definition credential_ref :: "string \<Rightarrow> string + string list \<Rightarrow> reference_error + credential_reference" where
  "credential_ref identifier payload =
    (let normalized = str_strip identifier;
         parts = (case payload of Inl raw \<Rightarrow> path_parts raw | Inr ps \<Rightarrow> filter (\<lambda>p. p \<noteq> []) (map str_strip ps))
     in if normalized = [] then Inl EmptyIdentifier
        else Inr \<lparr>cr_identifier = normalized, cr_payload_path = if parts = [] then [''secret''] else parts\<rparr>)"

section \<open>The resolver\<close>

record credential_metadata =
  cm_id :: uuid
  cm_name :: string
  cm_oauth :: bool

datatype resolution_error =
    ReferenceNotFound string
  | DuplicateReference string
  | UnknownPayload
  | VaultFailure string
  | ResolverUnavailable

text \<open>The visible credentials, the secret of each, the tokens of each if there are any, and the
  attributes of token objects.\<close>

record 'v vault_answers =
  va_list :: "credential_metadata list"
  va_secret :: "uuid \<Rightarrow> resolution_error + 'v"
  va_tokens :: "uuid \<Rightarrow> resolution_error + 'v option"
  va_attribute :: "'v \<Rightarrow> string \<Rightarrow> 'v option"

record 'v resolver =
  metadata_index :: "((uuid, credential_metadata) dict \<times> (string, credential_metadata list) dict) option"
  secret_cache :: "(uuid, 'v) dict"
  oauth_cache :: "(uuid, 'v option) dict"

definition new_resolver :: "'v resolver" where
  "new_resolver = \<lparr>metadata_index = None, secret_cache = [], oauth_cache = []\<rparr>"

definition index_metadata ::
    "credential_metadata list \<Rightarrow> (uuid, credential_metadata) dict \<times> (string, credential_metadata list) dict" where
  "index_metadata items =
    (fold (\<lambda>m. dict_set (cm_id m) m) items [],
     fold (\<lambda>m d. dict_set (cm_name m) ((case dict_get d (cm_name m) of Some ms \<Rightarrow> ms | None \<Rightarrow> []) @ [m]) d) items [])"

definition load_metadata_index ::
    "'v vault_answers \<Rightarrow> 'v resolver \<Rightarrow>
     'v resolver \<times> (uuid, credential_metadata) dict \<times> (string, credential_metadata list) dict" where
  "load_metadata_index env r =
    (case metadata_index r of
       Some index \<Rightarrow> (r, index)
     | None \<Rightarrow> let index = index_metadata (va_list env) in (r\<lparr>metadata_index := Some index\<rparr>, index))"

definition hex_value :: "char \<Rightarrow> nat" where
  "hex_value c = (let n = (of_char c :: nat) in if n \<le> 57 then n - 48 else if n \<le> 70 then n - 55 else n - 87)"

text \<open>The number \<open>UUID(value)\<close> stands for.\<close>

definition uuid_of :: "string \<Rightarrow> uuid option" where
  "uuid_of value = (if workflow_ref_is_uuid value
     then Some (foldl (\<lambda>n c. 16 * n + hex_value c) 0
       (filter hex_digit (strip_braces (remove_all ''uuid:'' 0 (remove_all ''urn:'' 0 value)))))
     else None)"

definition find_by_name ::
    "string \<Rightarrow> (string, credential_metadata list) dict \<Rightarrow> resolution_error + credential_metadata" where
  "find_by_name identifier by_name =
    (case dict_get by_name (str_strip identifier) of
       None \<Rightarrow> Inl (ReferenceNotFound identifier)
     | Some [] \<Rightarrow> Inl (ReferenceNotFound identifier)
     | Some [m] \<Rightarrow> Inr m
     | Some _ \<Rightarrow> Inl (DuplicateReference identifier))"

definition locate_in ::
    "string \<Rightarrow> (uuid, credential_metadata) dict \<times> (string, credential_metadata list) dict \<Rightarrow>
     resolution_error + credential_metadata" where
  "locate_in identifier index =
    (case (case uuid_of identifier of Some i \<Rightarrow> dict_get (fst index) i | None \<Rightarrow> None) of
       Some m \<Rightarrow> Inr m
     | None \<Rightarrow> find_by_name identifier (snd index))"

definition locate_metadata ::
    "'v vault_answers \<Rightarrow> string \<Rightarrow> 'v resolver \<Rightarrow> ('v resolver, resolution_error, credential_metadata) outcome" where
  "locate_metadata env identifier r =
    (case load_metadata_index env r of (r', index) \<Rightarrow> (r', locate_in identifier index))"

definition resolve_secret ::
    "'v vault_answers \<Rightarrow> credential_metadata \<Rightarrow> 'v resolver \<Rightarrow> ('v resolver, resolution_error, 'v option) outcome" where
  "resolve_secret env m r =
    (case dict_get (secret_cache r) (cm_id m) of
       Some v \<Rightarrow> (r, Inr (Some v))
     | None \<Rightarrow> (case va_secret env (cm_id m) of
         Inl e \<Rightarrow> (r, Inl e)
       | Inr v \<Rightarrow> (r\<lparr>secret_cache := dict_set (cm_id m) v (secret_cache r)\<rparr>, Inr (Some v))))"

definition resolve_oauth_tokens ::
    "'v vault_answers \<Rightarrow> credential_metadata \<Rightarrow> 'v resolver \<Rightarrow> ('v resolver, resolution_error, 'v option) outcome" where
  "resolve_oauth_tokens env m r =
    (if \<not> cm_oauth m then (r, Inl UnknownPayload)
     else case dict_get (oauth_cache r) (cm_id m) of
         Some (Some v) \<Rightarrow> (r, Inr (Some v))
       | _ \<Rightarrow> (case va_tokens env (cm_id m) of
           Inl e \<Rightarrow> (r, Inl e)
         | Inr v \<Rightarrow> (r\<lparr>oauth_cache := dict_set (cm_id m) v (oauth_cache r)\<rparr>, Inr v)))"

fun token_attributes :: "'v vault_answers \<Rightarrow> string list \<Rightarrow> 'v \<Rightarrow> resolution_error + 'v" where
  "token_attributes env [] current = Inr current"
| "token_attributes env (a # attrs) current =
    (case va_attribute env current a of None \<Rightarrow> Inl UnknownPayload | Some v \<Rightarrow> token_attributes env attrs v)"

definition extract_payload ::
    "'v vault_answers \<Rightarrow> credential_metadata \<Rightarrow> string list \<Rightarrow> 'v resolver \<Rightarrow>
     ('v resolver, resolution_error, 'v option) outcome" where
  "extract_payload env m payload_path r =
    (case payload_path of
       [] \<Rightarrow> resolve_secret env m r
     | head # tail \<Rightarrow>
         if str_lower head = ''secret''
         then (if tail \<noteq> [] then (r, Inl UnknownPayload) else resolve_secret env m r)
         else if str_lower head = ''oauth''
         then and_then (resolve_oauth_tokens env m r) (\<lambda>r' tokens.
           case tokens of
             None \<Rightarrow> (r', Inr None)
           | Some v \<Rightarrow> (r', seqE (token_attributes env tail v) (\<lambda>w. Inr (Some w))))
         else (r, Inl UnknownPayload))"

definition resolve ::
    "'v vault_answers \<Rightarrow> credential_reference \<Rightarrow> 'v resolver \<Rightarrow> ('v resolver, resolution_error, 'v option) outcome" where
  "resolve env ref r =
    and_then (locate_metadata env (cr_identifier ref) r)
      (\<lambda>r' m. extract_payload env m (cr_payload_path ref) r')"

text \<open>What refreshed tokens write to the vault.\<close>

datatype vault_write =
    UpdateOauthTokens uuid string "string option" string
  | UpdateSecret uuid string string

definition persist_refreshed_tokens ::
    "'v vault_answers \<Rightarrow> string \<Rightarrow> string \<Rightarrow> string option \<Rightarrow> string option \<Rightarrow> string \<Rightarrow> 'v resolver \<Rightarrow>
     'v resolver \<times> vault_write option" where
  "persist_refreshed_tokens env identifier new_access new_refresh fallback_refresh actor r =
    (case locate_metadata env identifier r of
       (r', Inl _) \<Rightarrow> (r', None)
     | (r', Inr m) \<Rightarrow>
         (r', Some (if cm_oauth m
            then UpdateOauthTokens (cm_id m) new_access (if opt_truthy new_refresh then new_refresh else fallback_refresh) actor
            else UpdateSecret (cm_id m) new_access actor)))"

end
