(* ===== verification/Credential_Refs_Laws.thy ===== *)
theory Credential_Refs_Laws
  imports Credential_Refs
begin

text \<open>
  Properties of credential references: placeholders mean what the Python constructor means, lookup
  is unambiguous, the caches of the resolver cannot be observed while the vault does not change, and
  they hide a token that was refreshed.
\<close>

section \<open>Placeholders\<close>

definition str_rstrip :: "string \<Rightarrow> string" where
  "str_rstrip s = rev (dropWhile char_space (rev s))"

lemma str_strip_append_space: "char_space x \<Longrightarrow> str_strip (s @ [x]) = str_strip s"
  by (cases "\<forall>c \<in> set s. char_space c") (auto simp: str_strip_def dropWhile_append dest: set_dropWhileD)

lemma str_split_snoc:
  "x \<noteq> c \<Longrightarrow> str_split c (p @ [x]) = butlast (str_split c p) @ [last (str_split c p) @ [x]]"
proof (induction p)
  case Nil
  then show ?case by simp
next
  case (Cons y p)
  obtain a as where a: "str_split c p = a # as" by (cases "str_split c p") (auto simp: str_split_nonempty)
  with Cons show ?case by (cases as) auto
qed

lemma path_parts_snoc_space:
  assumes "char_space x"
  shows "path_parts (p @ [x]) = path_parts p"
proof -
  have "\<not> char_space CHR ''.''" by code_simp
  with assms have x: "x \<noteq> CHR ''.''" by auto
  have "map str_strip (str_split CHR ''.'' p) =
      map str_strip (butlast (str_split CHR ''.'' p) @ [last (str_split CHR ''.'' p)])"
    by (simp add: str_split_nonempty)
  then have "map str_strip (str_split CHR ''.'' (p @ [x])) = map str_strip (str_split CHR ''.'' p)"
    using str_strip_append_space [OF assms] by (simp add: str_split_snoc [OF x])
  then show ?thesis by (simp only: path_parts_def)
qed

lemma path_parts_rstrip: "path_parts (str_rstrip p) = path_parts p"
proof (induction p rule: rev_induct)
  case Nil
  then show ?case by (simp add: str_rstrip_def)
next
  case (snoc x p)
  show ?case
  proof (cases "char_space x")
    case True
    then have "str_rstrip (p @ [x]) = str_rstrip p" by (simp add: str_rstrip_def)
    with snoc path_parts_snoc_space [OF True] show ?thesis by simp
  next
    case False
    then show ?thesis by (simp add: str_rstrip_def)
  qed
qed

lemma str_strip_around:
  assumes "\<not> char_space c"
  shows "str_strip (u @ c # v) = dropWhile char_space u @ c # str_rstrip v"
proof -
  have "dropWhile char_space (u @ c # v) = dropWhile char_space u @ c # v"
    using assms by (simp add: dropWhile_append)
  moreover have "rev (dropWhile char_space (rev (w @ c # v))) = w @ c # str_rstrip v" for w
    using assms by (cases "\<forall>x \<in> set v. char_space x") (auto simp: str_rstrip_def dropWhile_append)
  ultimately show ?thesis by (simp add: str_strip_def)
qed

lemma str_strip_dropWhile [simp]: "str_strip (dropWhile char_space u) = str_strip u"
  by (simp add: str_strip_def)

lemma enclosed_strip: "str_strip (''[['' @ b @ '']]'') = ''[['' @ b @ '']]''"
proof -
  have "\<not> char_space CHR ''[''" "\<not> char_space CHR '']''" by code_simp+
  then show ?thesis by (simp add: str_strip_def)
qed

lemma placeholder_body_enclosed:
  "b \<noteq> [] \<Longrightarrow> char_of (10 :: nat) \<notin> set b \<Longrightarrow> placeholder_body (''[['' @ b @ '']]'') = Some b"
  by (cases b) (simp_all add: placeholder_body_def Let_def)

lemma split1_hash: "CHR ''#'' \<notin> set u \<Longrightarrow> str_split1 CHR ''#'' (u @ CHR ''#'' # v) = (u, v)"
  by (simp add: str_split1_def takeWhile_append dropWhile_append)

text \<open>C24. A placeholder \<open>[[name#path]]\<close> written in a configuration is the reference that Python code
  gets from \<open>credential_ref(name, path)\<close>, for every spelling of name and path, blanks around and
  empty path segments included; without a path it is the secret; and a text that is not enclosed
  in double brackets is no reference.\<close>

theorem placeholder_is_reference:
  assumes "char_of (10 :: nat) \<notin> set (i @ p)" "CHR ''#'' \<notin> set i" "str_strip i \<noteq> []"
  shows "\<exists>ref. credential_ref i (Inl p) = Inr ref \<and>
      parse_credential_reference (''[['' @ i @ ''#'' @ p @ '']]'') = Some ref \<and>
    (\<exists>ref. credential_ref i (Inr []) = Inr ref \<and> cr_payload_path ref = [''secret''] \<and>
      parse_credential_reference (''[['' @ i @ '']]'') = Some ref) \<and>
    (take 2 (str_strip v) \<noteq> ''[['' \<longrightarrow> parse_credential_reference v = None)"
proof -
  have hash: "\<not> char_space CHR ''#''" by code_simp
  have nl: "char_of (10 :: nat) \<noteq> CHR ''#''" by code_simp
  have i: "i \<noteq> []" using assms(3) by (auto simp: str_strip_def)
  have b: "placeholder_body (''[['' @ (i @ ''#'' @ p) @ '']]'') = Some (i @ ''#'' @ p)"
    "placeholder_body (''[['' @ i @ '']]'') = Some i"
    using assms(1) i nl by (intro placeholder_body_enclosed; simp)+
  have "str_strip (i @ ''#'' @ p) = dropWhile char_space i @ CHR ''#'' # str_rstrip p"
    using str_strip_around [OF hash, of i p] by simp
  moreover have "CHR ''#'' \<notin> set (dropWhile char_space i)" using assms(2) set_dropWhileD by metis
  ultimately have "split_placeholder_body (str_strip (i @ ''#'' @ p)) = (str_strip i, path_parts p)"
    by (simp add: split_placeholder_body_def split1_hash path_parts_rstrip)
  moreover have "str_strip (i @ ''#'' @ p) \<noteq> []"
    using str_strip_around [OF hash, of i p] by simp
  ultimately have first: "from_placeholder (''[['' @ (i @ ''#'' @ p) @ '']]'') =
      Some \<lparr>cr_identifier = str_strip i, cr_payload_path = if path_parts p = [] then [''secret''] else path_parts p\<rparr>"
    using assms(3) by (simp only: from_placeholder_def enclosed_strip b Let_def) simp
  have "CHR ''#'' \<notin> set (str_strip i)"
    using assms(2) by (metis set_dropWhileD set_rev str_strip_def)
  then have "split_placeholder_body (str_strip i) = (str_strip i, [])" by (simp add: split_placeholder_body_def)
  then have second: "from_placeholder (''[['' @ i @ '']]'') =
      Some \<lparr>cr_identifier = str_strip i, cr_payload_path = [''secret'']\<rparr>"
    using assms(3) by (simp only: from_placeholder_def enclosed_strip b Let_def) simp
  have third: "parse_credential_reference v = None" if "take 2 (str_strip v) \<noteq> ''[[''"
    using that by (simp add: parse_credential_reference_def from_placeholder_def placeholder_body_def)
  show ?thesis
    using first second third assms(3) by (simp add: parse_credential_reference_def credential_ref_def)
qed

theorem placeholder_is_reference_witness:
  "\<exists>ref. credential_ref '' slack '' (Inl ''oauth. access_token'') = Inr ref \<and>
     parse_credential_reference ''[[ slack #oauth. access_token]]'' = Some ref"
proof -
  have "char_of (10 :: nat) \<notin> set ('' slack '' @ ''oauth. access_token'')" "CHR ''#'' \<notin> set '' slack ''"
    "str_strip '' slack '' \<noteq> []"
    by code_simp+
  from placeholder_is_reference [OF this, of "[]"] show ?thesis by auto
qed

section \<open>Caches\<close>

definition cache_inv :: "'v vault_answers \<Rightarrow> 'v resolver \<Rightarrow> bool" where
  "cache_inv env r \<longleftrightarrow>
    (\<forall>index. metadata_index r = Some index \<longrightarrow> index = index_metadata (va_list env)) \<and>
    (\<forall>i v. dict_get (secret_cache r) i = Some v \<longrightarrow> va_secret env i = Inr v) \<and>
    (\<forall>i v. dict_get (oauth_cache r) i = Some v \<longrightarrow> va_tokens env i = Inr v)"

definition resolve_uncached :: "'v vault_answers \<Rightarrow> credential_reference \<Rightarrow> resolution_error + 'v option" where
  "resolve_uncached env ref =
    seqE (locate_in (cr_identifier ref) (index_metadata (va_list env)))
      (\<lambda>m. case cr_payload_path ref of
         [] \<Rightarrow> seqE (va_secret env (cm_id m)) (\<lambda>v. Inr (Some v))
       | head # tail \<Rightarrow>
           if str_lower head = ''secret''
           then (if tail \<noteq> [] then Inl UnknownPayload else seqE (va_secret env (cm_id m)) (\<lambda>v. Inr (Some v)))
           else if str_lower head = ''oauth''
           then (if \<not> cm_oauth m then Inl UnknownPayload
             else seqE (va_tokens env (cm_id m)) (\<lambda>tokens. case tokens of
               None \<Rightarrow> Inr None | Some v \<Rightarrow> seqE (token_attributes env tail v) (\<lambda>w. Inr (Some w))))
           else Inl UnknownPayload)"

lemma resolve_secret_cached:
  assumes "cache_inv env r"
  shows "cache_inv env (fst (resolve_secret env m r)) \<and>
    snd (resolve_secret env m r) = seqE (va_secret env (cm_id m)) (\<lambda>v. Inr (Some v))"
  using assms by (auto simp: resolve_secret_def cache_inv_def split: option.splits sum.splits)

lemma resolve_tokens_cached:
  assumes "cache_inv env r"
  shows "cache_inv env (fst (resolve_oauth_tokens env m r)) \<and>
    snd (resolve_oauth_tokens env m r) = (if cm_oauth m then va_tokens env (cm_id m) else Inl UnknownPayload)"
  using assms by (auto simp: resolve_oauth_tokens_def cache_inv_def split: option.splits sum.splits)

lemma extract_payload_cached:
  assumes "cache_inv env r"
  shows "cache_inv env (fst (extract_payload env m path r)) \<and>
    seqE (Inr m :: resolution_error + _) (\<lambda>m. snd (extract_payload env m path r)) =
      (case path of
         [] \<Rightarrow> seqE (va_secret env (cm_id m)) (\<lambda>v. Inr (Some v))
       | head # tail \<Rightarrow>
           if str_lower head = ''secret''
           then (if tail \<noteq> [] then Inl UnknownPayload else seqE (va_secret env (cm_id m)) (\<lambda>v. Inr (Some v)))
           else if str_lower head = ''oauth''
           then (if \<not> cm_oauth m then Inl UnknownPayload
             else seqE (va_tokens env (cm_id m)) (\<lambda>tokens. case tokens of
               None \<Rightarrow> Inr None | Some v \<Rightarrow> seqE (token_attributes env tail v) (\<lambda>w. Inr (Some w))))
           else Inl UnknownPayload)"
proof (cases path)
  case Nil
  then show ?thesis using resolve_secret_cached [OF assms, of m] by (simp add: extract_payload_def)
next
  case (Cons head tail)
  obtain r' t where t: "resolve_oauth_tokens env m r = (r', t)" by (cases "resolve_oauth_tokens env m r")
  have c: "cache_inv env r'" "t = (if cm_oauth m then va_tokens env (cm_id m) else Inl UnknownPayload)"
    using resolve_tokens_cached [OF assms, of m] t by auto
  note s = resolve_secret_cached [OF assms, of m]
  consider "str_lower head = ''secret''" | "str_lower head = ''oauth''" "\<not> cm_oauth m"
    | "str_lower head = ''oauth''" "cm_oauth m" | "str_lower head \<noteq> ''secret''" "str_lower head \<noteq> ''oauth''"
    by blast
  then show ?thesis
  proof cases
    case 3
    with t c Cons show ?thesis
      by (cases "va_tokens env (cm_id m)") (auto simp: extract_payload_def split: option.splits)
  qed (use Cons s assms t c in \<open>simp_all add: extract_payload_def\<close>)
qed

lemma resolve_cached:
  assumes "cache_inv env r"
  shows "cache_inv env (fst (resolve env ref r)) \<and> snd (resolve env ref r) = resolve_uncached env ref"
proof -
  obtain r' where r': "locate_metadata env (cr_identifier ref) r =
      (r', locate_in (cr_identifier ref) (index_metadata (va_list env)))" "cache_inv env r'"
  proof (cases "metadata_index r")
    case None
    have "cache_inv env (r\<lparr>metadata_index := Some (index_metadata (va_list env))\<rparr>)"
      using assms by (simp add: cache_inv_def)
    then show ?thesis using that None by (simp add: locate_metadata_def load_metadata_index_def Let_def)
  next
    case (Some index)
    with assms have "index = index_metadata (va_list env)" by (simp add: cache_inv_def)
    then show ?thesis using that Some assms by (simp add: locate_metadata_def load_metadata_index_def)
  qed
  show ?thesis
  proof (cases "locate_in (cr_identifier ref) (index_metadata (va_list env))")
    case (Inl e)
    with r' show ?thesis by (simp add: resolve_def resolve_uncached_def)
  next
    case (Inr m)
    with r' extract_payload_cached [OF r'(2), of m "cr_payload_path ref"] show ?thesis
      by (simp add: resolve_def resolve_uncached_def)
  qed
qed

lemma cache_inv_new: "cache_inv env new_resolver"
  by (simp add: cache_inv_def new_resolver_def)

fun resolve_all :: "'v vault_answers \<Rightarrow> credential_reference list \<Rightarrow> 'v resolver \<Rightarrow> (resolution_error + 'v option) list" where
  "resolve_all env [] r = []"
| "resolve_all env (ref # refs) r = (case resolve env ref r of (r', v) \<Rightarrow> v # resolve_all env refs r')"

text \<open>C8. The caches of a resolver are transparent: however many references a run resolves, in whatever
  order and with failures in between, each gets the answer a resolver without caches would give.\<close>

theorem resolver_caches_transparent:
  "resolve_all env refs new_resolver = map (resolve_uncached env) refs"
proof -
  have "cache_inv env r \<Longrightarrow> resolve_all env refs r = map (resolve_uncached env) refs" for r
    by (induction refs arbitrary: r) (auto simp: split_beta resolve_cached)
  then show ?thesis using cache_inv_new by blast
qed

section \<open>Lookup\<close>

lemma index_by_id:
  "dict_get (fold (\<lambda>m. dict_set (cm_id m) m) ms d) i =
    (case find (\<lambda>m. cm_id m = i) (rev ms) of Some m \<Rightarrow> Some m | None \<Rightarrow> dict_get d i)"
  by (induction ms arbitrary: d rule: rev_induct) (auto split: option.splits)

lemma index_by_name:
  "dict_get (fold (\<lambda>m d. dict_set (cm_name m)
      ((case dict_get d (cm_name m) of Some ms \<Rightarrow> ms | None \<Rightarrow> []) @ [m]) d) ms []) n =
    (if filter (\<lambda>m. cm_name m = n) ms = [] then None else Some (filter (\<lambda>m. cm_name m = n) ms))"
  by (induction ms arbitrary: n rule: rev_induct) (auto split: if_splits)

lemma index_find: "dict_get (fst (index_metadata ms)) i = find (\<lambda>m. cm_id m = i) (rev ms)"
  by (simp add: index_metadata_def index_by_id split: option.splits)

lemma find_distinct: "distinct (map f ys) \<Longrightarrow> find (\<lambda>x. f x = i) ys = Some y \<longleftrightarrow> y \<in> set ys \<and> f y = i"
  by (induction ys) auto

lemma find_unique: "distinct (map f xs) \<Longrightarrow> find (\<lambda>x. f x = i) (rev xs) = Some y \<longleftrightarrow> y \<in> set xs \<and> f y = i"
  using find_distinct [of f "rev xs" i y] by (simp add: rev_map [symmetric])

text \<open>C25. A reference finds at most one credential and never a wrong one: the credential with the
  referenced UUID if there is one, otherwise the only credential of that name; two credentials of
  the same name are an error, whatever else the vault holds.\<close>

theorem lookup_unambiguous:
  assumes "distinct (map cm_id ms)"
  shows "(locate_in ident (index_metadata ms) = Inr m \<longleftrightarrow>
      (m \<in> set ms \<and> uuid_of ident = Some (cm_id m)) \<or>
      ((\<forall>m' \<in> set ms. uuid_of ident \<noteq> Some (cm_id m')) \<and> filter (\<lambda>m'. cm_name m' = str_strip ident) ms = [m])) \<and>
    (locate_in ident (index_metadata ms) = Inl (DuplicateReference ident) \<longleftrightarrow>
      (\<forall>m' \<in> set ms. uuid_of ident \<noteq> Some (cm_id m')) \<and>
      length (filter (\<lambda>m'. cm_name m' = str_strip ident) ms) > 1)"
proof -
  let ?same = "filter (\<lambda>m'. cm_name m' = str_strip ident) ms"
  let ?by_id = "case uuid_of ident of Some i \<Rightarrow> dict_get (fst (index_metadata ms)) i | None \<Rightarrow> None"
  have id: "?by_id = Some x \<longleftrightarrow> x \<in> set ms \<and> uuid_of ident = Some (cm_id x)" for x
    by (cases "uuid_of ident") (auto simp: index_find find_unique [OF assms])
  then have none: "?by_id = None \<longleftrightarrow> (\<forall>m' \<in> set ms. uuid_of ident \<noteq> Some (cm_id m'))"
    by (metis not_None_eq)
  have name: "find_by_name ident (snd (index_metadata ms)) =
      (case ?same of [] \<Rightarrow> Inl (ReferenceNotFound ident) | [x] \<Rightarrow> Inr x | _ \<Rightarrow> Inl (DuplicateReference ident))"
    by (auto simp: find_by_name_def index_metadata_def index_by_name split: list.splits)
  show ?thesis
  proof (cases ?by_id)
    case (Some x)
    then have "locate_in ident (index_metadata ms) = Inr x" by (simp add: locate_in_def)
    moreover have "x = m \<longleftrightarrow> m \<in> set ms \<and> uuid_of ident = Some (cm_id m)"
      using Some id [of x] id [of m] by (metis option.inject)
    ultimately show ?thesis using Some none by auto
  next
    case None
    then have "locate_in ident (index_metadata ms) = find_by_name ident (snd (index_metadata ms))"
      by (simp add: locate_in_def)
    then show ?thesis using None none unfolding name by (cases ?same) (auto split: list.splits)
  qed
qed

definition two_credentials :: "credential_metadata list" where
  "two_credentials = [\<lparr>cm_id = 1, cm_name = ''slack'', cm_oauth = False\<rparr>, \<lparr>cm_id = 2, cm_name = ''slack'', cm_oauth = True\<rparr>]"

theorem lookup_unambiguous_witness:
  "locate_in '' slack '' (index_metadata two_credentials) = Inl (DuplicateReference '' slack '')"
proof -
  have "distinct (map cm_id two_credentials)" by (simp add: two_credentials_def)
  moreover have "uuid_of '' slack '' = None" "str_strip '' slack '' = ''slack''" by code_simp+
  ultimately show ?thesis
    using lookup_unambiguous [of two_credentials "'' slack ''"] by (simp add: two_credentials_def)
qed

section \<open>Refreshed tokens\<close>

text \<open>Writing a refreshed token back leaves the caches of the resolver as they are: a reference
  that this run resolved before keeps the old secret, whatever the vault holds by then.\<close>

theorem refreshed_token_stale:
  assumes "resolve env ref r = (r', Inr (Some v))" "cr_payload_path ref = [''secret'']"
    and "persist_refreshed_tokens env (cr_identifier ref) new_access new_refresh fallback actor r' = (r'', w)"
  shows "w \<noteq> None \<and> resolve env' ref r'' = (r'', Inr (Some v))"
proof -
  obtain r1 m where l: "locate_metadata env (cr_identifier ref) r = (r1, Inr m)"
    and s: "resolve_secret env m r1 = (r', Inr (Some v))"
    using assms(1,2) by (auto simp: resolve_def and_then_Inr_iff extract_payload_def str_lower_def char_lower_def)
  have c: "dict_get (secret_cache r') (cm_id m) = Some v" "metadata_index r' = metadata_index r1"
    using s by (auto simp: resolve_secret_def split: option.splits sum.splits)
  obtain index where i: "metadata_index r1 = Some index" "locate_in (cr_identifier ref) index = Inr m"
  proof (cases "metadata_index r")
    case None
    then show ?thesis
      using l that [of "index_metadata (va_list env)"] by (auto simp: locate_metadata_def load_metadata_index_def Let_def)
  next
    case (Some index)
    then show ?thesis using l that by (simp add: locate_metadata_def load_metadata_index_def)
  qed
  have "load_metadata_index e r' = (r', index)" for e :: "'a vault_answers"
    using c(2) i(1) by (simp add: load_metadata_index_def)
  then have l': "locate_metadata e (cr_identifier ref) r' = (r', Inr m)" for e :: "'a vault_answers"
    using i(2) by (simp add: locate_metadata_def)
  have "r'' = r'" "w \<noteq> None" using assms(3) by (auto simp: persist_refreshed_tokens_def l')
  moreover have "resolve env' ref r' = (r', Inr (Some v))"
    using l' [of env'] assms(2) c(1)
    by (simp add: resolve_def extract_payload_def resolve_secret_def str_lower_def char_lower_def)
  ultimately show ?thesis by simp
qed

definition sample_vault :: "nat \<Rightarrow> nat vault_answers" where
  "sample_vault secret = \<lparr>va_list = [\<lparr>cm_id = 1, cm_name = ''s'', cm_oauth = False\<rparr>], va_secret = (\<lambda>_. Inr secret),
     va_tokens = (\<lambda>_. Inr None), va_attribute = (\<lambda>_ _. None)\<rparr>"

theorem refreshed_token_stale_witness:
  "\<exists>r. resolve (sample_vault 8) \<lparr>cr_identifier = ''s'', cr_payload_path = [''secret'']\<rparr> r = (r, Inr (Some 7)) \<and>
     (\<exists>w. persist_refreshed_tokens (sample_vault 7) ''s'' ''new'' None None ''node''
        (fst (resolve (sample_vault 7) \<lparr>cr_identifier = ''s'', cr_payload_path = [''secret'']\<rparr> new_resolver)) = (r, w))"
proof -
  let ?ref = "\<lparr>cr_identifier = ''s'', cr_payload_path = [''secret'']\<rparr>"
  obtain r' where r': "resolve (sample_vault 7) ?ref new_resolver = (r', Inr (Some 7))"
  proof -
    have "uuid_of ''s'' = None" "str_strip ''s'' = ''s''" "str_lower ''secret'' = ''secret''" by code_simp+
    then have "snd (resolve (sample_vault 7) ?ref new_resolver) = Inr (Some 7)"
      using resolve_cached [OF cache_inv_new, of "sample_vault 7" ?ref]
      by (simp add: resolve_uncached_def locate_in_def find_by_name_def index_metadata_def sample_vault_def)
    then show thesis using that by (metis prod.collapse)
  qed
  obtain r'' w where p: "persist_refreshed_tokens (sample_vault 7) ''s'' ''new'' None None ''node'' r' = (r'', w)"
    by (cases "persist_refreshed_tokens (sample_vault 7) ''s'' ''new'' None None ''node'' r'")
  have "resolve (sample_vault 8) ?ref r'' = (r'', Inr (Some 7))"
    using refreshed_token_stale [OF r', of "''new''" None None "''node''" r'' w "sample_vault 8"] p by simp
  with p r' show ?thesis by auto
qed

end
