(* ===== verification/Node_Runtime.thy ===== *)
theory Node_Runtime
  imports Edge_Conditions Credential_Refs
begin

text \<open>
  What every node and edge does around its own code (\<open>nodes/base.py\<close>, \<open>graph/state.py\<close>): templates
  \<open>{{path}}\<close> in the fields of a node are replaced by values of the workflow state and credential
  placeholders by secrets, and the result of a task node becomes an update of the state. The active
  credential resolver is a function, or absent. Decoding never changes a value in place, so the
  copy-on-write of the source is invisible here. Nested model objects, tuples and sets in fields are
  left out: fields hold JSON-shaped values or a credential reference.
\<close>

section \<open>Templates\<close>

type_synonym active_resolver = "(credential_reference \<Rightarrow> resolution_error + pyval) option"

definition contains_template :: "string \<Rightarrow> bool" where
  "contains_template v \<longleftrightarrow> str_contains ''{{'' v \<and> str_contains ''}}'' v"

definition brace :: "char \<Rightarrow> bool" where
  "brace c \<longleftrightarrow> c = CHR ''{'' \<or> c = CHR ''}''"

text \<open>A template at the start of a text: its inner text and what follows.\<close>

definition template_at :: "string \<Rightarrow> (string \<times> string) option" where
  "template_at s =
    (if take 2 s \<noteq> ''{{'' then None
     else let inner = takeWhile (\<lambda>c. \<not> brace c) (drop 2 s); rest = dropWhile (\<lambda>c. \<not> brace c) (drop 2 s)
          in if inner \<noteq> [] \<and> take 2 rest = ''}}'' then Some (inner, drop 2 rest) else None)"

definition single_template :: "string \<Rightarrow> string option" where
  "single_template s = (case template_at (str_strip s) of Some (inner, []) \<Rightarrow> Some (str_strip inner) | _ \<Rightarrow> None)"

definition fallback_to_node_results :: "string \<Rightarrow> wf_state \<Rightarrow> pyval option" where
  "fallback_to_node_results part state =
    (if part = ''node_results'' then None
     else case dict_get state ''node_results'' of
         Some (PDict d) \<Rightarrow> (if get_or_none d part \<noteq> PNone then Some (get_or_none d part) else None)
       | _ \<Rightarrow> None)"

fun walk_segments :: "string list \<Rightarrow> pyval \<Rightarrow> pyval option" where
  "walk_segments [] v = Some v"
| "walk_segments (p # ps) v =
    (case v of PDict d \<Rightarrow> (case dict_get d p of Some w \<Rightarrow> walk_segments ps w | None \<Rightarrow> None) | _ \<Rightarrow> None)"

definition resolve_state_template_path :: "string \<Rightarrow> wf_state \<Rightarrow> pyval option" where
  "resolve_state_template_path path_str state =
    (case str_split CHR ''.'' path_str of
       [] \<Rightarrow> None
     | part # parts \<Rightarrow>
         (case (case dict_get state part of Some v \<Rightarrow> Some v | None \<Rightarrow> fallback_to_node_results part state) of
            Some v \<Rightarrow> walk_segments parts v
          | None \<Rightarrow> None))"

definition resolve_credential_reference :: "active_resolver \<Rightarrow> credential_reference \<Rightarrow> resolution_error + pyval" where
  "resolve_credential_reference res ref = (case res of None \<Rightarrow> Inl ResolverUnavailable | Some f \<Rightarrow> f ref)"

definition resolve_nested_credential :: "active_resolver \<Rightarrow> pyval \<Rightarrow> resolution_error + pyval" where
  "resolve_nested_credential res v =
    (case v of
       PStr s \<Rightarrow> (case parse_credential_reference s of
           Some ref \<Rightarrow> resolve_credential_reference res ref
         | None \<Rightarrow> Inr v)
     | _ \<Rightarrow> Inr v)"

definition scalar :: "pyval \<Rightarrow> bool" where
  "scalar v = (case v of PStr _ \<Rightarrow> True | PInt _ \<Rightarrow> True | PFloat _ \<Rightarrow> True | PBool _ \<Rightarrow> True | _ \<Rightarrow> False)"

definition template_replacement ::
    "(pyval \<Rightarrow> string) \<Rightarrow> active_resolver \<Rightarrow> wf_state \<Rightarrow> string \<Rightarrow> resolution_error + string" where
  "template_replacement show res state inner =
    (let template = ''{{'' @ inner @ ''}}''
     in case resolve_state_template_path (str_strip inner) state of
          None \<Rightarrow> Inr template
        | Some v \<Rightarrow> seqE (resolve_nested_credential res v)
            (\<lambda>w. Inr (if scalar w then py_str show w else template)))"

lemma template_at_shorter:
  assumes "template_at s = Some (inner, rest)"
  shows "length rest < length s"
proof -
  have "take 2 s = ''{{''" "rest = drop 2 (dropWhile (\<lambda>c. \<not> brace c) (drop 2 s))"
    using assms by (auto simp: template_at_def Let_def split: if_splits)
  moreover from this have "s \<noteq> []" by auto
  ultimately show ?thesis
    using length_dropWhile_le [of "\<lambda>c. \<not> brace c" "drop 2 s"] by (cases s) auto
qed

function substitute_templates ::
    "(pyval \<Rightarrow> string) \<Rightarrow> active_resolver \<Rightarrow> wf_state \<Rightarrow> string \<Rightarrow> resolution_error + string" where
  "substitute_templates show res state [] = Inr []"
| "substitute_templates show res state (c # cs) =
    (case template_at (c # cs) of
       None \<Rightarrow> seqE (substitute_templates show res state cs) (\<lambda>r. Inr (c # r))
     | Some (inner, rest) \<Rightarrow>
         seqE (template_replacement show res state inner)
           (\<lambda>t. seqE (substitute_templates show res state rest) (\<lambda>r. Inr (t @ r))))"
  by pat_completeness auto
termination
  by (relation "measure (\<lambda>(show, res, state, s). length s)") (auto dest: template_at_shorter)

definition decode_string_value ::
    "(pyval \<Rightarrow> string) \<Rightarrow> active_resolver \<Rightarrow> wf_state \<Rightarrow> string \<Rightarrow> resolution_error + pyval" where
  "decode_string_value show res state s =
    (case parse_credential_reference s of
       Some ref \<Rightarrow> resolve_credential_reference res ref
     | None \<Rightarrow>
         if \<not> contains_template s then Inr (PStr s)
         else (case single_template s of
             Some path \<Rightarrow> (case resolve_state_template_path path state of
                 None \<Rightarrow> Inr (PStr s)
               | Some v \<Rightarrow> resolve_nested_credential res v)
           | None \<Rightarrow> seqE (substitute_templates show res state s) (\<lambda>r. Inr (PStr r))))"

fun decode_value ::
      "(pyval \<Rightarrow> string) \<Rightarrow> active_resolver \<Rightarrow> wf_state \<Rightarrow> pyval \<Rightarrow> resolution_error + pyval"
  and decode_list ::
      "(pyval \<Rightarrow> string) \<Rightarrow> active_resolver \<Rightarrow> wf_state \<Rightarrow> pyval list \<Rightarrow> resolution_error + pyval list"
  and decode_mapping ::
      "(pyval \<Rightarrow> string) \<Rightarrow> active_resolver \<Rightarrow> wf_state \<Rightarrow> (string \<times> pyval) list \<Rightarrow>
       resolution_error + (string \<times> pyval) list" where
  "decode_value show res state (PStr s) = decode_string_value show res state s"
| "decode_value show res state (PList xs) = seqE (decode_list show res state xs) (\<lambda>ys. Inr (PList ys))"
| "decode_value show res state (PDict d) = seqE (decode_mapping show res state d) (\<lambda>e. Inr (PDict e))"
| "decode_value show res state v = Inr v"
| "decode_list show res state [] = Inr []"
| "decode_list show res state (x # xs) =
    seqE (decode_value show res state x) (\<lambda>y. seqE (decode_list show res state xs) (\<lambda>ys. Inr (y # ys)))"
| "decode_mapping show res state [] = Inr []"
| "decode_mapping show res state (kv # d) =
    seqE (decode_value show res state (snd kv))
      (\<lambda>w. seqE (decode_mapping show res state d) (\<lambda>e. Inr ((fst kv, w) # e)))"

section \<open>The fields of a node for one invocation\<close>

datatype field = ValueField pyval | ReferenceField credential_reference

definition decode_field ::
    "(pyval \<Rightarrow> string) \<Rightarrow> active_resolver \<Rightarrow> wf_state \<Rightarrow> field \<Rightarrow> resolution_error + field" where
  "decode_field show res state f =
    seqE (case f of ReferenceField ref \<Rightarrow> resolve_credential_reference res ref
            | ValueField v \<Rightarrow> decode_value show res state v) (\<lambda>v. Inr (ValueField v))"

fun decode_fields ::
    "(pyval \<Rightarrow> string) \<Rightarrow> active_resolver \<Rightarrow> wf_state \<Rightarrow> (string, field) dict \<Rightarrow>
     resolution_error + (string, field) dict" where
  "decode_fields show res state [] = Inr []"
| "decode_fields show res state ((k, f) # fs) =
    seqE (decode_field show res state f)
      (\<lambda>g. seqE (decode_fields show res state fs) (\<lambda>gs. Inr ((k, g) # gs)))"

definition chatkit_selected_model :: "pyval \<Rightarrow> string option" where
  "chatkit_selected_model config =
    (case config of
       PDict c \<Rightarrow> (case get_or_none c ''configurable'' of
           PDict d \<Rightarrow> (case get_or_none d ''chatkit_model'' of
               PStr s \<Rightarrow> if str_strip s \<noteq> [] then Some (str_strip s) else None
             | _ \<Rightarrow> None)
         | _ \<Rightarrow> None)
     | _ \<Rightarrow> None)"

definition runtime_run_updates :: "(string, field) dict \<Rightarrow> pyval \<Rightarrow> (string, field) dict" where
  "runtime_run_updates attrs config =
    (case dict_get attrs ''ai_model'' of
       None \<Rightarrow> []
     | Some f \<Rightarrow> (case chatkit_selected_model config of
         None \<Rightarrow> []
       | Some m \<Rightarrow> if f = ValueField (PStr m) then [] else [(''ai_model'', ValueField (PStr m))]))"

definition dict_union :: "('k, 'v) dict \<Rightarrow> ('k, 'v) dict \<Rightarrow> ('k, 'v) dict" where
  "dict_union left right = fold (\<lambda>(k, v). dict_set k v) right left"

definition resolved_for_run ::
    "(pyval \<Rightarrow> string) \<Rightarrow> active_resolver \<Rightarrow> wf_state \<Rightarrow> pyval \<Rightarrow> (string, field) dict \<Rightarrow>
     resolution_error + (string, field) dict" where
  "resolved_for_run show res state config attrs =
    seqE (decode_fields show res state attrs)
      (\<lambda>decoded. Inr (dict_union decoded (runtime_run_updates attrs config)))"

section \<open>State updates\<close>

text \<open>\<open>{**left, **right}\<close>.\<close>

definition dict_reducer :: "(string, pyval) dict \<Rightarrow> (string, pyval) dict \<Rightarrow> (string, pyval) dict" where
  "dict_reducer left right = dict_union left right"

definition task_node_state_fields :: "string list" where
  "task_node_state_fields = [''messages'', ''workspace_id'', ''inputs'', ''node_results'',
     ''structured_response'', ''config'', ''assistant_message'']"

datatype update_error = NodeResultsNotMapping

definition promoted_fields :: "(string, pyval) dict \<Rightarrow> (string, pyval) dict" where
  "promoted_fields d = filter (\<lambda>(k, v). k \<in> set task_node_state_fields \<and> k \<noteq> ''node_results'') d"

definition node_payload :: "(string, pyval) dict \<Rightarrow> (string, pyval) dict" where
  "node_payload d = filter (\<lambda>(k, v). k \<notin> set task_node_state_fields) d"

definition merge_payload :: "string \<Rightarrow> pyval \<Rightarrow> (string, pyval) dict \<Rightarrow> (string, pyval) dict" where
  "merge_payload name payload updates =
    (case (dict_get updates name, payload) of
       (Some (PDict current), PDict p) \<Rightarrow> dict_set name (PDict (dict_union current p)) updates
     | _ \<Rightarrow> if dict_get updates name = None \<or> truthy payload then dict_set name payload updates else updates)"

definition build_task_state_update :: "string \<Rightarrow> pyval \<Rightarrow> update_error + (string, pyval) dict" where
  "build_task_state_update name serialized_result =
    (case serialized_result of
       PDict d \<Rightarrow>
         (case dict_get d ''node_results'' of
            None \<Rightarrow> Inr (promoted_fields d @ [(''node_results'', PDict (merge_payload name (PDict (node_payload d)) []))])
          | Some (PDict u) \<Rightarrow>
              Inr (promoted_fields d @ [(''node_results'', PDict (merge_payload name (PDict (node_payload d)) u))])
          | Some _ \<Rightarrow> Inl NodeResultsNotMapping)
     | v \<Rightarrow> Inr [(''node_results'', PDict (merge_payload name v []))])"

text \<open>The results of a state after an update of it, by the reducer of the field.\<close>

definition reduce_node_results :: "wf_state \<Rightarrow> (string, pyval) dict \<Rightarrow> wf_state" where
  "reduce_node_results state update =
    dict_set ''node_results'' (PDict (dict_reducer (results_map state) (results_map update))) state"

section \<open>Trace metadata\<close>

text \<open>Entries of \<open>new\<close> replace entries of \<open>old\<close>; two mappings are merged.\<close>

definition merge_entry :: "string \<Rightarrow> pyval \<Rightarrow> (string, pyval) dict \<Rightarrow> (string, pyval) dict" where
  "merge_entry k v old =
    (case (dict_get old k, v) of
       (Some (PDict o'), PDict n) \<Rightarrow> dict_set k (PDict (dict_union o' n)) old
     | _ \<Rightarrow> dict_set k v old)"

definition merge_entries :: "(string, pyval) dict \<Rightarrow> (string, pyval) dict \<Rightarrow> (string, pyval) dict" where
  "merge_entries old new = fold (\<lambda>(k, v). merge_entry k v) new old"

definition attach_trace_metadata ::
    "string \<Rightarrow> (string, pyval) dict \<Rightarrow> (string, pyval) dict option \<Rightarrow> (string, pyval) dict \<Rightarrow> (string, pyval) dict" where
  "attach_trace_metadata trace_key inferred explicit result =
    (let metadata = merge_entries inferred (case explicit of Some e \<Rightarrow> e | None \<Rightarrow> [])
     in if metadata = [] then result
        else case dict_get result trace_key of
            Some (PDict existing) \<Rightarrow> dict_set trace_key (PDict (merge_entries existing metadata)) result
          | _ \<Rightarrow> dict_set trace_key (PDict metadata) result)"

end
