(* ===== verification/Logic_Nodes.thy ===== *)
theory Logic_Nodes
  imports Node_Runtime
begin

text \<open>
  The logic nodes (\<open>nodes/logic/\<close>): variables set by dotted paths and the for loop
  (\<open>utilities.py\<close>), the structured router and the extraction of an answer (\<open>routing.py\<close>), the text
  of a human response (\<open>human_input.py\<close>), and the state snapshots and paths of the debug node
  (\<open>state_utils.py\<close>, \<open>debug.py\<close>). Responses are mappings; attributes of other objects are left out.
\<close>

section \<open>Variables\<close>

datatype node_error =
    EmptyPath
  | NoSegment
  | IndexType
  | IndexValue
  | ItemRange
  | NoResults

definition path_segments :: "string \<Rightarrow> string list" where
  "path_segments path = filter (\<lambda>p. p \<noteq> []) (map str_strip (str_split CHR ''.'' path))"

fun nest :: "string list \<Rightarrow> pyval \<Rightarrow> (string, pyval) dict" where
  "nest [] v = []"
| "nest [s] v = [(s, v)]"
| "nest (s # t # ss) v = [(s, PDict (nest (t # ss) v))]"

definition build_nested :: "string \<Rightarrow> pyval \<Rightarrow> node_error + (string, pyval) dict" where
  "build_nested path v =
    (if path = [] then Inl EmptyPath
     else if path_segments path = [] then Inl NoSegment
     else Inr (nest (path_segments path) v))"

text \<open>Merging recurses into an entry that is a mapping on both sides, and replaces it otherwise.\<close>

fun merge_value :: "pyval option \<Rightarrow> pyval \<Rightarrow> pyval"
  and merge_into :: "(string, pyval) dict \<Rightarrow> (string \<times> pyval) list \<Rightarrow> (string, pyval) dict" where
  "merge_value existing (PDict d) =
    (case existing of Some (PDict e) \<Rightarrow> PDict (merge_into e d) | _ \<Rightarrow> PDict d)"
| "merge_value existing v = v"
| "merge_into base [] = base"
| "merge_into base (kv # incoming) =
    merge_into (dict_set (fst kv) (merge_value (dict_get base (fst kv)) (snd kv)) base) incoming"

fun set_variables :: "(string \<times> pyval) list \<Rightarrow> (string, pyval) dict \<Rightarrow> node_error + (string, pyval) dict" where
  "set_variables [] payload = Inr payload"
| "set_variables ((name, v) # vars) payload =
    (if CHR ''.'' \<in> set name
     then seqE (build_nested name v) (\<lambda>nested. set_variables vars (merge_into payload nested))
     else set_variables vars (dict_set name (merge_value (dict_get payload name) v) payload))"

section \<open>The for loop\<close>

definition dec_literal :: "string \<Rightarrow> int option" where
  "dec_literal s =
    (let t = str_strip s;
         u = (if str_startswith t ''+'' \<or> str_startswith t ''-'' then drop 1 t else t);
         groups = str_split CHR ''_'' u
     in if list_all str_isdigit groups
        then Some ((if str_startswith t ''-'' then -1 else 1) * int (str_to_nat (concat groups)))
        else None)"

text \<open>\<open>int(x)\<close>.\<close>

definition py_int :: "pyval \<Rightarrow> node_error + int" where
  "py_int v =
    (case v of
       PInt i \<Rightarrow> Inr i
     | PBool b \<Rightarrow> Inr (if b then 1 else 0)
     | PFloat r \<Rightarrow> Inr (if r < 0 then \<lceil>r\<rceil> else \<lfloor>r\<rfloor>)
     | PStr s \<Rightarrow> (case dec_literal s of Some i \<Rightarrow> Inr i | None \<Rightarrow> Inl IndexValue)
     | PBytes s \<Rightarrow> (case dec_literal s of Some i \<Rightarrow> Inr i | None \<Rightarrow> Inl IndexValue)
     | _ \<Rightarrow> Inl IndexType)"

text \<open>\<open>xs[i]\<close>: negative indices count from the end.\<close>

definition py_index :: "'a list \<Rightarrow> int \<Rightarrow> node_error + 'a" where
  "py_index xs i =
    (let j = (if i < 0 then i + int (length xs) else i)
     in if 0 \<le> j \<and> j < int (length xs) then Inr (xs ! nat j) else Inl ItemRange)"

definition for_loop_run :: "string \<Rightarrow> pyval \<Rightarrow> wf_state \<Rightarrow> node_error + pyval" where
  "for_loop_run name items state =
    (case items of
       PList xs \<Rightarrow>
         (let total = int (length xs);
              raw_index = (case dict_get (node_result state name) ''index'' of Some v \<Rightarrow> v | None \<Rightarrow> PInt 0)
          in seqE (if raw_index \<noteq> PNone then py_int raw_index else Inr 0)
            (\<lambda>index.
              if index \<ge> total
              then Inr (PDict [(''done'', PBool True), (''index'', PInt index), (''iteration'', PInt index),
                     (''total'', PInt total), (''current_item'', PNone)])
              else seqE (py_index xs index)
                (\<lambda>item. Inr (PDict [(''done'', PBool False), (''index'', PInt (index + 1)),
                   (''iteration'', PInt (index + 1)), (''total'', PInt total), (''current_item'', item)]))))
     | _ \<Rightarrow> Inr (PDict [(''done'', PBool True), (''index'', PInt 0), (''total'', PInt 0), (''current_item'', PNone)]))"

text \<open>One invocation of the node in a workflow: its result becomes an update, the update a state.\<close>

definition for_loop_call :: "string \<Rightarrow> pyval \<Rightarrow> wf_state \<Rightarrow> (node_error + update_error) + wf_state" where
  "for_loop_call name items state =
    (case for_loop_run name items state of
       Inl e \<Rightarrow> Inl (Inl e)
     | Inr result \<Rightarrow> (case build_task_state_update name result of
         Inl e \<Rightarrow> Inl (Inr e)
       | Inr update \<Rightarrow> Inr (reduce_node_results state update)))"

section \<open>Routers and answers\<close>

record router_dispatch =
  structured_response_key :: string
  action_field :: string
  route_action_value :: string
  respond_action_value :: string
  branch_field :: string
  routing_field :: string
  message_field :: string
  assistant_message_fallback :: string
  carried_fields :: "string list"

definition decision_value :: "pyval \<Rightarrow> string \<Rightarrow> pyval" where
  "decision_value decision f = (case decision of PDict d \<Rightarrow> get_or_none d f | _ \<Rightarrow> PNone)"

text \<open>\<open>str(v or "").strip()\<close>.\<close>

definition text_or_empty :: "(pyval \<Rightarrow> string) \<Rightarrow> pyval \<Rightarrow> string" where
  "text_or_empty show v = str_strip (if truthy v then py_str show v else [])"

fun carry_fields :: "pyval \<Rightarrow> string list \<Rightarrow> (string, pyval) dict \<Rightarrow> (string, pyval) dict" where
  "carry_fields decision [] nested = nested"
| "carry_fields decision (f # fs) nested =
    (let v = decision_value decision f
     in carry_fields decision fs (if v \<noteq> PNone \<and> v \<noteq> PStr [] then dict_set f v nested else nested))"

definition router_dispatch_run :: "(pyval \<Rightarrow> string) \<Rightarrow> router_dispatch \<Rightarrow> wf_state \<Rightarrow> (string, pyval) dict" where
  "router_dispatch_run show n state =
    (let decision = get_or_none state (structured_response_key n);
         action = text_or_empty show (decision_value decision (action_field n));
         branch = text_or_empty show (decision_value decision (branch_field n));
         nested = carry_fields decision (carried_fields n) []
     in if action = route_action_value n \<and> branch \<noteq> []
        then dict_set (routing_field n) (PStr branch) nested
        else let m = text_or_empty show (decision_value decision (message_field n));
                 message = (if m = [] then assistant_message_fallback n else m)
             in dict_union [(''assistant_message'', PStr message)]
                  (dict_set (routing_field n) (PStr (respond_action_value n)) nested))"

definition extract_reply :: "string \<Rightarrow> string \<Rightarrow> string \<Rightarrow> wf_state \<Rightarrow> string" where
  "extract_reply response_key reply_field fallback_message state =
    (case decision_value (get_or_none state response_key) reply_field of
       PStr s \<Rightarrow> if str_strip s \<noteq> [] then s else fallback_message
     | _ \<Rightarrow> fallback_message)"

text \<open>The chat text of a response: the first of the usual fields that has one, nested mappings
  included.\<close>

lemma get_or_none_size: "size (get_or_none d k) < size (PDict d)"
proof -
  have "dict_get d k = Some v \<Longrightarrow> size v < Suc (size_list (size_prod (\<lambda>_. 0) size) d)" for v
    by (induction d) (auto split: if_splits)
  then show ?thesis by (auto simp: get_or_none_def split: option.splits)
qed

function response_message_text :: "(pyval \<Rightarrow> string) \<Rightarrow> pyval \<Rightarrow> string option" where
  "response_message_text show value =
    (case value of
       PStr s \<Rightarrow> (if str_strip s \<noteq> [] then Some (str_strip s) else None)
     | PInt i \<Rightarrow> Some (py_str show (PInt i))
     | PFloat r \<Rightarrow> Some (py_str show (PFloat r))
     | PBool b \<Rightarrow> Some (py_str show (PBool b))
     | PDict d \<Rightarrow>
         (case response_message_text show (get_or_none d ''message'') of
            Some s \<Rightarrow> Some s
          | None \<Rightarrow> (case response_message_text show (get_or_none d ''text'') of
              Some s \<Rightarrow> Some s
            | None \<Rightarrow> response_message_text show (get_or_none d ''content'')))
     | _ \<Rightarrow> None)"
  by pat_completeness auto
termination
  by (relation "measure (\<lambda>(show, v). size v)") (use get_or_none_size in \<open>simp_all add: less_Suc_eq_le\<close>)

declare response_message_text.simps [simp del]

definition human_input_result :: "(pyval \<Rightarrow> string) \<Rightarrow> pyval \<Rightarrow> (string, pyval) dict" where
  "human_input_result show response =
    (''response'', response) #
    (case response_message_text show response of
       Some m \<Rightarrow> [(''messages'', PList [PDict [(''role'', PStr ''user''), (''content'', PStr m)]])]
     | None \<Rightarrow> [])"

section \<open>State paths and snapshots\<close>

definition normalise_state_snapshot :: "wf_state \<Rightarrow> (string, pyval) dict" where
  "normalise_state_snapshot state =
    [(''inputs'', case dict_get state ''inputs'' of Some (PDict d) \<Rightarrow> PDict d | _ \<Rightarrow> PDict []),
     (''node_results'', case dict_get state ''node_results'' of Some (PDict d) \<Rightarrow> PDict d | _ \<Rightarrow> PDict [])]"

fun extract_segments :: "string list \<Rightarrow> pyval \<Rightarrow> pyval option" where
  "extract_segments [] current = Some current"
| "extract_segments (s # ss) current =
    (case current of
       PDict d \<Rightarrow> (case dict_get d s of Some v \<Rightarrow> extract_segments ss v | None \<Rightarrow> None)
     | PList xs \<Rightarrow> (case dec_literal s of
         Some i \<Rightarrow> if i < 0 \<or> i \<ge> int (length xs) then None else extract_segments ss (xs ! nat i)
       | None \<Rightarrow> None)
     | _ \<Rightarrow> None)"

definition extract_from_state :: "wf_state \<Rightarrow> string \<Rightarrow> node_error + pyval option" where
  "extract_from_state state path =
    (if path = [] then Inl EmptyPath
     else if path_segments path = [] then Inl NoSegment
     else Inr (extract_segments (path_segments path)
       (case dict_get state ''node_results'' of Some v \<Rightarrow> v | None \<Rightarrow> PDict [])))"

definition debug_run :: "string option \<Rightarrow> string option \<Rightarrow> bool \<Rightarrow> wf_state \<Rightarrow> node_error + (string, pyval) dict" where
  "debug_run message tap_path include_state state =
    (let str_or_none = (\<lambda>s. case s of Some t \<Rightarrow> PStr t | None \<Rightarrow> PNone)
     in seqE (case tap_path of Some p \<Rightarrow> extract_from_state state p | None \<Rightarrow> Inr None)
       (\<lambda>r. Inr ([(''message'', str_or_none message), (''tap_path'', str_or_none tap_path),
          (''found'', PBool (r \<noteq> None)), (''value'', case r of Some v \<Rightarrow> v | None \<Rightarrow> PNone)]
          @ (if include_state then [(''state'', PDict (normalise_state_snapshot state))] else []))))"

end
