(* ===== verification/Node_Laws.thy ===== *)
theory Node_Laws
  imports Logic_Nodes Credential_Refs_Laws
begin

text \<open>
  Properties of templates, state updates, variables and loops: what decoding leaves alone, how a
  template names node results, what a task node changes in the state, that set variables are found
  again, that the for loop hands out every item once, and when a while loop ends.
\<close>

section \<open>Decoding\<close>

definition inert_text :: "string \<Rightarrow> bool" where
  "inert_text s \<longleftrightarrow> parse_credential_reference s = None \<and> \<not> contains_template s"

fun inert :: "pyval \<Rightarrow> bool" where
  "inert (PStr s) = inert_text s"
| "inert (PList xs) = list_all inert xs"
| "inert (PDict d) = list_all (\<lambda>kv. inert (snd kv)) d"
| "inert v = True"

fun same_shape :: "pyval \<Rightarrow> pyval \<Rightarrow> bool" where
  "same_shape (PStr s) w = True"
| "same_shape (PList xs) w = (case w of PList ys \<Rightarrow> list_all2 same_shape xs ys | _ \<Rightarrow> False)"
| "same_shape (PDict d) w = (case w of
      PDict e \<Rightarrow> list_all2 (\<lambda>kv kw. fst kv = fst kw \<and> same_shape (snd kv) (snd kw)) d e | _ \<Rightarrow> False)"
| "same_shape v w = (w = v)"

lemma decode_inert:
  "inert v \<Longrightarrow> decode_value show res state v = Inr v"
  "list_all inert xs \<Longrightarrow> decode_list show res state xs = Inr xs"
  "list_all (\<lambda>kv. inert (snd kv)) d \<Longrightarrow> decode_mapping show res state d = Inr d"
  by (induction "show" res state v and "show" res state xs and "show" res state d
      rule: decode_value_decode_list_decode_mapping.induct)
    (auto simp: inert_text_def decode_string_value_def)

lemma decode_shape:
  "decode_value show res state v = Inr w \<Longrightarrow> same_shape v w"
  "decode_list show res state xs = Inr ys \<Longrightarrow> list_all2 same_shape xs ys"
  "decode_mapping show res state d = Inr e \<Longrightarrow>
    list_all2 (\<lambda>kv kw. fst kv = fst kw \<and> same_shape (snd kv) (snd kw)) d e"
  by (induction "show" res state v and "show" res state xs and "show" res state d
      arbitrary: w and ys and e rule: decode_value_decode_list_decode_mapping.induct)
    (auto simp: seqE_Inr_iff)

text \<open>Decoding a field is confined to its texts: a value without template and placeholder is
  returned as it is, whatever state and resolver; and in every decoded value lists keep their length,
  mappings their keys in order, and everything that is not text is unchanged.\<close>

theorem decoding_confined:
  "(inert v \<longrightarrow> decode_value show res state v = Inr v) \<and>
   (decode_value show res state v = Inr w \<longrightarrow> same_shape v w)"
  using decode_inert(1) decode_shape(1) by blast

theorem decoding_confined_witness:
  "decode_value (\<lambda>_. []) None [] (PDict [(''a'', PList [PStr ''{x}'', PInt 3])]) =
     Inr (PDict [(''a'', PList [PStr ''{x}'', PInt 3])])"
proof -
  have "inert_text ''{x}''" by code_simp
  then have "inert (PDict [(''a'', PList [PStr ''{x}'', PInt 3])])" by simp
  with decoding_confined show ?thesis by blast
qed

section \<open>Names of node results\<close>

lemma str_split_prefix: "c \<notin> set n \<Longrightarrow> str_split c (n @ c # r) = n # str_split c r"
  by (induction n) auto

lemma str_split_single: "c \<notin> set n \<Longrightarrow> str_split c n = [n]"
  by (induction n) auto

lemma takeWhile_inner:
  assumes "\<forall>c \<in> set p. \<not> brace c"
  shows "takeWhile (\<lambda>c. \<not> brace c) (p @ ''}}'') = p" "dropWhile (\<lambda>c. \<not> brace c) (p @ ''}}'') = ''}}''"
  using assms by (simp_all add: takeWhile_append dropWhile_append brace_def)

lemma braces_strip: "str_strip (''{{'' @ p @ ''}}'') = ''{{'' @ p @ ''}}''"
proof -
  have "\<not> char_space CHR ''{''" "\<not> char_space CHR ''}''" by code_simp+
  then show ?thesis by (simp add: str_strip_def)
qed

lemma str_contains_suffix: "str_contains sub v \<Longrightarrow> str_contains sub (u @ v)"
  by (induction u) auto

lemma single_template_braces:
  assumes "p \<noteq> []" "\<forall>c \<in> set p. \<not> brace c"
  shows "single_template (''{{'' @ p @ ''}}'') = Some (str_strip p)" "contains_template (''{{'' @ p @ ''}}'')"
    "parse_credential_reference (''{{'' @ p @ ''}}'') = None"
proof -
  have "template_at (''{{'' @ p @ ''}}'') = Some (p, [])"
    using assms takeWhile_inner [OF assms(2)] by (simp add: template_at_def Let_def)
  then show "single_template (''{{'' @ p @ ''}}'') = Some (str_strip p)"
    unfolding single_template_def braces_strip by simp
  have "str_contains ''}}'' ((''{{'' @ p) @ ''}}'')"
    by (rule str_contains_suffix) (simp add: str_startswith_def)
  then show "contains_template (''{{'' @ p @ ''}}'')"
    by (simp add: contains_template_def str_startswith_def)
  show "parse_credential_reference (''{{'' @ p @ ''}}'') = None"
    unfolding parse_credential_reference_def from_placeholder_def placeholder_body_def braces_strip by simp
qed



section \<open>State updates\<close>

lemma dict_get_union:
  "dict_ok right \<Longrightarrow> dict_get (dict_union left right) k =
    (case dict_get right k of Some v \<Rightarrow> Some v | None \<Rightarrow> dict_get left k)"
proof (induction right arbitrary: left)
  case Nil
  then show ?case by (simp add: dict_union_def)
next
  case (Cons kv right)
  obtain j v where kv: "kv = (j, v)" by (cases kv)
  from Cons.prems have "j \<notin> set (map fst right)" "dict_ok right" by (simp_all add: dict_ok_def kv)
  then have "dict_get right j = None" by (simp add: map_of_eq_None_iff)
  with Cons.IH [OF \<open>dict_ok right\<close>, of "dict_set j v left"] show ?case
    by (auto simp: dict_union_def kv split: option.splits)
qed

lemma results_map_reduced [simp]:
  "results_map (reduce_node_results state update) = dict_union (results_map state) (results_map update)"
  by (simp add: reduce_node_results_def results_map_def dict_reducer_def)

lemma results_map_update [simp]: "results_map (promoted_fields d @ [(''node_results'', PDict u)]) = u"
  by (induction d) (auto simp: results_map_def promoted_fields_def)

lemma dict_ok_filtered [simp]: "dict_ok d \<Longrightarrow> dict_ok (promoted_fields d) \<and> dict_ok (node_payload d)"
  by (simp add: promoted_fields_def node_payload_def)

lemma task_update_no_results:
  "dict_get d ''node_results'' = None \<Longrightarrow>
    build_task_state_update name (PDict d) =
      Inr (promoted_fields d @ [(''node_results'', PDict [(name, PDict (node_payload d))])])"
  by (simp add: build_task_state_update_def merge_payload_def)

lemma node_result_get: "node_result state name = (case dict_get (results_map state) name of Some (PDict d) \<Rightarrow> d | _ \<Rightarrow> [])"
  by (simp add: node_result_def)

text \<open>A task node changes exactly its own part of the state: keys of the result that are fields of
  the state are promoted, all others become the result stored under the node's name, and the results
  of other nodes are the ones of the state, unless the node writes \<open>node_results\<close> itself. Only a
  \<open>node_results\<close> that is no mapping makes the update fail.\<close>

theorem task_update_exact:
  assumes "dict_ok d"
  shows "(build_task_state_update name (PDict d) = Inl NodeResultsNotMapping \<longleftrightarrow>
      (\<exists>v. dict_get d ''node_results'' = Some v \<and> \<not> is_dict v)) \<and>
    (dict_get d ''node_results'' = None \<longrightarrow>
      (\<exists>u. build_task_state_update name (PDict d) = Inr u \<and>
        (\<forall>k. k \<noteq> ''node_results'' \<longrightarrow>
          dict_get u k = (if k \<in> set task_node_state_fields then dict_get d k else None)) \<and>
        (\<forall>k. dict_get (node_result (reduce_node_results state u) name) k =
          (if k \<in> set task_node_state_fields then None else dict_get d k)) \<and>
        (\<forall>n. n \<noteq> name \<longrightarrow> dict_get (results_map (reduce_node_results state u)) n = dict_get (results_map state) n)))"
proof (intro conjI impI)
  show "build_task_state_update name (PDict d) = Inl NodeResultsNotMapping \<longleftrightarrow>
      (\<exists>v. dict_get d ''node_results'' = Some v \<and> \<not> is_dict v)"
  proof (cases "dict_get d ''node_results''")
    case (Some v)
    then show ?thesis by (cases v) (simp_all add: build_task_state_update_def)
  qed (simp add: build_task_state_update_def)
  assume n: "dict_get d ''node_results'' = None"
  let ?u = "promoted_fields d @ [(''node_results'', PDict [(name, PDict (node_payload d))])]"
  have "dict_get ?u k = (if k \<in> set task_node_state_fields then dict_get d k else None)" if "k \<noteq> ''node_results''" for k
    using that by (auto simp: promoted_fields_def map_add_def dict_get_filter_keys split: option.splits)
  moreover have "dict_get (results_map (reduce_node_results state ?u)) name = Some (PDict (node_payload d))"
    by (simp add: dict_union_def)
  then have "dict_get (node_result (reduce_node_results state ?u) name) k =
      (if k \<in> set task_node_state_fields then None else dict_get d k)" for k
    by (simp add: node_result_get node_payload_def dict_get_filter_keys)
  moreover have "dict_get (results_map (reduce_node_results state ?u)) n = dict_get (results_map state) n"
    if "n \<noteq> name" for n
    using that by (simp add: dict_union_def)
  ultimately show "\<exists>u. build_task_state_update name (PDict d) = Inr u \<and>
        (\<forall>k. k \<noteq> ''node_results'' \<longrightarrow>
          dict_get u k = (if k \<in> set task_node_state_fields then dict_get d k else None)) \<and>
        (\<forall>k. dict_get (node_result (reduce_node_results state u) name) k =
          (if k \<in> set task_node_state_fields then None else dict_get d k)) \<and>
        (\<forall>n. n \<noteq> name \<longrightarrow> dict_get (results_map (reduce_node_results state u)) n = dict_get (results_map state) n)"
    using task_update_no_results [OF n] by (intro exI [of _ ?u]) simp
qed

theorem task_update_exact_witness:
  "\<exists>u. build_task_state_update ''n'' (PDict [(''messages'', PList []), (''x'', PInt 1)]) = Inr u \<and>
     dict_get u ''messages'' = Some (PList []) \<and>
     dict_get (node_result (reduce_node_results [] u) ''n'') ''x'' = Some (PInt 1)"
proof -
  let ?d = "[(''messages'', PList []), (''x'', PInt 1)]"
  have ok: "dict_ok ?d" by (simp add: dict_ok_def)
  have none: "dict_get ?d ''node_results'' = None" by simp
  from task_update_exact [OF ok, of "''n''" "[]"] none obtain u where
    u: "build_task_state_update ''n'' (PDict ?d) = Inr u"
      "\<forall>k. k \<noteq> ''node_results'' \<longrightarrow> dict_get u k = (if k \<in> set task_node_state_fields then dict_get ?d k else None)"
      "\<forall>k. dict_get (node_result (reduce_node_results [] u) ''n'') k =
        (if k \<in> set task_node_state_fields then None else dict_get ?d k)"
    by blast
  have "dict_get u ''messages'' = Some (PList [])" using u(2) by (simp add: task_node_state_fields_def)
  moreover have "dict_get (node_result (reduce_node_results [] u) ''n'') ''x'' = Some (PInt 1)"
    using u(3) by (simp add: task_node_state_fields_def)
  ultimately show ?thesis using u(1) by blast
qed

section \<open>Variables\<close>

lemma nest_lookup: "ss \<noteq> [] \<Longrightarrow> walk_segments ss (PDict (nest ss v)) = Some v"
  by (induction ss v rule: nest.induct) auto

lemma merge_nest_lookup:
  "ss \<noteq> [] \<Longrightarrow> \<not> is_dict v \<Longrightarrow> walk_segments ss (PDict (merge_into base (nest ss v))) = Some v"
proof (induction ss v arbitrary: base rule: nest.induct)
  case (2 s v)
  then show ?case by (cases v) simp_all
next
  case (3 s t ss v)
  let ?rest = "nest (t # ss) v"
  have "walk_segments (t # ss) (merge_value old (PDict ?rest)) = Some v" for old
  proof -
    have "merge_value old (PDict ?rest) = PDict ?rest \<or> (\<exists>e. merge_value old (PDict ?rest) = PDict (merge_into e ?rest))"
      by (auto split: option.splits pyval.splits)
    then show ?thesis using "3.IH" "3.prems" nest_lookup [of "t # ss" v] by auto
  qed
  then show ?case by simp
qed simp

definition variable_segments :: "string \<Rightarrow> string list" where
  "variable_segments name = (if CHR ''.'' \<in> set name then path_segments name else [name])"

lemma set_variables_append:
  "set_variables (vars @ vars2) payload = seqE (set_variables vars payload) (set_variables vars2)"
proof (induction vars payload rule: set_variables.induct)
  case (2 name v vars payload)
  show ?case
  proof (cases "CHR ''.'' \<in> set name")
    case True
    then show ?thesis using "2.IH"(1) by (cases "build_nested name v") auto
  next
    case False
    then show ?thesis using "2.IH"(2) by simp
  qed
qed simp

lemma merge_into_ok: "dict_ok base \<Longrightarrow> dict_ok (merge_into base d)"
  by (induction d arbitrary: base) auto

lemma set_variables_ok: "set_variables vars payload = Inr p \<Longrightarrow> dict_ok payload \<Longrightarrow> dict_ok p"
  by (induction vars payload rule: set_variables.induct)
    (auto simp: seqE_Inr_iff merge_into_ok split: if_splits)

lemma set_variable_last:
  assumes "set_variables (vars @ [(n, v)]) [] = Inr p" "\<not> is_dict v"
  shows "walk_segments (variable_segments n) (PDict p) = Some v"
proof -
  obtain q where q: "set_variables [(n, v)] q = Inr p"
    using assms(1) by (auto simp: set_variables_append seqE_Inr_iff)
  show ?thesis
  proof (cases "CHR ''.'' \<in> set n")
    case True
    with q obtain d where d: "build_nested n v = Inr d" "p = merge_into q d" by (auto simp: seqE_Inr_iff)
    then have "path_segments n \<noteq> []" "d = nest (path_segments n) v" by (auto simp: build_nested_def split: if_splits)
    with merge_nest_lookup [of "path_segments n" v q] assms(2) d(2) True show ?thesis
      by (simp add: variable_segments_def)
  next
    case False
    with q have "p = dict_set n (merge_value (dict_get q n) v) q" by simp
    moreover have "merge_value x v = v" for x using assms(2) by (cases v) simp_all
    ultimately show ?thesis using False by (simp add: variable_segments_def)
  qed
qed

text \<open>Variables are found again: after a node that sets variables, the value assigned last under a
  (dotted) name is what the path reads from the node's result in the state, whatever was assigned
  before it, also where an earlier value stood in the way of the path. The exception are names whose
  first segment is a field of the state, which are promoted out of the result.\<close>

theorem variables_found_again:
  assumes "set_variables (vars @ [(n, v)]) [] = Inr p" "\<not> is_dict v"
    and "hd (variable_segments n) \<notin> set task_node_state_fields" "dict_get p ''node_results'' = None"
  shows "\<exists>u. build_task_state_update name (PDict p) = Inr u \<and>
    walk_segments (name # variable_segments n) (PDict (results_map (reduce_node_results state u))) = Some v"
proof -
  let ?u = "promoted_fields p @ [(''node_results'', PDict [(name, PDict (node_payload p))])]"
  have u: "build_task_state_update name (PDict p) = Inr ?u" by (rule task_update_no_results [OF assms(4)])
  have w: "walk_segments (variable_segments n) (PDict p) = Some v" by (rule set_variable_last [OF assms(1,2)])
  have "variable_segments n \<noteq> []"
  proof
    assume "variable_segments n = []"
    with w have "v = PDict p" by simp
    with assms(2) show False by simp
  qed
  then obtain s ss where s: "variable_segments n = s # ss" by (cases "variable_segments n") auto
  have "dict_get (node_payload p) s = dict_get p s"
    using assms(3) by (simp add: s node_payload_def dict_get_filter_keys)
  with w have "walk_segments (variable_segments n) (PDict (node_payload p)) = Some v" by (simp add: s)
  then show ?thesis using u by (intro exI [of _ ?u]) (simp add: dict_union_def)
qed

theorem variables_found_again_witness:
  "\<exists>p u. set_variables [(''user'', PStr ''x''), (''user.name'', PStr ''Ann'')] [] = Inr p \<and>
     build_task_state_update ''vars'' (PDict p) = Inr u \<and>
     walk_segments [''vars'', ''user'', ''name''] (PDict (results_map (reduce_node_results [] u))) = Some (PStr ''Ann'')"
proof -
  have seg: "variable_segments ''user.name'' = [''user'', ''name'']" by code_simp
  have p: "set_variables ([(''user'', PStr ''x'')] @ [(''user.name'', PStr ''Ann'')]) [] =
      Inr [(''user'', PDict [(''name'', PStr ''Ann'')])]"
  proof -
    have "build_nested ''user.name'' (PStr ''Ann'') = Inr [(''user'', PDict [(''name'', PStr ''Ann'')])]"
      using seg by (simp add: variable_segments_def build_nested_def)
    then show ?thesis by simp
  qed
  have "hd (variable_segments ''user.name'') \<notin> set task_node_state_fields"
    by (simp add: seg task_node_state_fields_def)
  from variables_found_again [OF p _ this, of "''vars''" "[]"] p seg show ?thesis by auto
qed

section \<open>Loops\<close>

definition loop_output :: "pyval list \<Rightarrow> nat \<Rightarrow> (string, pyval) dict" where
  "loop_output xs i =
    (if length xs \<le> i
     then [(''done'', PBool True), (''index'', PInt (int i)), (''iteration'', PInt (int i)),
       (''total'', PInt (int (length xs))), (''current_item'', PNone)]
     else [(''done'', PBool False), (''index'', PInt (int i + 1)), (''iteration'', PInt (int i + 1)),
       (''total'', PInt (int (length xs))), (''current_item'', xs ! i)])"

text \<open>The index a state holds for a loop node.\<close>

definition loop_at :: "string \<Rightarrow> wf_state \<Rightarrow> nat \<Rightarrow> bool" where
  "loop_at name state i \<longleftrightarrow>
    (case dict_get (node_result state name) ''index'' of Some v \<Rightarrow> v = PInt (int i) | None \<Rightarrow> i = 0)"

lemma for_loop_step:
  assumes "loop_at name state i"
  shows "\<exists>s. for_loop_call name (PList xs) state = Inr s \<and> node_result s name = loop_output xs i \<and>
    loop_at name s (if length xs \<le> i then i else Suc i) \<and>
    (\<forall>n. n \<noteq> name \<longrightarrow> dict_get (results_map s) n = dict_get (results_map state) n)"
proof -
  have run: "for_loop_run name (PList xs) state = Inr (PDict (loop_output xs i))"
    using assms by (auto simp: for_loop_run_def loop_at_def loop_output_def py_int_def py_index_def Let_def
        split: option.splits)
  have "dict_get (loop_output xs i) ''node_results'' = None" by (simp add: loop_output_def)
  note u = task_update_no_results [OF this, of name]
  have p: "node_payload (loop_output xs i) = loop_output xs i"
    by (simp add: node_payload_def loop_output_def task_node_state_fields_def)
  let ?s = "reduce_node_results state (promoted_fields (loop_output xs i) @
      [(''node_results'', PDict [(name, PDict (loop_output xs i))])])"
  have call: "for_loop_call name (PList xs) state = Inr ?s"
    using run u p by (simp add: for_loop_call_def)
  have r: "node_result ?s name = loop_output xs i" by (simp add: node_result_get dict_union_def)
  then have "loop_at name ?s (if length xs \<le> i then i else Suc i)"
    unfolding loop_at_def by (simp add: loop_output_def)
  moreover have "\<forall>n. n \<noteq> name \<longrightarrow> dict_get (results_map ?s) n = dict_get (results_map state) n"
    by (simp add: dict_union_def)
  ultimately show ?thesis using call r by blast
qed

fun loop_calls :: "string \<Rightarrow> pyval \<Rightarrow> nat \<Rightarrow> wf_state \<Rightarrow> (node_error + update_error) + wf_state" where
  "loop_calls name items 0 state = Inr state"
| "loop_calls name items (Suc k) state = seqE (loop_calls name items k state) (for_loop_call name items)"

lemma loop_calls_run:
  assumes "loop_at name state 0"
  shows "\<exists>s. loop_calls name (PList xs) k state = Inr s \<and> loop_at name s (min k (length xs)) \<and>
    (\<forall>n. n \<noteq> name \<longrightarrow> dict_get (results_map s) n = dict_get (results_map state) n)"
proof (induction k)
  case 0
  then show ?case using assms by simp
next
  case (Suc k)
  then obtain s where s: "loop_calls name (PList xs) k state = Inr s" "loop_at name s (min k (length xs))"
      "\<forall>n. n \<noteq> name \<longrightarrow> dict_get (results_map s) n = dict_get (results_map state) n"
    by blast
  from for_loop_step [OF s(2), of xs] obtain s' where
    s': "for_loop_call name (PList xs) s = Inr s'"
      "loop_at name s' (if length xs \<le> min k (length xs) then min k (length xs) else Suc (min k (length xs)))"
      "\<forall>n. n \<noteq> name \<longrightarrow> dict_get (results_map s') n = dict_get (results_map s) n"
    by blast
  moreover have "(if length xs \<le> min k (length xs) then min k (length xs) else Suc (min k (length xs))) =
      min (Suc k) (length xs)"
    by auto
  ultimately show ?case using s by auto
qed

text \<open>The for loop hands out every item exactly once, in order, and only then reports that it is
  done; it touches no other result. But a loop that is done stays done for every list that is not
  longer: entered a second time, as an inner loop is, it hands out nothing.\<close>

theorem for_loop_items_once:
  assumes "node_result state name = []"
  shows "\<exists>s. loop_calls name (PList xs) (Suc k) state = Inr s \<and>
    (if k < length xs
     then dict_get (node_result s name) ''done'' = Some (PBool False) \<and>
       dict_get (node_result s name) ''current_item'' = Some (xs ! k) \<and>
       dict_get (node_result s name) ''iteration'' = Some (PInt (int k + 1))
     else dict_get (node_result s name) ''done'' = Some (PBool True) \<and>
       dict_get (node_result s name) ''current_item'' = Some PNone) \<and>
    (\<forall>n. n \<noteq> name \<longrightarrow> dict_get (results_map s) n = dict_get (results_map state) n) \<and>
    (length xs \<le> k \<and> length ys \<le> length xs \<longrightarrow>
      (\<exists>s'. for_loop_call name (PList ys) s = Inr s' \<and>
        dict_get (node_result s' name) ''done'' = Some (PBool True) \<and>
        dict_get (node_result s' name) ''current_item'' = Some PNone))"
proof -
  have "loop_at name state 0" using assms by (simp add: loop_at_def)
  from loop_calls_run [OF this, of xs k] obtain s0 where
    s0: "loop_calls name (PList xs) k state = Inr s0" "loop_at name s0 (min k (length xs))"
      "\<forall>n. n \<noteq> name \<longrightarrow> dict_get (results_map s0) n = dict_get (results_map state) n"
    by blast
  from for_loop_step [OF s0(2), of xs] obtain s where
    s: "for_loop_call name (PList xs) s0 = Inr s" "node_result s name = loop_output xs (min k (length xs))"
      "loop_at name s (if length xs \<le> min k (length xs) then min k (length xs) else Suc (min k (length xs)))"
      "\<forall>n. n \<noteq> name \<longrightarrow> dict_get (results_map s) n = dict_get (results_map s0) n"
    by blast
  have again: "\<exists>s'. for_loop_call name (PList ys) s = Inr s' \<and>
        dict_get (node_result s' name) ''done'' = Some (PBool True) \<and>
        dict_get (node_result s' name) ''current_item'' = Some PNone"
    if "length xs \<le> k" "length ys \<le> length xs"
  proof -
    have "loop_at name s (length xs)" using s(3) that(1) by simp
    from for_loop_step [OF this, of ys] that(2) show ?thesis by (auto simp: loop_output_def)
  qed
  have "loop_calls name (PList xs) (Suc k) state = Inr s" using s0(1) s(1) by simp
  with s(2,4) s0(3) again show ?thesis
    by (intro exI [of _ s]) (simp add: loop_output_def)
qed

theorem for_loop_items_once_witness:
  "\<exists>s s'. loop_calls ''each'' (PList [PStr ''a'']) 2 [] = Inr s \<and>
     for_loop_call ''each'' (PList [PStr ''b'']) s = Inr s' \<and>
     dict_get (node_result s' ''each'') ''current_item'' = Some PNone"
proof -
  have "node_result [] ''each'' = []" by (simp add: node_result_def results_map_def)
  from for_loop_items_once [OF this, of "[PStr ''a'']" 1 "[PStr ''b'']"]
  show ?thesis by (auto simp: numeral_2_eq_2)
qed

text \<open>The workflow of a while edge whose loop body is a counter of the same name.\<close>

fun while_loop ::
    "nat \<Rightarrow> (pyval \<Rightarrow> string) \<Rightarrow> while_edge \<Rightarrow> pyval \<Rightarrow> wf_state \<Rightarrow>
     ((condition_error + (node_error + update_error)) + wf_state) option" where
  "while_loop 0 show e items state = None"
| "while_loop (Suc fuel) show e items state =
    (case while_run show e state of
       Inl c \<Rightarrow> Some (Inl (Inl c))
     | Inr d \<Rightarrow>
         if d = ''exit'' then Some (Inr state)
         else (case for_loop_call (wh_name e) items state of
             Inl x \<Rightarrow> Some (Inl (Inr x))
           | Inr state' \<Rightarrow> while_loop fuel show e items state'))"

text \<open>The counter of a state: what the edge reads as the iteration.\<close>

definition counts :: "string \<Rightarrow> wf_state \<Rightarrow> nat \<Rightarrow> bool" where
  "counts name state i \<longleftrightarrow> loop_at name state i \<and>
    (case dict_get (node_result state name) ''iteration'' of Some v \<Rightarrow> v = PInt (int i) | None \<Rightarrow> i = 0)"

lemma counts_step:
  assumes "counts name state i" "i \<le> length xs"
  shows "\<exists>s. for_loop_call name (PList xs) state = Inr s \<and> counts name s (min (Suc i) (length xs))"
proof -
  from assms(1) have "loop_at name state i" by (simp add: counts_def)
  from for_loop_step [OF this, of xs] obtain s where s: "for_loop_call name (PList xs) state = Inr s"
      "node_result s name = loop_output xs i" "loop_at name s (if length xs \<le> i then i else Suc i)" by blast
  moreover have "(if length xs \<le> i then i else Suc i) = min (Suc i) (length xs)" using assms(2) by auto
  ultimately show ?thesis using assms(2) by (auto simp: counts_def loop_output_def)
qed

lemma counts_iteration: "counts (wh_name e) state i \<Longrightarrow> current_iteration e state = PInt (int i)"
  by (auto simp: counts_def current_iteration_def get_or_none_def Let_def split: option.splits)

lemma while_exits:
  assumes "counts (wh_name e) state i" "wh_max_iterations e = Some m" "m \<le> int (length xs)" "i \<le> length xs"
  shows "while_loop (Suc (nat m - i)) show e (PList xs) state \<noteq> None"
  using assms
proof (induction "nat m - i" arbitrary: state i)
  case 0
  then have "m \<le> int i" by simp
  then show ?case using 0 counts_iteration [OF 0(2)]
    by (cases "combine_condition_results show (wh_conditions e) (wh_logic e) (PInt (int i))")
      (auto simp: while_run_def)
next
  case (Suc n)
  from counts_step [OF Suc(3,6)] obtain s where
    s: "for_loop_call (wh_name e) (PList xs) state = Inr s" "counts (wh_name e) s (min (Suc i) (length xs))" by blast
  have "i < length xs" using Suc(2,5) by simp
  then have m: "min (Suc i) (length xs) = Suc i" by simp
  have "n = nat m - Suc i" using Suc(2) by simp
  from Suc(1) [OF this] s(2) Suc(4,5) \<open>i < length xs\<close> m
  have "while_loop (Suc (nat m - Suc i)) show e (PList xs) s \<noteq> None" by simp
  then have "while_loop (nat m - i) show e (PList xs) s \<noteq> None" using Suc(2) by (simp add: Suc_diff_Suc)
  then show ?case
    using s(1) by (cases "while_run show e state") auto
qed

lemma while_runs_on:
  assumes "counts (wh_name e) state i" "i \<le> length xs" "case wh_max_iterations e of Some m \<Rightarrow> int (length xs) < m | None \<Rightarrow> True"
    and "\<forall>j. \<exists>evs. combine_condition_results show (wh_conditions e) (wh_logic e) (PInt j) = Inr (True, evs)"
  shows "while_loop fuel show e (PList xs) state = None"
  using assms(1,2)
proof (induction fuel arbitrary: state i)
  case 0
  then show ?case by simp
next
  case (Suc fuel)
  obtain evs where "combine_condition_results show (wh_conditions e) (wh_logic e) (PInt (int i)) = Inr (True, evs)"
    using assms(4) by blast
  then have run: "while_run show e state = Inr ''continue''"
    using assms(3) Suc.prems(2) counts_iteration [OF Suc.prems(1)]
    by (auto simp: while_run_def split: option.splits)
  from counts_step [OF Suc.prems] obtain s where
    s: "for_loop_call (wh_name e) (PList xs) state = Inr s" "counts (wh_name e) s (min (Suc i) (length xs))" by blast
  from Suc.IH [OF s(2)] run s(1) show ?case by simp
qed

text \<open>C13. A while edge with an iteration limit ends: after at most that many rounds of its counter the
  workflow leaves the loop or fails, if the counter can count that far. A for loop as the counter stops
  at the length of its list, so over a list shorter than the limit the guard never acts, and a
  condition that stays true loops for ever.\<close>

theorem while_limit_terminates:
  assumes "make_while name cs logic (Some m) = Some e" "node_result state name = []"
  shows "(m \<le> int (length xs) \<longrightarrow> (\<exists>r. while_loop (nat m + 1) show e (PList xs) state = Some r)) \<and>
    (int (length xs) < m \<and>
      (\<forall>j. \<exists>evs. combine_condition_results show (wh_conditions e) (wh_logic e) (PInt j) = Inr (True, evs)) \<longrightarrow>
      (\<forall>fuel. while_loop fuel show e (PList xs) state = None))"
proof -
  have e: "wh_name e = name" "wh_max_iterations e = Some m"
    using assms(1) by (auto simp: make_while_def Let_def split: if_splits)
  have c: "counts (wh_name e) state 0" using assms(2) by (simp add: counts_def loop_at_def e)
  from while_exits [OF c e(2), of xs "show"] while_runs_on [OF c, of xs "show"] e(2)
  show ?thesis by auto
qed

theorem while_limit_terminates_witness:
  "\<exists>e r. make_while ''w'' (Some [\<lparr>cond_left = PBool True, cond_operator = IsTruthy, cond_right = PNone,
       cond_case_sensitive = True\<rparr>]) AndLogic (Some 2) = Some e \<and>
     while_loop 3 (\<lambda>_. []) e (PList [PNone, PNone, PNone]) [] = Some r \<and>
     (\<forall>fuel. while_loop fuel (\<lambda>_. []) e (PList [PNone]) [] = None)"
proof -
  let ?c = "\<lparr>cond_left = PBool True, cond_operator = IsTruthy, cond_right = PNone, cond_case_sensitive = True\<rparr>"
  obtain e where e: "make_while ''w'' (Some [?c]) AndLogic (Some 2) = Some e" "wh_conditions e = [?c]" "wh_logic e = AndLogic"
    by (simp add: make_while_def)
  have fresh: "node_result [] ''w'' = []" by (simp add: node_result_def results_map_def)
  have "\<exists>evs. combine_condition_results (\<lambda>_. []) (wh_conditions e) (wh_logic e) (PInt j) = Inr (True, evs)" for j
    using e(2,3) by (simp add: combine_condition_results_def evaluate_condition_def normalise_case_def)
  with while_limit_terminates [OF e(1) fresh, of "[PNone, PNone, PNone]" "\<lambda>_. []"]
    while_limit_terminates [OF e(1) fresh, of "[PNone]" "\<lambda>_. []"] e(1)
  show ?thesis by (auto simp: numeral_3_eq_3)
qed

end
