(* ===== verification/Py_Ast.thy ===== *)
theory Py_Ast
  imports Py_Value
begin

text \<open>
  Syntax trees of workflow scripts, as far as the restricted definition mode inspects them. Node
  kinds it never singles out are \<open>OtherE\<close> and \<open>OtherS\<close> with their parts. \<open>expr_nodes\<close>, \<open>stmt_nodes\<close> and
  \<open>own_exprs\<close> together give all nodes below a node, in no particular order; line numbers are left
  out.
\<close>

datatype const =
    CNone
  | CBool bool
  | CInt int
  | CFloat real
  | CStr string
  | COther

datatype expr =
    Const const
  | Name string
  | StoredName string
  | Attribute expr string
  | Call expr "expr list" "(string option \<times> expr) list"
  | ListE "expr list"
  | TupleE "expr list"
  | DictE "(expr option \<times> expr) list"
  | UAdd expr
  | USub expr
  | BitOr expr expr
  | Subscript expr expr
  | Starred expr
  | Lambda "expr list" expr
  | Comprehension "expr list"
  | Await expr
  | Yield "expr option"
  | YieldFrom expr
  | OtherE "expr list"

text \<open>The parameters of a function: their names by kind, and their annotations (that of the result
  included) and defaults.\<close>

record arguments =
  pos_args :: "string list"
  kwonly_args :: "string list"
  star_args :: "string list"
  arg_exprs :: "expr list"

datatype stmt =
    ExprS expr
  | Assign "expr list" expr
  | AnnAssign expr expr "expr option"
  | Return "expr option"
  | FunctionDef bool string "expr list" arguments "stmt list"
  | ClassDef string "expr list" "(string option \<times> expr) list" "expr list" "stmt list"
  | Import "(string \<times> string option) list"
  | ImportFrom "string option" nat "(string \<times> string option) list"
  | AsyncS "stmt list" "expr list"
  | OtherS "stmt list" "expr list"

fun expr_nodes :: "expr \<Rightarrow> expr list" where
  "expr_nodes (Const c) = [Const c]"
| "expr_nodes (Name x) = [Name x]"
| "expr_nodes (StoredName x) = [StoredName x]"
| "expr_nodes (Attribute e a) = Attribute e a # expr_nodes e"
| "expr_nodes (Call f args kws) =
    Call f args kws # expr_nodes f @ concat (map expr_nodes args) @ concat (map (\<lambda>kw. expr_nodes (snd kw)) kws)"
| "expr_nodes (ListE es) = ListE es # concat (map expr_nodes es)"
| "expr_nodes (TupleE es) = TupleE es # concat (map expr_nodes es)"
| "expr_nodes (DictE kvs) =
    DictE kvs # concat (map (\<lambda>kv. (case fst kv of Some k \<Rightarrow> expr_nodes k | None \<Rightarrow> []) @ expr_nodes (snd kv)) kvs)"
| "expr_nodes (UAdd e) = UAdd e # expr_nodes e"
| "expr_nodes (USub e) = USub e # expr_nodes e"
| "expr_nodes (BitOr e f) = BitOr e f # expr_nodes e @ expr_nodes f"
| "expr_nodes (Subscript e i) = Subscript e i # expr_nodes e @ expr_nodes i"
| "expr_nodes (Starred e) = Starred e # expr_nodes e"
| "expr_nodes (Lambda ds e) = Lambda ds e # concat (map expr_nodes ds) @ expr_nodes e"
| "expr_nodes (Comprehension es) = Comprehension es # concat (map expr_nodes es)"
| "expr_nodes (Await e) = Await e # expr_nodes e"
| "expr_nodes (Yield v) = Yield v # (case v of Some e \<Rightarrow> expr_nodes e | None \<Rightarrow> [])"
| "expr_nodes (YieldFrom e) = YieldFrom e # expr_nodes e"
| "expr_nodes (OtherE es) = OtherE es # concat (map expr_nodes es)"

text \<open>The expressions of a statement outside its nested statements.\<close>

fun own_exprs :: "stmt \<Rightarrow> expr list" where
  "own_exprs (ExprS e) = [e]"
| "own_exprs (Assign ts v) = ts @ [v]"
| "own_exprs (AnnAssign t a v) = t # a # (case v of Some e \<Rightarrow> [e] | None \<Rightarrow> [])"
| "own_exprs (Return v) = (case v of Some e \<Rightarrow> [e] | None \<Rightarrow> [])"
| "own_exprs (FunctionDef is_async n decorators args body) = decorators @ arg_exprs args"
| "own_exprs (ClassDef n bases kws decorators body) = bases @ map snd kws @ decorators"
| "own_exprs (AsyncS ss es) = es"
| "own_exprs (OtherS ss es) = es"
| "own_exprs _ = []"

fun stmt_nodes :: "stmt \<Rightarrow> stmt list" where
  "stmt_nodes (FunctionDef is_async n decorators args body) =
    FunctionDef is_async n decorators args body # concat (map stmt_nodes body)"
| "stmt_nodes (ClassDef n bases kws decorators body) =
    ClassDef n bases kws decorators body # concat (map stmt_nodes body)"
| "stmt_nodes (AsyncS ss es) = AsyncS ss es # concat (map stmt_nodes ss)"
| "stmt_nodes (OtherS ss es) = OtherS ss es # concat (map stmt_nodes ss)"
| "stmt_nodes s = [s]"

definition stmt_expr_nodes :: "stmt \<Rightarrow> expr list" where
  "stmt_expr_nodes s = concat (map (\<lambda>t. concat (map expr_nodes (own_exprs t))) (stmt_nodes s))"

text \<open>Statements of the same scope: nested functions are not entered.\<close>

fun scope_nodes :: "stmt \<Rightarrow> stmt list" where
  "scope_nodes (FunctionDef is_async n decorators args body) = []"
| "scope_nodes (ClassDef n bases kws decorators body) =
    ClassDef n bases kws decorators body # concat (map scope_nodes body)"
| "scope_nodes (AsyncS ss es) = AsyncS ss es # concat (map scope_nodes ss)"
| "scope_nodes (OtherS ss es) = OtherS ss es # concat (map scope_nodes ss)"
| "scope_nodes s = [s]"

fun is_docstring :: "stmt \<Rightarrow> bool" where
  "is_docstring (ExprS (Const (CStr _))) = True"
| "is_docstring _ = False"

lemma expr_nodes_self: "e \<in> set (expr_nodes e)"
  by (cases e) auto

end
