(* ===== verification/Ir_Config.thy ===== *)
theory Ir_Config
  imports Py_Ast Node_Runtime
begin

text \<open>
  Configuration values of the restricted definition mode (\<open>graph/ir/config_values.py\<close>): which
  expressions are accepted, and the literal evaluation that turns an accepted expression into a
  value (\<open>ast.literal_eval\<close> on the accepted kinds of nodes). A tuple is a list here, as it is once
  the representation has been stored as JSON.
\<close>

datatype config_error =
    NotJsonLiteral
  | CredentialInCodeNode
  | UnsupportedLiteral
  | DictUnpacking
  | KeyNotString
  | MalformedLiteral

text \<open>\<open>\[\[.+?\]\]\<close> found anywhere: two opening brackets, at least one character and two closing
  brackets on the same line.\<close>

fun closes_on_line :: "string \<Rightarrow> bool" where
  "closes_on_line [] = False"
| "closes_on_line (c # cs) = (str_startswith (c # cs) '']]'' \<or> (c \<noteq> char_of (10 :: nat) \<and> closes_on_line cs))"

fun contains_credential_placeholder :: "string \<Rightarrow> bool" where
  "contains_credential_placeholder [] = False"
| "contains_credential_placeholder (c # cs) =
    ((str_startswith (c # cs) ''[['' \<and>
        (case drop 1 cs of [] \<Rightarrow> False | d # ds \<Rightarrow> d \<noteq> char_of (10 :: nat) \<and> closes_on_line ds)) \<or>
     contains_credential_placeholder cs)"

definition check_constant :: "bool \<Rightarrow> const \<Rightarrow> config_error + unit" where
  "check_constant allow_credentials c =
    (case c of
       CStr s \<Rightarrow> if \<not> allow_credentials \<and> contains_credential_placeholder s then Inl CredentialInCodeNode else Inr ()
     | COther \<Rightarrow> Inl UnsupportedLiteral
     | _ \<Rightarrow> Inr ())"

fun numeric_constant :: "expr \<Rightarrow> bool" where
  "numeric_constant (Const (CInt _)) = True"
| "numeric_constant (Const (CFloat _)) = True"
| "numeric_constant (Const (CBool _)) = True"
| "numeric_constant _ = False"

fun check_value :: "bool \<Rightarrow> expr \<Rightarrow> config_error + unit"
  and check_values :: "bool \<Rightarrow> expr list \<Rightarrow> config_error + unit"
  and check_dict :: "bool \<Rightarrow> (expr option \<times> expr) list \<Rightarrow> config_error + unit" where
  "check_value ac (Const c) = check_constant ac c"
| "check_value ac (ListE es) = check_values ac es"
| "check_value ac (TupleE es) = check_values ac es"
| "check_value ac (DictE kvs) = check_dict ac kvs"
| "check_value ac (USub e) = checkE (numeric_constant e) NotJsonLiteral"
| "check_value ac (UAdd e) = checkE (numeric_constant e) NotJsonLiteral"
| "check_value ac e = Inl NotJsonLiteral"
| "check_values ac [] = Inr ()"
| "check_values ac (e # es) = seqE (check_value ac e) (\<lambda>_. check_values ac es)"
| "check_dict ac [] = Inr ()"
| "check_dict ac (kv # kvs) =
    (case fst kv of
       None \<Rightarrow> Inl DictUnpacking
     | Some (Const (CStr k)) \<Rightarrow> seqE (check_value ac (snd kv)) (\<lambda>_. check_dict ac kvs)
     | Some _ \<Rightarrow> Inl KeyNotString)"

definition validate_config_value :: "bool \<Rightarrow> expr \<Rightarrow> config_error + unit" where
  "validate_config_value = check_value"

fun const_value :: "const \<Rightarrow> pyval option" where
  "const_value CNone = Some PNone"
| "const_value (CBool b) = Some (PBool b)"
| "const_value (CInt i) = Some (PInt i)"
| "const_value (CFloat r) = Some (PFloat r)"
| "const_value (CStr s) = Some (PStr s)"
| "const_value COther = None"

text \<open>A sign is only accepted before a number, and \<open>bool\<close> is none here.\<close>

fun literal_eval :: "expr \<Rightarrow> config_error + pyval"
  and literal_list :: "expr list \<Rightarrow> config_error + pyval list"
  and literal_dict :: "(expr option \<times> expr) list \<Rightarrow> (string, pyval) dict \<Rightarrow> config_error + (string, pyval) dict" where
  "literal_eval (Const c) = (case const_value c of Some v \<Rightarrow> Inr v | None \<Rightarrow> Inl MalformedLiteral)"
| "literal_eval (ListE es) = seqE (literal_list es) (\<lambda>vs. Inr (PList vs))"
| "literal_eval (TupleE es) = seqE (literal_list es) (\<lambda>vs. Inr (PList vs))"
| "literal_eval (DictE kvs) = seqE (literal_dict kvs []) (\<lambda>d. Inr (PDict d))"
| "literal_eval (USub e) = (case e of
      Const (CInt i) \<Rightarrow> Inr (PInt (- i)) | Const (CFloat r) \<Rightarrow> Inr (PFloat (- r)) | _ \<Rightarrow> Inl MalformedLiteral)"
| "literal_eval (UAdd e) = (case e of
      Const (CInt i) \<Rightarrow> Inr (PInt i) | Const (CFloat r) \<Rightarrow> Inr (PFloat r) | _ \<Rightarrow> Inl MalformedLiteral)"
| "literal_eval e = Inl MalformedLiteral"
| "literal_list [] = Inr []"
| "literal_list (e # es) = seqE (literal_eval e) (\<lambda>v. seqE (literal_list es) (\<lambda>vs. Inr (v # vs)))"
| "literal_dict [] d = Inr d"
| "literal_dict (kv # kvs) d =
    (case fst kv of
       Some (Const (CStr k)) \<Rightarrow> seqE (literal_eval (snd kv)) (\<lambda>v. literal_dict kvs (dict_set k v d))
     | _ \<Rightarrow> Inl MalformedLiteral)"

definition literal_from_ast :: "expr \<Rightarrow> config_error + pyval" where
  "literal_from_ast = literal_eval"

end
