(* ===== verification/Graph_IR.thy ===== *)
theory Graph_IR
  imports Edge_Routing Ir_Config
begin

text \<open>
  The frozen representation of a workflow graph (\<open>graph/ir/models.py\<close>), its validation and the calls
  that rebuild the runnable graph (\<open>graph/ir/builder.py\<close>), with the JSON form in which it is stored and
  in which the graphs of workflow tools sit in the configuration of nodes. The node registry, the
  conversion of values to whole numbers by the schema library and the constructors of nodes are
  parameters.
\<close>

section \<open>Models\<close>

record edge_spec =
  es_source :: string
  es_target :: string

record conditional_edge_spec =
  ce_source :: string
  ce_path :: string
  ce_mapping :: "(string, string) dict"
  ce_default :: "string option"

text \<open>A graph: version, reference to the state schema, entrypoint, nodes, edges, conditional edges.\<close>

datatype node_spec =
    BuiltinNode string string "(string \<times> pyval) list"
  | CodeNode string "(string \<times> pyval) list" "string list" string
  | SubgraphNode string graph_ir
and graph_ir = GraphIR int string string "node_spec list" "edge_spec list" "conditional_edge_spec list"

fun node_id :: "node_spec \<Rightarrow> string" where
  "node_id (BuiltinNode i _ _) = i"
| "node_id (CodeNode i _ _ _) = i"
| "node_id (SubgraphNode i _) = i"

fun ir_nodes :: "graph_ir \<Rightarrow> node_spec list" where "ir_nodes (GraphIR v r e ns es cs) = ns"
fun ir_edges :: "graph_ir \<Rightarrow> edge_spec list" where "ir_edges (GraphIR v r e ns es cs) = es"
fun ir_conditional_edges :: "graph_ir \<Rightarrow> conditional_edge_spec list" where
  "ir_conditional_edges (GraphIR v r e ns es cs) = cs"
fun ir_entrypoint :: "graph_ir \<Rightarrow> string" where "ir_entrypoint (GraphIR v r e ns es cs) = e"

definition current_schema_version :: int where "current_schema_version = 1"
definition default_state_ref :: string where "default_state_ref = ''orcheo.graph.state.State''"
definition ir_config_kind_key :: string where "ir_config_kind_key = ''__orcheo_ir_kind__''"
definition workflow_tool_kind :: string where "workflow_tool_kind = ''workflow_tool''"
definition pydantic_model_kind :: string where "pydantic_model_kind = ''pydantic_model''"

section \<open>The stored form\<close>

text \<open>\<open>model_dump\<close> of the models.\<close>

definition edge_to_json :: "edge_spec \<Rightarrow> pyval" where
  "edge_to_json e = PDict [(''source'', PStr (es_source e)), (''target'', PStr (es_target e))]"

definition conditional_edge_to_json :: "conditional_edge_spec \<Rightarrow> pyval" where
  "conditional_edge_to_json c =
    PDict [(''source'', PStr (ce_source c)), (''path'', PStr (ce_path c)),
      (''mapping'', PDict (map (\<lambda>(k, t). (k, PStr t)) (ce_mapping c))),
      (''default'', case ce_default c of Some d \<Rightarrow> PStr d | None \<Rightarrow> PNone)]"

fun node_to_json :: "node_spec \<Rightarrow> pyval"
  and graph_to_json :: "graph_ir \<Rightarrow> pyval" where
  "node_to_json (BuiltinNode i t config) =
    PDict [(''kind'', PStr ''builtin''), (''id'', PStr i), (''type'', PStr t), (''config'', PDict config)]"
| "node_to_json (CodeNode i config injected body) =
    PDict [(''kind'', PStr ''code''), (''id'', PStr i), (''config'', PDict config),
      (''injected'', PList (map PStr injected)), (''body'', PStr body)]"
| "node_to_json (SubgraphNode i g) =
    PDict [(''kind'', PStr ''subgraph''), (''id'', PStr i), (''graph'', graph_to_json g)]"
| "graph_to_json (GraphIR version state_ref entrypoint ns es cs) =
    PDict [(''schema_version'', PInt version), (''state_ref'', PStr state_ref), (''entrypoint'', PStr entrypoint),
      (''nodes'', PList (map node_to_json ns)), (''edges'', PList (map edge_to_json es)),
      (''conditional_edges'', PList (map conditional_edge_to_json cs))]"

text \<open>The schema parse: unknown keys are refused, missing keys get their default where they have one.
  Which values count as a whole number is up to the parameter \<open>lax_int\<close>.\<close>

type_synonym lax_int = "pyval \<Rightarrow> int option"

definition only_keys :: "(string, pyval) dict \<Rightarrow> string list \<Rightarrow> bool" where
  "only_keys d ks \<longleftrightarrow> list_all (\<lambda>kv. fst kv \<in> set ks) d"

definition str_of :: "pyval \<Rightarrow> string option" where
  "str_of v = (case v of PStr s \<Rightarrow> Some s | _ \<Rightarrow> None)"

definition str_field :: "(string, pyval) dict \<Rightarrow> string \<Rightarrow> string option" where
  "str_field d k = Option.bind (dict_get d k) str_of"

definition list_field :: "(string, pyval) dict \<Rightarrow> string \<Rightarrow> pyval list option" where
  "list_field d k = (case dict_get d k of None \<Rightarrow> Some [] | Some (PList xs) \<Rightarrow> Some xs | Some _ \<Rightarrow> None)"

definition dict_field :: "(string, pyval) dict \<Rightarrow> string \<Rightarrow> (string, pyval) dict option" where
  "dict_field d k = (case dict_get d k of None \<Rightarrow> Some [] | Some (PDict e) \<Rightarrow> Some e | Some _ \<Rightarrow> None)"

definition edge_from_json :: "pyval \<Rightarrow> edge_spec option" where
  "edge_from_json v = (case v of
     PDict d \<Rightarrow> (if only_keys d [''source'', ''target''] then
         (case (str_field d ''source'', str_field d ''target'') of
            (Some s, Some t) \<Rightarrow> Some \<lparr>es_source = s, es_target = t\<rparr>
          | _ \<Rightarrow> None)
       else None)
   | _ \<Rightarrow> None)"

definition str_entries :: "(string, pyval) dict \<Rightarrow> (string, string) dict option" where
  "str_entries d = those (map (\<lambda>(k, v). map_option (Pair k) (str_of v)) d)"

definition default_field :: "(string, pyval) dict \<Rightarrow> string option option" where
  "default_field d = (case dict_get d ''default'' of
     None \<Rightarrow> Some None | Some PNone \<Rightarrow> Some None | Some (PStr s) \<Rightarrow> Some (Some s) | Some _ \<Rightarrow> None)"

definition conditional_edge_from_json :: "pyval \<Rightarrow> conditional_edge_spec option" where
  "conditional_edge_from_json v = (case v of
     PDict d \<Rightarrow> (if only_keys d [''source'', ''path'', ''mapping'', ''default''] then
         (case (str_field d ''source'', str_field d ''path'', dict_get d ''mapping'', default_field d) of
            (Some s, Some p, Some (PDict m), Some dflt) \<Rightarrow>
              map_option (\<lambda>entries. \<lparr>ce_source = s, ce_path = p, ce_mapping = entries, ce_default = dflt\<rparr>) (str_entries m)
          | _ \<Rightarrow> None)
       else None)
   | _ \<Rightarrow> None)"

definition version_field :: "lax_int \<Rightarrow> (string, pyval) dict \<Rightarrow> int option" where
  "version_field lax d = (case dict_get d ''schema_version'' of None \<Rightarrow> Some current_schema_version | Some v \<Rightarrow> lax v)"

definition state_ref_field :: "(string, pyval) dict \<Rightarrow> string option" where
  "state_ref_field d = (case dict_get d ''state_ref'' of None \<Rightarrow> Some default_state_ref | Some v \<Rightarrow> str_of v)"

fun pv_weight :: "pyval \<Rightarrow> nat" where
  "pv_weight (PList xs) = Suc (sum_list (map pv_weight xs))"
| "pv_weight (PDict d) = Suc (sum_list (map (\<lambda>kv. pv_weight (snd kv)) d))"
| "pv_weight _ = 1"

lemma pv_weight_entry: "dict_get d k = Some v \<Longrightarrow> pv_weight v < pv_weight (PDict d)"
  by (induction d) (auto split: if_splits)

lemma pv_weight_item: "x \<in> set xs \<Longrightarrow> pv_weight x < pv_weight (PList xs)"
  by (simp add: member_le_sum_list less_Suc_eq_le)

lemma pv_weight_value: "(k, v) \<in> set d \<Longrightarrow> pv_weight v < pv_weight (PDict d)"
  by (force simp: less_Suc_eq_le intro!: member_le_sum_list)

lemma pv_weight_list_field:
  assumes "list_field d k = Some xs" "x \<in> set xs"
  shows "pv_weight x < pv_weight (PDict d)"
proof -
  have "dict_get d k = Some (PList xs)"
    using assms by (auto simp: list_field_def split: option.splits pyval.splits)
  then show ?thesis using pv_weight_entry pv_weight_item [OF assms(2)] by fastforce
qed

function node_from_json :: "lax_int \<Rightarrow> pyval \<Rightarrow> node_spec option"
  and graph_from_json :: "lax_int \<Rightarrow> pyval \<Rightarrow> graph_ir option" where
  "node_from_json lax v = (case v of
     PDict d \<Rightarrow>
       (case (dict_get d ''kind'', str_field d ''id'') of
          (Some (PStr kind), Some i) \<Rightarrow>
            if kind = ''builtin'' \<and> only_keys d [''kind'', ''id'', ''type'', ''config''] then
              (case (str_field d ''type'', dict_field d ''config'') of
                 (Some t, Some config) \<Rightarrow> Some (BuiltinNode i t config) | _ \<Rightarrow> None)
            else if kind = ''code'' \<and> only_keys d [''kind'', ''id'', ''config'', ''injected'', ''body''] then
              (case (dict_field d ''config'', Option.bind (list_field d ''injected'') (\<lambda>xs. those (map str_of xs)),
                  str_field d ''body'') of
                 (Some config, Some injected, Some body) \<Rightarrow> Some (CodeNode i config injected body) | _ \<Rightarrow> None)
            else if kind = ''subgraph'' \<and> only_keys d [''kind'', ''id'', ''graph''] then
              (case dict_get d ''graph'' of
                 Some g \<Rightarrow> map_option (SubgraphNode i) (graph_from_json lax g) | None \<Rightarrow> None)
            else None
        | _ \<Rightarrow> None)
   | _ \<Rightarrow> None)"
| "graph_from_json lax v = (case v of
     PDict d \<Rightarrow>
       if \<not> only_keys d [''schema_version'', ''state_ref'', ''entrypoint'', ''nodes'', ''edges'', ''conditional_edges'']
       then None
       else (case (list_field d ''nodes'', list_field d ''edges'', list_field d ''conditional_edges'') of
           (Some ns, Some es, Some cs) \<Rightarrow>
             (case (version_field lax d, state_ref_field d, str_field d ''entrypoint'',
                 those (map (node_from_json lax) ns), those (map edge_from_json es),
                 those (map conditional_edge_from_json cs)) of
                (Some v, Some r, Some e, Some ns', Some es', Some cs') \<Rightarrow> Some (GraphIR v r e ns' es' cs')
              | _ \<Rightarrow> None)
         | _ \<Rightarrow> None)
   | _ \<Rightarrow> None)"
  by pat_completeness auto
termination
  by (relation "measure (case_sum (\<lambda>(lax, v). pv_weight v) (\<lambda>(lax, v). pv_weight v))")
    (auto dest: pv_weight_entry pv_weight_list_field [OF sym] simp del: pv_weight.simps)

declare node_from_json.simps [simp del] graph_from_json.simps [simp del]

section \<open>Validation\<close>

datatype ir_error =
    MalformedIR
  | DepthExceeded
  | UnsupportedVersion int
  | BlankNodeId
  | DuplicateNodeId string
  | SentinelNodeId string
  | UnknownNodeType string
  | EntrypointMissing
  | EntrypointUnknown string
  | EdgeSourceUnknown string
  | EdgeTargetUnknown string
  | ConditionalSourceUnknown string
  | ConditionalMappingEmpty string
  | ConditionalTargetUnknown string
  | ConditionalDefaultUnknown string
  | ToolGraphMissing
  | NoCodeNodeFactory string
  | NodeConstruction string
  | ConditionalEdgeInvalid

definition max_graph_depth :: nat where "max_graph_depth = 32"
definition sentinels :: "string list" where "sentinels = [START, END]"

fun check_each :: "('a \<Rightarrow> ir_error + unit) \<Rightarrow> 'a list \<Rightarrow> ir_error + unit" where
  "check_each f [] = Inr ()"
| "check_each f (x # xs) = seqE (f x) (\<lambda>_. check_each f xs)"

fun validate_nodes :: "(string \<Rightarrow> bool) \<Rightarrow> node_spec list \<Rightarrow> string list \<Rightarrow> ir_error + string list" where
  "validate_nodes registered [] node_ids = Inr node_ids"
| "validate_nodes registered (n # ns) node_ids =
    (if node_id n = [] \<or> str_strip (node_id n) = [] then Inl BlankNodeId
     else if node_id n \<in> set node_ids then Inl (DuplicateNodeId (node_id n))
     else if node_id n \<in> set sentinels then Inl (SentinelNodeId (node_id n))
     else if (case n of BuiltinNode _ t _ \<Rightarrow> \<not> registered t | _ \<Rightarrow> False) then Inl (UnknownNodeType (node_id n))
     else validate_nodes registered ns (node_ids @ [node_id n]))"

definition validate_entrypoint :: "string \<Rightarrow> string list \<Rightarrow> ir_error + unit" where
  "validate_entrypoint entrypoint node_ids =
    (if entrypoint = [] then Inl EntrypointMissing
     else checkE (entrypoint \<in> set node_ids) (EntrypointUnknown entrypoint))"

definition is_known_vertex :: "string list \<Rightarrow> string \<Rightarrow> bool" where
  "is_known_vertex node_ids name \<longleftrightarrow> name \<in> set node_ids \<or> name \<in> set sentinels"

definition validate_edge :: "string list \<Rightarrow> edge_spec \<Rightarrow> ir_error + unit" where
  "validate_edge node_ids e =
    (if \<not> is_known_vertex node_ids (es_source e) then Inl (EdgeSourceUnknown (es_source e))
     else checkE (is_known_vertex node_ids (es_target e)) (EdgeTargetUnknown (es_target e)))"

definition validate_conditional_edge :: "string list \<Rightarrow> conditional_edge_spec \<Rightarrow> ir_error + unit" where
  "validate_conditional_edge node_ids c =
    (if ce_source c \<notin> set node_ids then Inl (ConditionalSourceUnknown (ce_source c))
     else if ce_mapping c = [] then Inl (ConditionalMappingEmpty (ce_source c))
     else seqE (check_each (\<lambda>(_, t). checkE (is_known_vertex node_ids t) (ConditionalTargetUnknown t)) (ce_mapping c))
       (\<lambda>_. case ce_default c of
          Some d \<Rightarrow> checkE (is_known_vertex node_ids d) (ConditionalDefaultUnknown d)
        | None \<Rightarrow> Inr ()))"

lemma check_each_cong [fundef_cong]:
  "xs = ys \<Longrightarrow> (\<And>x. x \<in> set ys \<Longrightarrow> f x = g x) \<Longrightarrow> check_each f xs = check_each g ys"
  by (induction xs arbitrary: ys) auto

lemma seqE_cong [fundef_cong]: "r = r' \<Longrightarrow> (\<And>a. r' = Inr a \<Longrightarrow> k a = k' a) \<Longrightarrow> seqE r k = seqE r' k'"
  by (cases r') auto

text \<open>A mapping with the marker of a workflow tool stands for a nested graph wherever it occurs in a
  configuration.\<close>

definition is_tool :: "(string, pyval) dict \<Rightarrow> bool" where
  "is_tool d \<longleftrightarrow> dict_get d ir_config_kind_key = Some (PStr workflow_tool_kind)"

definition tool_graph :: "lax_int \<Rightarrow> (string, pyval) dict \<Rightarrow> ir_error + graph_ir" where
  "tool_graph lax d =
    (case dict_get d ''graph'' of
       Some (PDict g) \<Rightarrow> (case graph_from_json lax (PDict g) of Some graph \<Rightarrow> Inr graph | None \<Rightarrow> Inl MalformedIR)
     | _ \<Rightarrow> Inl ToolGraphMissing)"

fun node_weight :: "node_spec \<Rightarrow> nat"
  and graph_weight :: "graph_ir \<Rightarrow> nat" where
  "node_weight (BuiltinNode i t config) = pv_weight (PDict config)"
| "node_weight (CodeNode i config injected body) = 1"
| "node_weight (SubgraphNode i g) = graph_weight g"
| "graph_weight (GraphIR v r e ns es cs) = Suc (sum_list (map node_weight ns))"

lemma those_parsed: "those (map f xs) = Some ys \<Longrightarrow> list_all2 (\<lambda>x y. f x = Some y) xs ys"
  by (induction xs arbitrary: ys) (auto split: option.splits)

lemma sum_list_le: "list_all2 (\<lambda>x y. g y \<le> (f x :: nat)) xs ys \<Longrightarrow> sum_list (map g ys) \<le> sum_list (map f xs)"
  by (induction rule: list_all2_induct) auto

lemma pv_weight_pos: "1 \<le> pv_weight v"
  by (cases v) auto

lemma parsed_weight:
  "node_from_json lax v = Some n \<Longrightarrow> node_weight n \<le> pv_weight v"
  "graph_from_json lax v = Some g \<Longrightarrow> graph_weight g \<le> pv_weight v"
proof (induction lax v and lax v arbitrary: n and g rule: node_from_json_graph_from_json.induct)
  case (1 lax v)
  then obtain d kind i where d: "v = PDict d" and k: "dict_get d ''kind'' = Some (PStr kind)" "str_field d ''id'' = Some i"
    by (auto simp: node_from_json.simps [of lax v] split: pyval.splits option.splits)
  consider (builtin) t config where "n = BuiltinNode i t config" "dict_field d ''config'' = Some config"
    | (code) config injected body where "n = CodeNode i config injected body"
    | (sub) gv g where "n = SubgraphNode i g" "dict_get d ''graph'' = Some gv" "graph_from_json lax gv = Some g"
      "kind = ''subgraph''" "only_keys d [''kind'', ''id'', ''graph'']"
    using 1(2) k by (auto simp: node_from_json.simps [of lax "PDict d"] d split: option.splits if_splits)
  then show ?case
  proof cases
    case builtin
    then have "config = [] \<or> dict_get d ''config'' = Some (PDict config)"
      by (auto simp: dict_field_def split: option.splits pyval.splits)
    then show ?thesis using builtin pv_weight_entry [of d "''config''"] pv_weight_pos [of v]
      by (fastforce simp: d simp del: pv_weight.simps(2) simp: pv_weight.simps(2) [of "[]"])
  next
    case code
    then show ?thesis using pv_weight_pos by simp
  next
    case sub
    have "graph_weight g \<le> pv_weight gv" using 1(1) d k sub by auto
    then show ?thesis using pv_weight_entry [OF sub(2)] sub(1) d by simp
  qed
next
  case (2 lax v)
  obtain d ns v' r e ns' es' cs' where v: "v = PDict d" and ns: "list_field d ''nodes'' = Some ns"
    and g: "g = GraphIR v' r e ns' es' cs'" and p: "those (map (node_from_json lax) ns) = Some ns'"
    and other: "\<exists>es. Some es = list_field d ''edges''" "\<exists>cs. Some cs = list_field d ''conditional_edges''"
      "only_keys d [''schema_version'', ''state_ref'', ''entrypoint'', ''nodes'', ''edges'', ''conditional_edges'']"
    using 2(2) by (auto simp: graph_from_json.simps [of lax v] split: pyval.splits option.splits if_splits)
  have "node_weight n \<le> pv_weight x" if "x \<in> set ns" "node_from_json lax x = Some n" for x n
    using 2(1) [of d] v ns other that by auto
  then have "list_all2 (\<lambda>x y. node_weight y \<le> pv_weight x) ns ns'"
    using those_parsed [OF p] by (auto simp: list_all2_conv_all_nth)
  then have le: "sum_list (map node_weight ns') \<le> sum_list (map pv_weight ns)" by (rule sum_list_le)
  show ?case
  proof (cases "ns = []")
    case True
    with le have "sum_list (map node_weight ns') = 0" by (simp only: list.map sum_list.Nil le_zero_eq)
    then show ?thesis using pv_weight_pos [of v] by (simp only: g graph_weight.simps)
  next
    case False
    with ns have "dict_get d ''nodes'' = Some (PList ns)"
      by (auto simp: list_field_def split: option.splits pyval.splits)
    from pv_weight_entry [OF this] le show ?thesis by (simp only: g v graph_weight.simps pv_weight.simps)
  qed
qed

lemma tool_graph_weight:
  assumes "tool_graph lax d = Inr g"
  shows "graph_weight g < pv_weight (PDict d)"
proof -
  obtain gd where "dict_get d ''graph'' = Some (PDict gd)" "graph_from_json lax (PDict gd) = Some g"
    using assms by (auto simp: tool_graph_def split: option.splits pyval.splits)
  then show ?thesis using parsed_weight(2) pv_weight_entry le_less_trans by blast
qed

lemma node_weight_less: "n \<in> set ns \<Longrightarrow> node_weight n < graph_weight (GraphIR v r e ns es cs)"
  by (simp add: member_le_sum_list less_Suc_eq_le)

function validate_graph :: "(string \<Rightarrow> bool) \<Rightarrow> lax_int \<Rightarrow> nat \<Rightarrow> graph_ir \<Rightarrow> ir_error + unit"
  and validate_config_graphs :: "(string \<Rightarrow> bool) \<Rightarrow> lax_int \<Rightarrow> nat \<Rightarrow> pyval \<Rightarrow> ir_error + unit" where
  "validate_graph registered lax depth (GraphIR version state_ref entrypoint ns es cs) =
    (if depth > max_graph_depth then Inl DepthExceeded
     else if version \<noteq> current_schema_version then Inl (UnsupportedVersion version)
     else seqE (validate_nodes registered ns []) (\<lambda>node_ids.
       seqE (validate_entrypoint entrypoint node_ids) (\<lambda>_.
       seqE (check_each (validate_edge node_ids) es) (\<lambda>_.
       seqE (check_each (validate_conditional_edge node_ids) cs) (\<lambda>_.
         check_each (\<lambda>n. case n of
             BuiltinNode i t config \<Rightarrow> validate_config_graphs registered lax depth (PDict config)
           | SubgraphNode i g \<Rightarrow> validate_graph registered lax (Suc depth) g
           | CodeNode i config injected body \<Rightarrow> Inr ()) ns)))))"
| "validate_config_graphs registered lax depth v =
    (case v of
       PDict d \<Rightarrow>
         if is_tool d then seqE (tool_graph lax d) (validate_graph registered lax (Suc depth))
         else check_each (\<lambda>kv. validate_config_graphs registered lax depth (snd kv)) d
     | PList xs \<Rightarrow> check_each (validate_config_graphs registered lax depth) xs
     | _ \<Rightarrow> Inr ())"
  by pat_completeness auto
termination
  by (relation "measure (case_sum (\<lambda>(registered, lax, d, g). graph_weight g) (\<lambda>(registered, lax, d, v). pv_weight v))")
    (auto dest: tool_graph_weight pv_weight_item pv_weight_value node_weight_less
      simp del: pv_weight.simps graph_weight.simps)

declare validate_config_graphs.simps [simp del]

text \<open>The representation itself, or the mapping stored for it.\<close>

definition coerce_ir :: "lax_int \<Rightarrow> graph_ir + pyval \<Rightarrow> ir_error + graph_ir" where
  "coerce_ir lax ir =
    (case ir of
       Inl g \<Rightarrow> Inr g
     | Inr v \<Rightarrow> (case graph_from_json lax v of Some g \<Rightarrow> Inr g | None \<Rightarrow> Inl MalformedIR))"

definition validate_ir :: "(string \<Rightarrow> bool) \<Rightarrow> lax_int \<Rightarrow> graph_ir + pyval \<Rightarrow> ir_error + graph_ir" where
  "validate_ir registered lax ir =
    seqE (coerce_ir lax ir) (\<lambda>g. seqE (validate_graph registered lax 0 g) (\<lambda>_. Inr g))"

section \<open>Rebuilding\<close>

text \<open>Sentinels are LangGraph's own constants.\<close>

definition ir_vertex :: "string \<Rightarrow> string" where
  "ir_vertex name = name"

definition wire_edges :: "edge_spec list \<Rightarrow> string \<Rightarrow> graph_call list \<Rightarrow> graph_call list" where
  "wire_edges es entrypoint graph =
    (let graph = graph @ map (\<lambda>e. AddEdge (ir_vertex (es_source e)) (ir_vertex (es_target e))) es
     in if list_ex (\<lambda>e. es_source e = START) es then graph else graph @ [AddEdge START entrypoint])"

definition conditional_config :: "conditional_edge_spec \<Rightarrow> (string, pyval) dict" where
  "conditional_config c =
    [(''source'', PStr (ce_source c)), (''path'', PStr (ce_path c)),
     (''mapping'', PDict (map (\<lambda>(k, t). (k, PStr t)) (ce_mapping c))),
     (''default'', case ce_default c of Some d \<Rightarrow> PStr d | None \<Rightarrow> PNone)]"

fun wire_conditional_edges ::
    "(pyval \<Rightarrow> string) \<Rightarrow> conditional_edge_spec list \<Rightarrow> graph_call list \<Rightarrow> graph_error + graph_call list" where
  "wire_conditional_edges show [] graph = Inr graph"
| "wire_conditional_edges show (c # cs) graph =
    seqE (add_conditional_edges show (conditional_config c) [] graph) (wire_conditional_edges show cs)"

text \<open>The calls on the outermost graph; \<open>constructs\<close> tells whether the runnable of a node can be made.\<close>

definition build_graph_model ::
    "(pyval \<Rightarrow> string) \<Rightarrow> (node_spec \<Rightarrow> ir_error + unit) \<Rightarrow> graph_ir \<Rightarrow> ir_error + graph_call list" where
  "build_graph_model show constructs ir =
    seqE (check_each constructs (ir_nodes ir)) (\<lambda>_.
      case wire_conditional_edges show (ir_conditional_edges ir)
          (wire_edges (ir_edges ir) (ir_entrypoint ir) (map (\<lambda>n. AddNode (node_id n)) (ir_nodes ir))) of
        Inl _ \<Rightarrow> Inl ConditionalEdgeInvalid
      | Inr calls \<Rightarrow> Inr calls)"

definition build_state_graph_from_ir ::
    "(pyval \<Rightarrow> string) \<Rightarrow> (string \<Rightarrow> bool) \<Rightarrow> lax_int \<Rightarrow> (node_spec \<Rightarrow> ir_error + unit) \<Rightarrow> graph_ir + pyval \<Rightarrow>
     ir_error + graph_call list" where
  "build_state_graph_from_ir show registered lax constructs ir =
    seqE (validate_ir registered lax ir) (build_graph_model show constructs)"

end
