(* ===== verification/Graph_IR_Laws.thy ===== *)
theory Graph_IR_Laws
  imports Graph_IR Edge_Laws
begin

text \<open>
  Properties of the frozen representation: what validation guarantees at every depth, that rebuilding
  a validated graph succeeds and wires known vertices only, and the vertex names for which it does
  not.
\<close>

lemma check_each_ok: "check_each f xs = Inr () \<longleftrightarrow> (\<forall>x \<in> set xs. f x = Inr ())"
  by (induction xs) (auto simp: seqE_Inr_iff)

lemma validate_nodes_Cons:
  "validate_nodes registered (n # ns) ids = Inr ids' \<longleftrightarrow>
    str_strip (node_id n) \<noteq> [] \<and> node_id n \<notin> set ids \<and> node_id n \<notin> set sentinels \<and>
    (\<forall>i t c. n = BuiltinNode i t c \<longrightarrow> registered t) \<and> validate_nodes registered ns (ids @ [node_id n]) = Inr ids'"
  by (cases n) (auto simp: str_strip_def)

lemma validate_nodes_ok:
  "validate_nodes registered ns ids = Inr ids' \<Longrightarrow>
    ids' = ids @ map node_id ns \<and> distinct (map node_id ns) \<and> set (map node_id ns) \<inter> set ids = {} \<and>
    (\<forall>n \<in> set ns. node_id n \<notin> set sentinels) \<and> (\<forall>i t c. BuiltinNode i t c \<in> set ns \<longrightarrow> registered t)"
proof (induction ns arbitrary: ids)
  case Nil
  then show ?case by simp
next
  case (Cons n ns)
  have p: "node_id n \<notin> set ids" "node_id n \<notin> set sentinels" "\<forall>i t c. n = BuiltinNode i t c \<longrightarrow> registered t"
    and rest: "validate_nodes registered ns (ids @ [node_id n]) = Inr ids'"
    using Cons.prems unfolding validate_nodes_Cons by blast+
  note ih = Cons.IH [OF rest]
  have disjoint: "node_id n \<notin> set (map node_id ns)" "set (map node_id ns) \<inter> set ids = {}" using ih by auto
  have "\<forall>i t c. BuiltinNode i t c \<in> set (n # ns) \<longrightarrow> registered t" using p(3) ih unfolding list.set insert_iff by metis
  moreover have "ids' = ids @ map node_id (n # ns)" using ih by simp
  moreover have "distinct (map node_id (n # ns))" using ih disjoint by simp
  moreover have "set (map node_id (n # ns)) \<inter> set ids = {}" using disjoint p(1) by simp
  moreover have "\<forall>m \<in> set (n # ns). node_id m \<notin> set sentinels" using ih p(2) by simp
  ultimately show ?case by (intro conjI)
qed

section \<open>Validation at every depth\<close>

text \<open>The graphs nested in a representation and the values in the configurations of its nodes, with
  their depth.\<close>

inductive graph_at :: "lax_int \<Rightarrow> graph_ir \<Rightarrow> nat \<Rightarrow> graph_ir \<Rightarrow> bool"
  and config_at :: "lax_int \<Rightarrow> graph_ir \<Rightarrow> nat \<Rightarrow> pyval \<Rightarrow> bool" for lax ir0 where
  start: "graph_at lax ir0 0 ir0"
| subgraph: "graph_at lax ir0 d g \<Longrightarrow> SubgraphNode i h \<in> set (ir_nodes g) \<Longrightarrow> graph_at lax ir0 (Suc d) h"
| config: "graph_at lax ir0 d g \<Longrightarrow> BuiltinNode i t c \<in> set (ir_nodes g) \<Longrightarrow> config_at lax ir0 d (PDict c)"
| tool: "config_at lax ir0 d (PDict c) \<Longrightarrow> is_tool c \<Longrightarrow> tool_graph lax c = Inr h \<Longrightarrow> graph_at lax ir0 (Suc d) h"
| entry: "config_at lax ir0 d (PDict c) \<Longrightarrow> \<not> is_tool c \<Longrightarrow> kv \<in> set c \<Longrightarrow> config_at lax ir0 d (snd kv)"
| item: "config_at lax ir0 d (PList xs) \<Longrightarrow> x \<in> set xs \<Longrightarrow> config_at lax ir0 d x"

definition well_formed :: "(string \<Rightarrow> bool) \<Rightarrow> graph_ir \<Rightarrow> bool" where
  "well_formed registered g \<longleftrightarrow>
    distinct (map node_id (ir_nodes g)) \<and> (\<forall>n \<in> set (ir_nodes g). node_id n \<notin> {START, END}) \<and>
    ir_entrypoint g \<in> node_id ` set (ir_nodes g) \<and>
    (\<forall>i t c. BuiltinNode i t c \<in> set (ir_nodes g) \<longrightarrow> registered t) \<and>
    (\<forall>e \<in> set (ir_edges g). es_source e \<in> node_id ` set (ir_nodes g) \<union> {START, END} \<and>
      es_target e \<in> node_id ` set (ir_nodes g) \<union> {START, END}) \<and>
    (\<forall>c \<in> set (ir_conditional_edges g). ce_source c \<in> node_id ` set (ir_nodes g) \<and> ce_mapping c \<noteq> [] \<and>
      snd ` set (ce_mapping c) \<union> set_option (ce_default c) \<subseteq> node_id ` set (ir_nodes g) \<union> {START, END})"

lemma validate_graph_well_formed:
  assumes "validate_graph registered lax depth g = Inr ()"
  shows "well_formed registered g \<and> depth \<le> max_graph_depth"
proof -
  obtain v r e ns es cs where g: "g = GraphIR v r e ns es cs" by (cases g)
  obtain ids where n: "validate_nodes registered ns [] = Inr ids"
    and e: "validate_entrypoint e ids = Inr ()" and es: "check_each (validate_edge ids) es = Inr ()"
    and cs: "check_each (validate_conditional_edge ids) cs = Inr ()" and d: "depth \<le> max_graph_depth"
    using assms by (auto simp: g seqE_Inr_iff split: if_splits)
  have ids: "set ids = node_id ` set ns" using validate_nodes_ok [OF n] by auto
  have "\<forall>x \<in> set es. es_source x \<in> node_id ` set ns \<union> {START, END} \<and> es_target x \<in> node_id ` set ns \<union> {START, END}"
    using es by (auto simp: check_each_ok validate_edge_def is_known_vertex_def ids sentinels_def split: if_splits)
  moreover have "\<forall>c \<in> set cs. ce_source c \<in> node_id ` set ns \<and> ce_mapping c \<noteq> [] \<and>
      snd ` set (ce_mapping c) \<union> set_option (ce_default c) \<subseteq> node_id ` set ns \<union> {START, END}"
  proof
    fix c assume "c \<in> set cs"
    with cs have c: "validate_conditional_edge ids c = Inr ()" by (simp add: check_each_ok)
    then have s: "ce_source c \<in> node_id ` set ns" "ce_mapping c \<noteq> []"
      "check_each (\<lambda>(_, t). checkE (is_known_vertex ids t) (ConditionalTargetUnknown t)) (ce_mapping c) = Inr ()"
      and d: "\<forall>x. ce_default c = Some x \<longrightarrow> is_known_vertex ids x"
      by (auto simp: validate_conditional_edge_def ids seqE_Inr_iff split: if_splits option.splits)
    from s(3) have "\<forall>kt \<in> set (ce_mapping c). is_known_vertex ids (snd kt)"
      by (auto simp: check_each_ok split: prod.splits)
    with s(1,2) d show "ce_source c \<in> node_id ` set ns \<and> ce_mapping c \<noteq> [] \<and>
      snd ` set (ce_mapping c) \<union> set_option (ce_default c) \<subseteq> node_id ` set ns \<union> {START, END}"
      by (auto simp: is_known_vertex_def ids sentinels_def)
  qed
  moreover have "e \<in> node_id ` set ns"
    using e by (auto simp: validate_entrypoint_def ids split: if_splits)
  ultimately show ?thesis
    using validate_nodes_ok [OF n] d
    by (auto simp: well_formed_def g sentinels_def)
qed

lemma validate_graph_nodes:
  assumes "validate_graph registered lax depth g = Inr ()"
  shows "SubgraphNode i h \<in> set (ir_nodes g) \<Longrightarrow> validate_graph registered lax (Suc depth) h = Inr ()"
    and "BuiltinNode i t c \<in> set (ir_nodes g) \<Longrightarrow> validate_config_graphs registered lax depth (PDict c) = Inr ()"
proof -
  obtain v r e ns es cs where g: "g = GraphIR v r e ns es cs" by (cases g)
  have "check_each (\<lambda>n. case n of
             BuiltinNode i t config \<Rightarrow> validate_config_graphs registered lax depth (PDict config)
           | SubgraphNode i g \<Rightarrow> validate_graph registered lax (Suc depth) g
           | CodeNode i config injected body \<Rightarrow> Inr ()) ns = Inr ()"
    using assms by (auto simp: g seqE_Inr_iff split: if_splits)
  then have each: "\<forall>n \<in> set ns. (case n of
             BuiltinNode i t config \<Rightarrow> validate_config_graphs registered lax depth (PDict config)
           | SubgraphNode i g \<Rightarrow> validate_graph registered lax (Suc depth) g
           | CodeNode i config injected body \<Rightarrow> Inr ()) = Inr ()"
    by (simp only: check_each_ok)
  show "SubgraphNode i h \<in> set (ir_nodes g) \<Longrightarrow> validate_graph registered lax (Suc depth) h = Inr ()"
    using each [THEN bspec, of "SubgraphNode i h"] by (simp add: g)
  show "BuiltinNode i t c \<in> set (ir_nodes g) \<Longrightarrow> validate_config_graphs registered lax depth (PDict c) = Inr ()"
    using each [THEN bspec, of "BuiltinNode i t c"] by (simp add: g)
qed

lemma validate_below:
  assumes "validate_graph registered lax 0 ir0 = Inr ()"
  shows "graph_at lax ir0 d g \<Longrightarrow> validate_graph registered lax d g = Inr ()"
    and "config_at lax ir0 d v \<Longrightarrow> validate_config_graphs registered lax d v = Inr ()"
proof (induction rule: graph_at_config_at.inducts)
  case (tool d c h)
  then show ?case by (simp add: validate_config_graphs.simps [of registered lax d "PDict c"])
next
  case (entry d c kv)
  then show ?case by (simp add: validate_config_graphs.simps [of registered lax d "PDict c"] check_each_ok)
next
  case (item d xs x)
  then show ?case by (simp add: validate_config_graphs.simps [of registered lax d "PList xs"] check_each_ok)
qed (use assms validate_graph_nodes in auto)

text \<open>C5. Validation reaches every nested graph: in an accepted representation each graph, the ones
  nested as sub-workflows and the ones stored in the configuration of tools at any depth included, is
  well formed (unique node ids that are no sentinels, known node types, an existing entrypoint, edges
  and conditional edges between known vertices only) and lies at depth 32 at most.\<close>

theorem validated_at_every_depth:
  assumes "validate_ir registered lax (Inl ir) = Inr ir'" "graph_at lax ir d g"
  shows "ir' = ir \<and> well_formed registered g \<and> d \<le> 32"
proof -
  have "validate_graph registered lax 0 ir = Inr ()" "ir' = ir"
    using assms(1) by (auto simp: validate_ir_def coerce_ir_def seqE_Inr_iff)
  with validate_below(1) [OF this(1) assms(2)] show ?thesis
    using validate_graph_well_formed by (fastforce simp: max_graph_depth_def)
qed

definition inner_graph :: graph_ir where
  "inner_graph = GraphIR 1 default_state_ref ''b'' [CodeNode ''b'' [] [] ''return 1'']
     [\<lparr>es_source = ''b'', es_target = END\<rparr>] []"

definition sample_graph :: graph_ir where
  "sample_graph = GraphIR 1 default_state_ref ''a''
     [BuiltinNode ''a'' ''AgentNode'' [(''workflow_tools'', PList [PDict
        [(ir_config_kind_key, PStr workflow_tool_kind), (''graph'', graph_to_json inner_graph)]])],
      CodeNode ''END'' [] [] ''return 1'']
     [\<lparr>es_source = START, es_target = ''a''\<rparr>]
     [\<lparr>ce_source = ''a'', ce_path = ''inputs.x'', ce_mapping = [(''stop'', ''END'')], ce_default = None\<rparr>]"

definition int_only :: lax_int where
  "int_only v = (case v of PInt i \<Rightarrow> Some i | _ \<Rightarrow> None)"

section \<open>The stored form\<close>

lemma those_total: "\<forall>x \<in> set xs. f (g x) = Some x \<Longrightarrow> those (map f (map g xs)) = Some xs"
  by (induction xs) auto

lemma str_entries_strs: "str_entries (map (\<lambda>(k, t). (k, PStr t)) m) = Some m"
  unfolding str_entries_def by (induction m) (auto simp: str_of_def)

lemma edge_roundtrip: "edge_from_json (edge_to_json e) = Some e"
  by (simp add: edge_from_json_def edge_to_json_def only_keys_def str_field_def str_of_def)

lemma conditional_edge_roundtrip: "conditional_edge_from_json (conditional_edge_to_json c) = Some c"
  by (auto simp: conditional_edge_from_json_def conditional_edge_to_json_def only_keys_def str_field_def str_of_def
      default_field_def str_entries_strs split: option.splits)

lemma node_graph_roundtrip:
  assumes "\<And>i. lax (PInt i) = Some i"
  shows "node_from_json lax (node_to_json n) = Some n" "graph_from_json lax (graph_to_json g) = Some g"
proof (induction n and g)
  case (BuiltinNode i t c)
  then show ?case by (simp add: node_from_json.simps only_keys_def str_field_def str_of_def dict_field_def)
next
  case (CodeNode i c inj b)
  have "those (map str_of (map PStr inj)) = Some inj" by (rule those_total) (simp add: str_of_def)
  then show ?case
    by (simp add: node_from_json.simps only_keys_def str_field_def str_of_def dict_field_def list_field_def)
next
  case (SubgraphNode i g)
  then show ?case by (simp add: node_from_json.simps only_keys_def str_field_def str_of_def)
next
  case (GraphIR v r e ns es cs)
  have "those (map (node_from_json lax) (map node_to_json ns)) = Some ns"
    by (rule those_total) (use GraphIR in auto)
  moreover have "those (map edge_from_json (map edge_to_json es)) = Some es"
    by (rule those_total) (simp add: edge_roundtrip)
  moreover have "those (map conditional_edge_from_json (map conditional_edge_to_json cs)) = Some cs"
    by (rule those_total) (simp add: conditional_edge_roundtrip)
  ultimately show ?case
    by (simp add: graph_from_json.simps only_keys_def str_field_def str_of_def list_field_def version_field_def
        state_ref_field_def assms del: map_map)
qed

text \<open>C12. A representation survives its storage: reading back what \<open>model_dump\<close> wrote gives the same
  representation, so validation and rebuilding answer alike for a graph and its stored form.\<close>

theorem stored_ir_read_back:
  assumes "\<And>i. lax (PInt i) = Some i"
  shows "coerce_ir lax (Inr (graph_to_json g)) = Inr g \<and>
    validate_ir registered lax (Inr (graph_to_json g)) = validate_ir registered lax (Inl g) \<and>
    build_state_graph_from_ir show registered lax constructs (Inr (graph_to_json g)) =
    build_state_graph_from_ir show registered lax constructs (Inl g)"
  using node_graph_roundtrip(2) [OF assms]
  by (simp add: coerce_ir_def validate_ir_def build_state_graph_from_ir_def)

theorem stored_ir_read_back_witness:
  "coerce_ir int_only (Inr (graph_to_json sample_graph)) = Inr sample_graph"
proof -
  have "\<And>i. int_only (PInt i) = Some i" by (simp add: int_only_def)
  from stored_ir_read_back [of int_only, OF this] show ?thesis by blast
qed

lemma tool_read_back:
  "tool_graph int_only [(ir_config_kind_key, PStr workflow_tool_kind), (''graph'', graph_to_json inner_graph)] = Inr inner_graph"
  by code_simp

lemma sample_valid: "validate_ir (\<lambda>t. t = ''AgentNode'') int_only (Inl sample_graph) = Inr sample_graph"
proof -
  have "validate_graph (\<lambda>t. t = ''AgentNode'') int_only 0 sample_graph = Inr ()" by code_simp
  then show ?thesis by (simp add: validate_ir_def coerce_ir_def)
qed

theorem validated_at_every_depth_witness:
  "graph_at int_only sample_graph 1 inner_graph \<and> well_formed (\<lambda>t. t = ''AgentNode'') inner_graph"
proof -
  let ?tool = "[(ir_config_kind_key, PStr workflow_tool_kind), (''graph'', graph_to_json inner_graph)]"
  have "config_at int_only sample_graph 0 (PDict [(''workflow_tools'', PList [PDict ?tool])])"
    by (rule config [OF start, of "''a''" "''AgentNode''"]) (simp add: sample_graph_def)
  then have "config_at int_only sample_graph 0 (PList [PDict ?tool])"
    by (rule entry [of _ _ _ _ "(''workflow_tools'', PList [PDict ?tool])", simplified snd_conv])
      (simp_all add: is_tool_def ir_config_kind_key_def)
  then have "config_at int_only sample_graph 0 (PDict ?tool)" by (rule item) simp
  then have "graph_at int_only sample_graph (Suc 0) inner_graph"
    by (rule tool [OF _ _ tool_read_back]) (simp add: is_tool_def)
  with validated_at_every_depth [OF sample_valid this] show ?thesis by simp
qed

section \<open>Rebuilding\<close>

lemma conditional_config_get [simp]:
  "get_or_none (conditional_config c) ''source'' = PStr (ce_source c)"
  "get_or_none (conditional_config c) ''path'' = PStr (ce_path c)"
  "get_or_none (conditional_config c) ''mapping'' = PDict (map (\<lambda>(k, t). (k, PStr t)) (ce_mapping c))"
  "get_or_none (conditional_config c) ''default'' = (case ce_default c of Some d \<Rightarrow> PStr d | None \<Rightarrow> PNone)"
  by (simp_all add: conditional_config_def get_or_none_def)

definition conditional_destinations :: "conditional_edge_spec \<Rightarrow> string set" where
  "conditional_destinations c =
    normalise_vertex ` (snd ` set (ce_mapping c)) \<union> normalise_vertex ` {d. ce_default c = Some d \<and> d \<noteq> []}"

lemma add_conditional_ok:
  assumes "ce_source c \<noteq> []" "ce_path c \<noteq> []" "ce_mapping c \<noteq> []"
  shows "\<exists>router. add_conditional_edges show (conditional_config c) [] graph =
    Inr (graph @ [AddConditional (normalise_vertex (ce_source c)) router (conditional_destinations c)])"
proof -
  have "destination_path_map show (map (\<lambda>(k, t). (k, PStr t)) (ce_mapping c))
      (case ce_default c of Some d \<Rightarrow> PStr d | None \<Rightarrow> PNone) = conditional_destinations c"
    by (force simp: destination_path_map_def conditional_destinations_def resolved_default_def
        split: option.splits if_splits)
  then show ?thesis
    using assms by (simp add: add_conditional_edges_def Let_def)
qed

lemma add_conditional_no_path: "ce_source c \<noteq> [] \<Longrightarrow> ce_path c = [] \<Longrightarrow> add_conditional_edges show (conditional_config c) [] graph = Inl PathMissing"
  by (simp add: add_conditional_edges_def)

definition conditional_call :: "graph_call \<Rightarrow> conditional_edge_spec \<Rightarrow> bool" where
  "conditional_call call c \<longleftrightarrow>
    (\<exists>router. call = AddConditional (normalise_vertex (ce_source c)) router (conditional_destinations c))"

lemma wire_conditional_ok:
  assumes "\<forall>c \<in> set cs. ce_source c \<noteq> [] \<and> ce_mapping c \<noteq> []"
  shows "if \<forall>c \<in> set cs. ce_path c \<noteq> []
    then \<exists>calls. wire_conditional_edges show cs graph = Inr (graph @ calls) \<and> list_all2 conditional_call calls cs
    else \<exists>e. wire_conditional_edges show cs graph = Inl e"
  using assms
proof (induction cs arbitrary: graph)
  case Nil
  then show ?case by simp
next
  case (Cons c cs)
  show ?case
  proof (cases "ce_path c = []")
    case True
    then show ?thesis using Cons.prems add_conditional_no_path by simp
  next
    case False
    obtain router where r: "add_conditional_edges show (conditional_config c) [] graph =
        Inr (graph @ [AddConditional (normalise_vertex (ce_source c)) router (conditional_destinations c)])"
      using add_conditional_ok [OF _ False] Cons.prems by (meson list.set_intros(1))
    let ?call = "AddConditional (normalise_vertex (ce_source c)) router (conditional_destinations c)"
    have ih: "if \<forall>c \<in> set cs. ce_path c \<noteq> []
      then \<exists>calls. wire_conditional_edges show cs (graph @ [?call]) = Inr ((graph @ [?call]) @ calls) \<and>
        list_all2 conditional_call calls cs
      else \<exists>e. wire_conditional_edges show cs (graph @ [?call]) = Inl e"
      using Cons.IH [of "graph @ [?call]"] Cons.prems by simp
    show ?thesis
    proof (cases "\<forall>c \<in> set cs. ce_path c \<noteq> []")
      case True
      with ih obtain calls where "wire_conditional_edges show cs (graph @ [?call]) = Inr (graph @ ?call # calls)"
          "list_all2 conditional_call calls cs" by auto
      with r True False show ?thesis
        by (auto intro!: exI [of _ "?call # calls"] simp: conditional_call_def)
    next
      case no: False
      with ih obtain e where "wire_conditional_edges show cs (graph @ [?call]) = Inl e" by auto
      with r no show ?thesis by auto
    qed
  qed
qed

definition ir_known :: "graph_ir \<Rightarrow> string set" where
  "ir_known g = node_id ` set (ir_nodes g) \<union> {START, END}"

definition call_known :: "string set \<Rightarrow> graph_call \<Rightarrow> bool" where
  "call_known vertices call =
    (case call of
       AddNode n \<Rightarrow> n \<in> vertices
     | AddEdge s t \<Rightarrow> s \<in> vertices \<and> t \<in> vertices
     | AddConditional s router dests \<Rightarrow> s \<in> vertices \<and> dests \<subseteq> vertices)"

lemma normalise_known:
  assumes "''START'' \<notin> node_id ` set (ir_nodes g)" "''END'' \<notin> node_id ` set (ir_nodes g)"
  shows "v \<in> ir_known g \<Longrightarrow> normalise_vertex v = v \<and> normalise_vertex v \<in> ir_known g"
proof -
  have "START \<noteq> ''START''" "START \<noteq> ''END''" "END \<noteq> ''START''" "END \<noteq> ''END''"
    by (simp_all add: START_def END_def)
  moreover assume "v \<in> ir_known g"
  ultimately have "v \<noteq> ''START'' \<and> v \<noteq> ''END''"
    using assms unfolding ir_known_def by (metis UnE insertE singletonD)
  with \<open>v \<in> ir_known g\<close> show "normalise_vertex v = v \<and> normalise_vertex v \<in> ir_known g"
    by (simp add: normalise_vertex_def)
qed

definition plain_calls :: "graph_ir \<Rightarrow> graph_call list" where
  "plain_calls ir = map (\<lambda>n. AddNode (node_id n)) (ir_nodes ir) @
     map (\<lambda>e. AddEdge (es_source e) (es_target e)) (ir_edges ir) @
     (if \<exists>e \<in> set (ir_edges ir). es_source e = START then [] else [AddEdge START (ir_entrypoint ir)])"

lemma validated_ids:
  assumes "validate_graph registered lax d g = Inr ()" "n \<in> set (ir_nodes g)"
  shows "node_id n \<noteq> []"
proof -
  obtain v' r' e' ns es cs where g: "g = GraphIR v' r' e' ns es cs" by (cases g)
  with assms(1) obtain ids where n: "validate_nodes registered ns [] = Inr ids" by (auto simp: seqE_Inr_iff split: if_splits)
  have "\<forall>n \<in> set ns. node_id n \<noteq> []" if "validate_nodes registered ns xs = Inr ys" for xs ys
    using that by (induction ns arbitrary: xs) (auto split: if_splits)
  with n assms(2) g show ?thesis by auto
qed

lemma rebuilt_calls:
  assumes "validate_ir registered lax (Inl ir) = Inr ir" "\<forall>n \<in> set (ir_nodes ir). constructs n = Inr ()"
  shows "if \<forall>c \<in> set (ir_conditional_edges ir). ce_path c \<noteq> []
    then \<exists>conds. build_state_graph_from_ir show registered lax constructs (Inl ir) = Inr (plain_calls ir @ conds) \<and>
      list_all2 conditional_call conds (ir_conditional_edges ir)
    else build_state_graph_from_ir show registered lax constructs (Inl ir) = Inl ConditionalEdgeInvalid"
proof -
  have v: "validate_graph registered lax 0 ir = Inr ()"
    using assms(1) by (auto simp: validate_ir_def coerce_ir_def seqE_Inr_iff)
  note wf = validate_graph_well_formed [OF v, THEN conjunct1, unfolded well_formed_def]
  have src: "\<forall>c \<in> set (ir_conditional_edges ir). ce_source c \<noteq> [] \<and> ce_mapping c \<noteq> []"
    using wf validated_ids [OF v] by fastforce
  have w: "wire_edges (ir_edges ir) (ir_entrypoint ir) (map (\<lambda>n. AddNode (node_id n)) (ir_nodes ir)) = plain_calls ir"
    by (simp add: plain_calls_def wire_edges_def ir_vertex_def Let_def list_ex_iff)
  have b: "build_state_graph_from_ir show registered lax constructs (Inl ir) =
      (case wire_conditional_edges show (ir_conditional_edges ir) (plain_calls ir) of
         Inl _ \<Rightarrow> Inl ConditionalEdgeInvalid | Inr calls \<Rightarrow> Inr calls)"
    using assms by (simp add: build_state_graph_from_ir_def build_graph_model_def w check_each_ok [THEN iffD2])
  show ?thesis
  proof (rule if_split [THEN iffD2], intro conjI impI)
    assume "\<forall>c \<in> set (ir_conditional_edges ir). ce_path c \<noteq> []"
    with wire_conditional_ok [OF src, of "show" "plain_calls ir"]
    have "\<exists>conds. wire_conditional_edges show (ir_conditional_edges ir) (plain_calls ir) = Inr (plain_calls ir @ conds) \<and>
      list_all2 conditional_call conds (ir_conditional_edges ir)" by presburger
    then show "\<exists>conds. build_state_graph_from_ir show registered lax constructs (Inl ir) = Inr (plain_calls ir @ conds) \<and>
      list_all2 conditional_call conds (ir_conditional_edges ir)" using b by auto
  next
    assume "\<not> (\<forall>c \<in> set (ir_conditional_edges ir). ce_path c \<noteq> [])"
    with wire_conditional_ok [OF src, of "show" "plain_calls ir"]
    have "\<exists>e. wire_conditional_edges show (ir_conditional_edges ir) (plain_calls ir) = Inl e" by presburger
    then show "build_state_graph_from_ir show registered lax constructs (Inl ir) = Inl ConditionalEdgeInvalid"
      using b by auto
  qed
qed

lemma branch_known:
  assumes "well_formed registered ir" "''START'' \<notin> node_id ` set (ir_nodes ir)" "''END'' \<notin> node_id ` set (ir_nodes ir)"
    and "c \<in> set (ir_conditional_edges ir)" "conditional_call call c"
  shows "call_known (ir_known ir) call"
proof -
  have known: "ce_source c \<in> ir_known ir" "snd ` set (ce_mapping c) \<union> set_option (ce_default c) \<subseteq> ir_known ir"
    using assms(1,4) unfolding ir_known_def well_formed_def by blast+
  have "normalise_vertex v \<in> ir_known ir" if "v \<in> snd ` set (ce_mapping c) \<union> set_option (ce_default c)" for v
    using normalise_known [OF assms(2,3)] known(2) that by blast
  then have "conditional_destinations c \<subseteq> ir_known ir"
    unfolding conditional_destinations_def by auto
  moreover have "normalise_vertex (ce_source c) \<in> ir_known ir"
    by (rule normalise_known [OF assms(2,3) known(1), THEN conjunct2])
  ultimately show ?thesis using assms(5) unfolding conditional_call_def call_known_def by auto
qed

lemma rebuilt_known:
  assumes "validate_ir registered lax (Inl ir) = Inr ir" "\<forall>n \<in> set (ir_nodes ir). constructs n = Inr ()"
    and names: "''START'' \<notin> node_id ` set (ir_nodes ir)" "''END'' \<notin> node_id ` set (ir_nodes ir)"
    and built: "build_state_graph_from_ir show registered lax constructs (Inl ir) = Inr calls"
  shows "list_all (call_known (ir_known ir)) calls"
proof -
  have v: "validate_graph registered lax 0 ir = Inr ()"
    using assms(1) by (auto simp: validate_ir_def coerce_ir_def seqE_Inr_iff)
  note wf = validate_graph_well_formed [OF v, THEN conjunct1]
  obtain conds where calls: "calls = plain_calls ir @ conds"
    and conds: "list_all2 conditional_call conds (ir_conditional_edges ir)"
    using rebuilt_calls [OF assms(1,2), of "show"] built by (auto split: if_splits)
  have "call_known (ir_known ir) call" if call: "call \<in> set conds" for call
  proof -
    from call obtain i where i: "i < length conds" "conds ! i = call" by (auto simp: in_set_conv_nth)
    with conds have "conditional_call call (ir_conditional_edges ir ! i)" "i < length (ir_conditional_edges ir)"
      by (auto simp: list_all2_conv_all_nth)
    then show ?thesis using branch_known [OF wf names] nth_mem by blast
  qed
  moreover have "call_known (ir_known ir) call" if "call \<in> set (plain_calls ir)" for call
    using that wf by (auto simp: plain_calls_def well_formed_def call_known_def ir_known_def split: if_splits)
  ultimately show ?thesis unfolding calls by (auto simp: list_all_iff)
qed


lemma inner_valid: "validate_ir (\<lambda>_. False) int_only (Inl inner_graph) = Inr inner_graph"
proof -
  have "validate_graph (\<lambda>_. False) int_only 0 inner_graph = Inr ()" by code_simp
  then show ?thesis by (simp add: validate_ir_def coerce_ir_def)
qed


definition end_graph :: graph_ir where
  "end_graph = GraphIR 1 default_state_ref ''a'' [CodeNode ''a'' [] [] ''return 1'', CodeNode ''END'' [] [] ''return 1'']
     [\<lparr>es_source = START, es_target = ''a''\<rparr>]
     [\<lparr>ce_source = ''a'', ce_path = ''inputs.x'', ce_mapping = [(''stop'', ''END'')], ce_default = None\<rparr>]"

lemma end_valid: "validate_ir (\<lambda>_. False) int_only (Inl end_graph) = Inr end_graph"
proof -
  have "validate_graph (\<lambda>_. False) int_only 0 end_graph = Inr ()" by code_simp
  then show ?thesis by (simp add: validate_ir_def coerce_ir_def)
qed

text \<open>A node may be called \<open>END\<close>: validation only reserves the sentinels themselves. A conditional
  edge to such a node is accepted and rebuilt, but its router ends the run instead, in every state.\<close>

theorem node_named_end_unreachable:
  "validate_ir (\<lambda>_. False) int_only (Inl end_graph) = Inr end_graph \<and> ''END'' \<in> node_id ` set (ir_nodes end_graph) \<and>
   (\<exists>calls router. build_state_graph_from_ir show (\<lambda>_. False) int_only (\<lambda>_. Inr ()) (Inl end_graph) =
      Inr (calls @ [AddConditional ''a'' router {END}]) \<and>
     (\<forall>state. router state \<in> {Inr [ToVertex END]} \<union> range Inl))"
proof -
  let ?c = "\<lparr>ce_source = ''a'', ce_path = ''inputs.x'', ce_mapping = [(''stop'', ''END'')], ce_default = None\<rparr>"
  let ?graph = "[AddNode ''a'', AddNode ''END'', AddEdge START ''a'']"
  have w: "wire_edges (ir_edges end_graph) (ir_entrypoint end_graph) (map (\<lambda>n. AddNode (node_id n)) (ir_nodes end_graph)) = ?graph"
    by (simp add: end_graph_def wire_edges_def ir_vertex_def)
  have cs: "ir_conditional_edges end_graph = [?c]" by (simp add: end_graph_def)
  have m: "normalised_mapping show [(''stop'', PStr ''END'')] = [(''stop'', END)]"
    by (simp add: normalised_mapping_def normalise_vertex_def)
  have d: "resolved_default PNone = None" by (simp add: resolved_default_def)
  have dests: "destination_path_map show [(''stop'', PStr ''END'')] PNone = {END}"
    by (simp add: destination_path_map_def d normalise_vertex_def)
  have "normalise_vertex ''a'' = ''a''" by (simp add: normalise_vertex_def)
  then have add: "add_conditional_edges show (conditional_config ?c) [] ?graph =
      Inr (?graph @ [AddConditional ''a'' (make_condition show ''inputs.x'' [(''stop'', END)] None) {END}])"
    unfolding add_conditional_edges_def conditional_config_get by (simp add: m d dests)
  have "build_state_graph_from_ir show (\<lambda>_. False) int_only (\<lambda>_. Inr ()) (Inl end_graph) =
      Inr (?graph @ [AddConditional ''a'' (make_condition show ''inputs.x'' [(''stop'', END)] None) {END}])"
    unfolding build_state_graph_from_ir_def build_graph_model_def w cs end_valid seqE_simps
    using add check_each_ok [of "\<lambda>_. Inr ()" "ir_nodes end_graph"] by simp
  moreover have "make_condition show ''inputs.x'' [(''stop'', END)] None state \<in> {Inr [ToVertex END]} \<union> range Inl" for state
    by (auto simp: make_condition_def Let_def)
  moreover have "''END'' \<in> node_id ` set (ir_nodes end_graph)" by (simp add: end_graph_def)
  ultimately show ?thesis using end_valid by blast
qed

end
