(* ===== verification/Ir_Grammar.thy ===== *)
theory Ir_Grammar
  imports Ir_Config
begin

text \<open>
  The restricted grammar of workflow scripts (\<open>graph/ir/grammar.py\<close>), the schema classes it allows
  (\<open>graph/ir/schemas.py\<close>, the structural part), the structural checks on the bodies of code nodes
  (\<open>graph/ir/code_body.py\<close>) and the allowlist of builtins in them (\<open>sandbox/builtins.py\<close>). The
  names of the interpreter's own builtins are a parameter. Which of several forbidden constructs in one
  function is reported is not modelled: the sweep answers with one error.
\<close>

datatype grammar_error =
    ModuleStatement
  | NoEntrypoint
  | SecondEntrypoint
  | RelativeImport
  | ForeignImport
  | StarImport
  | ClassDecorators string
  | ClassKeywords string
  | ClassBases string
  | ClassMember string
  | RunMissing string
  | MethodNotRun string
  | RunDecorators string
  | FieldTarget string
  | FieldPrivate string
  | SchemaMember string
  | FieldHelper string
  | ConfigError config_error
  | BuilderDecorators string
  | BuilderArguments string
  | BuilderStatement string
  | AssignTarget
  | AssignValue
  | AssignCall
  | MethodCall
  | MethodName string
  | BuilderReturn string
  | GadgetFound
  | BodyConstruct string
  | UndeclaredField string
  | NoReturnValue string
  | ForbiddenBuiltin string

definition lift_config :: "config_error + 'a \<Rightarrow> grammar_error + 'a" where
  "lift_config r = (case r of Inl e \<Rightarrow> Inl (ConfigError e) | Inr v \<Rightarrow> Inr v)"

text \<open>The checks run in order; the first that fails is the answer.\<close>

fun check_all :: "('a \<Rightarrow> grammar_error + unit) \<Rightarrow> 'a list \<Rightarrow> grammar_error + unit" where
  "check_all f [] = Inr ()"
| "check_all f (x # xs) = seqE (f x) (\<lambda>_. check_all f xs)"

section \<open>Imports\<close>

definition is_orcheo_module :: "string option \<Rightarrow> bool" where
  "is_orcheo_module m = (case m of Some s \<Rightarrow> s = ''orcheo'' \<or> str_startswith s ''orcheo.'' | None \<Rightarrow> False)"

fun validate_import :: "stmt \<Rightarrow> grammar_error + unit" where
  "validate_import (ImportFrom m level names) =
    (if level > 0 then Inl RelativeImport
     else if \<not> is_orcheo_module m then Inl ForeignImport
     else check_all (\<lambda>a. checkE (fst a \<noteq> ''*'') StarImport) names)"
| "validate_import (Import names) = check_all (\<lambda>a. checkE (is_orcheo_module (Some (fst a))) ForeignImport) names"
| "validate_import _ = Inr ()"

section \<open>Classes\<close>

definition is_schema_class :: "expr list \<Rightarrow> bool" where
  "is_schema_class bases \<longleftrightarrow> bases = [Name ''BaseModel'']"

text \<open>The checks run in order and give values.\<close>

fun collectE :: "('a \<Rightarrow> 'e + 'b) \<Rightarrow> 'a list \<Rightarrow> 'e + 'b list" where
  "collectE f [] = Inr []"
| "collectE f (x # xs) = seqE (f x) (\<lambda>y. seqE (collectE f xs) (\<lambda>ys. Inr (y # ys)))"

definition schema_literal :: "expr \<Rightarrow> grammar_error + pyval" where
  "schema_literal e = seqE (lift_config (validate_config_value False e)) (\<lambda>_. lift_config (literal_from_ast e))"

text \<open>The call of \<open>Field\<close> that follows is not made: what it says about its arguments is left out.\<close>

definition field_call ::
    "expr \<Rightarrow> expr list \<Rightarrow> (string option \<times> expr) list \<Rightarrow> string \<Rightarrow> grammar_error + pyval list \<times> (string \<times> pyval) list" where
  "field_call f args kws field_name =
    (if f \<noteq> Name ''Field'' \<or> length args > 1 then Inl (FieldHelper field_name)
     else seqE (collectE schema_literal args) (\<lambda>vs.
       seqE (collectE (\<lambda>kw. case fst kw of
            None \<Rightarrow> Inl (FieldHelper field_name)
          | Some k \<Rightarrow> seqE (schema_literal (snd kw)) (\<lambda>v. Inr (k, v))) kws) (\<lambda>kvs. Inr (vs, kvs))))"

definition validate_schema_field_value :: "expr \<Rightarrow> string \<Rightarrow> grammar_error + unit" where
  "validate_schema_field_value v field_name =
    (case v of Call f args kws \<Rightarrow> seqE (field_call f args kws field_name) (\<lambda>_. Inr ())
     | _ \<Rightarrow> lift_config (validate_config_value False v))"

definition validate_schema_member :: "string \<Rightarrow> stmt \<Rightarrow> grammar_error + unit" where
  "validate_schema_member class_name member =
    (if is_docstring member then Inr ()
     else case member of
         AnnAssign (StoredName n) _ v \<Rightarrow>
           if str_startswith n ''_'' then Inl (FieldPrivate n)
           else (case v of None \<Rightarrow> Inr () | Some e \<Rightarrow> validate_schema_field_value e n)
       | _ \<Rightarrow> Inl (SchemaMember class_name))"

definition validate_class_field :: "string \<Rightarrow> expr list \<Rightarrow> expr option \<Rightarrow> grammar_error + unit" where
  "validate_class_field class_name targets v =
    (case targets of
       [StoredName n] \<Rightarrow>
         if str_startswith n ''_'' then Inl (FieldPrivate n)
         else (case v of None \<Rightarrow> Inr () | Some e \<Rightarrow> lift_config (validate_config_value False e))
     | _ \<Rightarrow> Inl (FieldTarget class_name))"

definition validate_class_method :: "string \<Rightarrow> string \<Rightarrow> expr list \<Rightarrow> grammar_error + unit" where
  "validate_class_method class_name name decorators =
    (if name \<noteq> ''run'' then Inl (MethodNotRun name)
     else if decorators \<noteq> [] then Inl (RunDecorators class_name)
     else Inr ())"

definition validate_class_member :: "string \<Rightarrow> stmt \<Rightarrow> grammar_error + unit" where
  "validate_class_member class_name member =
    (if is_docstring member then Inr ()
     else case member of
         AnnAssign t _ v \<Rightarrow> validate_class_field class_name [t] v
       | Assign ts v \<Rightarrow> validate_class_field class_name ts (Some v)
       | FunctionDef _ n ds _ _ \<Rightarrow> validate_class_method class_name n ds
       | _ \<Rightarrow> Inl (ClassMember class_name))"

definition is_run :: "stmt \<Rightarrow> bool" where
  "is_run s = (case s of FunctionDef _ n _ _ _ \<Rightarrow> n = ''run'' | _ \<Rightarrow> False)"

definition validate_class ::
    "string \<Rightarrow> expr list \<Rightarrow> (string option \<times> expr) list \<Rightarrow> expr list \<Rightarrow> stmt list \<Rightarrow> grammar_error + unit" where
  "validate_class name bases kws decorators body =
    (if decorators \<noteq> [] then Inl (ClassDecorators name)
     else if kws \<noteq> [] then Inl (ClassKeywords name)
     else if is_schema_class bases then check_all (validate_schema_member name) body
     else if bases \<noteq> [Name ''CodeNode''] then Inl (ClassBases name)
     else seqE (check_all (validate_class_member name) body)
       (\<lambda>_. checkE (list_ex is_run body) (RunMissing name)))"

section \<open>Graph builders\<close>

definition graph_methods :: "string list" where
  "graph_methods = [''add_node'', ''add_edge'', ''add_conditional_edges'', ''set_entry_point'', ''set_finish_point'']"

fun gadget :: "expr \<Rightarrow> bool" where
  "gadget (Lambda _ _) = True"
| "gadget (Comprehension _) = True"
| "gadget (Subscript _ _) = True"
| "gadget (Starred _) = True"
| "gadget (Await _) = True"
| "gadget (Yield _) = True"
| "gadget (YieldFrom _) = True"
| "gadget (Attribute _ a) = str_startswith a ''_''"
| "gadget (Name n) = str_startswith n ''_''"
| "gadget (StoredName n) = str_startswith n ''_''"
| "gadget _ = False"

definition gadget_sweep :: "stmt list \<Rightarrow> grammar_error + unit" where
  "gadget_sweep body = checkE (\<not> list_ex (\<lambda>s. list_ex gadget (stmt_expr_nodes s)) body) GadgetFound"

definition validate_builder_return :: "string \<Rightarrow> expr option \<Rightarrow> grammar_error + unit" where
  "validate_builder_return func_name v =
    (case v of
       Some (Name _) \<Rightarrow> Inr ()
     | Some (Call (Attribute (Name _) a) _ _) \<Rightarrow> checkE (a = ''compile'') (BuilderReturn func_name)
     | _ \<Rightarrow> Inl (BuilderReturn func_name))"

definition validate_entrypoint_assign :: "expr list \<Rightarrow> expr \<Rightarrow> grammar_error + unit" where
  "validate_entrypoint_assign targets v =
    (case targets of
       [StoredName _] \<Rightarrow> (case v of Call f _ _ \<Rightarrow> (case f of Name _ \<Rightarrow> Inr () | _ \<Rightarrow> Inl AssignCall) | _ \<Rightarrow> Inl AssignValue)
     | _ \<Rightarrow> Inl AssignTarget)"

definition validate_graph_method_call :: "expr \<Rightarrow> grammar_error + unit" where
  "validate_graph_method_call f =
    (case f of Attribute (Name _) a \<Rightarrow> checkE (a \<in> set graph_methods) (MethodName a) | _ \<Rightarrow> Inl MethodCall)"

definition validate_builder_statement :: "string \<Rightarrow> stmt \<Rightarrow> grammar_error + unit" where
  "validate_builder_statement func_name s =
    (if is_docstring s then Inr ()
     else case s of
         Assign ts v \<Rightarrow> validate_entrypoint_assign ts v
       | ExprS (Call f _ _) \<Rightarrow> validate_graph_method_call f
       | Return v \<Rightarrow> validate_builder_return func_name v
       | _ \<Rightarrow> Inl (BuilderStatement func_name))"

definition validate_graph_builder :: "string \<Rightarrow> expr list \<Rightarrow> arguments \<Rightarrow> stmt list \<Rightarrow> grammar_error + unit" where
  "validate_graph_builder name decorators args body =
    (if decorators \<noteq> [] then Inl (BuilderDecorators name)
     else if pos_args args \<noteq> [] \<or> kwonly_args args \<noteq> [] \<or> star_args args \<noteq> [] then Inl (BuilderArguments name)
     else seqE (check_all (validate_builder_statement name) body) (\<lambda>_. gadget_sweep body))"

section \<open>Modules\<close>

definition validate_module_stmt :: "stmt \<Rightarrow> grammar_error + unit" where
  "validate_module_stmt s =
    (if is_docstring s then Inr ()
     else case s of
         Import _ \<Rightarrow> validate_import s
       | ImportFrom _ _ _ \<Rightarrow> validate_import s
       | ClassDef n bases kws ds body \<Rightarrow> validate_class n bases kws ds body
       | FunctionDef _ n ds args body \<Rightarrow> validate_graph_builder n ds args body
       | _ \<Rightarrow> Inl ModuleStatement)"

definition is_entrypoint :: "stmt \<Rightarrow> bool" where
  "is_entrypoint s = (case s of FunctionDef _ n _ _ _ \<Rightarrow> n = ''orcheo_workflow'' | _ \<Rightarrow> False)"

definition require_single_entrypoint :: "stmt list \<Rightarrow> grammar_error + unit" where
  "require_single_entrypoint entrypoints =
    (if entrypoints = [] then Inl NoEntrypoint
     else if length entrypoints > 1 then Inl SecondEntrypoint
     else Inr ())"

definition validate_grammar :: "stmt list \<Rightarrow> grammar_error + unit" where
  "validate_grammar stmts =
    seqE (check_all validate_module_stmt stmts) (\<lambda>_. require_single_entrypoint (filter is_entrypoint stmts))"

section \<open>Bodies of code nodes\<close>

fun disallowed_stmt :: "stmt \<Rightarrow> bool" where
  "disallowed_stmt (Import _) = True"
| "disallowed_stmt (ImportFrom _ _ _) = True"
| "disallowed_stmt (AsyncS _ _) = True"
| "disallowed_stmt (FunctionDef is_async _ _ _ _) = is_async"
| "disallowed_stmt _ = False"

fun disallowed_expr :: "expr \<Rightarrow> bool" where
  "disallowed_expr (Name n) = str_startswith n ''__''"
| "disallowed_expr (StoredName n) = str_startswith n ''__''"
| "disallowed_expr (Attribute _ a) = str_startswith a ''__''"
| "disallowed_expr (Await _) = True"
| "disallowed_expr (Yield _) = True"
| "disallowed_expr (YieldFrom _) = True"
| "disallowed_expr _ = False"

text \<open>All expressions below a method, those of its signature included.\<close>

definition method_exprs :: "arguments \<Rightarrow> stmt list \<Rightarrow> expr list" where
  "method_exprs args body = concat (map expr_nodes (arg_exprs args)) @ concat (map stmt_expr_nodes body)"

definition undeclared_field :: "string list \<Rightarrow> expr \<Rightarrow> bool" where
  "undeclared_field injected e = (case e of Attribute (Name n) a \<Rightarrow> n = ''self'' \<and> a \<notin> set injected | _ \<Rightarrow> False)"

definition returns_value :: "stmt \<Rightarrow> bool" where
  "returns_value s = (case s of Return (Some _) \<Rightarrow> True | _ \<Rightarrow> False)"

definition validate_code_body :: "string \<Rightarrow> string list \<Rightarrow> arguments \<Rightarrow> stmt list \<Rightarrow> grammar_error + unit" where
  "validate_code_body node_id injected args body =
    (if list_ex disallowed_stmt (concat (map stmt_nodes body)) \<or> list_ex disallowed_expr (method_exprs args body)
     then Inl (BodyConstruct node_id)
     else if list_ex (undeclared_field injected) (method_exprs args body) then Inl (UndeclaredField node_id)
     else checkE (list_ex returns_value (concat (map scope_nodes body))) (NoReturnValue node_id))"

definition allowed_functions :: "string list" where
  "allowed_functions = [''abs'', ''all'', ''any'', ''bin'', ''bool'', ''bytearray'', ''bytes'', ''callable'',
    ''chr'', ''classmethod'', ''complex'', ''dict'', ''divmod'', ''enumerate'', ''filter'', ''float'',
    ''frozenset'', ''hasattr'', ''hash'', ''hex'', ''id'', ''int'', ''isinstance'', ''issubclass'', ''iter'',
    ''len'', ''list'', ''map'', ''max'', ''memoryview'', ''min'', ''next'', ''object'', ''oct'', ''ord'',
    ''pow'', ''property'', ''range'', ''repr'', ''reversed'', ''round'', ''set'', ''slice'', ''sorted'',
    ''staticmethod'', ''str'', ''sum'', ''super'', ''tuple'', ''type'', ''zip'']"

definition allowed_exceptions :: "string list" where
  "allowed_exceptions = [''ArithmeticError'', ''AssertionError'', ''AttributeError'', ''BaseException'',
    ''EOFError'', ''Exception'', ''GeneratorExit'', ''ImportError'', ''IndentationError'', ''IndexError'',
    ''KeyError'', ''KeyboardInterrupt'', ''LookupError'', ''MemoryError'', ''NameError'',
    ''NotImplementedError'', ''OSError'', ''OverflowError'', ''RuntimeError'', ''StopAsyncIteration'',
    ''StopIteration'', ''SyntaxError'', ''SystemExit'', ''TypeError'', ''UnicodeError'', ''ValueError'',
    ''ZeroDivisionError'']"

definition allowed_builtins :: "string list" where
  "allowed_builtins = allowed_functions @ allowed_exceptions"

text \<open>\<open>policed\<close> holds the names of all builtins of the host interpreter.\<close>

definition forbidden_builtin :: "string list \<Rightarrow> expr \<Rightarrow> bool" where
  "forbidden_builtin policed e =
    (case e of Name n \<Rightarrow> n \<in> set policed \<and> n \<notin> set allowed_builtins | _ \<Rightarrow> False)"

definition validate_body_builtins :: "string list \<Rightarrow> string \<Rightarrow> arguments \<Rightarrow> stmt list \<Rightarrow> grammar_error + unit" where
  "validate_body_builtins policed node_id args body =
    checkE (\<not> list_ex (forbidden_builtin policed) (method_exprs args body)) (ForbiddenBuiltin node_id)"

end
