(* ===== verification/Ir_Config_Laws.thy ===== *)
theory Ir_Config_Laws
  imports Ir_Config Ir_Grammar Credential_Refs_Laws Node_Laws
begin

text \<open>
  Properties of the restricted definition mode: accepted configuration values can be evaluated and are
  free of credential placeholders where that is required, what this means for the values a code node
  gets at run time, and what an accepted script and an accepted code body cannot contain.
\<close>

section \<open>Literals\<close>

fun signed_bool :: "expr \<Rightarrow> bool" where
  "signed_bool (USub (Const (CBool _))) = True"
| "signed_bool (UAdd (Const (CBool _))) = True"
| "signed_bool _ = False"

fun credential_free :: "pyval \<Rightarrow> bool" where
  "credential_free (PStr s) = (\<not> contains_credential_placeholder s)"
| "credential_free (PList xs) = list_all credential_free xs"
| "credential_free (PDict d) = list_all (\<lambda>kv. credential_free (snd kv)) d"
| "credential_free v = True"

definition entries_free :: "(string, pyval) dict \<Rightarrow> bool" where
  "entries_free d \<longleftrightarrow> list_all (\<lambda>kv. credential_free (snd kv)) d"

lemma entries_free_set: "entries_free d \<Longrightarrow> credential_free v \<Longrightarrow> entries_free (dict_set k v d)"
  by (induction d) (auto simp: entries_free_def)

lemma numeric_sign:
  assumes "numeric_constant e"
  shows "(\<exists>v. literal_eval (USub e) = Inr v) \<longleftrightarrow> \<not> signed_bool (USub e)"
    "(\<exists>v. literal_eval (UAdd e) = Inr v) \<longleftrightarrow> \<not> signed_bool (UAdd e)"
    "literal_eval (USub e) = Inr v \<Longrightarrow> credential_free v" "literal_eval (UAdd e) = Inr v \<Longrightarrow> credential_free v"
    "expr_nodes e = [e]" "\<not> signed_bool e"
  using assms by (cases e rule: numeric_constant.cases; auto)+

lemma check_constant_ok:
  assumes "check_constant ac c = Inr ()"
  shows "\<exists>v. const_value c = Some v \<and> (\<not> ac \<longrightarrow> credential_free v)"
  using assms by (cases c) (auto simp: check_constant_def split: if_splits)

definition evaluates :: "bool \<Rightarrow> expr \<Rightarrow> bool" where
  "evaluates ac e \<longleftrightarrow> (\<exists>v. literal_eval e = Inr v \<and> (\<not> ac \<longrightarrow> credential_free v))"

lemma checked_value:
  "check_value ac e = Inr () \<Longrightarrow>
    (if \<exists>x \<in> set (expr_nodes e). signed_bool x then \<nexists>v. literal_eval e = Inr v else evaluates ac e)"
  "check_values ac es = Inr () \<Longrightarrow>
    (if \<exists>e \<in> set es. \<exists>x \<in> set (expr_nodes e). signed_bool x then \<nexists>vs. literal_list es = Inr vs
     else \<exists>vs. literal_list es = Inr vs \<and> (\<not> ac \<longrightarrow> list_all credential_free vs))"
  "check_dict ac kvs = Inr () \<Longrightarrow>
    (\<forall>d. entries_free d \<or> ac \<longrightarrow>
      (if \<exists>kv \<in> set kvs. \<exists>x \<in> set (expr_nodes (snd kv)). signed_bool x then \<nexists>d'. literal_dict kvs d = Inr d'
       else \<exists>d'. literal_dict kvs d = Inr d' \<and> (\<not> ac \<longrightarrow> entries_free d')) \<and>
      (\<forall>kv \<in> set kvs. \<exists>k. fst kv = Some (Const (CStr k))))"
proof (induction ac e and ac es and ac kvs rule: check_value_check_values_check_dict.induct)
  case (1 ac c)
  then show ?case using check_constant_ok [of ac c] by (auto simp: evaluates_def)
next
  case (5 ac e)
  then have n: "numeric_constant e" by simp
  show ?case using numeric_sign [OF n] by (auto simp: evaluates_def simp del: literal_eval.simps)
next
  case (6 ac e)
  then have n: "numeric_constant e" by simp
  show ?case using numeric_sign [OF n] by (auto simp: evaluates_def simp del: literal_eval.simps)
next
  case (2 ac es)
  then show ?case by (auto simp: evaluates_def seqE_Inr_iff split: if_splits)
next
  case (3 ac es)
  then show ?case by (auto simp: evaluates_def seqE_Inr_iff split: if_splits)
next
  case (4 ac kvs)
  have empty: "entries_free []" by (simp add: entries_free_def)
  from 4(2) have "check_dict ac kvs = Inr ()" by simp
  from 4(1) [OF this, THEN spec, of "[]"] empty
  have ih: "if \<exists>kv \<in> set kvs. \<exists>x \<in> set (expr_nodes (snd kv)). signed_bool x then \<nexists>d'. literal_dict kvs [] = Inr d'
       else \<exists>d'. literal_dict kvs [] = Inr d' \<and> (\<not> ac \<longrightarrow> entries_free d')"
    and keys: "\<forall>kv \<in> set kvs. \<exists>k. fst kv = Some (Const (CStr k))"
    by blast+
  have "(\<exists>x \<in> set (expr_nodes (DictE kvs)). signed_bool x) \<longleftrightarrow>
      (\<exists>kv \<in> set kvs. \<exists>x \<in> set (expr_nodes (snd kv)). signed_bool x)"
    using keys by (fastforce split: option.splits)
  with ih show ?case by (auto simp: evaluates_def seqE_Inr_iff entries_free_def split: if_splits)
next
  case (11 ac kv kvs)
  then obtain k where k: "fst kv = Some (Const (CStr k))" and v: "check_value ac (snd kv) = Inr ()"
    and rest: "check_dict ac kvs = Inr ()"
    by (auto simp: seqE_Inr_iff split: option.splits expr.splits const.splits)
  note ihv = "11.IH"(1) [OF k refl refl v] and ihd = "11.IH"(2) [OF k refl refl rest, THEN spec, THEN mp]
  show ?case
  proof (intro allI impI)
    fix d
    assume d: "entries_free d \<or> ac"
    show "(if \<exists>kv' \<in> set (kv # kvs). \<exists>x \<in> set (expr_nodes (snd kv')). signed_bool x
         then \<nexists>d'. literal_dict (kv # kvs) d = Inr d'
         else \<exists>d'. literal_dict (kv # kvs) d = Inr d' \<and> (\<not> ac \<longrightarrow> entries_free d')) \<and>
       (\<forall>kv' \<in> set (kv # kvs). \<exists>k. fst kv' = Some (Const (CStr k)))"
    proof (cases "\<exists>x \<in> set (expr_nodes (snd kv)). signed_bool x")
      case True
      then show ?thesis using ihv ihd [OF d] k by (auto simp: seqE_Inr_iff)
    next
      case False
      with ihv obtain w where w: "literal_eval (snd kv) = Inr w" "\<not> ac \<longrightarrow> credential_free w"
        by (auto simp: evaluates_def)
      with d have "entries_free (dict_set k w d) \<or> ac" by (auto simp: entries_free_set)
      from ihd [OF this] show ?thesis using w k False by (simp add: seqE_Inr_iff)
    qed
  qed
qed (auto simp: evaluates_def seqE_Inr_iff split: if_splits)

text \<open>C27. A configuration value the validator accepts denotes a value, free of credential placeholders
  at every depth where these are forbidden, unless it writes a sign before a truth value: such a
  literal passes the validator and is then rejected by the evaluation that "should not" fail after
  validation.\<close>

theorem accepted_literal_evaluates:
  assumes "validate_config_value allow_credentials e = Inr ()"
  shows "if \<exists>x \<in> set (expr_nodes e). signed_bool x then \<nexists>v. literal_from_ast e = Inr v
    else \<exists>v. literal_from_ast e = Inr v \<and> (\<not> allow_credentials \<longrightarrow> credential_free v)"
  using checked_value(1) [OF assms [unfolded validate_config_value_def]]
  by (simp add: literal_from_ast_def evaluates_def split: if_splits)

theorem accepted_literal_evaluates_witness:
  "validate_config_value False (ListE [USub (Const (CBool True))]) = Inr () \<and>
   (\<nexists>v. literal_from_ast (ListE [USub (Const (CBool True))]) = Inr v) \<and>
   (\<exists>v. literal_from_ast (DictE [(Some (Const (CStr ''k'')), Const (CStr ''[v]''))]) = Inr v \<and> credential_free v)"
proof -
  have a: "validate_config_value False (ListE [USub (Const (CBool True))]) = Inr ()"
    "validate_config_value False (DictE [(Some (Const (CStr ''k'')), Const (CStr ''[v]''))]) = Inr ()"
    by code_simp+
  show ?thesis using accepted_literal_evaluates [OF a(1)] accepted_literal_evaluates [OF a(2)] a(1) by simp
qed

section \<open>Values a code node gets\<close>

lemma startswith_pair: "str_startswith s [a, b] \<longleftrightarrow> (\<exists>r. s = a # b # r)"
  by (cases s; cases "tl s") (auto simp: str_startswith_def)

lemma closes_append: "closes_on_line s \<Longrightarrow> closes_on_line (s @ v)"
  by (induction s) (auto simp: startswith_pair)

lemma contains_append: "contains_credential_placeholder s \<Longrightarrow> contains_credential_placeholder (s @ v)"
  by (induction s) (auto simp: startswith_pair closes_append split: list.splits)

lemma contains_prepend: "contains_credential_placeholder s \<Longrightarrow> contains_credential_placeholder (u @ s)"
  by (induction u) auto

lemma closes_enclosed: "char_of (10 :: nat) \<notin> set b \<Longrightarrow> closes_on_line (b @ '']]'')"
  by (induction b) (auto simp: startswith_pair)

lemma placeholder_contains:
  assumes "placeholder_body s = Some b"
  shows "contains_credential_placeholder s"
proof -
  have len: "length s \<ge> 5" and open_: "take 2 s = ''[[''" and close_: "drop (length s - 2) s = '']]''"
    and b: "b = drop 2 (take (length s - 2) s)" and nl: "char_of (10 :: nat) \<notin> set b"
    using assms by (auto simp: placeholder_body_def Let_def split: if_splits)
  define n where "n = length s - 2"
  have "s = take n s @ drop n s" by simp
  moreover have "take n s = take 2 (take n s) @ drop 2 (take n s)" by (rule append_take_drop_id [symmetric])
  moreover have "take 2 (take n s) = take 2 s" using len by (simp add: n_def take_take)
  ultimately have "s = take 2 s @ drop 2 (take n s) @ drop n s" by (metis append_assoc)
  then have s: "s = ''[['' @ b @ '']]''" using open_ close_ b by (simp add: n_def)
  have "b \<noteq> []" using len b by simp
  then obtain d ds where "b = d # ds" by (cases b) auto
  then show ?thesis using nl by (auto simp: s str_startswith_def closes_enclosed)
qed

lemma strip_inside: "\<exists>u v. s = u @ str_strip s @ v"
proof -
  have "s = takeWhile char_space s @ dropWhile char_space s" by simp
  moreover have "dropWhile char_space s = str_strip s @ rev (takeWhile char_space (rev (dropWhile char_space s)))"
    by (simp add: str_strip_def flip: rev_append)
  ultimately show ?thesis by metis
qed

lemma reference_contains:
  assumes "parse_credential_reference s = Some r"
  shows "contains_credential_placeholder s"
proof -
  obtain b where "placeholder_body (str_strip s) = Some b"
    using assms by (auto simp: parse_credential_reference_def from_placeholder_def split: option.splits)
  moreover obtain u v where "s = u @ str_strip s @ v" using strip_inside by blast
  ultimately show ?thesis by (metis placeholder_contains contains_append contains_prepend)
qed

lemma free_nested: "credential_free v \<Longrightarrow> resolve_nested_credential res v = Inr v"
  by (auto simp: resolve_nested_credential_def dest: reference_contains split: pyval.splits option.splits)

lemma free_entry: "entries_free d \<Longrightarrow> dict_get d k = Some v \<Longrightarrow> credential_free v"
  by (induction d) (auto simp: entries_free_def split: if_splits)

lemma free_dict [simp]: "credential_free (PDict d) = entries_free d"
  by (simp add: entries_free_def)

declare credential_free.simps(3) [simp del]

lemma free_walk: "credential_free v \<Longrightarrow> walk_segments ps v = Some w \<Longrightarrow> credential_free w"
proof (induction ps arbitrary: v)
  case (Cons p ps)
  then show ?case by (cases v) (auto dest: free_entry split: option.splits)
qed simp

lemma free_fallback:
  assumes "entries_free state" "fallback_to_node_results part state = Some w"
  shows "credential_free w"
proof -
  obtain d where d: "dict_get state ''node_results'' = Some (PDict d)" and w: "dict_get d part = Some w"
    using assms(2) by (auto simp: fallback_to_node_results_def get_or_none_def split: option.splits if_splits pyval.splits)
  have "credential_free (PDict d)" using free_entry [OF assms(1) d] .
  then show ?thesis using free_entry w by simp
qed

lemma free_path:
  assumes "entries_free state" "resolve_state_template_path path state = Some v"
  shows "credential_free v"
proof -
  obtain part parts w where w: "(case dict_get state part of Some v \<Rightarrow> Some v | None \<Rightarrow> fallback_to_node_results part state) = Some w"
    and v: "walk_segments parts w = Some v"
    using assms(2) by (auto simp: resolve_state_template_path_def split: list.splits option.splits)
  have "credential_free w"
    using w free_entry [OF assms(1)] free_fallback [OF assms(1)] by (simp split: option.splits)
  then show ?thesis using free_walk v by blast
qed

lemma free_replacement:
  assumes "entries_free state"
  shows "template_replacement show res state i = template_replacement show None state i"
proof (cases "resolve_state_template_path (str_strip i) state")
  case (Some v)
  with free_path [OF assms] have "credential_free v" by blast
  then show ?thesis by (simp add: template_replacement_def Some free_nested)
qed (simp add: template_replacement_def)

lemma free_substitute:
  assumes "entries_free state"
  shows "substitute_templates show res state s = substitute_templates show None state s"
  using assms
proof (induction "show" res state s rule: substitute_templates.induct)
  case (2 "show" res state c cs)
  then show ?case using free_replacement [OF 2(3), of "show" res] by (simp split: option.splits)
qed simp

lemma free_decode_string:
  assumes "entries_free state" "\<not> contains_credential_placeholder s"
  shows "decode_string_value show res state s = decode_string_value show None state s"
proof -
  have "parse_credential_reference s = None" using assms(2) reference_contains by (cases "parse_credential_reference s") auto
  moreover have "resolve_nested_credential res v = resolve_nested_credential None v"
    if "resolve_state_template_path path state = Some v" for path v
    using free_path [OF assms(1) that] by (simp add: free_nested)
  ultimately show ?thesis
    by (auto simp: decode_string_value_def free_substitute [OF assms(1), of _ res] split: option.splits)
qed

lemma free_decode:
  "entries_free state \<Longrightarrow> credential_free v \<Longrightarrow> decode_value show res state v = decode_value show None state v"
  "entries_free state \<Longrightarrow> list_all credential_free xs \<Longrightarrow>
    decode_list show res state xs = decode_list show None state xs"
  "entries_free state \<Longrightarrow> entries_free d \<Longrightarrow> decode_mapping show res state d = decode_mapping show None state d"
proof (induction "show" res state v and "show" res state xs and "show" res state d
    rule: decode_value_decode_list_decode_mapping.induct)
  case (1 "show" res state s)
  then show ?case using free_decode_string [OF 1(1), of s "show" res] by simp
qed (simp_all add: entries_free_def)

text \<open>C28. The fields an accepted code node declares are the same whichever credential resolver is active,
  as long as no text of the workflow state is itself a credential placeholder: the values handed to
  the sandbox hold no secret.\<close>

theorem code_config_without_secrets:
  assumes "validate_config_value False e = Inr ()" "literal_from_ast e = Inr v" "credential_free (PDict state)"
  shows "decode_value show res state v = decode_value show None state v"
proof -
  have "evaluates False e"
    using checked_value(1) [OF assms(1) [unfolded validate_config_value_def]] assms(2)
    by (auto simp: literal_from_ast_def split: if_splits)
  then have "credential_free v" using assms(2) by (simp add: evaluates_def literal_from_ast_def)
  moreover have "entries_free state" using assms(3) by simp
  ultimately show ?thesis by (intro free_decode(1))
qed

theorem code_config_without_secrets_witness:
  "decode_value (\<lambda>_. []) (Some (\<lambda>_. Inr (PStr ''secret''))) [(''who'', PStr ''Ann'')] (PStr ''{{who}}'') =
   decode_value (\<lambda>_. []) None [(''who'', PStr ''Ann'')] (PStr ''{{who}}'')"
proof -
  have a: "validate_config_value False (Const (CStr ''{{who}}'')) = Inr ()"
    "literal_from_ast (Const (CStr ''{{who}}'')) = Inr (PStr ''{{who}}'')"
    "credential_free (PDict [(''who'', PStr ''Ann'')])"
    by code_simp+
  show ?thesis using code_config_without_secrets [OF a] by simp
qed

text \<open>The condition on the state is needed: a template in an accepted field of a code node that
  finds a text of the form \<open>[[slack]]\<close> in the workflow inputs evaluates to the secret, although the
  placeholder itself is forbidden in such a field "so the sandbox never receives resolved secrets".\<close>

theorem input_text_reaches_secret:
  "validate_config_value False (Const (CStr ''{{inputs.key}}'')) = Inr () \<and>
   validate_config_value False (Const (CStr ''[[slack]]'')) = Inl CredentialInCodeNode \<and>
   decode_value show (Some f) [(''inputs'', PDict [(''key'', PStr ''[[slack]]'')])] (PStr ''{{inputs.key}}'') =
     f \<lparr>cr_identifier = ''slack'', cr_payload_path = [''secret'']\<rparr>"
proof -
  have a: "parse_credential_reference ''{{inputs.key}}'' = None" "contains_template ''{{inputs.key}}''"
    "single_template ''{{inputs.key}}'' = Some ''inputs.key''"
    "resolve_state_template_path ''inputs.key'' [(''inputs'', PDict [(''key'', PStr ''[[slack]]'')])] = Some (PStr ''[[slack]]'')"
    "parse_credential_reference ''[[slack]]'' = Some \<lparr>cr_identifier = ''slack'', cr_payload_path = [''secret'']\<rparr>"
    "validate_config_value False (Const (CStr ''{{inputs.key}}'')) = Inr ()"
    "validate_config_value False (Const (CStr ''[[slack]]'')) = Inl CredentialInCodeNode"
    by code_simp+
  show ?thesis
    by (simp add: a decode_string_value_def resolve_nested_credential_def resolve_credential_reference_def)
qed

section \<open>Accepted scripts\<close>

lemma check_all_ok: "check_all f xs = Inr () \<longleftrightarrow> (\<forall>x \<in> set xs. f x = Inr ())"
  by (induction xs) (auto simp: seqE_Inr_iff)

text \<open>Statements without nested statements, as a graph builder may hold them.\<close>

fun simple_stmt :: "stmt \<Rightarrow> bool" where
  "simple_stmt (ExprS _) = True"
| "simple_stmt (Assign _ _) = True"
| "simple_stmt (Return _) = True"
| "simple_stmt _ = False"

lemma builder_statement_simple:
  assumes "validate_builder_statement name s = Inr ()"
  shows "simple_stmt s" "stmt_nodes s = [s]"
  using assms by (cases s; auto simp: validate_builder_statement_def is_docstring.simps)+

lemma accepted_builder:
  assumes "validate_graph_builder name ds args body = Inr ()"
  shows "ds = [] \<and> pos_args args = [] \<and> kwonly_args args = [] \<and> star_args args = [] \<and>
    (\<forall>s \<in> set body. \<forall>t \<in> set (stmt_nodes s). simple_stmt t) \<and>
    (\<forall>s \<in> set body. \<forall>e \<in> set (stmt_expr_nodes s). \<not> gadget e)"
proof -
  have "check_all (validate_builder_statement name) body = Inr ()" "gadget_sweep body = Inr ()"
    using assms by (auto simp: validate_graph_builder_def seqE_Inr_iff split: if_splits)
  then show ?thesis
    using assms builder_statement_simple
    by (auto simp: check_all_ok gadget_sweep_def list_ex_iff validate_graph_builder_def split: if_splits)
qed

definition orcheo_import :: "stmt \<Rightarrow> bool" where
  "orcheo_import s = (case s of
     Import names \<Rightarrow> \<forall>a \<in> set names. is_orcheo_module (Some (fst a))
   | ImportFrom m level names \<Rightarrow> level = 0 \<and> is_orcheo_module m \<and> ''*'' \<notin> fst ` set names
   | _ \<Rightarrow> False)"

text \<open>What runs when an accepted class is defined: its only methods are undecorated \<open>run\<close>s, and no
  field of a code node is given a value by code.\<close>

definition inert_member :: "stmt \<Rightarrow> bool" where
  "inert_member s = (case s of
     FunctionDef _ n ds _ _ \<Rightarrow> n = ''run'' \<and> ds = []
   | AnnAssign _ _ (Some e) \<Rightarrow> check_value False e = Inr () \<or> (\<exists>args kws. e = Call (Name ''Field'') args kws \<and> length args \<le> 1)
   | Assign _ e \<Rightarrow> check_value False e = Inr ()
   | AnnAssign _ _ None \<Rightarrow> True
   | _ \<Rightarrow> is_docstring s)"

lemma accepted_import: "validate_import s = Inr () \<Longrightarrow> (\<exists>ns. s = Import ns) \<or> (\<exists>m l ns. s = ImportFrom m l ns) \<Longrightarrow> orcheo_import s"
  by (fastforce simp: orcheo_import_def check_all_ok split: if_splits)

lemma lift_config_ok: "lift_config r = Inr v \<longleftrightarrow> r = Inr v"
  by (auto simp: lift_config_def split: sum.splits)

lemma accepted_schema_member:
  assumes "validate_schema_member c m = Inr ()"
  shows "inert_member m"
proof (cases "is_docstring m")
  case True
  then show ?thesis by (cases m) (auto simp: inert_member_def)
next
  case False
  then obtain n a v where m: "m = AnnAssign (StoredName n) a v"
    using assms by (auto simp: validate_schema_member_def split: stmt.splits expr.splits)
  then show ?thesis
    using assms False
    by (auto simp: inert_member_def validate_schema_member_def validate_schema_field_value_def field_call_def
        lift_config_ok validate_config_value_def split: if_splits option.splits expr.splits)
qed

lemma accepted_code_member:
  assumes "validate_class_member c m = Inr ()"
  shows "inert_member m"
proof (cases "is_docstring m")
  case True
  then show ?thesis by (cases m) (auto simp: inert_member_def)
next
  case False
  then show ?thesis
    using assms
    by (cases m) (auto simp: inert_member_def validate_class_member_def validate_class_field_def
        validate_class_method_def lift_config_ok validate_config_value_def
        split: if_splits option.splits list.splits expr.splits)
qed

lemma accepted_class:
  assumes "validate_class n bases kws ds body = Inr ()"
  shows "ds = [] \<and> kws = [] \<and> bases \<in> {[Name ''BaseModel''], [Name ''CodeNode'']} \<and> (\<forall>m \<in> set body. inert_member m)"
  using assms accepted_schema_member accepted_code_member
  by (auto simp: validate_class_def is_schema_class_def check_all_ok seqE_Inr_iff split: if_splits)

definition inert_module_stmt :: "stmt \<Rightarrow> bool" where
  "inert_module_stmt s = (case s of
     ClassDef n bases kws ds body \<Rightarrow>
       ds = [] \<and> kws = [] \<and> bases \<in> {[Name ''BaseModel''], [Name ''CodeNode'']} \<and> (\<forall>m \<in> set body. inert_member m)
   | FunctionDef _ n ds args body \<Rightarrow>
       ds = [] \<and> pos_args args = [] \<and> kwonly_args args = [] \<and> star_args args = [] \<and>
       (\<forall>s \<in> set body. \<forall>t \<in> set (stmt_nodes s). simple_stmt t) \<and>
       (\<forall>s \<in> set body. \<forall>e \<in> set (stmt_expr_nodes s). \<not> gadget e)
   | _ \<Rightarrow> is_docstring s \<or> orcheo_import s)"

lemma accepted_module_stmt:
  assumes "validate_module_stmt s = Inr ()"
  shows "inert_module_stmt s"
proof (cases "is_docstring s")
  case True
  then show ?thesis by (cases s) (auto simp: inert_module_stmt_def)
next
  case False
  then show ?thesis
    using assms accepted_import [of s] accepted_class accepted_builder
    by (cases s) (auto simp: validate_module_stmt_def inert_module_stmt_def)
qed


definition no_arguments :: arguments where
  "no_arguments = \<lparr>pos_args = [], kwonly_args = [], star_args = [], arg_exprs = []\<rparr>"

definition sample_script :: "stmt list" where
  "sample_script =
    [ImportFrom (Some ''orcheo.graph'') 0 [(''StateGraph'', None)],
     FunctionDef False ''orcheo_workflow'' [] no_arguments
       [Assign [StoredName ''g''] (Call (Name ''StateGraph'') [] []),
        ExprS (Call (Attribute (Name ''g'') ''set_entry_point'') [Const (CStr ''a'')] []),
        Return (Some (Name ''g''))]]"


section \<open>Accepted code bodies\<close>

lemma returns_value_iff: "returns_value s \<longleftrightarrow> (\<exists>v. s = Return (Some v))"
  by (cases s) (auto simp: returns_value_def split: option.splits)


definition sample_body :: "stmt list" where
  "sample_body = [Return (Some (Call (Name ''len'') [Attribute (Name ''self'') ''items''] []))]"


end
