(* ===== verification/Ir_Schemas.thy ===== *)
theory Ir_Schemas
  imports Ir_Grammar
begin

text \<open>
  Lowering of schema classes to schemas (\<open>graph/ir/schemas.py\<close>): the annotations of the decls, references
  to other schema classes with the memo of finished ones and the check for cycles, and the defaults.
  The schema library is a parameter: whether it takes the field names of a model, and the JSON schema it
  renders.
\<close>

datatype field_default =
    Required
  | DefaultValue pyval
  | FieldCall "pyval list" "(string \<times> pyval) list"

datatype annotation =
    TStr | TInt | TFloat | TBool | TAny | TNone
  | TModel schema_model
  | TUnion annotation annotation
  | TList annotation
  | TDict annotation annotation
  | TLiteral "pyval list"
and schema_model = SchemaModel string "(string \<times> annotation \<times> field_default) list"

datatype schema_error =
    UnknownSchema string
  | RecursiveSchema "string list"
  | FieldNames string
  | UnsupportedAnnotation
  | SchemaField grammar_error
  | NotLowered string

record schema_env =
  se_create :: "string \<Rightarrow> (string \<times> annotation \<times> field_default) list \<Rightarrow> bool"
  se_render :: "schema_model \<Rightarrow> pyval option"

type_synonym schema_classes = "(string, stmt list) dict"
type_synonym schema_memo = "(string, schema_model) dict"

definition lift_grammar :: "grammar_error + 'a \<Rightarrow> schema_error + 'a" where
  "lift_grammar r = (case r of Inl e \<Rightarrow> Inl (SchemaField e) | Inr v \<Rightarrow> Inr v)"

definition field_default_from_ast :: "expr option \<Rightarrow> string \<Rightarrow> schema_error + field_default" where
  "field_default_from_ast v field_name =
    (case v of
       None \<Rightarrow> Inr Required
     | Some (Call f args kws) \<Rightarrow>
         seqE (lift_grammar (field_call f args kws field_name)) (\<lambda>(vs, kvs). Inr (FieldCall vs kvs))
     | Some e \<Rightarrow> seqE (lift_grammar (schema_literal e)) (\<lambda>w. Inr (DefaultValue w)))"

definition tuple_items :: "expr \<Rightarrow> expr list" where
  "tuple_items e = (case e of TupleE es \<Rightarrow> es | _ \<Rightarrow> [e])"

text \<open>\<open>build\<close> lowers a referenced class.\<close>

fun annotation_from_ast ::
    "(string \<Rightarrow> schema_memo \<Rightarrow> schema_error + schema_model \<times> schema_memo) \<Rightarrow> schema_classes \<Rightarrow> expr \<Rightarrow> schema_memo \<Rightarrow>
     schema_error + annotation \<times> schema_memo" where
  "annotation_from_ast build classes (Name n) memo =
    (if n = ''str'' then Inr (TStr, memo)
     else if n = ''int'' then Inr (TInt, memo)
     else if n = ''float'' then Inr (TFloat, memo)
     else if n = ''bool'' then Inr (TBool, memo)
     else if n = ''Any'' then Inr (TAny, memo)
     else if dict_get classes n \<noteq> None then seqE (build n memo) (\<lambda>(m, memo'). Inr (TModel m, memo'))
     else Inl UnsupportedAnnotation)"
| "annotation_from_ast build classes (Const c) memo =
    (if c = CNone then Inr (TNone, memo) else Inl UnsupportedAnnotation)"
| "annotation_from_ast build classes (BitOr l r) memo =
    seqE (annotation_from_ast build classes l memo) (\<lambda>(a, memo').
      seqE (annotation_from_ast build classes r memo') (\<lambda>(b, memo''). Inr (TUnion a b, memo'')))"
| "annotation_from_ast build classes (Subscript b item) memo =
    (if b = Name ''list'' then
       seqE (annotation_from_ast build classes item memo) (\<lambda>(a, memo'). Inr (TList a, memo'))
     else if b = Name ''dict'' then
       (case item of
          TupleE [k, v] \<Rightarrow>
            seqE (annotation_from_ast build classes k memo) (\<lambda>(a, memo').
              seqE (annotation_from_ast build classes v memo') (\<lambda>(b, memo''). Inr (TDict a b, memo'')))
        | _ \<Rightarrow> Inl UnsupportedAnnotation)
     else if b = Name ''Literal'' then
       seqE (lift_grammar (collectE schema_literal (tuple_items item))) (\<lambda>vs. Inr (TLiteral vs, memo))
     else Inl UnsupportedAnnotation)"
| "annotation_from_ast build classes _ memo = Inl UnsupportedAnnotation"

fun schema_fields ::
    "(string \<Rightarrow> schema_memo \<Rightarrow> schema_error + schema_model \<times> schema_memo) \<Rightarrow> schema_classes \<Rightarrow> stmt list \<Rightarrow>
     (string, annotation \<times> field_default) dict \<Rightarrow> schema_memo \<Rightarrow>
     schema_error + (string, annotation \<times> field_default) dict \<times> schema_memo" where
  "schema_fields build classes [] decls memo = Inr (decls, memo)"
| "schema_fields build classes (AnnAssign (StoredName n) a v # ss) decls memo =
    seqE (annotation_from_ast build classes a memo) (\<lambda>(t, memo').
      seqE (field_default_from_ast v n) (\<lambda>d. schema_fields build classes ss (dict_set n (t, d) decls) memo'))"
| "schema_fields build classes (s # ss) decls memo = schema_fields build classes ss decls memo"

lemma fewer_names_left:
  assumes "dict_get d k = Some v" "k \<notin> set stack"
  shows "card (fst ` set d - set (stack @ [k])) < card (fst ` set d - set stack)"
proof -
  have "k \<in> fst ` set d - set stack" using assms dict_get_mem by force
  then show ?thesis by (intro psubset_card_mono) auto
qed

function build_model ::
    "schema_env \<Rightarrow> schema_classes \<Rightarrow> string list \<Rightarrow> string \<Rightarrow> schema_memo \<Rightarrow>
     schema_error + schema_model \<times> schema_memo" where
  "build_model env classes stack name memo =
    (case dict_get memo name of
       Some m \<Rightarrow> Inr (m, memo)
     | None \<Rightarrow>
         (case dict_get classes name of
            None \<Rightarrow> Inl (UnknownSchema name)
          | Some body \<Rightarrow>
              if name \<in> set stack then Inl (RecursiveSchema (stack @ [name]))
              else seqE (schema_fields (build_model env classes (stack @ [name])) classes body [] memo)
                (\<lambda>(decls, memo').
                  if se_create env name decls
                  then Inr (SchemaModel name decls, dict_set name (SchemaModel name decls) memo')
                  else Inl (FieldNames name))))"
  by pat_completeness auto
termination
  by (relation "measure (\<lambda>(env, classes, stack, name, memo). card (fst ` set classes - set stack))")
    (simp, simp only: in_measure case_prod_conv, rule fewer_names_left)

declare build_model.simps [simp del]

definition schema_json_schema :: "schema_env \<Rightarrow> string \<Rightarrow> schema_classes \<Rightarrow> schema_error + pyval" where
  "schema_json_schema env name classes =
    seqE (build_model env classes [] name []) (\<lambda>(m, _).
      case se_render env m of Some v \<Rightarrow> Inr v | None \<Rightarrow> Inl (NotLowered name))"

end
