(* ===== verification/Ir_Interpreter.thy ===== *)
theory Ir_Interpreter
  imports Graph_IR Ir_Schemas
begin

text \<open>
  The interpreter that turns an accepted script into the frozen representation without running it
  (\<open>graph/ir/interpreter.py\<close>, with the node policy of \<open>graph/ir/node_policy.py\<close>). The syntax tree is
  given (parsing the text is outside); the node registry, the symbols importable from the platform, the
  schema library and the text slices of the \<open>run\<close> bodies are parameters. The shared context keeps a cache
  of helper graphs, which is threaded through; the stack of helpers in progress is an argument.
\<close>

section \<open>Data\<close>

datatype compile_error =
    InGrammar grammar_error
  | InSchema schema_error
  | InIR ir_error
  | GraphReassigned string
  | NoReturnedGraph string
  | ReturnedUnknown string
  | DepthLimit
  | GraphCycle "string list"
  | UnknownGraph string
  | NotGraphVariable string
  | NodeIdTaken string
  | AddNodeTarget
  | NotNodeClass string
  | PositionalArguments string
  | AddNodeArguments
  | NodeNameMissing
  | StringExpected
  | BoolExpected
  | CompileArguments
  | UnknownNodeClass string
  | NodeRestricted string string
  | KeywordUnpacking
  | UnsupportedKeyword string
  | DuplicateKeyword string
  | ToolsNotList
  | ToolShape
  | ToolKeywordMissing string
  | ToolGraphInvalid
  | UnknownBuilder string
  | HelperCycle "string list"
  | EdgeArguments
  | EndpointInvalid
  | ConditionalShape
  | ConditionalKey
  | ConditionalIncomplete
  | NoEntrypointEdge
  | ImportFailed string string
  | AssertionReached

text \<open>A symbol imported from the platform: its module is missing, it is no model class, it is the base
  class itself, or it is a model class; both classes have a JSON schema.\<close>

datatype imported =
    ModuleMissing
  | NotModel
  | BaseModelClass pyval
  | ModelClass pyval

record interp_env =
  ie_registered :: "string \<Rightarrow> bool"
  ie_restricted :: "string \<Rightarrow> bool"
  ie_policed :: "string list"
  ie_import :: "string \<Rightarrow> string \<Rightarrow> imported"
  ie_schema :: schema_env
  ie_body_text :: "nat \<Rightarrow> string"
  ie_lax :: lax_int

record code_class =
  cc_args :: arguments
  cc_body :: "stmt list"
  cc_text :: string
  cc_defaults :: "(string, pyval) dict"
  cc_declared :: "string list"

datatype tool_graph_ref = GraphVariable string | HelperGraph graph_ir

record workflow_tool_ref =
  wt_name :: string
  wt_description :: string
  wt_graph :: tool_graph_ref
  wt_args_schema :: pyval
  wt_output_path :: "string option"
  wt_return_direct :: bool

datatype config_entry = Plain pyval | Tools "workflow_tool_ref list"

datatype pending_node =
    PendingBuiltin string string "(string \<times> config_entry) list"
  | PendingCode string "(string \<times> pyval) list" "string list" string
  | PendingSubgraph string string

fun pending_id :: "pending_node \<Rightarrow> string" where
  "pending_id (PendingBuiltin i t c) = i"
| "pending_id (PendingCode i c fs b) = i"
| "pending_id (PendingSubgraph i g) = i"

record workflow_acc =
  wa_nodes :: "pending_node list"
  wa_edges :: "edge_spec list"
  wa_conditional :: "conditional_edge_spec list"
  wa_entry_override :: "string option"

definition empty_workflow :: workflow_acc where
  "empty_workflow = \<lparr>wa_nodes = [], wa_edges = [], wa_conditional = [], wa_entry_override = None\<rparr>"

type_synonym graphs = "(string, workflow_acc) dict"
type_synonym helper_cache = "(string, graph_ir) dict"
type_synonym helper = "string \<Rightarrow> helper_cache \<Rightarrow> compile_error + graph_ir \<times> helper_cache"

record compile_context =
  cx_code_classes :: "(string, code_class) dict"
  cx_builders :: "(string, stmt list) dict"
  cx_schemas :: schema_classes
  cx_imports :: "(string, string \<times> string) dict"
  cx_enforce_policy :: bool

definition in_grammar :: "grammar_error + 'a \<Rightarrow> compile_error + 'a" where
  "in_grammar r = (case r of Inl e \<Rightarrow> Inl (InGrammar e) | Inr v \<Rightarrow> Inr v)"

definition in_schema :: "schema_error + 'a \<Rightarrow> compile_error + 'a" where
  "in_schema r = (case r of Inl e \<Rightarrow> Inl (InSchema e) | Inr v \<Rightarrow> Inr v)"

definition in_ir :: "ir_error + 'a \<Rightarrow> compile_error + 'a" where
  "in_ir r = (case r of Inl e \<Rightarrow> Inl (InIR e) | Inr v \<Rightarrow> Inr v)"

section \<open>Collecting the declarations\<close>

text \<open>Fields of a code node class with their defaults, and its \<open>run\<close>.\<close>

fun collect_members ::
    "stmt list \<Rightarrow> (string, pyval) dict \<Rightarrow> string list \<Rightarrow> (arguments \<times> stmt list) option \<Rightarrow>
     compile_error + (string, pyval) dict \<times> string list \<times> (arguments \<times> stmt list) option" where
  "collect_members [] defaults declared run = Inr (defaults, declared, run)"
| "collect_members (AnnAssign t a v # ms) defaults declared run =
    (case t of
       StoredName n \<Rightarrow>
         (case v of
            None \<Rightarrow> collect_members ms defaults (declared @ [n]) run
          | Some e \<Rightarrow> seqE (in_grammar (lift_config (literal_from_ast e))) (\<lambda>w.
              collect_members ms (dict_set n w defaults) (declared @ [n]) run))
     | _ \<Rightarrow> collect_members ms defaults declared run)"
| "collect_members (Assign ts e # ms) defaults declared run =
    (case ts of
       StoredName n # _ \<Rightarrow> seqE (in_grammar (lift_config (literal_from_ast e))) (\<lambda>w.
         collect_members ms (dict_set n w defaults) (declared @ [n]) run)
     | _ \<Rightarrow> collect_members ms defaults declared run)"
| "collect_members (FunctionDef is_async n ds args body # ms) defaults declared run =
    collect_members ms defaults declared (Some (args, body))"
| "collect_members (m # ms) defaults declared run = collect_members ms defaults declared run"

fun collect_code_node_classes ::
    "interp_env \<Rightarrow> (nat \<times> stmt) list \<Rightarrow> (string, code_class) dict \<Rightarrow> compile_error + (string, code_class) dict" where
  "collect_code_node_classes env [] classes = Inr classes"
| "collect_code_node_classes env ((i, s) # ss) classes =
    (case s of
       ClassDef n bases kws ds body \<Rightarrow>
         if is_schema_class bases then collect_code_node_classes env ss classes
         else seqE (collect_members body [] [] None) (\<lambda>(defaults, declared, run).
           case run of
             None \<Rightarrow> Inl (InGrammar (RunMissing n))
           | Some (args, run_body) \<Rightarrow>
               collect_code_node_classes env ss (dict_set n \<lparr>cc_args = args, cc_body = run_body,
                 cc_text = ie_body_text env i, cc_defaults = defaults, cc_declared = declared\<rparr> classes))
     | _ \<Rightarrow> collect_code_node_classes env ss classes)"

definition collect_graph_builders :: "stmt list \<Rightarrow> (string, stmt list) dict" where
  "collect_graph_builders ss =
    fold (\<lambda>s d. case s of FunctionDef is_async n ds args body \<Rightarrow> dict_set n body d | _ \<Rightarrow> d) ss []"

definition collect_schema_classes :: "stmt list \<Rightarrow> schema_classes" where
  "collect_schema_classes ss =
    fold (\<lambda>s d. case s of
        ClassDef n bases kws ds body \<Rightarrow> if is_schema_class bases then dict_set n body d else d
      | _ \<Rightarrow> d) ss []"

definition collect_imported_symbols :: "stmt list \<Rightarrow> (string, string \<times> string) dict" where
  "collect_imported_symbols ss =
    fold (\<lambda>s d. case s of
        ImportFrom (Some m) level names \<Rightarrow>
          fold (\<lambda>(n, alias). dict_set (case alias of Some a \<Rightarrow> if a = [] then n else a | None \<Rightarrow> n) (m, n)) names d
      | _ \<Rightarrow> d) ss []"

section \<open>Literals, vertices and keyword arguments\<close>

definition as_string :: "expr \<Rightarrow> compile_error + string" where
  "as_string e = (case e of Const (CStr s) \<Rightarrow> Inr s | _ \<Rightarrow> Inl StringExpected)"

definition as_bool :: "expr \<Rightarrow> compile_error + bool" where
  "as_bool e = (case e of Const (CBool b) \<Rightarrow> Inr b | _ \<Rightarrow> Inl BoolExpected)"

definition is_none :: "expr \<Rightarrow> bool" where
  "is_none e \<longleftrightarrow> e = Const CNone"

definition string_arg :: "expr list \<Rightarrow> nat \<Rightarrow> compile_error + string" where
  "string_arg args i = (if length args \<le> i then Inl StringExpected else as_string (args ! i))"

definition vertex_from_expr :: "expr \<Rightarrow> compile_error + string" where
  "vertex_from_expr e =
    (case e of
       Const (CStr s) \<Rightarrow> Inr s
     | Name n \<Rightarrow> if n = ''START'' then Inr START else if n = ''END'' then Inr END else Inl EndpointInvalid
     | _ \<Rightarrow> Inl EndpointInvalid)"

fun keyword_map ::
    "string list \<Rightarrow> (string option \<times> expr) list \<Rightarrow> (string, expr) dict \<Rightarrow> compile_error + (string, expr) dict" where
  "keyword_map allowed [] vs = Inr vs"
| "keyword_map allowed (kw # kws) vs =
    (case fst kw of
       None \<Rightarrow> Inl KeywordUnpacking
     | Some k \<Rightarrow>
         if k \<notin> set allowed then Inl (UnsupportedKeyword k)
         else if dict_get vs k \<noteq> None then Inl (DuplicateKeyword k)
         else keyword_map allowed kws (dict_set k (snd kw) vs))"

fun dict_keyword_map ::
    "string list \<Rightarrow> (expr option \<times> expr) list \<Rightarrow> (string, expr) dict \<Rightarrow> compile_error + (string, expr) dict" where
  "dict_keyword_map allowed [] vs = Inr vs"
| "dict_keyword_map allowed (kv # kvs) vs =
    (case fst kv of
       None \<Rightarrow> Inl KeywordUnpacking
     | Some (Const (CStr k)) \<Rightarrow>
         if k \<notin> set allowed then Inl (UnsupportedKeyword k)
         else if dict_get vs k \<noteq> None then Inl (DuplicateKeyword k)
         else dict_keyword_map allowed kvs (dict_set k (snd kv) vs)
     | Some _ \<Rightarrow> Inl StringExpected)"

definition required_kwarg :: "(string, expr) dict \<Rightarrow> string \<Rightarrow> compile_error + expr" where
  "required_kwarg kws k = (case dict_get kws k of Some e \<Rightarrow> Inr e | None \<Rightarrow> Inl (ToolKeywordMissing k))"

definition required_string_kwarg :: "(string, expr) dict \<Rightarrow> string \<Rightarrow> compile_error + string" where
  "required_string_kwarg kws k = seqE (required_kwarg kws k) as_string"

section \<open>Edges\<close>

definition interpret_add_edge :: "expr list \<Rightarrow> compile_error + edge_spec" where
  "interpret_add_edge args =
    (case args of
       [s, t] \<Rightarrow> seqE (vertex_from_expr s) (\<lambda>source. seqE (vertex_from_expr t) (\<lambda>target.
         Inr \<lparr>es_source = source, es_target = target\<rparr>))
     | _ \<Rightarrow> Inl EdgeArguments)"

fun parse_mapping_entries ::
    "(expr option \<times> expr) list \<Rightarrow> (string, string) dict \<Rightarrow> compile_error + (string, string) dict" where
  "parse_mapping_entries [] m = Inr m"
| "parse_mapping_entries (kv # kvs) m =
    (case fst kv of
       Some (Const (CStr k)) \<Rightarrow>
         seqE (vertex_from_expr (snd kv)) (\<lambda>t. parse_mapping_entries kvs (dict_set k t m))
     | _ \<Rightarrow> Inl ConditionalKey)"

definition parse_conditional_mapping :: "expr \<Rightarrow> compile_error + (string, string) dict" where
  "parse_conditional_mapping e = (case e of DictE kvs \<Rightarrow> parse_mapping_entries kvs [] | _ \<Rightarrow> Inl ConditionalShape)"

fun parse_conditional_config ::
    "(expr option \<times> expr) list \<Rightarrow> string option \<Rightarrow> (string, string) dict option \<Rightarrow> string option \<Rightarrow>
     compile_error + string \<times> (string, string) dict \<times> string option" where
  "parse_conditional_config [] path mapping dflt =
    (case (path, mapping) of (Some p, Some m) \<Rightarrow> Inr (p, m, dflt) | _ \<Rightarrow> Inl ConditionalIncomplete)"
| "parse_conditional_config (kv # kvs) path mapping dflt =
    (case fst kv of
       Some (Const (CStr k)) \<Rightarrow>
         if k = ''path'' then
           seqE (as_string (snd kv)) (\<lambda>p. parse_conditional_config kvs (Some p) mapping dflt)
         else if k = ''mapping'' then
           seqE (parse_conditional_mapping (snd kv)) (\<lambda>m. parse_conditional_config kvs path (Some m) dflt)
         else if k = ''default'' then
           (if is_none (snd kv) then parse_conditional_config kvs path mapping None
            else seqE (vertex_from_expr (snd kv)) (\<lambda>t. parse_conditional_config kvs path mapping (Some t)))
         else Inl ConditionalKey
     | _ \<Rightarrow> Inl ConditionalKey)"

definition interpret_conditional_edge :: "expr list \<Rightarrow> compile_error + conditional_edge_spec" where
  "interpret_conditional_edge args =
    (case args of
       [s, DictE kvs] \<Rightarrow> seqE (as_string s) (\<lambda>source.
         seqE (parse_conditional_config kvs None None None) (\<lambda>(path, mapping, dflt).
           Inr \<lparr>ce_source = source, ce_path = path, ce_mapping = mapping, ce_default = dflt\<rparr>))
     | _ \<Rightarrow> Inl ConditionalShape)"

end
