(* ===== verification/Ir_Compile.thy ===== *)
theory Ir_Compile
  imports Ir_Interpreter
begin

text \<open>
  The second half of the interpreter (\<open>graph/ir/interpreter.py\<close>): configurations of nodes, workflow tools,
  the statements of a graph builder, the resolution of nested graphs and the compilation of a module.
\<close>

section \<open>Symbols imported from the platform\<close>

definition imported_symbol ::
    "interp_env \<Rightarrow> (string, string \<times> string) dict \<Rightarrow> string \<Rightarrow> compile_error + (string \<times> string \<times> imported) option" where
  "imported_symbol env imports n =
    (case dict_get imports n of
       None \<Rightarrow> Inr None
     | Some (m, a) \<Rightarrow> (case ie_import env m a of
           ModuleMissing \<Rightarrow> Inl (ImportFailed m a)
         | i \<Rightarrow> Inr (Some (m, a, i))))"

definition imported_schema_json_schema ::
    "interp_env \<Rightarrow> (string, string \<times> string) dict \<Rightarrow> string \<Rightarrow> compile_error + pyval option" where
  "imported_schema_json_schema env imports n =
    seqE (imported_symbol env imports n) (\<lambda>r. Inr (case r of
        Some (_, _, BaseModelClass s) \<Rightarrow> Some s
      | Some (_, _, ModelClass s) \<Rightarrow> Some s
      | _ \<Rightarrow> None))"

definition model_marker :: "string \<Rightarrow> string \<Rightarrow> pyval" where
  "model_marker m a =
    PDict [(ir_config_kind_key, PStr pydantic_model_kind), (''module'', PStr m), (''name'', PStr a)]"

definition imported_model_ref ::
    "interp_env \<Rightarrow> (string, string \<times> string) dict \<Rightarrow> string \<Rightarrow> compile_error + pyval option" where
  "imported_model_ref env imports n =
    seqE (imported_symbol env imports n) (\<lambda>r. Inr (case r of
        Some (m, a, ModelClass s) \<Rightarrow> Some (model_marker m a)
      | _ \<Rightarrow> None))"

section \<open>Configuration values\<close>

definition literal_value :: "bool \<Rightarrow> expr \<Rightarrow> compile_error + pyval" where
  "literal_value ac e =
    seqE (in_grammar (lift_config (validate_config_value ac e))) (\<lambda>_. in_grammar (lift_config (literal_from_ast e)))"

definition schema_or_literal :: "interp_env \<Rightarrow> compile_context \<Rightarrow> expr \<Rightarrow> compile_error + pyval" where
  "schema_or_literal env cx e =
    (case e of
       Name n \<Rightarrow>
         if dict_get (cx_schemas cx) n \<noteq> None
         then in_schema (schema_json_schema (ie_schema env) n (cx_schemas cx))
         else seqE (imported_schema_json_schema env (cx_imports cx) n) (\<lambda>r.
           case r of Some s \<Rightarrow> Inr s | None \<Rightarrow> literal_value False e)
     | _ \<Rightarrow> literal_value False e)"

text \<open>\<open>imports\<close> is given for built-in nodes only, whose configuration may name model classes.\<close>

fun config_value ::
      "interp_env \<Rightarrow> (string, string \<times> string) dict option \<Rightarrow> bool \<Rightarrow> expr \<Rightarrow> compile_error + pyval"
  and config_values ::
      "interp_env \<Rightarrow> (string, string \<times> string) dict option \<Rightarrow> bool \<Rightarrow> expr list \<Rightarrow> compile_error + pyval list"
  and config_dict ::
      "interp_env \<Rightarrow> (string, string \<times> string) dict option \<Rightarrow> bool \<Rightarrow> expr \<Rightarrow> (expr option \<times> expr) list \<Rightarrow>
       (string, pyval) dict \<Rightarrow> compile_error + (string, pyval) dict" where
  "config_value env imports ac (ListE es) = seqE (config_values env imports ac es) (\<lambda>vs. Inr (PList vs))"
| "config_value env imports ac (TupleE es) = seqE (config_values env imports ac es) (\<lambda>vs. Inr (PList vs))"
| "config_value env imports ac (DictE kvs) =
    seqE (config_dict env imports ac (DictE kvs) kvs []) (\<lambda>d. Inr (PDict d))"
| "config_value env imports ac (Name n) =
    (case imports of
       None \<Rightarrow> literal_value ac (Name n)
     | Some im \<Rightarrow> seqE (imported_model_ref env im n) (\<lambda>r.
         case r of Some marker \<Rightarrow> Inr marker | None \<Rightarrow> literal_value ac (Name n)))"
| "config_value env imports ac e = literal_value ac e"
| "config_values env imports ac [] = Inr []"
| "config_values env imports ac (e # es) =
    seqE (config_value env imports ac e) (\<lambda>v. seqE (config_values env imports ac es) (\<lambda>vs. Inr (v # vs)))"
| "config_dict env imports ac whole [] d = Inr d"
| "config_dict env imports ac whole (kv # kvs) d =
    (case fst kv of
       Some (Const (CStr k)) \<Rightarrow>
         seqE (config_value env imports ac (snd kv)) (\<lambda>v. config_dict env imports ac whole kvs (dict_set k v d))
     | _ \<Rightarrow> seqE (in_grammar (lift_config (validate_config_value ac whole))) (\<lambda>_. Inl AssertionReached))"

section \<open>Workflow tools\<close>

definition resolve_graph_ref :: "graphs \<Rightarrow> expr \<Rightarrow> compile_error + string option" where
  "resolve_graph_ref gs e =
    (case e of
       Name n \<Rightarrow> Inr (if dict_get gs n \<noteq> None then Some n else None)
     | Call (Attribute (Name n) a) args kws \<Rightarrow>
         if a = ''compile'' \<and> dict_get gs n \<noteq> None
         then (if args \<noteq> [] \<or> kws \<noteq> [] then Inl CompileArguments else Inr (Some n))
         else Inr None
     | _ \<Rightarrow> Inr None)"

definition tool_keywords :: "string list" where
  "tool_keywords = [''name'', ''description'', ''graph'', ''args_schema'', ''output_path'', ''return_direct'']"

definition workflow_tool_kwargs :: "expr \<Rightarrow> compile_error + (string, expr) dict" where
  "workflow_tool_kwargs e =
    (case e of
       Call f args kws \<Rightarrow>
         if f = Name ''WorkflowTool''
         then (if args \<noteq> [] then Inl (PositionalArguments ''WorkflowTool'') else keyword_map tool_keywords kws [])
         else Inl ToolShape
     | DictE kvs \<Rightarrow> dict_keyword_map tool_keywords kvs []
     | _ \<Rightarrow> Inl ToolShape)"

definition workflow_tool_graph_ref ::
    "compile_context \<Rightarrow> helper \<Rightarrow> graphs \<Rightarrow> expr \<Rightarrow> helper_cache \<Rightarrow> compile_error + tool_graph_ref \<times> helper_cache" where
  "workflow_tool_graph_ref cx helper gs e cache =
    seqE (resolve_graph_ref gs e) (\<lambda>r. case r of
        Some n \<Rightarrow> Inr (GraphVariable n, cache)
      | None \<Rightarrow> (case e of
          Call (Name b) args kws \<Rightarrow>
            if dict_get (cx_builders cx) b = None then Inl ToolGraphInvalid
            else if args \<noteq> [] \<or> kws \<noteq> [] then Inl (PositionalArguments b)
            else seqE (helper b cache) (\<lambda>(ir, cache'). Inr (HelperGraph ir, cache'))
        | _ \<Rightarrow> Inl ToolGraphInvalid))"

definition workflow_tool ::
    "interp_env \<Rightarrow> compile_context \<Rightarrow> helper \<Rightarrow> graphs \<Rightarrow> expr \<Rightarrow> helper_cache \<Rightarrow>
     compile_error + workflow_tool_ref \<times> helper_cache" where
  "workflow_tool env cx helper gs e cache =
    seqE (workflow_tool_kwargs e) (\<lambda>kws.
    seqE (required_string_kwarg kws ''name'') (\<lambda>name.
    seqE (required_string_kwarg kws ''description'') (\<lambda>description.
    seqE (required_kwarg kws ''graph'') (\<lambda>graph_expr.
    seqE (workflow_tool_graph_ref cx helper gs graph_expr cache) (\<lambda>(graph, cache').
    seqE (case dict_get kws ''output_path'' of
        None \<Rightarrow> Inr None
      | Some x \<Rightarrow> if is_none x then Inr None else seqE (as_string x) (\<lambda>s. Inr (Some s))) (\<lambda>output_path.
    seqE (case dict_get kws ''args_schema'' of
        None \<Rightarrow> Inr PNone
      | Some x \<Rightarrow> if is_none x then Inr PNone else schema_or_literal env cx x) (\<lambda>args_schema.
    seqE (case dict_get kws ''return_direct'' of None \<Rightarrow> Inr False | Some x \<Rightarrow> as_bool x) (\<lambda>return_direct.
      Inr (\<lparr>wt_name = name, wt_description = description, wt_graph = graph, wt_args_schema = args_schema,
        wt_output_path = output_path, wt_return_direct = return_direct\<rparr>, cache')))))))))"

fun workflow_tool_items ::
    "interp_env \<Rightarrow> compile_context \<Rightarrow> helper \<Rightarrow> graphs \<Rightarrow> expr list \<Rightarrow> helper_cache \<Rightarrow>
     compile_error + workflow_tool_ref list \<times> helper_cache" where
  "workflow_tool_items env cx helper gs [] cache = Inr ([], cache)"
| "workflow_tool_items env cx helper gs (e # es) cache =
    seqE (workflow_tool env cx helper gs e cache) (\<lambda>(t, cache').
      seqE (workflow_tool_items env cx helper gs es cache') (\<lambda>(ts, cache''). Inr (t # ts, cache'')))"

definition workflow_tools ::
    "interp_env \<Rightarrow> compile_context \<Rightarrow> helper \<Rightarrow> graphs \<Rightarrow> expr \<Rightarrow> helper_cache \<Rightarrow>
     compile_error + workflow_tool_ref list \<times> helper_cache" where
  "workflow_tools env cx helper gs e cache =
    (case e of
       ListE es \<Rightarrow> workflow_tool_items env cx helper gs es cache
     | TupleE es \<Rightarrow> workflow_tool_items env cx helper gs es cache
     | _ \<Rightarrow> Inl ToolsNotList)"

section \<open>Nodes\<close>

fun builtin_config ::
    "interp_env \<Rightarrow> compile_context \<Rightarrow> helper \<Rightarrow> graphs \<Rightarrow> (string option \<times> expr) list \<Rightarrow>
     (string, config_entry) dict \<Rightarrow> helper_cache \<Rightarrow> compile_error + (string, config_entry) dict \<times> helper_cache" where
  "builtin_config env cx helper gs [] config cache = Inr (config, cache)"
| "builtin_config env cx helper gs (kw # kws) config cache =
    (case fst kw of
       None \<Rightarrow> Inl KeywordUnpacking
     | Some k \<Rightarrow>
         if k = ''name'' then builtin_config env cx helper gs kws config cache
         else if k = ''workflow_tools'' then
           seqE (workflow_tools env cx helper gs (snd kw) cache) (\<lambda>(ts, cache').
             builtin_config env cx helper gs kws (dict_set k (Tools ts) config) cache')
         else seqE (if k = ''response_format'' then schema_or_literal env cx (snd kw)
             else config_value env (Some (cx_imports cx)) True (snd kw)) (\<lambda>v.
           builtin_config env cx helper gs kws (dict_set k (Plain v) config) cache))"

fun code_config ::
    "interp_env \<Rightarrow> (string option \<times> expr) list \<Rightarrow> (string, pyval) dict \<Rightarrow> compile_error + (string, pyval) dict" where
  "code_config env [] config = Inr config"
| "code_config env (kw # kws) config =
    (case fst kw of
       None \<Rightarrow> Inl KeywordUnpacking
     | Some k \<Rightarrow>
         if k = ''name'' then code_config env kws config
         else seqE (config_value env None False (snd kw)) (\<lambda>v. code_config env kws (dict_set k v config)))"

definition build_code_spec ::
    "interp_env \<Rightarrow> string \<Rightarrow> (string option \<times> expr) list \<Rightarrow> code_class \<Rightarrow> compile_error + pending_node" where
  "build_code_spec env i kws c =
    seqE (code_config env kws []) (\<lambda>kwargs.
      let config = dict_union (cc_defaults c) kwargs;
          injected = sort (remdups (cc_declared c @ dict_keys kwargs))
      in seqE (in_grammar (validate_code_body i injected (cc_args c) (cc_body c))) (\<lambda>_.
         seqE (in_grammar (validate_body_builtins (ie_policed env) i (cc_args c) (cc_body c))) (\<lambda>_.
           Inr (PendingCode i config injected (cc_text c)))))"

definition build_builtin_spec ::
    "interp_env \<Rightarrow> compile_context \<Rightarrow> helper \<Rightarrow> graphs \<Rightarrow> string \<Rightarrow> string \<Rightarrow> (string option \<times> expr) list \<Rightarrow> helper_cache \<Rightarrow>
     compile_error + pending_node \<times> helper_cache" where
  "build_builtin_spec env cx helper gs i class_name kws cache =
    (if \<not> ie_registered env class_name then Inl (UnknownNodeClass class_name)
     else if cx_enforce_policy cx \<and> ie_restricted env class_name then Inl (NodeRestricted i class_name)
     else seqE (builtin_config env cx helper gs kws [] cache) (\<lambda>(config, cache').
       Inr (PendingBuiltin i class_name config, cache')))"

fun name_kwarg :: "(string option \<times> expr) list \<Rightarrow> compile_error + string" where
  "name_kwarg [] = Inl NodeNameMissing"
| "name_kwarg (kw # kws) = (if fst kw = Some ''name'' then as_string (snd kw) else name_kwarg kws)"

definition resolve_node_expr :: "(string, expr) dict \<Rightarrow> expr \<Rightarrow> compile_error + expr" where
  "resolve_node_expr assigned e =
    (case e of
       Call f args kws \<Rightarrow> Inr e
     | Name n \<Rightarrow> Inr (case dict_get assigned n of Some c \<Rightarrow> c | None \<Rightarrow> e)
     | _ \<Rightarrow> Inl AddNodeTarget)"

definition resolve_add_node_args :: "(string, expr) dict \<Rightarrow> expr list \<Rightarrow> compile_error + string \<times> expr" where
  "resolve_add_node_args assigned args =
    (case args of
       [i, n] \<Rightarrow> seqE (as_string i) (\<lambda>node_id. seqE (resolve_node_expr assigned n) (\<lambda>e. Inr (node_id, e)))
     | [n] \<Rightarrow> seqE (resolve_node_expr assigned n) (\<lambda>e. case e of
           Call f as kws \<Rightarrow> seqE (name_kwarg kws) (\<lambda>node_id. Inr (node_id, e))
         | _ \<Rightarrow> Inl NodeNameMissing)
     | _ \<Rightarrow> Inl AddNodeArguments)"

text \<open>The node an expression stands for.\<close>

definition interpret_node ::
    "interp_env \<Rightarrow> compile_context \<Rightarrow> helper \<Rightarrow> graphs \<Rightarrow> string \<Rightarrow> expr \<Rightarrow> helper_cache \<Rightarrow>
     compile_error + pending_node \<times> helper_cache" where
  "interpret_node env cx helper gs i e cache =
    seqE (resolve_graph_ref gs e) (\<lambda>r. case r of
        Some g \<Rightarrow> Inr (PendingSubgraph i g, cache)
      | None \<Rightarrow> (case e of
          Call (Name class_name) args kws \<Rightarrow>
            if args \<noteq> [] then Inl (PositionalArguments i)
            else (case dict_get (cx_code_classes cx) class_name of
                Some c \<Rightarrow> seqE (build_code_spec env i kws c) (\<lambda>n. Inr (n, cache))
              | None \<Rightarrow> build_builtin_spec env cx helper gs i class_name kws cache)
        | Call _ _ _ \<Rightarrow> Inl (NotNodeClass i)
        | _ \<Rightarrow> Inl AddNodeTarget))"

section \<open>Statements of a graph builder\<close>

record interp_state =
  is_graphs :: graphs
  is_assigned :: "(string, expr) dict"
  is_seen :: "(string, string list) dict"
  is_cache :: helper_cache

definition seen_ids :: "interp_state \<Rightarrow> string \<Rightarrow> string list" where
  "seen_ids st g = (case dict_get (is_seen st) g of Some ids \<Rightarrow> ids | None \<Rightarrow> [])"

definition put_graph :: "string \<Rightarrow> workflow_acc \<Rightarrow> interp_state \<Rightarrow> interp_state" where
  "put_graph g w st = st\<lparr>is_graphs := dict_set g w (is_graphs st)\<rparr>"

definition interpret_add_node ::
    "interp_env \<Rightarrow> compile_context \<Rightarrow> helper \<Rightarrow> string \<Rightarrow> workflow_acc \<Rightarrow> expr list \<Rightarrow> interp_state \<Rightarrow>
     compile_error + interp_state" where
  "interpret_add_node env cx helper g w args st =
    seqE (resolve_add_node_args (is_assigned st) args) (\<lambda>(i, e).
      if i \<in> set (seen_ids st g) then Inl (NodeIdTaken i)
      else seqE (interpret_node env cx helper (is_graphs st) i e (is_cache st)) (\<lambda>(n, cache').
        Inr (put_graph g (w\<lparr>wa_nodes := wa_nodes w @ [n]\<rparr>)
          (st\<lparr>is_seen := dict_set g (seen_ids st g @ [i]) (is_seen st), is_cache := cache'\<rparr>))))"

definition interpret_graph_call ::
    "interp_env \<Rightarrow> compile_context \<Rightarrow> helper \<Rightarrow> expr \<Rightarrow> expr list \<Rightarrow> interp_state \<Rightarrow> compile_error + interp_state" where
  "interpret_graph_call env cx helper f args st =
    (case f of
       Attribute (Name g) m \<Rightarrow>
         (case dict_get (is_graphs st) g of
            None \<Rightarrow> Inl (NotGraphVariable g)
          | Some w \<Rightarrow>
              if m = ''add_node'' then interpret_add_node env cx helper g w args st
              else if m = ''add_edge'' then
                seqE (interpret_add_edge args) (\<lambda>e. Inr (put_graph g (w\<lparr>wa_edges := wa_edges w @ [e]\<rparr>) st))
              else if m = ''add_conditional_edges'' then
                seqE (interpret_conditional_edge args) (\<lambda>c.
                  Inr (put_graph g (w\<lparr>wa_conditional := wa_conditional w @ [c]\<rparr>) st))
              else if m = ''set_entry_point'' then
                seqE (string_arg args 0) (\<lambda>s. Inr (put_graph g (w\<lparr>wa_entry_override := Some s\<rparr>) st))
              else if m = ''set_finish_point'' then
                seqE (string_arg args 0) (\<lambda>s.
                  Inr (put_graph g (w\<lparr>wa_edges := wa_edges w @ [\<lparr>es_source = s, es_target = END\<rparr>]\<rparr>) st))
              else Inr st)
     | _ \<Rightarrow> Inr st)"

definition return_graph_name :: "expr option \<Rightarrow> string option" where
  "return_graph_name v =
    (case v of
       Some (Name n) \<Rightarrow> Some n
     | Some (Call (Attribute (Name n) a) args kws) \<Rightarrow> if a = ''compile'' then Some n else None
     | _ \<Rightarrow> None)"

definition interpret_assign :: "expr list \<Rightarrow> expr \<Rightarrow> expr \<Rightarrow> interp_state \<Rightarrow> compile_error + interp_state" where
  "interpret_assign targets f call st =
    (case targets of
       StoredName x # _ \<Rightarrow>
         if f = Name ''StateGraph'' then
           (if dict_get (is_graphs st) x \<noteq> None then Inl (GraphReassigned x)
            else Inr (put_graph x empty_workflow (st\<lparr>is_seen := dict_set x [] (is_seen st)\<rparr>)))
         else Inr (st\<lparr>is_assigned := dict_set x call (is_assigned st)\<rparr>)
     | _ \<Rightarrow> Inr st)"

text \<open>Interpretation stops at the first return statement.\<close>

fun interpret_stmts ::
    "interp_env \<Rightarrow> compile_context \<Rightarrow> helper \<Rightarrow> stmt list \<Rightarrow> interp_state \<Rightarrow>
     compile_error + string option \<times> interp_state" where
  "interpret_stmts env cx helper [] st = Inr (None, st)"
| "interpret_stmts env cx helper (s # ss) st =
    (case s of
       Assign targets (Call f args kws) \<Rightarrow>
         seqE (interpret_assign targets f (Call f args kws) st) (interpret_stmts env cx helper ss)
     | ExprS (Call f args kws) \<Rightarrow>
         seqE (interpret_graph_call env cx helper f args st) (interpret_stmts env cx helper ss)
     | Return v \<Rightarrow> (case return_graph_name v of Some n \<Rightarrow> Inr (Some n, st) | None \<Rightarrow> Inl (InGrammar (BuilderReturn [])))
     | _ \<Rightarrow> interpret_stmts env cx helper ss st)"

definition interpret_graph_builder ::
    "interp_env \<Rightarrow> compile_context \<Rightarrow> helper \<Rightarrow> string \<Rightarrow> stmt list \<Rightarrow> helper_cache \<Rightarrow>
     compile_error + string \<times> graphs \<times> helper_cache" where
  "interpret_graph_builder env cx helper name body cache =
    seqE (interpret_stmts env cx helper body \<lparr>is_graphs = [], is_assigned = [], is_seen = [], is_cache = cache\<rparr>)
      (\<lambda>(rt, st). case rt of
         None \<Rightarrow> Inl (NoReturnedGraph name)
       | Some n \<Rightarrow> if dict_get (is_graphs st) n = None then Inl (ReturnedUnknown n) else Inr (n, is_graphs st, is_cache st))"

section \<open>Nested graphs\<close>

definition resolve_entrypoint_name :: "workflow_acc \<Rightarrow> compile_error + string" where
  "resolve_entrypoint_name w =
    (case find (\<lambda>e. es_source e = START) (wa_edges w) of
       Some e \<Rightarrow> Inr (es_target e)
     | None \<Rightarrow> (case wa_entry_override w of Some s \<Rightarrow> Inr s | None \<Rightarrow> Inl NoEntrypointEdge))"

definition tool_config :: "workflow_tool_ref \<Rightarrow> graph_ir \<Rightarrow> pyval" where
  "tool_config t g =
    PDict ([(ir_config_kind_key, PStr workflow_tool_kind), (''name'', PStr (wt_name t)),
       (''description'', PStr (wt_description t)), (''graph'', graph_to_json g),
       (''output_path'', case wt_output_path t of Some s \<Rightarrow> PStr s | None \<Rightarrow> PNone),
       (''return_direct'', PBool (wt_return_direct t))] @
      (if wt_args_schema t = PNone then [] else [(''args_schema'', wt_args_schema t)]))"

lemma collectE_cong [fundef_cong]:
  "xs = ys \<Longrightarrow> (\<And>x. x \<in> set ys \<Longrightarrow> f x = g x) \<Longrightarrow> collectE f xs = collectE g ys"
  by (induction xs arbitrary: ys) auto

text \<open>\<open>nested\<close> resolves a graph variable one level further down.\<close>

definition resolve_tool :: "(string \<Rightarrow> compile_error + graph_ir) \<Rightarrow> workflow_tool_ref \<Rightarrow> compile_error + pyval" where
  "resolve_tool nested t =
    (case wt_graph t of
       GraphVariable n \<Rightarrow> seqE (nested n) (\<lambda>g. Inr (tool_config t g))
     | HelperGraph g \<Rightarrow> Inr (tool_config t g))"

definition resolve_config_entry ::
    "(string \<Rightarrow> compile_error + graph_ir) \<Rightarrow> string \<times> config_entry \<Rightarrow> compile_error + string \<times> pyval" where
  "resolve_config_entry nested kv =
    (case snd kv of
       Plain v \<Rightarrow> Inr (fst kv, v)
     | Tools ts \<Rightarrow> seqE (collectE (resolve_tool nested) ts) (\<lambda>vs. Inr (fst kv, PList vs)))"

definition resolve_pending :: "(string \<Rightarrow> compile_error + graph_ir) \<Rightarrow> pending_node \<Rightarrow> compile_error + node_spec" where
  "resolve_pending nested n =
    (case n of
       PendingSubgraph i g \<Rightarrow> seqE (nested g) (\<lambda>ir. Inr (SubgraphNode i ir))
     | PendingBuiltin i t config \<Rightarrow>
         seqE (collectE (resolve_config_entry nested) config) (\<lambda>c. Inr (BuiltinNode i t c))
     | PendingCode i config injected body \<Rightarrow> Inr (CodeNode i config injected body))"

function workflow_to_ir :: "graphs \<Rightarrow> string list \<Rightarrow> string \<Rightarrow> compile_error + graph_ir" where
  "workflow_to_ir gs stack g =
    (if length stack \<ge> max_graph_depth then Inl DepthLimit
     else if g \<in> set stack then Inl (GraphCycle (stack @ [g]))
     else (case dict_get gs g of
         None \<Rightarrow> Inl (UnknownGraph g)
       | Some w \<Rightarrow>
           seqE (collectE (resolve_pending (workflow_to_ir gs (stack @ [g]))) (wa_nodes w)) (\<lambda>ns.
             seqE (resolve_entrypoint_name w) (\<lambda>e.
               Inr (GraphIR current_schema_version default_state_ref e ns (wa_edges w) (wa_conditional w))))))"
  by pat_completeness auto
termination
  by (relation "measure (\<lambda>(gs, stack, g). max_graph_depth - length stack)") auto

declare workflow_to_ir.simps [simp del]

section \<open>Modules\<close>

function helper_graph_ir ::
    "interp_env \<Rightarrow> compile_context \<Rightarrow> string list \<Rightarrow> string \<Rightarrow> helper_cache \<Rightarrow> compile_error + graph_ir \<times> helper_cache" where
  "helper_graph_ir env cx stack name cache =
    (case dict_get cache name of
       Some ir \<Rightarrow> Inr (ir, cache)
     | None \<Rightarrow>
         (case dict_get (cx_builders cx) name of
            None \<Rightarrow> Inl (UnknownBuilder name)
          | Some body \<Rightarrow>
              if name \<in> set stack then Inl (HelperCycle (stack @ [name]))
              else seqE (interpret_graph_builder env cx (helper_graph_ir env cx (stack @ [name])) name body cache)
                (\<lambda>(root, gs, cache'). seqE (workflow_to_ir gs [] root) (\<lambda>ir. Inr (ir, dict_set name ir cache')))))"
  by pat_completeness auto
termination
  by (relation "measure (\<lambda>(env, cx, stack, name, cache). card (fst ` set (cx_builders cx) - set stack))")
    (simp, simp only: in_measure case_prod_conv, rule fewer_names_left)

declare helper_graph_ir.simps [simp del]

definition compile_workflow_to_ir :: "interp_env \<Rightarrow> bool \<Rightarrow> stmt list \<Rightarrow> compile_error + graph_ir" where
  "compile_workflow_to_ir env enforce_node_policy stmts =
    seqE (in_grammar (validate_grammar stmts)) (\<lambda>_.
    seqE (collect_code_node_classes env (enumerate 0 stmts) []) (\<lambda>classes.
      let cx = \<lparr>cx_code_classes = classes, cx_builders = collect_graph_builders stmts,
            cx_schemas = collect_schema_classes stmts, cx_imports = collect_imported_symbols stmts,
            cx_enforce_policy = enforce_node_policy\<rparr>
      in (case dict_get (cx_builders cx) ''orcheo_workflow'' of
            None \<Rightarrow> Inl (InGrammar NoEntrypoint)
          | Some body \<Rightarrow>
              seqE (interpret_graph_builder env cx (helper_graph_ir env cx []) ''orcheo_workflow'' body [])
                (\<lambda>(root, gs, _). seqE (workflow_to_ir gs [] root) (\<lambda>ir.
                  in_ir (validate_ir (ie_registered env) (ie_lax env) (Inl ir)))))))"

end
