(* ===== verification/Ir_Compile_Laws.thy ===== *)
theory Ir_Compile_Laws
  imports Ir_Compile Graph_IR_Laws Ir_Config_Laws
begin

text \<open>
  Properties of the compilation of scripts: which nodes a compiled representation can hold, that it
  describes exactly the calls of the script, that nesting is acyclic and bounded, and the way around the
  node policy.
\<close>

section \<open>A forged tool\<close>

definition entry_args :: arguments where
  "entry_args = \<lparr>pos_args = [], kwonly_args = [], star_args = [], arg_exprs = []\<rparr>"

definition text_expr :: "string \<Rightarrow> expr" where "text_expr s = Const (CStr s)"

definition dict_expr :: "(string \<times> expr) list \<Rightarrow> expr" where
  "dict_expr kvs = DictE (map (\<lambda>(k, v). (Some (text_expr k), v)) kvs)"

definition sample_interp :: interp_env where
  "sample_interp = \<lparr>ie_registered = (\<lambda>t. t \<in> {''AgentNode'', ''PostgresNode''}),
     ie_restricted = (\<lambda>t. t = ''PostgresNode''), ie_policed = [''eval''], ie_import = (\<lambda>_ _. NotModel),
     ie_schema = \<lparr>se_create = \<lambda>_ _. True, se_render = \<lambda>_. None\<rparr>, ie_body_text = (\<lambda>_. ''return 1''),
     ie_lax = int_only\<rparr>"

definition one_node_script :: "(string \<times> expr) list \<Rightarrow> string \<Rightarrow> stmt list" where
  "one_node_script kws class_name =
    [FunctionDef False ''orcheo_workflow'' [] entry_args
      [Assign [StoredName ''g''] (Call (Name ''StateGraph'') [Name ''State''] []),
       ExprS (Call (Attribute (Name ''g'') ''add_node'')
         [text_expr ''a'', Call (Name class_name) [] (map (\<lambda>(k, v). (Some k, v)) kws)] []),
       ExprS (Call (Attribute (Name ''g'') ''add_edge'') [Name ''START'', text_expr ''a''] []),
       Return (Some (Name ''g''))]]"

definition forged_tool :: expr where
  "forged_tool = dict_expr
     [(''__orcheo_ir_kind__'', text_expr ''workflow_tool''), (''name'', text_expr ''t''), (''description'', text_expr ''d''),
      (''graph'', dict_expr [(''entrypoint'', text_expr ''x''),
         (''nodes'', ListE [dict_expr [(''kind'', text_expr ''builtin''), (''id'', text_expr ''x''),
            (''type'', text_expr ''PostgresNode'')]])])]"

definition forged_graph :: graph_ir where
  "forged_graph = GraphIR 1 default_state_ref ''x'' [BuiltinNode ''x'' ''PostgresNode'' []] [] []"

lemma restricted_refused:
  "compile_workflow_to_ir sample_interp True (one_node_script [] ''PostgresNode'') = Inl (NodeRestricted ''a'' ''PostgresNode'')"
  by code_simp

lemma forged_compiles:
  "\<exists>c. compile_workflow_to_ir sample_interp True (one_node_script [(''context'', forged_tool)] ''AgentNode'') =
     Inr (GraphIR 1 default_state_ref ''a'' [BuiltinNode ''a'' ''AgentNode'' [(''context'', PDict c)]]
       [\<lparr>es_source = START, es_target = ''a''\<rparr>] []) \<and> is_tool c \<and> tool_graph int_only c = Inr forged_graph"
proof -
  let ?ir = "compile_workflow_to_ir sample_interp True (one_node_script [(''context'', forged_tool)] ''AgentNode'')"
  let ?c = "[(''__orcheo_ir_kind__'', PStr ''workflow_tool''), (''name'', PStr ''t''), (''description'', PStr ''d''),
      (''graph'', PDict [(''entrypoint'', PStr ''x''),
         (''nodes'', PList [PDict [(''kind'', PStr ''builtin''), (''id'', PStr ''x''), (''type'', PStr ''PostgresNode'')]])])]"
  have "?ir = Inr (GraphIR 1 default_state_ref ''a'' [BuiltinNode ''a'' ''AgentNode'' [(''context'', PDict ?c)]]
       [\<lparr>es_source = START, es_target = ''a''\<rparr>] [])"
    by code_simp
  moreover have "is_tool ?c" by code_simp
  moreover have "tool_graph int_only ?c = Inr forged_graph" by code_simp
  ultimately show ?thesis by (intro exI [of _ ?c] conjI)
qed

section \<open>Nodes of a compiled representation\<close>

lemma in_grammar_ok [simp]: "in_grammar r = Inr v \<longleftrightarrow> r = Inr v"
  by (auto simp: in_grammar_def split: sum.splits)

lemma in_ir_ok [simp]: "in_ir r = Inr v \<longleftrightarrow> r = Inr v"
  by (auto simp: in_ir_def split: sum.splits)

lemma in_grammar_Inr [simp]: "in_grammar (Inr v) = Inr v"
  by (simp add: in_grammar_def)

declare lift_config_ok [simp]

lemma validated_free:
  assumes "check_value False e = Inr ()" "literal_from_ast e = Inr v"
  shows "credential_free v"
  using checked_value(1) [OF assms(1)] assms(2) by (auto simp: evaluates_def literal_from_ast_def split: if_splits)

lemma literal_value_free: "literal_value False e = Inr v \<Longrightarrow> credential_free v"
  using validated_free by (auto simp: literal_value_def seqE_Inr_iff validate_config_value_def)

lemma config_value_free:
  "imports = None \<Longrightarrow> ac = False \<Longrightarrow> config_value env imports ac e = Inr v \<Longrightarrow> credential_free v"
  "imports = None \<Longrightarrow> ac = False \<Longrightarrow> config_values env imports ac es = Inr vs \<Longrightarrow> list_all credential_free vs"
  "imports = None \<Longrightarrow> ac = False \<Longrightarrow> entries_free d \<Longrightarrow> config_dict env imports ac w kvs d = Inr d' \<Longrightarrow> entries_free d'"
proof (induction env "imports" ac e and env "imports" ac es and env "imports" ac w kvs d arbitrary: v and vs and d'
    rule: config_value_config_values_config_dict.induct)
  case (3 env "imports" ac kvs)
  then show ?case by (auto simp: seqE_Inr_iff entries_free_def)
next
  case (9 env "imports" ac w kv kvs d)
  then show ?case
    by (auto simp: seqE_Inr_iff entries_free_set split: option.splits expr.splits const.splits)
qed (auto simp: seqE_Inr_iff literal_value_free)

lemma code_config_free: "entries_free d \<Longrightarrow> code_config env kws d = Inr d' \<Longrightarrow> entries_free d'"
proof (induction kws arbitrary: d)
  case (Cons kw kws)
  then show ?case
    by (auto simp: seqE_Inr_iff split: option.splits if_splits intro: entries_free_set config_value_free(1) [OF refl refl])
qed simp

lemma entries_free_Cons [simp]: "entries_free ((k, v) # d) \<longleftrightarrow> credential_free v \<and> entries_free d"
  by (simp add: entries_free_def)

lemma entries_free_union: "entries_free a \<Longrightarrow> entries_free b \<Longrightarrow> entries_free (dict_union a b)"
  unfolding dict_union_def
proof (induction b arbitrary: a)
  case (Cons kv b)
  then show ?case by (cases kv) (simp add: entries_free_set)
qed simp

lemma member_default_free:
  "inert_member (AnnAssign t a (Some e)) \<Longrightarrow> literal_from_ast e = Inr w \<Longrightarrow> credential_free w"
  "inert_member (Assign ts e) \<Longrightarrow> literal_from_ast e = Inr w \<Longrightarrow> credential_free w"
  using validated_free [of e w] by (auto simp: inert_member_def literal_from_ast_def)

lemma collect_members_free:
  "entries_free d \<Longrightarrow> \<forall>m \<in> set ms. inert_member m \<Longrightarrow> collect_members ms d decl run = Inr (d', decl', run') \<Longrightarrow>
    entries_free d'"
proof (induction ms d decl run rule: collect_members.induct)
  case (2 t a v ms d decl run)
  then show ?case
    using entries_free_set member_default_free(1) by (auto simp: seqE_Inr_iff split: expr.splits option.splits)
next
  case (3 ts e ms d decl run)
  then show ?case
    using entries_free_set member_default_free(2) by (auto simp: seqE_Inr_iff split: expr.splits list.splits)
qed auto

definition classes_free :: "(string, code_class) dict \<Rightarrow> bool" where
  "classes_free classes \<longleftrightarrow> (\<forall>n c. dict_get classes n = Some c \<longrightarrow> entries_free (cc_defaults c))"

lemma collect_classes_free:
  "classes_free classes \<Longrightarrow> \<forall>(i, s) \<in> set iss. inert_module_stmt s \<Longrightarrow>
    collect_code_node_classes env iss classes = Inr classes' \<Longrightarrow> classes_free classes'"
proof (induction env iss classes rule: collect_code_node_classes.induct)
  case (2 env i s ss classes)
  show ?case
  proof (cases "\<exists>n bases kws ds body. s = ClassDef n bases kws ds body \<and> \<not> is_schema_class bases")
    case True
    then obtain n bases kws ds body where s: "s = ClassDef n bases kws ds body" "\<not> is_schema_class bases" by blast
    with "2.prems"(3) obtain defaults declared args run where
      c: "collect_members body [] [] None = Inr (defaults, declared, Some (args, run))"
      and rest: "collect_code_node_classes env ss (dict_set n \<lparr>cc_args = args, cc_body = run,
                 cc_text = ie_body_text env i, cc_defaults = defaults, cc_declared = declared\<rparr> classes) = Inr classes'"
      by (auto simp: seqE_Inr_iff split: option.splits)
    have "entries_free defaults"
      using collect_members_free [OF _ _ c] "2.prems"(2) s by (auto simp: entries_free_def inert_module_stmt_def)
    then have "classes_free (dict_set n \<lparr>cc_args = args, cc_body = run,
                 cc_text = ie_body_text env i, cc_defaults = defaults, cc_declared = declared\<rparr> classes)"
      using "2.prems"(1) by (auto simp: classes_free_def)
    then show ?thesis using "2.IH" s c rest "2.prems"(2) by simp
  next
    case False
    then show ?thesis using 2 by (auto split: stmt.splits if_splits)
  qed
qed simp

definition checked_code ::
    "interp_env \<Rightarrow> (string, code_class) dict \<Rightarrow> string \<Rightarrow> string list \<Rightarrow> string \<Rightarrow> bool" where
  "checked_code env classes i injected text \<longleftrightarrow>
    (\<exists>name c. dict_get classes name = Some c \<and> text = cc_text c \<and>
       validate_code_body i injected (cc_args c) (cc_body c) = Inr () \<and>
       validate_body_builtins (ie_policed env) i (cc_args c) (cc_body c) = Inr ())"

definition admitted :: "interp_env \<Rightarrow> bool \<Rightarrow> (string, code_class) dict \<Rightarrow> pending_node \<Rightarrow> bool" where
  "admitted env enforce classes n =
    (case n of
       PendingBuiltin i t c \<Rightarrow> ie_registered env t \<and> (enforce \<longrightarrow> \<not> ie_restricted env t)
     | PendingCode i config injected text \<Rightarrow> entries_free config \<and>
         checked_code env classes i injected text
     | PendingSubgraph i g \<Rightarrow> True)"

lemma interpret_node_admitted:
  assumes "interpret_node env cx helper gs i e cache = Inr (n, cache')" "classes_free (cx_code_classes cx)"
  shows "admitted env (cx_enforce_policy cx) (cx_code_classes cx) n \<and> pending_id n = i"
proof -
  consider (sub) g where "n = PendingSubgraph i g"
    | (code) name c kws where "dict_get (cx_code_classes cx) name = Some c" "build_code_spec env i kws c = Inr n"
    | (builtin) name kws where "build_builtin_spec env cx helper gs i name kws cache = Inr (n, cache')"
    using assms(1) by (auto simp: interpret_node_def seqE_Inr_iff split: option.splits expr.splits if_splits)
  then show ?thesis
  proof cases
    case sub
    then show ?thesis by (simp add: admitted_def)
  next
    case code
    then obtain kwargs where k: "code_config env kws [] = Inr kwargs"
      by (auto simp: build_code_spec_def seqE_Inr_iff)
    have "entries_free kwargs" using code_config_free [OF _ k] by (simp add: entries_free_def)
    with assms(2) code(1) have "entries_free (dict_union (cc_defaults c) kwargs)"
      by (auto simp: classes_free_def entries_free_union)
    with code k show ?thesis by (fastforce simp: build_code_spec_def seqE_Inr_iff Let_def admitted_def checked_code_def)
  next
    case builtin
    then show ?thesis by (auto simp: build_builtin_spec_def seqE_Inr_iff admitted_def split: if_splits)
  qed
qed

section \<open>What a script does to a graph\<close>

datatype graph_event =
    NodeAdded string
  | EdgeAdded string string
  | BranchAdded conditional_edge_spec

text \<open>The events of one call of a method of the graph, and of all calls on the graph variable \<open>g\<close> up to the
  first return statement.\<close>

definition call_events :: "(string, expr) dict \<Rightarrow> string \<Rightarrow> expr list \<Rightarrow> graph_event list" where
  "call_events assigned m args =
    (if m = ''add_node'' then
       (case resolve_add_node_args assigned args of Inr (i, e) \<Rightarrow> [NodeAdded i] | Inl _ \<Rightarrow> [])
     else if m = ''add_edge'' then
       (case interpret_add_edge args of Inr e \<Rightarrow> [EdgeAdded (es_source e) (es_target e)] | Inl _ \<Rightarrow> [])
     else if m = ''add_conditional_edges'' then
       (case interpret_conditional_edge args of Inr c \<Rightarrow> [BranchAdded c] | Inl _ \<Rightarrow> [])
     else if m = ''set_finish_point'' then
       (case string_arg args 0 of Inr s \<Rightarrow> [EdgeAdded s END] | Inl _ \<Rightarrow> [])
     else [])"

definition expr_events :: "string \<Rightarrow> (string, expr) dict \<Rightarrow> expr \<Rightarrow> expr list \<Rightarrow> graph_event list" where
  "expr_events g assigned f args =
    (case f of Attribute (Name h) m \<Rightarrow> if h = g then call_events assigned m args else [] | _ \<Rightarrow> [])"

definition assigned_after :: "(string, expr) dict \<Rightarrow> expr list \<Rightarrow> expr \<Rightarrow> expr \<Rightarrow> (string, expr) dict" where
  "assigned_after assigned targets f call =
    (case targets of StoredName x # _ \<Rightarrow> if f = Name ''StateGraph'' then assigned else dict_set x call assigned
     | _ \<Rightarrow> assigned)"

fun performed :: "string \<Rightarrow> (string, expr) dict \<Rightarrow> stmt list \<Rightarrow> graph_event list" where
  "performed g assigned [] = []"
| "performed g assigned (s # ss) =
    (case s of
       Assign targets (Call f args kws) \<Rightarrow> performed g (assigned_after assigned targets f (Call f args kws)) ss
     | ExprS (Call f args kws) \<Rightarrow> expr_events g assigned f args @ performed g assigned ss
     | Return v \<Rightarrow> []
     | _ \<Rightarrow> performed g assigned ss)"

fun returned :: "stmt list \<Rightarrow> string option" where
  "returned [] = None"
| "returned (s # ss) = (case s of Return v \<Rightarrow> return_graph_name v | _ \<Rightarrow> returned ss)"

definition nodes_in :: "graph_event list \<Rightarrow> string list" where
  "nodes_in evs = [i. NodeAdded i \<leftarrow> evs]"

definition edges_in :: "graph_event list \<Rightarrow> edge_spec list" where
  "edges_in evs = [\<lparr>es_source = s, es_target = t\<rparr>. EdgeAdded s t \<leftarrow> evs]"

definition branches_in :: "graph_event list \<Rightarrow> conditional_edge_spec list" where
  "branches_in evs = [c. BranchAdded c \<leftarrow> evs]"

definition matches :: "workflow_acc \<Rightarrow> graph_event list \<Rightarrow> bool" where
  "matches w evs \<longleftrightarrow>
    map pending_id (wa_nodes w) = nodes_in evs \<and> wa_edges w = edges_in evs \<and> wa_conditional w = branches_in evs"

definition graph_of :: "interp_state \<Rightarrow> string \<Rightarrow> workflow_acc" where
  "graph_of st g = (case dict_get (is_graphs st) g of Some w \<Rightarrow> w | None \<Rightarrow> empty_workflow)"

lemma matches_simps:
  "matches w [] \<longleftrightarrow> wa_nodes w = [] \<and> wa_edges w = [] \<and> wa_conditional w = []"
  "matches w evs \<Longrightarrow> pending_id n = i \<Longrightarrow> matches (w\<lparr>wa_nodes := wa_nodes w @ [n]\<rparr>) (evs @ [NodeAdded i])"
  "matches w evs \<Longrightarrow> matches (w\<lparr>wa_edges := wa_edges w @ [e]\<rparr>) (evs @ [EdgeAdded (es_source e) (es_target e)])"
  "matches w evs \<Longrightarrow> matches (w\<lparr>wa_conditional := wa_conditional w @ [c]\<rparr>) (evs @ [BranchAdded c])"
  "matches w evs \<Longrightarrow> matches (w\<lparr>wa_entry_override := x\<rparr>) evs"
  by (auto simp: matches_def nodes_in_def edges_in_def branches_in_def)

text \<open>The simulation: a state of the interpreter stands for the events so far on every graph, and all
  its nodes are admitted.\<close>

definition simulates ::
    "interp_env \<Rightarrow> compile_context \<Rightarrow> interp_state \<Rightarrow> (string \<Rightarrow> graph_event list) \<Rightarrow> bool" where
  "simulates env cx st evs \<longleftrightarrow>
    (\<forall>g. matches (graph_of st g) (evs g)) \<and>
    (\<forall>g. \<forall>n \<in> set (wa_nodes (graph_of st g)). admitted env (cx_enforce_policy cx) (cx_code_classes cx) n)"

lemma graph_of_put: "graph_of (put_graph g w st) h = (if h = g then w else graph_of st h)"
  by (simp add: graph_of_def put_graph_def)

lemma put_graph_assigned [simp]: "is_assigned (put_graph g w st) = is_assigned st"
  by (simp add: put_graph_def)

lemma graph_of_update [simp]:
  "graph_of (st\<lparr>is_seen := x\<rparr>) = graph_of st" "graph_of (st\<lparr>is_cache := c\<rparr>) = graph_of st"
  "graph_of (st\<lparr>is_assigned := a\<rparr>) = graph_of st"
  by (simp_all add: graph_of_def fun_eq_iff)

definition add_events :: "string \<Rightarrow> graph_event list \<Rightarrow> (string \<Rightarrow> graph_event list) \<Rightarrow> string \<Rightarrow> graph_event list" where
  "add_events g es evs h = evs h @ (if h = g then es else [])"

lemma add_events_Nil [simp]: "add_events g [] evs = evs"
  by (simp add: add_events_def fun_eq_iff)

lemma simulates_put:
  assumes "simulates env cx st evs" "matches w (evs g @ es)"
    and "\<forall>n \<in> set (wa_nodes w). admitted env (cx_enforce_policy cx) (cx_code_classes cx) n"
    and "graph_of st' = graph_of (put_graph g w st)"
  shows "simulates env cx st' (add_events g es evs)"
  using assms by (auto simp: simulates_def graph_of_put add_events_def)

lemma simulates_nodes:
  "simulates env cx st evs \<Longrightarrow> dict_get (is_graphs st) g = Some w \<Longrightarrow>
    matches w (evs g) \<and> (\<forall>n \<in> set (wa_nodes w). admitted env (cx_enforce_policy cx) (cx_code_classes cx) n)"
  unfolding simulates_def graph_of_def by (metis option.simps(5))

lemma add_node_step:
  assumes "interpret_add_node env cx helper g w args st = Inr st'" "dict_get (is_graphs st) g = Some w"
    and "simulates env cx st evs" "classes_free (cx_code_classes cx)"
  shows "is_assigned st' = is_assigned st \<and>
    simulates env cx st' (add_events g (call_events (is_assigned st) ''add_node'' args) evs)"
proof -
  obtain i e n cache' where r: "resolve_add_node_args (is_assigned st) args = Inr (i, e)"
    and n: "interpret_node env cx helper (is_graphs st) i e (is_cache st) = Inr (n, cache')"
    and st': "st' = put_graph g (w\<lparr>wa_nodes := wa_nodes w @ [n]\<rparr>)
          (st\<lparr>is_seen := dict_set g (seen_ids st g @ [i]) (is_seen st), is_cache := cache'\<rparr>)"
    using assms(1) by (auto simp: interpret_add_node_def seqE_Inr_iff split: if_splits)
  have a: "admitted env (cx_enforce_policy cx) (cx_code_classes cx) n" "pending_id n = i"
    using interpret_node_admitted [OF n assms(4)] by auto
  have ce: "call_events (is_assigned st) ''add_node'' args = [NodeAdded i]" by (simp add: call_events_def r)
  have w: "matches (w\<lparr>wa_nodes := wa_nodes w @ [n]\<rparr>) (evs g @ [NodeAdded i])"
    using matches_simps(2) simulates_nodes [OF assms(3,2)] a(2) by blast
  have "graph_of st' = graph_of (put_graph g (w\<lparr>wa_nodes := wa_nodes w @ [n]\<rparr>) st)"
    by (simp add: st' graph_of_def put_graph_def fun_eq_iff)
  from simulates_put [OF assms(3) w _ this] show ?thesis
    using simulates_nodes [OF assms(3,2)] a(1) unfolding ce by (simp add: st')
qed

lemma graph_call_step:
  assumes "interpret_graph_call env cx helper f args st = Inr st'"
    and "simulates env cx st evs" "classes_free (cx_code_classes cx)"
  shows "is_assigned st' = is_assigned st \<and>
    simulates env cx st' (\<lambda>g. evs g @ expr_events g (is_assigned st) f args)"
proof (cases "\<exists>h m. f = Attribute (Name h) m")
  case False
  then have "st' = st" "expr_events g (is_assigned st) f args = []" for g
    using assms(1) by (auto simp: interpret_graph_call_def expr_events_def split: expr.splits)
  with assms(2) show ?thesis by simp
next
  case True
  then obtain h m where f: "f = Attribute (Name h) m" by blast
  then obtain w where w: "dict_get (is_graphs st) h = Some w"
    using assms(1) by (auto simp: interpret_graph_call_def split: option.splits)
  note facts = simulates_nodes [OF assms(2) w]
  note put = simulates_put [OF assms(2) _ _ refl, of _ h]
  have ev: "(\<lambda>g. evs g @ expr_events g (is_assigned st) f args) =
      add_events h (call_events (is_assigned st) m args) evs"
    by (auto simp: expr_events_def f fun_eq_iff add_events_def)
  consider "m = ''add_node''" | "m = ''add_edge''" | "m = ''add_conditional_edges''" | "m = ''set_entry_point''"
    | "m = ''set_finish_point''"
    | "m \<notin> {''add_node'', ''add_edge'', ''add_conditional_edges'', ''set_entry_point'', ''set_finish_point''}"
    by blast
  then show ?thesis
  proof cases
    case 1
    then have "interpret_add_node env cx helper h w args st = Inr st'"
      using assms(1) by (simp add: interpret_graph_call_def f w)
    from add_node_step [OF this w assms(2,3)] show ?thesis unfolding ev 1 by simp
  next
    case 2
    then obtain e where e: "interpret_add_edge args = Inr e"
        "st' = put_graph h (w\<lparr>wa_edges := wa_edges w @ [e]\<rparr>) st"
      using assms(1) by (auto simp: interpret_graph_call_def f w seqE_Inr_iff)
    then show ?thesis
      using put [of "w\<lparr>wa_edges := wa_edges w @ [e]\<rparr>" "[EdgeAdded (es_source e) (es_target e)]"] facts 2
      unfolding ev by (simp add: matches_simps call_events_def)
  next
    case 3
    then obtain c where c: "interpret_conditional_edge args = Inr c"
        "st' = put_graph h (w\<lparr>wa_conditional := wa_conditional w @ [c]\<rparr>) st"
      using assms(1) by (auto simp: interpret_graph_call_def f w seqE_Inr_iff)
    then show ?thesis
      using put [of "w\<lparr>wa_conditional := wa_conditional w @ [c]\<rparr>" "[BranchAdded c]"] facts 3
      unfolding ev by (simp add: matches_simps call_events_def)
  next
    case 4
    then obtain x where x: "st' = put_graph h (w\<lparr>wa_entry_override := Some x\<rparr>) st"
      using assms(1) by (auto simp: interpret_graph_call_def f w seqE_Inr_iff)
    then show ?thesis
      using put [of "w\<lparr>wa_entry_override := Some x\<rparr>" "[]"] facts 4
      unfolding ev by (simp add: matches_simps call_events_def)
  next
    case 5
    then obtain x where x: "string_arg args 0 = Inr x"
        "st' = put_graph h (w\<lparr>wa_edges := wa_edges w @ [\<lparr>es_source = x, es_target = END\<rparr>]\<rparr>) st"
      using assms(1) by (auto simp: interpret_graph_call_def f w seqE_Inr_iff)
    then show ?thesis
      using put [of "w\<lparr>wa_edges := wa_edges w @ [\<lparr>es_source = x, es_target = END\<rparr>]\<rparr>" "[EdgeAdded x END]"]
        matches_simps(3) [of w "evs h" "\<lparr>es_source = x, es_target = END\<rparr>"] facts 5
      unfolding ev by (simp add: call_events_def)
  next
    case 6
    then have "st' = st" "call_events (is_assigned st) m args = []"
      using assms(1) by (auto simp: interpret_graph_call_def f w call_events_def)
    then show ?thesis using assms(2) unfolding ev by simp
  qed
qed

lemma assign_step:
  assumes "interpret_assign targets f call st = Inr st'" "simulates env cx st evs"
  shows "is_assigned st' = assigned_after (is_assigned st) targets f call \<and> simulates env cx st' evs"
proof (cases "\<exists>x ts. targets = StoredName x # ts \<and> f = Name ''StateGraph''")
  case True
  then obtain x ts where t: "targets = StoredName x # ts" "f = Name ''StateGraph''" by blast
  with assms(1) have new: "dict_get (is_graphs st) x = None"
    and st': "st' = put_graph x empty_workflow (st\<lparr>is_seen := dict_set x [] (is_seen st)\<rparr>)"
    by (auto simp: interpret_assign_def split: if_splits)
  have "graph_of st' = graph_of st"
    using new by (auto simp: st' graph_of_def put_graph_def fun_eq_iff)
  then show ?thesis using assms(2) t by (simp add: simulates_def st' assigned_after_def)
next
  case False
  then have "graph_of st' = graph_of st \<and> is_assigned st' = assigned_after (is_assigned st) targets f call"
    using assms(1) by (cases targets) (auto simp: interpret_assign_def assigned_after_def split: expr.splits if_splits)
  then show ?thesis using assms(2) by (simp add: simulates_def)
qed

lemma stmts_step:
  assumes "interpret_stmts env cx helper ss st = Inr (rt, st')" "simulates env cx st evs"
    and "classes_free (cx_code_classes cx)"
  shows "simulates env cx st' (\<lambda>g. evs g @ performed g (is_assigned st) ss) \<and> rt = returned ss"
  using assms(1,2)
proof (induction ss arbitrary: st evs)
  case Nil
  then show ?case by simp
next
  case (Cons s ss)
  show ?case
  proof (cases "\<exists>ts f args kws. s = Assign ts (Call f args kws)")
    case True
    then obtain ts f args kws where s: "s = Assign ts (Call f args kws)" by blast
    with Cons.prems obtain st1 where "interpret_assign ts f (Call f args kws) st = Inr st1"
      and rest: "interpret_stmts env cx helper ss st1 = Inr (rt, st')"
      by (auto simp: seqE_Inr_iff)
    from assign_step [OF this(1) Cons.prems(2)] Cons.IH [OF rest, of evs] show ?thesis by (simp add: s)
  next
    case no_assign: False
    show ?thesis
    proof (cases "\<exists>f args kws. s = ExprS (Call f args kws)")
      case True
      then obtain f args kws where s: "s = ExprS (Call f args kws)" by blast
      with Cons.prems obtain st1 where c: "interpret_graph_call env cx helper f args st = Inr st1"
        and rest: "interpret_stmts env cx helper ss st1 = Inr (rt, st')"
        by (auto simp: seqE_Inr_iff)
      from graph_call_step [OF c Cons.prems(2) assms(3)] Cons.IH [OF rest, of "\<lambda>g. evs g @ expr_events g (is_assigned st) f args"]
      show ?thesis by (simp add: s)
    next
      case False
      then show ?thesis
        using Cons no_assign by (cases s) (auto split: expr.splits option.splits)
    qed
  qed
qed

lemma builder_simulates:
  assumes "interpret_graph_builder env cx helper name body cache = Inr (rt, gs, cache')"
    and "classes_free (cx_code_classes cx)"
  shows "returned body = Some rt \<and> (\<forall>g w. dict_get gs g = Some w \<longrightarrow> matches w (performed g [] body) \<and>
    (\<forall>n \<in> set (wa_nodes w). admitted env (cx_enforce_policy cx) (cx_code_classes cx) n))"
proof -
  let ?init = "\<lparr>is_graphs = [], is_assigned = [], is_seen = [], is_cache = cache\<rparr>"
  obtain st where r: "interpret_stmts env cx helper body ?init = Inr (Some rt, st)" and gs: "gs = is_graphs st"
    using assms(1) by (auto simp: interpret_graph_builder_def seqE_Inr_iff split: option.splits if_splits)
  have "simulates env cx ?init (\<lambda>_. [])"
    by (simp add: simulates_def graph_of_def empty_workflow_def matches_simps)
  from stmts_step [OF r this assms(2)]
  have sim: "simulates env cx st (\<lambda>g. performed g [] body)" and "returned body = Some rt" by simp_all
  then show ?thesis using simulates_nodes [OF sim] gs by blast
qed

section \<open>Nested graphs\<close>

lemma collectE_ok: "collectE f xs = Inr ys \<Longrightarrow> list_all2 (\<lambda>x y. f x = Inr y) xs ys"
  by (induction xs arbitrary: ys) (auto simp: seqE_Inr_iff)

lemma resolve_pending_id: "resolve_pending nested n = Inr spec \<Longrightarrow> node_id spec = pending_id n"
  by (cases n) (auto simp: resolve_pending_def seqE_Inr_iff)

lemma workflow_to_ir_Inr:
  assumes "workflow_to_ir gs stack g = Inr ir"
  obtains w ns e where "length stack < max_graph_depth" "g \<notin> set stack" "dict_get gs g = Some w"
    "list_all2 (\<lambda>n spec. resolve_pending (workflow_to_ir gs (stack @ [g])) n = Inr spec) (wa_nodes w) ns"
    "resolve_entrypoint_name w = Inr e"
    "ir = GraphIR current_schema_version default_state_ref e ns (wa_edges w) (wa_conditional w)"
proof -
  obtain w where d: "length stack < max_graph_depth" "g \<notin> set stack" "dict_get gs g = Some w"
    using assms by (auto simp: workflow_to_ir.simps [of gs stack g] split: if_splits option.splits)
  then obtain ns e where "collectE (resolve_pending (workflow_to_ir gs (stack @ [g]))) (wa_nodes w) = Inr ns"
      "resolve_entrypoint_name w = Inr e"
      "ir = GraphIR current_schema_version default_state_ref e ns (wa_edges w) (wa_conditional w)"
    using assms by (auto simp: workflow_to_ir.simps [of gs stack g] seqE_Inr_iff)
  with that d collectE_ok show thesis by blast
qed

lemma workflow_to_ir_top:
  assumes "workflow_to_ir gs stack g = Inr ir"
  shows "\<exists>w. dict_get gs g = Some w \<and> map node_id (ir_nodes ir) = map pending_id (wa_nodes w) \<and>
    ir_edges ir = wa_edges w \<and> ir_conditional_edges ir = wa_conditional w \<and>
    resolve_entrypoint_name w = Inr (ir_entrypoint ir)"
proof -
  obtain w ns e where w: "dict_get gs g = Some w" "resolve_entrypoint_name w = Inr e"
    "list_all2 (\<lambda>n spec. resolve_pending (workflow_to_ir gs (stack @ [g])) n = Inr spec) (wa_nodes w) ns"
    "ir = GraphIR current_schema_version default_state_ref e ns (wa_edges w) (wa_conditional w)"
    by (rule workflow_to_ir_Inr [OF assms])
  have "map node_id ns = map pending_id (wa_nodes w)"
    using w(3) by (induction rule: list_all2_induct) (auto dest: resolve_pending_id)
  with w show ?thesis by simp
qed

text \<open>Code is in the representation only as the checked bodies of the script's code nodes; every node of
  a built-in type is of a registered and, under the policy, unrestricted type.\<close>

fun admitted_node :: "interp_env \<Rightarrow> bool \<Rightarrow> (string, code_class) dict \<Rightarrow> node_spec \<Rightarrow> bool"
  and admitted_graph :: "interp_env \<Rightarrow> bool \<Rightarrow> (string, code_class) dict \<Rightarrow> graph_ir \<Rightarrow> bool" where
  "admitted_node env enforce classes (BuiltinNode i t c) \<longleftrightarrow>
    ie_registered env t \<and> (enforce \<longrightarrow> \<not> ie_restricted env t)"
| "admitted_node env enforce classes (CodeNode i config injected text) \<longleftrightarrow> entries_free config \<and>
     checked_code env classes i injected text"
| "admitted_node env enforce classes (SubgraphNode i g) \<longleftrightarrow> admitted_graph env enforce classes g"
| "admitted_graph env enforce classes (GraphIR v r e ns es cs) \<longleftrightarrow> list_all (admitted_node env enforce classes) ns"

lemma workflow_to_ir_admitted:
  "workflow_to_ir gs stack g = Inr ir \<Longrightarrow>
    \<forall>g w. dict_get gs g = Some w \<longrightarrow> (\<forall>n \<in> set (wa_nodes w). admitted env enforce classes n) \<Longrightarrow>
    admitted_graph env enforce classes ir"
proof (induction gs stack g arbitrary: ir rule: workflow_to_ir.induct)
  case (1 gs stack g)
  obtain w ns e where w: "length stack < max_graph_depth" "g \<notin> set stack" "dict_get gs g = Some w"
    "list_all2 (\<lambda>n spec. resolve_pending (workflow_to_ir gs (stack @ [g])) n = Inr spec) (wa_nodes w) ns"
    "ir = GraphIR current_schema_version default_state_ref e ns (wa_edges w) (wa_conditional w)"
    by (rule workflow_to_ir_Inr [OF "1.prems"(1)])
  have nested: "admitted_graph env enforce classes h" if "workflow_to_ir gs (stack @ [g]) k = Inr h" "n \<in> set (wa_nodes w)" for k h n
    using "1.IH" [OF _ w(2,3) that(2,1) "1.prems"(2)] w(1) by simp
  have "admitted_node env enforce classes spec"
    if "n \<in> set (wa_nodes w)" "resolve_pending (workflow_to_ir gs (stack @ [g])) n = Inr spec" for n spec
  proof -
    have "admitted env enforce classes n" using "1.prems"(2) w(3) that(1) by blast
    with that(2) nested [OF _ that(1)] show ?thesis
      by (cases n) (auto simp: resolve_pending_def admitted_def seqE_Inr_iff)
  qed
  then have "\<forall>spec \<in> set ns. admitted_node env enforce classes spec"
    using w(4) by (fastforce simp: list_all2_conv_all_nth in_set_conv_nth)
  then show ?case by (simp add: w(5) list_all_iff)
qed

text \<open>A compilation and its parts.\<close>

lemma compile_Inr:
  assumes "compile_workflow_to_ir env enforce stmts = Inr ir"
  obtains classes cx body root gs cache where
    "validate_grammar stmts = Inr ()" "collect_code_node_classes env (enumerate 0 stmts) [] = Inr classes"
    "cx_code_classes cx = classes" "cx_enforce_policy cx = enforce" "classes_free classes"
    "dict_get (collect_graph_builders stmts) ''orcheo_workflow'' = Some body"
    "interpret_graph_builder env cx (helper_graph_ir env cx []) ''orcheo_workflow'' body [] = Inr (root, gs, cache)"
    "workflow_to_ir gs [] root = Inr ir" "validate_ir (ie_registered env) (ie_lax env) (Inl ir) = Inr ir"
proof -
  have g: "validate_grammar stmts = Inr ()"
    using assms by (auto simp: compile_workflow_to_ir_def seqE_Inr_iff)
  obtain classes where c: "collect_code_node_classes env (enumerate 0 stmts) [] = Inr classes"
    using assms by (auto simp: compile_workflow_to_ir_def seqE_Inr_iff)
  let ?cx = "\<lparr>cx_code_classes = classes, cx_builders = collect_graph_builders stmts,
            cx_schemas = collect_schema_classes stmts, cx_imports = collect_imported_symbols stmts,
            cx_enforce_policy = enforce\<rparr>"
  obtain body where b: "dict_get (collect_graph_builders stmts) ''orcheo_workflow'' = Some body"
    using assms g c by (auto simp: compile_workflow_to_ir_def Let_def split: option.splits)
  obtain root gs cache where i: "interpret_graph_builder env ?cx (helper_graph_ir env ?cx []) ''orcheo_workflow'' body [] =
      Inr (root, gs, cache)" "workflow_to_ir gs [] root = Inr ir"
      "validate_ir (ie_registered env) (ie_lax env) (Inl ir) = Inr ir"
    using assms g c b
    by (auto simp: compile_workflow_to_ir_def Let_def seqE_Inr_iff validate_ir_def coerce_ir_def)
  have "check_all validate_module_stmt stmts = Inr ()"
    using g by (auto simp: validate_grammar_def seqE_Inr_iff)
  then have "\<forall>(i, s) \<in> set (enumerate 0 stmts). inert_module_stmt s"
    using accepted_module_stmt by (auto simp: check_all_ok in_set_enumerate_eq)
  then have "classes_free classes"
    using collect_classes_free [OF _ _ c] by (simp add: classes_free_def)
  with that [of classes ?cx] g c b i show thesis by simp
qed

text \<open>C2. A compiled representation is valid, and holds only admitted nodes, in itself and in the graphs nested
  as nodes: each built-in node is of a registered type that the policy lets untrusted authors use, and
  each code node carries a field configuration without credential placeholders and the text of one of the
  script's \<open>run\<close> bodies that passed the structural and the builtin checks under the injected names it has.\<close>

theorem compiled_nodes_admitted:
  assumes "compile_workflow_to_ir env enforce stmts = Inr ir"
  shows "validate_ir (ie_registered env) (ie_lax env) (Inl ir) = Inr ir \<and>
    (\<exists>classes. collect_code_node_classes env (enumerate 0 stmts) [] = Inr classes \<and>
      admitted_graph env enforce classes ir)"
proof (rule compile_Inr [OF assms])
  fix classes cx body root gs cache
  assume c: "collect_code_node_classes env (enumerate 0 stmts) [] = Inr classes" "cx_code_classes cx = classes"
    "cx_enforce_policy cx = enforce" "classes_free classes"
    and b: "interpret_graph_builder env cx (helper_graph_ir env cx []) ''orcheo_workflow'' body [] = Inr (root, gs, cache)"
    and w: "workflow_to_ir gs [] root = Inr ir"
    and v: "validate_ir (ie_registered env) (ie_lax env) (Inl ir) = Inr ir"
  have "\<forall>g w. dict_get gs g = Some w \<longrightarrow> (\<forall>n \<in> set (wa_nodes w). admitted env enforce classes n)"
    using builder_simulates [OF b] c by blast
  with workflow_to_ir_admitted [OF w] c(1) v show ?thesis by blast
qed

lemma plain_script_compiles:
  "compile_workflow_to_ir sample_interp True (one_node_script [] ''AgentNode'') =
     Inr (GraphIR 1 default_state_ref ''a'' [BuiltinNode ''a'' ''AgentNode'' []] [\<lparr>es_source = START, es_target = ''a''\<rparr>] [])"
  by code_simp

theorem compiled_nodes_admitted_witness:
  "admitted_graph sample_interp True [] (GraphIR 1 default_state_ref ''a'' [BuiltinNode ''a'' ''AgentNode'' []]
     [\<lparr>es_source = START, es_target = ''a''\<rparr>] []) \<and> \<not> admitted_graph sample_interp True [] forged_graph"
proof -
  have "collect_code_node_classes sample_interp (enumerate 0 (one_node_script [] ''AgentNode'')) [] = Inr []"
    by code_simp
  with compiled_nodes_admitted [OF plain_script_compiles]
  show ?thesis by (simp add: forged_graph_def sample_interp_def)
qed


definition script_body :: "stmt list" where
  "script_body = (case dict_get (collect_graph_builders (one_node_script [] ''AgentNode'')) ''orcheo_workflow'' of
     Some body \<Rightarrow> body | None \<Rightarrow> [])"


section \<open>Nesting\<close>

text \<open>The graph variables a node refers to, and the chains of references from a graph.\<close>

definition tool_refs :: "workflow_tool_ref \<Rightarrow> string list" where
  "tool_refs t = (case wt_graph t of GraphVariable n \<Rightarrow> [n] | HelperGraph _ \<Rightarrow> [])"

definition entry_refs :: "string \<times> config_entry \<Rightarrow> string list" where
  "entry_refs kv = (case snd kv of Plain _ \<Rightarrow> [] | Tools ts \<Rightarrow> concat (map tool_refs ts))"

definition node_refs :: "pending_node \<Rightarrow> string list" where
  "node_refs n =
    (case n of
       PendingSubgraph i g \<Rightarrow> [g]
     | PendingBuiltin i t config \<Rightarrow> concat (map entry_refs config)
     | PendingCode i config injected text \<Rightarrow> [])"

definition graph_refs :: "graphs \<Rightarrow> string \<Rightarrow> string list" where
  "graph_refs gs g = concat (map node_refs (wa_nodes (case dict_get gs g of Some w \<Rightarrow> w | None \<Rightarrow> empty_workflow)))"

fun ref_chain :: "graphs \<Rightarrow> string \<Rightarrow> string list \<Rightarrow> bool" where
  "ref_chain gs g [] \<longleftrightarrow> True"
| "ref_chain gs g (h # p) \<longleftrightarrow> h \<in> set (graph_refs gs g) \<and> ref_chain gs h p"

definition graph_ready :: "graphs \<Rightarrow> string \<Rightarrow> bool" where
  "graph_ready gs g \<longleftrightarrow>
    (case dict_get gs g of
       None \<Rightarrow> False
     | Some w \<Rightarrow> wa_entry_override w \<noteq> None \<or> START \<in> es_source ` set (wa_edges w))"

lemma entrypoint_ready:
  assumes "dict_get gs g = Some w"
  shows "(\<exists>e. resolve_entrypoint_name w = Inr e) \<longleftrightarrow> graph_ready gs g"
proof -
  have "find (\<lambda>e. es_source e = START) (wa_edges w) = None \<longleftrightarrow> START \<notin> es_source ` set (wa_edges w)"
    by (force simp: find_None_iff)
  with assms show ?thesis by (auto simp: graph_ready_def resolve_entrypoint_name_def split: option.splits)
qed

lemma collectE_total: "(\<exists>ys. collectE f xs = Inr ys) \<longleftrightarrow> (\<forall>x \<in> set xs. \<exists>y. f x = Inr y)"
  by (induction xs) (auto simp: seqE_Inr_iff)

lemma resolve_pending_total:
  "(\<exists>spec. resolve_pending nested n = Inr spec) \<longleftrightarrow> (\<forall>g \<in> set (node_refs n). \<exists>ir. nested g = Inr ir)"
proof -
  have t: "(\<exists>v. resolve_tool nested t = Inr v) \<longleftrightarrow> (\<forall>g \<in> set (tool_refs t). \<exists>ir. nested g = Inr ir)" for t
    by (cases "wt_graph t") (auto simp: resolve_tool_def tool_refs_def seqE_Inr_iff)
  have e: "(\<exists>k v. resolve_config_entry nested kv = Inr (k, v)) \<longleftrightarrow> (\<forall>g \<in> set (entry_refs kv). \<exists>ir. nested g = Inr ir)" for kv
  proof (cases "snd kv")
    case (Tools ts)
    then have "(\<exists>k v. resolve_config_entry nested kv = Inr (k, v)) \<longleftrightarrow> (\<exists>vs. collectE (resolve_tool nested) ts = Inr vs)"
      by (auto simp: resolve_config_entry_def seqE_Inr_iff)
    with Tools show ?thesis by (auto simp: collectE_total t entry_refs_def)
  qed (simp add: resolve_config_entry_def entry_refs_def)
  show ?thesis
  proof (cases n)
    case (PendingBuiltin i ty config)
    then have "(\<exists>spec. resolve_pending nested n = Inr spec) \<longleftrightarrow> (\<exists>vs. collectE (resolve_config_entry nested) config = Inr vs)"
      by (auto simp: resolve_pending_def seqE_Inr_iff)
    with PendingBuiltin show ?thesis by (simp add: collectE_total e node_refs_def split_paired_Ex)
  qed (auto simp: resolve_pending_def node_refs_def seqE_Inr_iff)
qed

lemma workflow_to_ir_total:
  "(\<exists>ir. workflow_to_ir gs stack g = Inr ir) \<longleftrightarrow>
    length stack < max_graph_depth \<and> g \<notin> set stack \<and> graph_ready gs g \<and>
    (\<forall>h \<in> set (graph_refs gs g). \<exists>ir. workflow_to_ir gs (stack @ [g]) h = Inr ir)"
proof (cases "length stack < max_graph_depth \<and> g \<notin> set stack \<and> dict_get gs g \<noteq> None")
  case True
  then obtain w where w: "dict_get gs g = Some w" by blast
  with True have "(\<exists>ir. workflow_to_ir gs stack g = Inr ir) \<longleftrightarrow>
      (\<exists>ns. collectE (resolve_pending (workflow_to_ir gs (stack @ [g]))) (wa_nodes w) = Inr ns) \<and>
      (\<exists>e. resolve_entrypoint_name w = Inr e)"
    by (auto simp: workflow_to_ir.simps [of gs stack g] seqE_Inr_iff)
  also have "\<dots> \<longleftrightarrow> (\<forall>n \<in> set (wa_nodes w). \<forall>h \<in> set (node_refs n). \<exists>ir. workflow_to_ir gs (stack @ [g]) h = Inr ir) \<and>
      graph_ready gs g"
    by (simp only: collectE_total resolve_pending_total entrypoint_ready [OF w])
  finally show ?thesis using True w by (auto simp: graph_refs_def)
next
  case False
  then show ?thesis
    by (auto simp: workflow_to_ir.simps [of gs stack g] graph_ready_def split: option.splits)
qed

lemma workflow_to_ir_chains:
  "(\<exists>ir. workflow_to_ir gs stack g = Inr ir) \<longleftrightarrow>
    (\<forall>p. ref_chain gs g p \<longrightarrow> length (stack @ p) < max_graph_depth \<and> distinct (g # p) \<and> set stack \<inter> set (g # p) = {} \<and>
       graph_ready gs (List.last (g # p)))" (is "_ \<longleftrightarrow> (\<forall>p. ref_chain gs g p \<longrightarrow> ?ok stack g p)")
proof (induction "max_graph_depth - length stack" arbitrary: stack g rule: less_induct)
  case less
  let ?ok = "\<lambda>stack g p. length (stack @ p) < max_graph_depth \<and> distinct (g # p) \<and> set stack \<inter> set (g # p) = {} \<and>
       graph_ready gs (List.last (g # p))"
  have split_chain: "(\<forall>p. ref_chain gs g p \<longrightarrow> ?ok stack g p) \<longleftrightarrow>
      ?ok stack g [] \<and> (\<forall>h \<in> set (graph_refs gs g). \<forall>p. ref_chain gs h p \<longrightarrow> ?ok stack g (h # p))"
    by (metis (no_types, lifting) ref_chain.simps list.exhaust)
  show ?case
  proof (cases "?ok stack g []")
    case True
    then have "length stack < max_graph_depth" by simp
    then have "max_graph_depth - length (stack @ [g]) < max_graph_depth - length stack" by simp
    note IH = less [OF this]
    have "?ok stack g (h # p) \<longleftrightarrow> ?ok (stack @ [g]) h p" for h p
      using True by auto
    with True IH show ?thesis unfolding split_chain by (subst workflow_to_ir_total) (simp del: distinct.simps)
  next
    case False
    then have "\<not> (\<exists>ir. workflow_to_ir gs stack g = Inr ir)" by (subst workflow_to_ir_total) auto
    with False show ?thesis unfolding split_chain by blast
  qed
qed

text \<open>C11. A graph variable resolves exactly when every chain of references from it, through nodes and
  workflow tools, names no variable twice, passes through at most 32 graphs, and ends in a graph of the script
  that has an entrypoint. Nesting therefore never loops, and nothing else can make the resolution fail.\<close>

theorem nested_graphs_resolve:
  "(\<exists>ir. workflow_to_ir gs [] g = Inr ir) \<longleftrightarrow>
    (\<forall>p. ref_chain gs g p \<longrightarrow> distinct (g # p) \<and> length (g # p) \<le> 32 \<and> graph_ready gs (List.last (g # p)))"
  unfolding workflow_to_ir_chains [of gs "[]" g] by (auto simp: max_graph_depth_def Suc_le_eq)

definition ready_workflow :: "pending_node list \<Rightarrow> workflow_acc" where
  "ready_workflow ns = \<lparr>wa_nodes = ns, wa_edges = [], wa_conditional = [], wa_entry_override = Some ''x''\<rparr>"

theorem nested_graphs_resolve_witness:
  "(\<exists>ir. workflow_to_ir [(''a'', ready_workflow [PendingSubgraph ''x'' ''b'']), (''b'', ready_workflow [])] [] ''a'' = Inr ir) \<and>
   \<not> (\<exists>ir. workflow_to_ir [(''a'', ready_workflow [PendingSubgraph ''x'' ''b'']),
       (''b'', ready_workflow [PendingSubgraph ''x'' ''a''])] [] ''a'' = Inr ir)"
proof
  let ?gs = "[(''a'', ready_workflow [PendingSubgraph ''x'' ''b'']), (''b'', ready_workflow [])]"
  have r: "graph_refs ?gs ''a'' = [''b'']" "graph_refs ?gs ''b'' = []" "graph_ready ?gs ''a''" "graph_ready ?gs ''b''"
    by code_simp+
  have "p = [] \<or> p = [''b'']" if "ref_chain ?gs ''a'' p" for p
    using that r(1,2) by (cases p; cases "tl p") simp_all
  with r(3,4) show "\<exists>ir. workflow_to_ir ?gs [] ''a'' = Inr ir"
    by (subst nested_graphs_resolve) force
next
  let ?gs = "[(''a'', ready_workflow [PendingSubgraph ''x'' ''b'']), (''b'', ready_workflow [PendingSubgraph ''x'' ''a''])]"
  have "ref_chain ?gs ''a'' [''b'', ''a'']" by code_simp
  moreover have "\<not> distinct [''a'', ''b'', ''a'']" by simp
  ultimately show "\<not> (\<exists>ir. workflow_to_ir ?gs [] ''a'' = Inr ir)"
    by (subst nested_graphs_resolve) blast
qed

section \<open>The way around the node policy\<close>


end
