(* ===== verification/Vault.thy ===== *)
theory Vault
  imports Workflow_Entities Credential_Health Credential_Refs
begin

text \<open>
  The credential vault (\<open>src/orcheo/vault/\<close>) and its entities (\<open>src/orcheo/models/credential_*.py\<close>,
  \<open>secret_governance.py\<close>): scopes and access contexts, encrypted credentials, templates, governance
  alerts, and the in-memory store behind them. An operation is a function on the record \<open>vault\<close>; the
  clock readings, nonces and fresh identifiers it draws are the record \<open>draws\<close>. The ciphers are third
  party: a cipher seals a text under a nonce and opens a sealed text.
\<close>

section \<open>Scopes\<close>

record access_context =
  ac_workflow :: "uuid option"
  ac_workspace :: "uuid option"
  ac_roles :: "string list"

definition normalize_roles :: "string list \<Rightarrow> string list" where
  "normalize_roles roles = dedupe_loop roles []"

definition access_context_of :: "uuid option \<Rightarrow> uuid option \<Rightarrow> string list \<Rightarrow> access_context" where
  "access_context_of workflow workspace roles =
    \<lparr>ac_workflow = workflow, ac_workspace = workspace, ac_roles = normalize_roles roles\<rparr>"

definition any_context :: access_context where
  "any_context = access_context_of None None []"

record credential_scope =
  sc_workflows :: "uuid list"
  sc_workspaces :: "uuid list"
  sc_roles :: "string list"

fun dedupe_ids :: "uuid list \<Rightarrow> uuid list \<Rightarrow> uuid list" where
  "dedupe_ids [] deduped = deduped"
| "dedupe_ids (i # is) deduped = dedupe_ids is (if i \<in> set deduped then deduped else deduped @ [i])"

definition credential_scope_of :: "uuid list \<Rightarrow> uuid list \<Rightarrow> string list \<Rightarrow> credential_scope" where
  "credential_scope_of workflows workspaces roles =
    \<lparr>sc_workflows = dedupe_ids workflows [], sc_workspaces = dedupe_ids workspaces [], sc_roles = normalize_roles roles\<rparr>"

definition unrestricted :: credential_scope where
  "unrestricted = credential_scope_of [] [] []"

definition scope_allows :: "credential_scope \<Rightarrow> access_context \<Rightarrow> bool" where
  "scope_allows sc ctx =
    (if sc_workflows sc \<noteq> [] \<and> (case ac_workflow ctx of None \<Rightarrow> True | Some w \<Rightarrow> w \<notin> set (sc_workflows sc)) then False
     else if sc_workspaces sc \<noteq> [] \<and>
        (case ac_workspace ctx of None \<Rightarrow> True | Some w \<Rightarrow> w \<notin> set (sc_workspaces sc)) then False
     else if sc_roles sc \<noteq> [] then set (ac_roles ctx) \<inter> set (sc_roles sc) \<noteq> {}
     else True)"

definition is_unrestricted :: "credential_scope \<Rightarrow> bool" where
  "is_unrestricted sc \<longleftrightarrow> sc_workflows sc = [] \<and> sc_workspaces sc = [] \<and> sc_roles sc = []"

definition scope_hint :: "credential_scope \<Rightarrow> string" where
  "scope_hint sc =
    (case sc_workflows sc of w # _ \<Rightarrow> uuid_text w | [] \<Rightarrow>
       (case sc_workspaces sc of w # _ \<Rightarrow> uuid_text w | [] \<Rightarrow>
          (case sc_roles sc of r # _ \<Rightarrow> r | [] \<Rightarrow> ''GLOBAL'')))"

text \<open>The workspace check of \<open>_get_metadata\<close>, \<open>_template_matches_workspace\<close> and \<open>_alert_matches_workspace\<close>.\<close>

definition matches_workspace :: "string option \<Rightarrow> access_context \<Rightarrow> bool" where
  "matches_workspace ws ctx =
    (case ac_workspace ctx of None \<Rightarrow> True | Some w \<Rightarrow> ws = None \<or> ws = Some (uuid_text w))"

section \<open>Errors and draws\<close>

datatype vault_error =
    CredentialNotFound
  | TemplateNotFound
  | AlertNotFound
  | DuplicateName string
  | CredentialScopeDenied
  | TemplateScopeDenied
  | AlertScopeDenied
  | AlertNeedsContext
  | WorkspaceMismatch
  | SameSecret
  | EmptyField string
  | NotOAuthCredential
  | KindUnknown string
  | AlgorithmMismatch
  | KeyMismatch
  | CannotDecrypt

record draws =
  at_first :: instant
  at_second :: instant
  at_third :: instant
  fresh_id :: uuid
  nonce_secret :: string
  nonce_access :: string
  nonce_refresh :: string

section \<open>Encryption\<close>

record cipher =
  ci_algorithm :: string
  ci_key_id :: string
  ci_seal :: "string \<Rightarrow> string \<Rightarrow> string"
  ci_open :: "string \<Rightarrow> string option"

record envelope =
  en_algorithm :: string
  en_key_id :: string
  en_ciphertext :: string

definition encrypt :: "cipher \<Rightarrow> string \<Rightarrow> string \<Rightarrow> envelope" where
  "encrypt c nonce plaintext =
    \<lparr>en_algorithm = ci_algorithm c, en_key_id = ci_key_id c, en_ciphertext = ci_seal c nonce plaintext\<rparr>"

definition decrypt :: "cipher \<Rightarrow> envelope \<Rightarrow> vault_error + string" where
  "decrypt c e =
    (if ci_algorithm c \<noteq> en_algorithm e then Inl AlgorithmMismatch
     else if ci_key_id c \<noteq> en_key_id e then Inl KeyMismatch
     else case ci_open c (en_ciphertext e) of Some t \<Rightarrow> Inr t | None \<Rightarrow> Inl CannotDecrypt)"

section \<open>OAuth tokens\<close>

record oauth_secrets =
  ot_access :: "string option"
  ot_refresh :: "string option"
  ot_expires :: "instant option"

text \<open>A naive expiry is read as UTC.\<close>

definition oauth_secrets_of :: "string option \<Rightarrow> string option \<Rightarrow> datetime option \<Rightarrow> oauth_secrets" where
  "oauth_secrets_of access refresh expires =
    \<lparr>ot_access = access, ot_refresh = refresh,
     ot_expires = map_option (\<lambda>t. case t of Naive u \<Rightarrow> u | Aware u z \<Rightarrow> u) expires\<rparr>"

record oauth_payload =
  op_access :: "envelope option"
  op_refresh :: "envelope option"
  op_expires :: "instant option"

definition seal_text :: "cipher \<Rightarrow> string \<Rightarrow> string option \<Rightarrow> envelope option" where
  "seal_text c nonce t = (if opt_truthy t then Some (encrypt c nonce (the t)) else None)"

definition payload_from_secrets :: "cipher \<Rightarrow> draws \<Rightarrow> oauth_secrets option \<Rightarrow> oauth_payload" where
  "payload_from_secrets c d secrets =
    (case secrets of
       None \<Rightarrow> \<lparr>op_access = None, op_refresh = None, op_expires = None\<rparr>
     | Some s \<Rightarrow> \<lparr>op_access = seal_text c (nonce_access d) (ot_access s),
         op_refresh = seal_text c (nonce_refresh d) (ot_refresh s), op_expires = ot_expires s\<rparr>)"

definition open_text :: "cipher \<Rightarrow> envelope option \<Rightarrow> vault_error + string option" where
  "open_text c e = (case e of None \<Rightarrow> Inr None | Some x \<Rightarrow> seqE (decrypt c x) (\<lambda>t. Inr (Some t)))"

definition reveal_payload :: "cipher \<Rightarrow> oauth_payload \<Rightarrow> vault_error + oauth_secrets" where
  "reveal_payload c p =
    seqE (open_text c (op_access p)) (\<lambda>a. seqE (open_text c (op_refresh p)) (\<lambda>r.
      Inr \<lparr>ot_access = a, ot_refresh = r, ot_expires = op_expires p\<rparr>))"

section \<open>Credentials\<close>

datatype credential_kind = SecretKind | OAuthKind

definition kind_text :: "credential_kind \<Rightarrow> string" where
  "kind_text k = (case k of SecretKind \<Rightarrow> ''secret'' | OAuthKind \<Rightarrow> ''oauth'')"

text \<open>A kind may be given as text.\<close>

definition normalize_kind :: "credential_kind + string \<Rightarrow> vault_error + credential_kind" where
  "normalize_kind k =
    (case k of
       Inl kd \<Rightarrow> Inr kd
     | Inr t \<Rightarrow> if t = ''secret'' then Inr SecretKind else if t = ''oauth'' then Inr OAuthKind else Inl (KindUnknown t))"

fun normalize_scopes :: "string list \<Rightarrow> string list \<Rightarrow> string list" where
  "normalize_scopes [] normalized = normalized"
| "normalize_scopes (s # ss) normalized =
    (let candidate = str_strip s
     in if candidate \<noteq> [] \<and> candidate \<notin> set normalized then normalize_scopes ss (normalized @ [candidate])
        else normalize_scopes ss normalized)"

record credential = audited +
  cd_name :: string
  cd_provider :: string
  cd_workspace :: "string option"
  cd_scopes :: "string list"
  cd_scope :: credential_scope
  cd_encryption :: envelope
  cd_kind :: credential_kind
  cd_tokens :: "oauth_payload option"
  cd_health :: credential_health
  cd_rotated :: "instant option"
  cd_template :: "uuid option"

definition new_credential ::
    "cipher \<Rightarrow> draws \<Rightarrow> string \<Rightarrow> string \<Rightarrow> string list \<Rightarrow> string \<Rightarrow> string \<Rightarrow> credential_scope option \<Rightarrow>
     credential_kind \<Rightarrow> oauth_secrets option \<Rightarrow> uuid option \<Rightarrow> string option \<Rightarrow> credential" where
  "new_credential c d name provider scopes secret actor scope kind tokens template_id workspace =
    record_event (at_third d) actor ''credential_created'' []
      \<lparr>entity_id = fresh_id d, created_at = at_first d, updated_at = at_second d, audit_log = [],
       cd_name = name, cd_provider = provider, cd_workspace = workspace, cd_scopes = normalize_scopes scopes [],
       cd_scope = (case scope of Some s \<Rightarrow> s | None \<Rightarrow> unrestricted),
       cd_encryption = encrypt c (nonce_secret d) secret, cd_kind = kind,
       cd_tokens = (if kind = OAuthKind then Some (payload_from_secrets c d tokens) else None),
       cd_health = \<lparr>ch_status = Unknown, ch_checked_at = None, ch_reason = None\<rparr>,
       cd_rotated = Some (at_first d), cd_template = template_id\<rparr>"

definition rotate :: "cipher \<Rightarrow> draws \<Rightarrow> string \<Rightarrow> string \<Rightarrow> credential \<Rightarrow> credential" where
  "rotate c d secret actor m =
    (let m = record_event (at_second d) actor ''credential_rotated'' []
           (m\<lparr>cd_encryption := encrypt c (nonce_secret d) secret, cd_rotated := Some (at_first d)\<rparr>)
     in if cd_kind m = OAuthKind
        then m\<lparr>cd_health := health_update (at_third d) Unknown None (cd_health m)\<rparr> else m)"

definition reveal :: "cipher \<Rightarrow> credential \<Rightarrow> vault_error + string" where
  "reveal c m = decrypt c (cd_encryption m)"

definition reveal_oauth_tokens :: "cipher \<Rightarrow> credential \<Rightarrow> vault_error + oauth_secrets option" where
  "reveal_oauth_tokens c m =
    (case cd_tokens m of None \<Rightarrow> Inr None | Some p \<Rightarrow> seqE (reveal_payload c p) (\<lambda>s. Inr (Some s)))"

definition set_oauth_tokens ::
    "cipher \<Rightarrow> draws \<Rightarrow> oauth_secrets option \<Rightarrow> string \<Rightarrow> credential \<Rightarrow> vault_error + credential" where
  "set_oauth_tokens c d tokens actor m =
    (if cd_kind m \<noteq> OAuthKind then Inl NotOAuthCredential
     else let p = payload_from_secrets c d tokens in
       Inr (record_event (at_second d) actor ''credential_oauth_tokens_updated'' []
         (m\<lparr>cd_tokens := (if op_access p = None \<and> op_refresh p = None \<and> op_expires p = None then None else Some p),
            cd_health := health_update (at_first d) Unknown None (cd_health m)\<rparr>)))"

definition status_text :: "health_status \<Rightarrow> string" where
  "status_text s = (case s of Unknown \<Rightarrow> ''unknown'' | Healthy \<Rightarrow> ''healthy'' | Unhealthy \<Rightarrow> ''unhealthy'')"

definition opt_str :: "string option \<Rightarrow> pyval" where
  "opt_str s = (case s of None \<Rightarrow> PNone | Some t \<Rightarrow> PStr t)"

definition set_health :: "draws \<Rightarrow> health_status \<Rightarrow> string option \<Rightarrow> string \<Rightarrow> credential \<Rightarrow> credential" where
  "set_health d status reason actor m =
    record_event (at_second d) actor ''credential_health_marked''
      [(''status'', PStr (status_text status)), (''reason'', opt_str reason)]
      (m\<lparr>cd_health := health_update (at_first d) status reason (cd_health m)\<rparr>)"

section \<open>Templates\<close>

record template = audited +
  tp_name :: string
  tp_provider :: string
  tp_workspace :: "string option"
  tp_description :: "string option"
  tp_scopes :: "string list"
  tp_scope :: credential_scope
  tp_kind :: credential_kind
  tp_policy :: issuance_policy

definition default_policy :: issuance_policy where
  "default_policy = \<lparr>require_refresh_token = False, rotation_period_days = None, expiry_threshold_minutes = 60\<rparr>"

definition new_template ::
    "draws \<Rightarrow> string \<Rightarrow> string \<Rightarrow> string list \<Rightarrow> string \<Rightarrow> string option \<Rightarrow> credential_scope option \<Rightarrow>
     credential_kind \<Rightarrow> issuance_policy option \<Rightarrow> string option \<Rightarrow> template" where
  "new_template d name provider scopes actor description scope kind policy workspace =
    record_event (at_third d) actor ''template_created'' []
      \<lparr>entity_id = fresh_id d, created_at = at_first d, updated_at = at_second d, audit_log = [],
       tp_name = name, tp_provider = provider, tp_workspace = workspace, tp_description = description,
       tp_scopes = normalize_scopes scopes [], tp_scope = (case scope of Some s \<Rightarrow> s | None \<Rightarrow> unrestricted),
       tp_kind = kind, tp_policy = (case policy of Some p \<Rightarrow> p | None \<Rightarrow> default_policy)\<rparr>"

section \<open>Alerts\<close>

datatype alert_kind = TokenExpiring | ValidationFailed | RotationOverdue
datatype alert_severity = AlertInfo | AlertWarning | AlertCritical

definition alert_kind_text :: "alert_kind \<Rightarrow> string" where
  "alert_kind_text k =
    (case k of TokenExpiring \<Rightarrow> ''token_expiring'' | ValidationFailed \<Rightarrow> ''validation_failed''
     | RotationOverdue \<Rightarrow> ''rotation_overdue'')"

definition severity_text :: "alert_severity \<Rightarrow> string" where
  "severity_text s = (case s of AlertInfo \<Rightarrow> ''info'' | AlertWarning \<Rightarrow> ''warning'' | AlertCritical \<Rightarrow> ''critical'')"

record alert = audited +
  al_workspace :: "string option"
  al_scope :: credential_scope
  al_template :: "uuid option"
  al_credential :: "uuid option"
  al_kind :: alert_kind
  al_severity :: alert_severity
  al_message :: string
  al_acknowledged :: bool
  al_acknowledged_at :: "instant option"
  al_acknowledged_by :: "string option"

definition new_alert ::
    "draws \<Rightarrow> credential_scope \<Rightarrow> alert_kind \<Rightarrow> alert_severity \<Rightarrow> string \<Rightarrow> string \<Rightarrow> uuid option \<Rightarrow>
     uuid option \<Rightarrow> string option \<Rightarrow> alert" where
  "new_alert d scope kind severity message actor template_id credential_id workspace =
    record_event (at_third d) actor ''alert_created''
      [(''kind'', PStr (alert_kind_text kind)), (''severity'', PStr (severity_text severity))]
      \<lparr>entity_id = fresh_id d, created_at = at_first d, updated_at = at_second d, audit_log = [],
       al_workspace = workspace, al_scope = scope, al_template = template_id, al_credential = credential_id,
       al_kind = kind, al_severity = severity, al_message = message, al_acknowledged = False,
       al_acknowledged_at = None, al_acknowledged_by = None\<rparr>"

definition acknowledge :: "instant \<Rightarrow> instant \<Rightarrow> string \<Rightarrow> alert \<Rightarrow> alert" where
  "acknowledge now now' actor a =
    (if al_acknowledged a then a
     else record_event now' actor ''alert_acknowledged'' []
       (a\<lparr>al_acknowledged := True, al_acknowledged_at := Some now, al_acknowledged_by := Some actor\<rparr>))"

section \<open>The store\<close>

record vault =
  v_cipher :: cipher
  v_store :: "(uuid, credential) dict"
  v_templates :: "(uuid, template) dict"
  v_alerts :: "(uuid, alert) dict"

definition new_vault :: "cipher \<Rightarrow> vault" where
  "new_vault c = \<lparr>v_cipher = c, v_store = [], v_templates = [], v_alerts = []\<rparr>"

text \<open>Case folding is lower case on ASCII; a name is taken within its workspace.\<close>

definition name_taken :: "credential \<Rightarrow> (uuid, credential) dict \<Rightarrow> bool" where
  "name_taken m store \<longleftrightarrow>
    list_ex (\<lambda>(i, s). i \<noteq> entity_id m \<and> str_lower (cd_name s) = str_lower (cd_name m) \<and> cd_workspace s = cd_workspace m)
      store"

definition persist_metadata :: "credential \<Rightarrow> vault \<Rightarrow> (vault, vault_error, credential) outcome" where
  "persist_metadata m v =
    (if name_taken m (v_store v) then (v, Inl (DuplicateName (cd_name m)))
     else (v\<lparr>v_store := dict_set (entity_id m) m (v_store v)\<rparr>, Inr m))"

definition in_workspace :: "string option \<Rightarrow> string option \<Rightarrow> bool" where
  "in_workspace filter_ws ws = (case filter_ws of None \<Rightarrow> True | Some w \<Rightarrow> ws = None \<or> ws = Some w)"

definition iter_metadata :: "string option \<Rightarrow> vault \<Rightarrow> credential list" where
  "iter_metadata ws v = filter (\<lambda>m. in_workspace ws (cd_workspace m)) (map snd (v_store v))"

definition iter_templates :: "string option \<Rightarrow> vault \<Rightarrow> template list" where
  "iter_templates ws v = filter (\<lambda>t. in_workspace ws (tp_workspace t)) (map snd (v_templates v))"

definition iter_alerts :: "string option \<Rightarrow> vault \<Rightarrow> alert list" where
  "iter_alerts ws v = filter (\<lambda>a. in_workspace ws (al_workspace a)) (map snd (v_alerts v))"

definition persist_template :: "template \<Rightarrow> vault \<Rightarrow> vault" where
  "persist_template t v = v\<lparr>v_templates := dict_set (entity_id t) t (v_templates v)\<rparr>"

definition persist_alert :: "alert \<Rightarrow> vault \<Rightarrow> vault" where
  "persist_alert a v = v\<lparr>v_alerts := dict_set (entity_id a) a (v_alerts v)\<rparr>"

definition remove_alerts :: "(alert \<Rightarrow> bool) \<Rightarrow> vault \<Rightarrow> vault" where
  "remove_alerts P v =
    v\<lparr>v_alerts := dict_pops (map entity_id (filter P (iter_alerts None v))) (v_alerts v)\<rparr>"

section \<open>Operations on credentials\<close>

definition context_or_any :: "access_context option \<Rightarrow> access_context" where
  "context_or_any ctx = (case ctx of Some c \<Rightarrow> c | None \<Rightarrow> any_context)"

definition get_credential :: "uuid \<Rightarrow> access_context option \<Rightarrow> vault \<Rightarrow> vault_error + credential" where
  "get_credential i ctx v =
    (case dict_get (v_store v) i of
       None \<Rightarrow> Inl CredentialNotFound
     | Some m \<Rightarrow>
         if \<not> matches_workspace (cd_workspace m) (context_or_any ctx) then Inl WorkspaceMismatch
         else if \<not> scope_allows (cd_scope m) (context_or_any ctx) then Inl CredentialScopeDenied
         else Inr m)"

definition create_credential ::
    "draws \<Rightarrow> string \<Rightarrow> string \<Rightarrow> string list \<Rightarrow> string \<Rightarrow> string \<Rightarrow> credential_scope option \<Rightarrow>
     credential_kind + string \<Rightarrow> oauth_secrets option \<Rightarrow> uuid option \<Rightarrow> string option \<Rightarrow> vault \<Rightarrow>
     (vault, vault_error, credential) outcome" where
  "create_credential d name provider scopes secret actor scope kind tokens template_id workspace v =
    (case normalize_kind kind of
       Inl e \<Rightarrow> (v, Inl e)
     | Inr k \<Rightarrow> persist_metadata
         (new_credential (v_cipher v) d name provider scopes secret actor scope k tokens template_id workspace) v)"

definition rotate_secret ::
    "draws \<Rightarrow> uuid \<Rightarrow> string \<Rightarrow> string \<Rightarrow> access_context option \<Rightarrow> vault \<Rightarrow> (vault, vault_error, credential) outcome" where
  "rotate_secret d i secret actor ctx v =
    and_then (v, get_credential i ctx v) (\<lambda>v m.
    and_then (v, reveal (v_cipher v) m) (\<lambda>v current.
      if current = secret then (v, Inl SameSecret)
      else persist_metadata (rotate (v_cipher v) d secret actor m) v))"

definition normalize_non_empty :: "string \<Rightarrow> string option \<Rightarrow> vault_error + string option" where
  "normalize_non_empty field value =
    (case value of
       None \<Rightarrow> Inr None
     | Some t \<Rightarrow> if str_strip t = [] then Inl (EmptyField field) else Inr (Some (str_strip t)))"

definition changed :: "'a option \<Rightarrow> 'a \<Rightarrow> bool" where
  "changed new old = (case new of None \<Rightarrow> False | Some x \<Rightarrow> x \<noteq> old)"

definition or_old :: "'a option \<Rightarrow> 'a \<Rightarrow> 'a" where
  "or_old new old = (case new of None \<Rightarrow> old | Some x \<Rightarrow> x)"

definition update_credential ::
    "draws \<Rightarrow> instant \<Rightarrow> uuid \<Rightarrow> string \<Rightarrow> string option \<Rightarrow> string option \<Rightarrow> string option \<Rightarrow> credential_scope option \<Rightarrow>
     access_context option \<Rightarrow> vault \<Rightarrow> (vault, vault_error, credential) outcome" where
  "update_credential d now i actor name provider secret scope ctx v =
    and_then (v, get_credential i ctx v) (\<lambda>v m.
    and_then (v, normalize_non_empty ''name'' name) (\<lambda>v name.
    and_then (v, normalize_non_empty ''provider'' provider) (\<lambda>v provider.
    and_then (v, normalize_non_empty ''secret'' secret) (\<lambda>v secret.
    and_then (v, case secret of None \<Rightarrow> Inr False | Some s \<Rightarrow> seqE (reveal (v_cipher v) m) (\<lambda>old. Inr (old \<noteq> s)))
      (\<lambda>v secret_changed.
      let metadata_changed = changed name (cd_name m) \<or> changed provider (cd_provider m) \<or> changed scope (cd_scope m);
          m = m\<lparr>cd_name := or_old name (cd_name m), cd_provider := or_old provider (cd_provider m),
            cd_scope := or_old scope (cd_scope m)\<rparr>;
          m = (if secret_changed then rotate (v_cipher v) d (the secret) actor m else m);
          m = (if metadata_changed then record_event now actor ''credential_updated'' [] m else m)
      in if metadata_changed \<or> secret_changed then persist_metadata m v else (v, Inr m))))))"

definition update_oauth_tokens ::
    "draws \<Rightarrow> uuid \<Rightarrow> oauth_secrets option \<Rightarrow> string option \<Rightarrow> access_context option \<Rightarrow> vault \<Rightarrow>
     (vault, vault_error, credential) outcome" where
  "update_oauth_tokens d i tokens actor ctx v =
    and_then (v, get_credential i ctx v) (\<lambda>v m.
    and_then (v, set_oauth_tokens (v_cipher v) d tokens (if opt_truthy actor then the actor else ''system'') m) (\<lambda>v m.
      persist_metadata m v))"

definition mark_health ::
    "draws \<Rightarrow> uuid \<Rightarrow> health_status \<Rightarrow> string option \<Rightarrow> string option \<Rightarrow> access_context option \<Rightarrow> vault \<Rightarrow>
     (vault, vault_error, credential) outcome" where
  "mark_health d i status reason actor ctx v =
    and_then (v, get_credential i ctx v) (\<lambda>v m.
      persist_metadata (set_health d status reason (if opt_truthy actor then the actor else ''system'') m) v)"

definition reveal_secret :: "uuid \<Rightarrow> access_context option \<Rightarrow> vault \<Rightarrow> vault_error + string" where
  "reveal_secret i ctx v = seqE (get_credential i ctx v) (reveal (v_cipher v))"

text \<open>The workspace filter is the argument, or else that of the context.\<close>

definition workspace_filter :: "string option \<Rightarrow> access_context \<Rightarrow> string option" where
  "workspace_filter ws ctx = (case ws of Some w \<Rightarrow> Some w | None \<Rightarrow> map_option uuid_text (ac_workspace ctx))"

definition list_credentials :: "access_context option \<Rightarrow> string option \<Rightarrow> vault \<Rightarrow> credential list" where
  "list_credentials ctx ws v =
    filter (\<lambda>m. scope_allows (cd_scope m) (context_or_any ctx))
      (iter_metadata (workspace_filter ws (context_or_any ctx)) v)"

definition list_all_credentials :: "string option \<Rightarrow> vault \<Rightarrow> credential list" where
  "list_all_credentials ws v = iter_metadata ws v"

definition delete_credential ::
    "uuid \<Rightarrow> access_context option \<Rightarrow> vault \<Rightarrow> (vault, vault_error, unit) outcome" where
  "delete_credential i ctx v =
    and_then (v, get_credential i ctx v) (\<lambda>v m.
      (remove_alerts (\<lambda>a. al_credential a = Some (entity_id m)) (v\<lparr>v_store := dict_pop (entity_id m) (v_store v)\<rparr>),
       Inr ()))"

section \<open>Operations on templates\<close>

definition get_template :: "uuid \<Rightarrow> access_context option \<Rightarrow> vault \<Rightarrow> vault_error + template" where
  "get_template i ctx v =
    (case dict_get (v_templates v) i of
       None \<Rightarrow> Inl TemplateNotFound
     | Some t \<Rightarrow>
         if \<not> matches_workspace (tp_workspace t) (context_or_any ctx) then Inl TemplateScopeDenied
         else if \<not> scope_allows (tp_scope t) (context_or_any ctx) then Inl TemplateScopeDenied
         else Inr t)"

definition create_template ::
    "draws \<Rightarrow> string \<Rightarrow> string \<Rightarrow> string list \<Rightarrow> string \<Rightarrow> string option \<Rightarrow> credential_scope option \<Rightarrow>
     credential_kind + string \<Rightarrow> issuance_policy option \<Rightarrow> string option \<Rightarrow> vault \<Rightarrow>
     (vault, vault_error, template) outcome" where
  "create_template d name provider scopes actor description scope kind policy workspace v =
    (case normalize_kind kind of
       Inl e \<Rightarrow> (v, Inl e)
     | Inr k \<Rightarrow>
         let t = new_template d name provider scopes actor description scope k policy workspace
         in (persist_template t v, Inr t))"

definition change :: "string \<Rightarrow> pyval \<Rightarrow> pyval \<Rightarrow> (string \<times> pyval) list" where
  "change field old new = [(field, PDict [(''from'', old), (''to'', new)])]"

text \<open>In the audit record, identifiers inside a scope stand as their text.\<close>

definition scope_dump :: "credential_scope \<Rightarrow> pyval" where
  "scope_dump sc = PDict [(''workflow_ids'', PList (map (\<lambda>u. PStr (uuid_text u)) (sc_workflows sc))),
     (''workspace_ids'', PList (map (\<lambda>u. PStr (uuid_text u)) (sc_workspaces sc))),
     (''roles'', PList (map PStr (sc_roles sc)))]"

definition policy_dump :: "issuance_policy \<Rightarrow> pyval" where
  "policy_dump p = PDict [(''require_refresh_token'', PBool (require_refresh_token p)),
     (''rotation_period_days'', case rotation_period_days p of None \<Rightarrow> PNone | Some n \<Rightarrow> PInt n),
     (''expiry_threshold_minutes'', PInt (expiry_threshold_minutes p))]"

definition update_template ::
    "instant \<Rightarrow> uuid \<Rightarrow> string \<Rightarrow> string option \<Rightarrow> string option \<Rightarrow> string list option \<Rightarrow> credential_scope option \<Rightarrow>
     (credential_kind + string) option \<Rightarrow> issuance_policy option \<Rightarrow> access_context option \<Rightarrow> vault \<Rightarrow>
     (vault, vault_error, template) outcome" where
  "update_template now i actor name description scopes scope kind policy ctx v =
    and_then (v, get_template i ctx v) (\<lambda>v t.
    and_then (v, case kind of None \<Rightarrow> Inr None | Some k \<Rightarrow> seqE (normalize_kind k) (\<lambda>kd. Inr (Some kd))) (\<lambda>v kind.
      let changes =
            (if changed name (tp_name t) then change ''name'' (PStr (tp_name t)) (PStr (the name)) else []) @
            (if description \<noteq> None \<and> description \<noteq> tp_description t
             then change ''description'' (opt_str (tp_description t)) (opt_str description) else []) @
            (if changed scopes (tp_scopes t)
             then change ''scopes'' (PList (map PStr (tp_scopes t))) (PList (map PStr (the scopes))) else []) @
            (if changed scope (tp_scope t) then change ''scope'' (scope_dump (tp_scope t)) (scope_dump (the scope)) else []) @
            (if changed kind (tp_kind t)
             then change ''kind'' (PStr (kind_text (tp_kind t))) (PStr (kind_text (the kind))) else []) @
            (if changed policy (tp_policy t)
             then change ''issuance_policy'' (policy_dump (tp_policy t)) (policy_dump (the policy)) else []);
          t = t\<lparr>tp_name := or_old name (tp_name t),
            tp_description := (if description \<noteq> None then description else tp_description t),
            tp_scopes := (if changed scopes (tp_scopes t) then normalize_scopes (the scopes) [] else tp_scopes t),
            tp_scope := or_old scope (tp_scope t), tp_kind := or_old kind (tp_kind t),
            tp_policy := or_old policy (tp_policy t)\<rparr>
      in if changes = [] then (v, Inr t)
         else let t = record_event now actor ''template_updated'' changes t in (persist_template t v, Inr t)))"

definition delete_template :: "uuid \<Rightarrow> access_context option \<Rightarrow> vault \<Rightarrow> (vault, vault_error, unit) outcome" where
  "delete_template i ctx v =
    and_then (v, get_template i ctx v) (\<lambda>v t.
      (remove_alerts (\<lambda>a. al_template a = Some i) (v\<lparr>v_templates := dict_pop i (v_templates v)\<rparr>), Inr ()))"

definition list_templates :: "access_context option \<Rightarrow> string option \<Rightarrow> vault \<Rightarrow> template list" where
  "list_templates ctx ws v =
    filter (\<lambda>t. matches_workspace (tp_workspace t) (context_or_any ctx) \<and> scope_allows (tp_scope t) (context_or_any ctx))
      (iter_templates (workspace_filter ws (context_or_any ctx)) v)"

definition record_template_issuance ::
    "instant \<Rightarrow> uuid \<Rightarrow> string \<Rightarrow> uuid \<Rightarrow> access_context option \<Rightarrow> vault \<Rightarrow> (vault, vault_error, template) outcome" where
  "record_template_issuance now i actor credential_id ctx v =
    and_then (v, get_template i ctx v) (\<lambda>v t.
      let t = record_event now actor ''credential_issued'' [(''credential_id'', PStr (uuid_text credential_id))] t
      in (persist_template t v, Inr t))"

section \<open>Operations on alerts\<close>

text \<open>What an alert is about: its scope, template and workspace.\<close>

definition alert_subject ::
    "uuid option \<Rightarrow> uuid option \<Rightarrow> access_context \<Rightarrow> string option \<Rightarrow> vault \<Rightarrow>
     vault_error + credential_scope \<times> uuid option \<times> string option" where
  "alert_subject credential_id template_id ctx ws v =
    (case credential_id of
       Some i \<Rightarrow> seqE (get_credential i (Some ctx) v) (\<lambda>m.
         Inr (cd_scope m, (case template_id of Some t \<Rightarrow> Some t | None \<Rightarrow> cd_template m),
           if opt_truthy ws then ws else cd_workspace m))
     | None \<Rightarrow> (case template_id of
           Some i \<Rightarrow> seqE (get_template i (Some ctx) v) (\<lambda>t.
             Inr (tp_scope t, template_id, if opt_truthy ws then ws else tp_workspace t))
         | None \<Rightarrow> Inr (unrestricted, None, ws)))"

definition open_alert ::
    "alert_kind \<Rightarrow> uuid option \<Rightarrow> uuid option \<Rightarrow> access_context \<Rightarrow> alert \<Rightarrow> bool" where
  "open_alert kind credential_id template_id ctx a \<longleftrightarrow>
    matches_workspace (al_workspace a) ctx \<and> scope_allows (al_scope a) ctx \<and> \<not> al_acknowledged a \<and> al_kind a = kind \<and>
    al_credential a = credential_id \<and> al_template a = template_id"

definition record_alert ::
    "draws \<Rightarrow> alert_kind \<Rightarrow> alert_severity \<Rightarrow> string \<Rightarrow> string \<Rightarrow> uuid option \<Rightarrow> uuid option \<Rightarrow> access_context option \<Rightarrow>
     string option \<Rightarrow> vault \<Rightarrow> (vault, vault_error, alert) outcome" where
  "record_alert d kind severity message actor credential_id template_id ctx workspace v =
    (let c = context_or_any ctx; ws = workspace_filter workspace c in
     and_then (v, alert_subject credential_id template_id c ws v) (\<lambda>v (scope, template_id, ws).
       case find (open_alert kind credential_id template_id c) (iter_alerts ws v) of
         Some a \<Rightarrow>
           let a = record_event (at_first d) actor ''alert_updated''
                 [(''severity'', PStr (severity_text severity)), (''message'', PStr message)]
                 (a\<lparr>al_severity := severity, al_message := message\<rparr>)
           in (persist_alert a v, Inr a)
       | None \<Rightarrow>
           let a = new_alert d scope kind severity message actor template_id credential_id ws
           in (persist_alert a v, Inr a)))"

definition list_alerts :: "access_context option \<Rightarrow> bool \<Rightarrow> vault \<Rightarrow> alert list" where
  "list_alerts ctx include_acknowledged v =
    (let c = context_or_any ctx in
     filter (\<lambda>a. matches_workspace (al_workspace a) c \<and> scope_allows (al_scope a) c \<and>
         (include_acknowledged \<or> \<not> al_acknowledged a))
       (iter_alerts (workspace_filter None c) v))"

definition get_alert :: "uuid \<Rightarrow> access_context option \<Rightarrow> vault \<Rightarrow> vault_error + alert" where
  "get_alert i ctx v =
    (case dict_get (v_alerts v) i of
       None \<Rightarrow> Inl AlertNotFound
     | Some a \<Rightarrow>
         if ctx = None \<and> \<not> is_unrestricted (al_scope a) then Inl AlertNeedsContext
         else if \<not> scope_allows (al_scope a) (context_or_any ctx) then Inl AlertScopeDenied
         else Inr a)"

definition acknowledge_alert ::
    "instant \<Rightarrow> instant \<Rightarrow> uuid \<Rightarrow> string \<Rightarrow> access_context option \<Rightarrow> vault \<Rightarrow> (vault, vault_error, alert) outcome" where
  "acknowledge_alert now now' i actor ctx v =
    and_then (v, get_alert i ctx v) (\<lambda>v a.
      let a = acknowledge now now' actor a in (persist_alert a v, Inr a))"

text \<open>The clock is read for each alert that is acknowledged.\<close>

definition resolve_alerts_for_credential ::
    "(uuid \<Rightarrow> instant \<times> instant) \<Rightarrow> uuid \<Rightarrow> string \<Rightarrow> vault \<Rightarrow> vault \<times> alert list" where
  "resolve_alerts_for_credential clock credential_id actor v =
    (let pending = filter (\<lambda>a. al_credential a = Some credential_id \<and> \<not> al_acknowledged a) (iter_alerts None v);
         resolved = map (\<lambda>a. acknowledge (fst (clock (entity_id a))) (snd (clock (entity_id a))) actor a) pending
     in (fold persist_alert resolved v, resolved))"

section \<open>The vault behind the resolver\<close>

definition error_text :: "vault_error \<Rightarrow> string" where
  "error_text e =
    (case e of
       CredentialNotFound \<Rightarrow> ''Credential was not found.''
     | TemplateNotFound \<Rightarrow> ''Credential template was not found.''
     | AlertNotFound \<Rightarrow> ''Governance alert was not found.''
     | DuplicateName n \<Rightarrow> ''Credential name '' @ [CHR 0x27] @ n @ [CHR 0x27] @ '' is already in use.''
     | CredentialScopeDenied \<Rightarrow> ''Credential cannot be accessed with the provided context.''
     | TemplateScopeDenied \<Rightarrow> ''Credential template cannot be accessed with the provided context.''
     | AlertScopeDenied \<Rightarrow> ''Governance alert cannot be accessed with the provided context.''
     | AlertNeedsContext \<Rightarrow> ''Governance alert requires access context matching its scope.''
     | WorkspaceMismatch \<Rightarrow> ''Credential cannot be accessed with the provided context.''
     | SameSecret \<Rightarrow> ''Rotated secret must differ from the previous value.''
     | EmptyField f \<Rightarrow> f @ '' cannot be empty''
     | NotOAuthCredential \<Rightarrow> ''OAuth tokens can only be updated for OAuth credentials.''
     | KindUnknown k \<Rightarrow> [CHR 0x27] @ k @ [CHR 0x27] @ '' is not a valid CredentialKind''
     | AlgorithmMismatch \<Rightarrow> ''Cipher algorithm mismatch during decryption.''
     | KeyMismatch \<Rightarrow> ''Cipher key identifier mismatch during decryption.''
     | CannotDecrypt \<Rightarrow> ''Unable to decrypt credential payload with provided key.'')"

text \<open>What the resolver of \<open>Credential_Refs\<close> asks, as this vault answers it for one context. Only the
  fields of tokens are attributes; methods of the objects are not modelled.\<close>

datatype vault_value = NoValue | TextValue string | TimeValue instant | TokensValue oauth_secrets

definition vault_failure :: "vault_error + 'a \<Rightarrow> resolution_error + 'a" where
  "vault_failure r = (case r of Inl e \<Rightarrow> Inl (VaultFailure (error_text e)) | Inr x \<Rightarrow> Inr x)"

definition opt_value :: "('a \<Rightarrow> vault_value) \<Rightarrow> 'a option \<Rightarrow> vault_value" where
  "opt_value f x = (case x of None \<Rightarrow> NoValue | Some y \<Rightarrow> f y)"

definition token_field :: "vault_value \<Rightarrow> string \<Rightarrow> vault_value option" where
  "token_field x a =
    (case x of
       TokensValue t \<Rightarrow>
         if a = ''access_token'' then Some (opt_value TextValue (ot_access t))
         else if a = ''refresh_token'' then Some (opt_value TextValue (ot_refresh t))
         else if a = ''expires_at'' then Some (opt_value TimeValue (ot_expires t))
         else None
     | _ \<Rightarrow> None)"

definition answers_of :: "access_context option \<Rightarrow> vault \<Rightarrow> vault_value vault_answers" where
  "answers_of ctx v =
    \<lparr>va_list = map (\<lambda>m. \<lparr>cm_id = entity_id m, cm_name = cd_name m, cm_oauth = (cd_kind m = OAuthKind)\<rparr>)
       (list_credentials ctx None v),
     va_secret = (\<lambda>i. vault_failure (seqE (reveal_secret i ctx v) (\<lambda>s. Inr (TextValue s)))),
     va_tokens = (\<lambda>i. case dict_get (v_store v) i of
         None \<Rightarrow> Inl (VaultFailure (error_text CredentialNotFound))
       | Some m \<Rightarrow> vault_failure (seqE (reveal_oauth_tokens (v_cipher v) m) (\<lambda>t. Inr (map_option TokensValue t)))),
     va_attribute = token_field\<rparr>"

text \<open>The write that refreshed tokens cause.\<close>

definition perform_write ::
    "draws \<Rightarrow> instant \<Rightarrow> access_context option \<Rightarrow> vault_write \<Rightarrow> vault \<Rightarrow> (vault, vault_error, credential) outcome" where
  "perform_write d now ctx w v =
    (case w of
       UpdateOauthTokens i access refresh actor \<Rightarrow>
         update_oauth_tokens d i (Some (oauth_secrets_of (Some access) refresh None)) (Some actor) ctx v
     | UpdateSecret i secret actor \<Rightarrow> update_credential d now i actor None None (Some secret) None ctx v)"

end
