(* ===== verification/Credential_Service.thy ===== *)
theory Credential_Service
  imports Vault
begin

text \<open>
  The credential service (\<open>src/orcheo/vault/oauth/\<close>): policies of templates and of token refresh
  (\<open>policies.py\<close>), the processing of one OAuth credential (\<open>processor.py\<close>), and the service that issues
  credentials from templates and checks the health of a workflow's credentials (\<open>service.py\<close>). The
  handlers of the providers are given: each refreshes and validates tokens, or raises.
\<close>

section \<open>Policies\<close>

datatype service_error =
    VaultError vault_error
  | RefreshTokenRequired
  | TtlNotPositive
  | ProviderEmpty
  | WorkspaceNotUuid

definition in_vault :: "vault \<times> (vault_error + 'a) \<Rightarrow> (vault, service_error, 'a) outcome" where
  "in_vault r = (fst r, case snd r of Inl e \<Rightarrow> Inl (VaultError e) | Inr x \<Rightarrow> Inr x)"

definition validate_template_policy :: "issuance_policy \<Rightarrow> oauth_secrets option \<Rightarrow> service_error + unit" where
  "validate_template_policy p tokens =
    (if \<not> require_refresh_token p then Inr ()
     else case tokens of
       None \<Rightarrow> Inl RefreshTokenRequired
     | Some t \<Rightarrow> if ot_refresh t = None then Inl RefreshTokenRequired else Inr ())"

definition should_refresh_tokens :: "instant \<Rightarrow> int \<Rightarrow> oauth_secrets option \<Rightarrow> bool" where
  "should_refresh_tokens now margin tokens =
    (case tokens of
       None \<Rightarrow> True
     | Some t \<Rightarrow> (case ot_expires t of None \<Rightarrow> False | Some e \<Rightarrow> e \<le> now + margin))"

section \<open>Processing of one credential\<close>

text \<open>A handler raises with a message, or answers.\<close>

record provider =
  pr_refresh :: "credential \<Rightarrow> oauth_secrets option \<Rightarrow> string + oauth_secrets option"
  pr_validate :: "credential \<Rightarrow> oauth_secrets option \<Rightarrow> string + health_status \<times> string option"

text \<open>What processing one credential draws, step by step.\<close>

record process_draws =
  pd_rotation_now :: instant
  pd_rotation :: draws
  pd_refresh_now :: instant
  pd_tokens :: draws
  pd_mark :: draws
  pd_expiry_now :: instant
  pd_expiry :: draws
  pd_failure :: draws
  pd_resolve :: "uuid \<Rightarrow> instant \<times> instant"

definition build_result :: "credential \<Rightarrow> health_result" where
  "build_result m =
    \<lparr>hr_credential = entity_id m, hr_name = cd_name m, hr_provider = cd_provider m,
     hr_status = ch_status (cd_health m), hr_checked_at = ch_checked_at (cd_health m),
     hr_reason = ch_reason (cd_health m)\<rparr>"

definition load_template_for_metadata :: "credential \<Rightarrow> access_context \<Rightarrow> vault \<Rightarrow> template option" where
  "load_template_for_metadata m ctx v =
    (case cd_template m of
       None \<Rightarrow> None
     | Some i \<Rightarrow> (case get_template i (Some ctx) v of Inl _ \<Rightarrow> None | Inr t \<Rightarrow> Some t))"

text \<open>The result tells whether an alert was recorded.\<close>

definition apply_rotation_policy ::
    "process_draws \<Rightarrow> template option \<Rightarrow> credential \<Rightarrow> access_context \<Rightarrow> string \<Rightarrow> vault \<Rightarrow>
     (vault, vault_error, bool) outcome" where
  "apply_rotation_policy d t m ctx actor v =
    (if (case t of None \<Rightarrow> False | Some t \<Rightarrow> requires_rotation (pd_rotation_now d) (cd_rotated m) (tp_policy t))
     then and_then (record_alert (pd_rotation d) RotationOverdue AlertWarning
         ''Credential rotation is overdue per template policy.'' actor (Some (entity_id m)) (cd_template m) (Some ctx) None v)
       (\<lambda>v _. (v, Inr True))
     else (v, Inr False))"

text \<open>\<open>isof\<close> prints an instant.\<close>

definition apply_token_expiry_alert ::
    "(instant \<Rightarrow> string) \<Rightarrow> int \<Rightarrow> process_draws \<Rightarrow> credential \<Rightarrow> oauth_secrets option \<Rightarrow> access_context \<Rightarrow> string \<Rightarrow>
     vault \<Rightarrow> (vault, vault_error, bool) outcome" where
  "apply_token_expiry_alert isof margin d m tokens ctx actor v =
    (case tokens of
       None \<Rightarrow> (v, Inr False)
     | Some t \<Rightarrow> (case ot_expires t of
         None \<Rightarrow> (v, Inr False)
       | Some e \<Rightarrow>
           if e \<le> pd_expiry_now d + margin
           then and_then (record_alert (pd_expiry d) TokenExpiring AlertWarning (''Token expires at '' @ isof e) actor
               (Some (entity_id m)) None (Some ctx) None v) (\<lambda>v _. (v, Inr True))
           else (v, Inr False)))"

definition record_validation_failure ::
    "process_draws \<Rightarrow> credential \<Rightarrow> string \<Rightarrow> access_context \<Rightarrow> string \<Rightarrow> vault \<Rightarrow> (vault, vault_error, alert) outcome" where
  "record_validation_failure d m actor ctx message v =
    record_alert (pd_failure d) ValidationFailed AlertCritical message actor (Some (entity_id m)) None (Some ctx) None v"

text \<open>A failed health check: the credential is unhealthy and an alert is recorded.\<close>

definition process_failure ::
    "process_draws \<Rightarrow> credential \<Rightarrow> access_context \<Rightarrow> string \<Rightarrow> string \<Rightarrow> string \<Rightarrow> vault \<Rightarrow>
     (vault, vault_error, health_result) outcome" where
  "process_failure d m ctx actor reason message v =
    and_then (mark_health (pd_mark d) (entity_id m) Unhealthy (Some reason) (Some actor) (Some ctx) v) (\<lambda>v updated.
    and_then (record_validation_failure d m actor ctx message v) (\<lambda>v _. (v, Inr (build_result updated))))"

text \<open>The refresh step, inside the \<open>try\<close>: any exception ends it with a message.\<close>

definition refresh_step ::
    "int \<Rightarrow> process_draws \<Rightarrow> provider \<Rightarrow> credential \<Rightarrow> oauth_secrets option \<Rightarrow> access_context \<Rightarrow> string \<Rightarrow> vault \<Rightarrow>
     (vault, string, credential \<times> oauth_secrets option) outcome" where
  "refresh_step margin d p m tokens ctx actor v =
    (if should_refresh_tokens (pd_refresh_now d) margin tokens
     then case pr_refresh p m tokens of
         Inl message \<Rightarrow> (v, Inl message)
       | Inr None \<Rightarrow> (v, Inr (m, tokens))
       | Inr (Some new) \<Rightarrow>
           (case update_oauth_tokens (pd_tokens d) (entity_id m) (Some new) (Some actor) (Some ctx) v of
              (v', Inl e) \<Rightarrow> (v', Inl (error_text e))
            | (v', Inr m') \<Rightarrow> (case reveal_oauth_tokens (v_cipher v') m' of
                Inl e \<Rightarrow> (v', Inl (error_text e))
              | Inr tokens' \<Rightarrow> (v', Inr (m', tokens'))))
     else (v, Inr (m, tokens)))"

definition validate_step ::
    "(instant \<Rightarrow> string) \<Rightarrow> int \<Rightarrow> process_draws \<Rightarrow> provider \<Rightarrow> credential \<Rightarrow> credential \<Rightarrow> oauth_secrets option \<Rightarrow>
     bool \<Rightarrow> access_context \<Rightarrow> string \<Rightarrow> vault \<Rightarrow> (vault, vault_error, health_result) outcome" where
  "validate_step isof margin d p m m' tokens overdue ctx actor v =
    (let (status, reason) = (case pr_validate p m' tokens of
         Inl message \<Rightarrow> (Unhealthy, Some message)
       | Inr result \<Rightarrow> result)
     in and_then (mark_health (pd_mark d) (entity_id m) status reason (Some actor) (Some ctx) v) (\<lambda>v updated.
        and_then (apply_token_expiry_alert isof margin d m tokens ctx actor v) (\<lambda>v expiring.
          if status = Unhealthy
          then and_then (record_validation_failure d m actor ctx
              (if opt_truthy reason then the reason else ''Credential validation failed'') v)
            (\<lambda>v _. (v, Inr (build_result updated)))
          else if \<not> overdue \<and> \<not> expiring
          then (fst (resolve_alerts_for_credential (pd_resolve d) (entity_id updated) actor v), Inr (build_result updated))
          else (v, Inr (build_result updated)))))"

definition process ::
    "(instant \<Rightarrow> string) \<Rightarrow> int \<Rightarrow> (string, provider) dict \<Rightarrow> process_draws \<Rightarrow> credential \<Rightarrow> access_context \<Rightarrow> string \<Rightarrow>
     vault \<Rightarrow> (vault, vault_error, health_result) outcome" where
  "process isof margin providers d m ctx actor v =
    (case dict_get providers (cd_provider m) of
       None \<Rightarrow> process_failure d m ctx actor
           (''No OAuth provider registered for '' @ [CHR 0x27] @ cd_provider m @ [CHR 0x27])
           (''No provider registered for '' @ cd_provider m @ ''.'') v
     | Some p \<Rightarrow>
         and_then (v, reveal_oauth_tokens (v_cipher v) m) (\<lambda>v tokens.
         and_then (apply_rotation_policy d (load_template_for_metadata m ctx v) m ctx actor v) (\<lambda>v overdue.
           case refresh_step margin d p m tokens ctx actor v of
             (v', Inl message) \<Rightarrow> process_failure d m ctx actor message message v'
           | (v', Inr (m', tokens')) \<Rightarrow> validate_step isof margin d p m m' tokens' overdue ctx actor v')))"

section \<open>The service\<close>

record credential_service =
  cs_vault :: vault
  cs_providers :: "(string, provider) dict"
  cs_default_actor :: string
  cs_margin :: int
  cs_guard :: oauth_service

definition new_service ::
    "vault \<Rightarrow> int \<Rightarrow> (string, provider) dict \<Rightarrow> string \<Rightarrow> service_error + credential_service" where
  "new_service v ttl providers actor =
    (if ttl \<le> 0 then Inl TtlNotPositive
     else Inr \<lparr>cs_vault = v, cs_providers = providers, cs_default_actor = actor, cs_margin = seconds ttl,
       cs_guard = \<lparr>reports = []\<rparr>\<rparr>)"

definition register_provider ::
    "string \<Rightarrow> provider \<Rightarrow> credential_service \<Rightarrow> (credential_service, service_error, unit) outcome" where
  "register_provider name p s =
    (if name = [] then (s, Inl ProviderEmpty)
     else (s\<lparr>cs_providers := dict_set name p (cs_providers s)\<rparr>, Inr ()))"

definition issue_from_template ::
    "draws \<Rightarrow> instant \<Rightarrow> uuid \<Rightarrow> string \<Rightarrow> string \<Rightarrow> string option \<Rightarrow> string list option \<Rightarrow> access_context option \<Rightarrow>
     oauth_secrets option \<Rightarrow> credential_service \<Rightarrow> (credential_service, service_error, credential) outcome" where
  "issue_from_template d now i secret actor name scopes context tokens s =
    (let ctx = context_or_any context;
         (v, r) =
           and_then (in_vault (cs_vault s, get_template i (Some ctx) (cs_vault s))) (\<lambda>v t.
           and_then (v, validate_template_policy (tp_policy t) tokens) (\<lambda>v _.
           and_then (in_vault (create_credential d (if opt_truthy name then the name else tp_name t) (tp_provider t)
               (case scopes of Some (x # xs) \<Rightarrow> x # xs | _ \<Rightarrow> tp_scopes t) secret actor (Some (tp_scope t))
               (Inl (tp_kind t)) tokens (Some (entity_id t))
               (if opt_truthy (tp_workspace t) then tp_workspace t else map_option uuid_text (ac_workspace ctx)) v)) (\<lambda>v m.
           and_then (in_vault (record_template_issuance now (entity_id t) actor (entity_id m) (Some ctx) v)) (\<lambda>v _.
             (v, Inr m)))))
     in (s\<lparr>cs_vault := v\<rparr>, r))"

text \<open>One credential of the health check: any other than OAuth is healthy.\<close>

definition check_credential ::
    "(instant \<Rightarrow> string) \<Rightarrow> int \<Rightarrow> (string, provider) dict \<Rightarrow> process_draws \<Rightarrow> access_context \<Rightarrow> string \<Rightarrow> credential \<Rightarrow>
     vault \<Rightarrow> (vault, vault_error, health_result) outcome" where
  "check_credential isof margin providers d ctx actor m v =
    (if cd_kind m \<noteq> OAuthKind
     then and_then (mark_health (pd_mark d) (entity_id m) Healthy None (Some actor) (Some ctx) v)
       (\<lambda>v updated. (v, Inr (build_result updated)))
     else process isof margin providers d m ctx actor v)"

fun check_credentials ::
    "(instant \<Rightarrow> string) \<Rightarrow> int \<Rightarrow> (string, provider) dict \<Rightarrow> (uuid \<Rightarrow> process_draws) \<Rightarrow> access_context \<Rightarrow> string \<Rightarrow>
     credential list \<Rightarrow> vault \<Rightarrow> (vault, vault_error, health_result list) outcome" where
  "check_credentials isof margin providers d ctx actor [] v = (v, Inr [])"
| "check_credentials isof margin providers d ctx actor (m # ms) v =
    and_then (check_credential isof margin providers (d (entity_id m)) ctx actor m v) (\<lambda>v r.
    and_then (check_credentials isof margin providers d ctx actor ms v) (\<lambda>v rs. (v, Inr (r # rs))))"

definition health_context :: "uuid \<Rightarrow> string option \<Rightarrow> service_error + access_context" where
  "health_context workflow workspace =
    (if opt_truthy workspace
     then case uuid_of (the workspace) of
         None \<Rightarrow> Inl WorkspaceNotUuid
       | Some u \<Rightarrow> Inr (access_context_of (Some workflow) (Some u) [])
     else Inr (access_context_of (Some workflow) None []))"

definition ensure_workflow_health ::
    "(instant \<Rightarrow> string) \<Rightarrow> (uuid \<Rightarrow> process_draws) \<Rightarrow> instant \<Rightarrow> uuid \<Rightarrow> string option \<Rightarrow> string option \<Rightarrow>
     credential_service \<Rightarrow> (credential_service, service_error, health_report) outcome" where
  "ensure_workflow_health isof d now workflow actor workspace s =
    (case health_context workflow workspace of
       Inl e \<Rightarrow> (s, Inl e)
     | Inr ctx \<Rightarrow>
         let name = (if opt_truthy actor then the actor else cs_default_actor s);
             (v, r) = check_credentials isof (cs_margin s) (cs_providers s) d ctx name
               (list_credentials (Some ctx) workspace (cs_vault s)) (cs_vault s)
         in case r of
             Inl e \<Rightarrow> (s\<lparr>cs_vault := v\<rparr>, Inl (VaultError e))
           | Inr results \<Rightarrow>
               let report = \<lparr>rep_workflow = workflow, rep_results = results, rep_checked_at = now\<rparr>
               in (s\<lparr>cs_vault := v, cs_guard := \<lparr>reports = dict_set workflow report (reports (cs_guard s))\<rparr>\<rparr>, Inr report))"

end
