(* ===== verification/Vault_Laws.thy ===== *)
theory Vault_Laws
  imports Vault
begin

text \<open>
  Laws of the vault: an invariant of every reachable vault, what a context can see and use, that secrets
  are read back as they were stored, and the alerts that another workspace can acknowledge.
\<close>

section \<open>The invariant\<close>

definition id_keyed :: "(uuid, 'a audited_scheme) dict \<Rightarrow> bool" where
  "id_keyed d \<longleftrightarrow> dict_ok d \<and> (\<forall>i e. dict_get d i = Some e \<longrightarrow> entity_id e = i)"

definition same_name :: "credential \<Rightarrow> credential \<Rightarrow> bool" where
  "same_name m n \<longleftrightarrow> str_lower (cd_name m) = str_lower (cd_name n) \<and> cd_workspace m = cd_workspace n"

definition names_unique :: "(uuid, credential) dict \<Rightarrow> bool" where
  "names_unique store \<longleftrightarrow>
    (\<forall>i j m n. dict_get store i = Some m \<longrightarrow> dict_get store j = Some n \<longrightarrow> same_name m n \<longrightarrow> i = j)"

definition alerts_rooted :: "vault \<Rightarrow> bool" where
  "alerts_rooted v \<longleftrightarrow>
    (\<forall>i a c. dict_get (v_alerts v) i = Some a \<longrightarrow> al_credential a = Some c \<longrightarrow> dict_get (v_store v) c \<noteq> None)"

definition vault_ok :: "vault \<Rightarrow> bool" where
  "vault_ok v \<longleftrightarrow> id_keyed (v_store v) \<and> id_keyed (v_templates v) \<and> id_keyed (v_alerts v) \<and>
    names_unique (v_store v) \<and> alerts_rooted v"

lemma id_keyed_simps [simp, intro]:
  "id_keyed []"
  "id_keyed d \<Longrightarrow> id_keyed (dict_pop i d)"
  "id_keyed d \<Longrightarrow> id_keyed (dict_pops is d)"
  "id_keyed d \<Longrightarrow> id_keyed (dict_set (entity_id e) e d)"
  by (auto simp: id_keyed_def)

lemma id_keyed_get: "id_keyed d \<Longrightarrow> dict_get d i = Some e \<Longrightarrow> entity_id e = i"
  by (simp add: id_keyed_def)

lemma id_keyed_values: "id_keyed d \<Longrightarrow> e \<in> set (map snd d) \<longleftrightarrow> dict_get d (entity_id e) = Some e"
proof -
  assume k: "id_keyed d"
  then have "e \<in> set (map snd d) \<longleftrightarrow> (\<exists>i. dict_get d i = Some e)"
    using dict_get_iff [of d _ e] by (force simp: id_keyed_def)
  with id_keyed_get [OF k] show ?thesis by blast
qed

lemma record_event_simps [simp]:
  "entity_id (record_event t actor what md e) = entity_id e"
  "created_at (record_event t actor what md e) = created_at e"
  "cd_name (record_event t actor what md m) = cd_name m"
  "cd_provider (record_event t actor what md m) = cd_provider m"
  "cd_workspace (record_event t actor what md m) = cd_workspace m"
  "cd_scope (record_event t actor what md m) = cd_scope m"
  "cd_encryption (record_event t actor what md m) = cd_encryption m"
  "cd_kind (record_event t actor what md m) = cd_kind m"
  "cd_tokens (record_event t actor what md m) = cd_tokens m"
  "cd_health (record_event t actor what md m) = cd_health m"
  "cd_template (record_event t actor what md m) = cd_template m"
  "al_credential (record_event t actor what md a) = al_credential a"
  "al_acknowledged (record_event t actor what md a) = al_acknowledged a"
  by (simp_all add: record_event_def)

lemma new_vault_ok [simp]: "vault_ok (new_vault c)"
  by (simp add: vault_ok_def new_vault_def names_unique_def alerts_rooted_def)

lemma name_free:
  assumes "\<not> name_taken m store" "dict_get store i = Some s" "same_name s m"
  shows "i = entity_id m"
proof (rule ccontr)
  assume "i \<noteq> entity_id m"
  with assms(2,3) have "name_taken m store"
    by (auto simp: name_taken_def list_ex_iff same_name_def intro!: bexI [OF _ dict_get_mem])
  with assms(1) show False by simp
qed

lemma persist_metadata_ok:
  assumes "vault_ok v"
  shows "vault_ok (fst (persist_metadata m v))"
proof (cases "name_taken m (v_store v)")
  case False
  have "names_unique (dict_set (entity_id m) m (v_store v))"
    using assms name_free [OF False] unfolding vault_ok_def names_unique_def
    by (auto simp: same_name_def)
  with assms False show ?thesis
    by (auto simp: persist_metadata_def vault_ok_def alerts_rooted_def)
qed (simp add: persist_metadata_def assms)

lemma persist_template_ok: "vault_ok v \<Longrightarrow> vault_ok (persist_template t v)"
  by (simp add: persist_template_def vault_ok_def alerts_rooted_def)

lemma persist_alert_ok:
  "vault_ok v \<Longrightarrow> (\<And>c. al_credential a = Some c \<Longrightarrow> dict_get (v_store v) c \<noteq> None) \<Longrightarrow> vault_ok (persist_alert a v)"
  by (auto simp: persist_alert_def vault_ok_def alerts_rooted_def)

lemma iter_alerts_iff: "vault_ok v \<Longrightarrow> a \<in> set (iter_alerts ws v) \<longleftrightarrow>
    dict_get (v_alerts v) (entity_id a) = Some a \<and> in_workspace ws (al_workspace a)"
  using id_keyed_values [of "v_alerts v" a] by (auto simp: iter_alerts_def vault_ok_def)

lemma iter_metadata_iff: "vault_ok v \<Longrightarrow> m \<in> set (iter_metadata ws v) \<longleftrightarrow>
    dict_get (v_store v) (entity_id m) = Some m \<and> in_workspace ws (cd_workspace m)"
  using id_keyed_values [of "v_store v" m] by (auto simp: iter_metadata_def vault_ok_def)

lemma iter_templates_iff: "vault_ok v \<Longrightarrow> t \<in> set (iter_templates ws v) \<longleftrightarrow>
    dict_get (v_templates v) (entity_id t) = Some t \<and> in_workspace ws (tp_workspace t)"
  using id_keyed_values [of "v_templates v" t] by (auto simp: iter_templates_def vault_ok_def)

lemma listed_alert_rooted:
  "vault_ok v \<Longrightarrow> a \<in> set (iter_alerts ws v) \<Longrightarrow> al_credential a = Some c \<Longrightarrow> dict_get (v_store v) c \<noteq> None"
  by (simp add: iter_alerts_iff) (auto simp: vault_ok_def alerts_rooted_def)

lemma remove_alerts_get:
  assumes "vault_ok v"
  shows "dict_get (v_alerts (remove_alerts P v)) i =
    (case dict_get (v_alerts v) i of None \<Rightarrow> None | Some a \<Rightarrow> if P a then None else Some a)"
proof -
  have "i \<in> set (map entity_id (filter P (iter_alerts None v))) \<longleftrightarrow>
      (\<exists>a. dict_get (v_alerts v) i = Some a \<and> P a)"
  proof -
    have k: "id_keyed (v_alerts v)" using assms by (simp add: vault_ok_def)
    have "i \<in> set (map entity_id (filter P (iter_alerts None v))) \<longleftrightarrow>
        (\<exists>a. a \<in> set (iter_alerts None v) \<and> P a \<and> entity_id a = i)" by auto
    also have "\<dots> \<longleftrightarrow> (\<exists>a. dict_get (v_alerts v) (entity_id a) = Some a \<and> P a \<and> entity_id a = i)"
      by (simp add: iter_alerts_iff [OF assms] in_workspace_def)
    also have "\<dots> \<longleftrightarrow> (\<exists>a. dict_get (v_alerts v) i = Some a \<and> P a)"
      using id_keyed_get [OF k] by blast
    finally show ?thesis .
  qed
  then show ?thesis by (auto simp: remove_alerts_def split: option.splits)
qed

lemma get_credential_Inr:
  "get_credential i ctx v = Inr m \<longleftrightarrow> dict_get (v_store v) i = Some m \<and>
    matches_workspace (cd_workspace m) (context_or_any ctx) \<and> scope_allows (cd_scope m) (context_or_any ctx)"
  by (auto simp: get_credential_def split: option.splits)

lemma get_template_Inr:
  "get_template i ctx v = Inr t \<longleftrightarrow> dict_get (v_templates v) i = Some t \<and>
    matches_workspace (tp_workspace t) (context_or_any ctx) \<and> scope_allows (tp_scope t) (context_or_any ctx)"
  by (auto simp: get_template_def split: option.splits)

section \<open>Every operation keeps the invariant\<close>

lemma and_then_ok:
  "vault_ok (fst r) \<Longrightarrow> (\<And>s a. r = (s, Inr a) \<Longrightarrow> vault_ok (fst (k s a))) \<Longrightarrow> vault_ok (fst (and_then r k))"
  by (cases r; cases "snd r") (auto simp: and_then_def)

lemma removed_alerts_ok:
  assumes "vault_ok v" "names_unique (v_store w)" "id_keyed (v_store w)" "id_keyed (v_templates w)" "v_alerts w = v_alerts v"
    and "\<And>i a c. dict_get (v_alerts v) i = Some a \<Longrightarrow> \<not> P a \<Longrightarrow> al_credential a = Some c \<Longrightarrow> dict_get (v_store w) c \<noteq> None"
  shows "vault_ok (remove_alerts P w)"
proof -
  have "map entity_id (filter P (iter_alerts None w)) = map entity_id (filter P (iter_alerts None v))"
    by (simp add: iter_alerts_def assms(5))
  then have "v_alerts (remove_alerts P w) = v_alerts (remove_alerts P v)"
    by (simp add: remove_alerts_def assms(5))
  moreover from this have "id_keyed (v_alerts (remove_alerts P w))"
    using assms(1) by (simp add: remove_alerts_def vault_ok_def)
  moreover have "v_store (remove_alerts P w) = v_store w" "v_templates (remove_alerts P w) = v_templates w"
    by (simp_all add: remove_alerts_def)
  ultimately show ?thesis
    using assms(2-4,6) remove_alerts_get [OF assms(1), of P]
    by (auto simp: vault_ok_def alerts_rooted_def split: option.splits if_splits)
qed

lemma create_credential_ok: "vault_ok v \<Longrightarrow> vault_ok (fst (create_credential d n p ss s a sc k ot t ws v))"
  by (auto simp: create_credential_def persist_metadata_ok split: sum.splits)

lemma rotate_secret_ok: "vault_ok v \<Longrightarrow> vault_ok (fst (rotate_secret d i s a ctx v))"
  unfolding rotate_secret_def by (intro and_then_ok) (auto simp: persist_metadata_ok)

lemma update_credential_ok: "vault_ok v \<Longrightarrow> vault_ok (fst (update_credential d now i a n p s sc ctx v))"
  unfolding update_credential_def by (intro and_then_ok) (auto simp: persist_metadata_ok Let_def)

lemma update_oauth_tokens_ok: "vault_ok v \<Longrightarrow> vault_ok (fst (update_oauth_tokens d i ot a ctx v))"
  unfolding update_oauth_tokens_def by (intro and_then_ok) (auto simp: persist_metadata_ok)

lemma mark_health_ok: "vault_ok v \<Longrightarrow> vault_ok (fst (mark_health d i st re a ctx v))"
  unfolding mark_health_def by (intro and_then_ok) (auto simp: persist_metadata_ok)

lemma delete_credential_ok:
  assumes "vault_ok v"
  shows "vault_ok (fst (delete_credential i ctx v))"
proof (cases "get_credential i ctx v")
  case (Inr m)
  have "vault_ok (remove_alerts (\<lambda>a. al_credential a = Some (entity_id m)) (v\<lparr>v_store := dict_pop (entity_id m) (v_store v)\<rparr>))"
    by (rule removed_alerts_ok [OF assms]) (use assms in \<open>auto simp: vault_ok_def names_unique_def alerts_rooted_def\<close>)
  with Inr show ?thesis by (simp add: delete_credential_def)
qed (simp add: delete_credential_def assms)

lemma create_template_ok: "vault_ok v \<Longrightarrow> vault_ok (fst (create_template d n p ss a de sc k po ws v))"
  by (auto simp: create_template_def persist_template_ok Let_def split: sum.splits)

lemma update_template_ok: "vault_ok v \<Longrightarrow> vault_ok (fst (update_template now i a n de ss sc k po ctx v))"
  unfolding update_template_def by (intro and_then_ok) (auto simp: persist_template_ok Let_def)

lemma delete_template_ok:
  assumes "vault_ok v"
  shows "vault_ok (fst (delete_template i ctx v))"
proof (cases "get_template i ctx v")
  case (Inr t)
  have "vault_ok (remove_alerts (\<lambda>a. al_template a = Some i) (v\<lparr>v_templates := dict_pop i (v_templates v)\<rparr>))"
    by (rule removed_alerts_ok [OF assms]) (use assms in \<open>auto simp: vault_ok_def alerts_rooted_def\<close>)
  with Inr show ?thesis by (simp add: delete_template_def)
qed (simp add: delete_template_def assms)

lemma record_template_issuance_ok: "vault_ok v \<Longrightarrow> vault_ok (fst (record_template_issuance now i a c ctx v))"
  unfolding record_template_issuance_def by (intro and_then_ok) (auto simp: persist_template_ok Let_def)

lemma record_alert_ok:
  assumes "vault_ok v"
  shows "vault_ok (fst (record_alert d k sev msg a ci ti ctx ws v))"
proof (cases "alert_subject ci ti (context_or_any ctx) (workspace_filter ws (context_or_any ctx)) v")
  case (Inr x)
  obtain scope t w where x: "x = (scope, t, w)" by (cases x)
  have root: "dict_get (v_store v) c \<noteq> None" if "ci = Some c" for c
    using Inr that by (auto simp: alert_subject_def seqE_Inr_iff get_credential_Inr)
  show ?thesis
  proof (cases "find (open_alert k ci t (context_or_any ctx)) (iter_alerts w v)")
    case None
    with Inr x root assms show ?thesis
      by (auto simp: record_alert_def Let_def new_alert_def intro!: persist_alert_ok)
  next
    case (Some al)
    then have "al \<in> set (iter_alerts w v)" by (auto simp: find_Some_iff)
    with listed_alert_rooted [OF assms this] Inr x Some assms show ?thesis
      by (auto simp: record_alert_def Let_def intro!: persist_alert_ok)
  qed
qed (simp add: record_alert_def Let_def assms)

lemma acknowledge_simps [simp]:
  "al_credential (acknowledge t t' actor a) = al_credential a"
  "entity_id (acknowledge t t' actor a) = entity_id a"
  by (simp_all add: acknowledge_def)

lemma acknowledge_alert_ok:
  assumes "vault_ok v"
  shows "vault_ok (fst (acknowledge_alert t t' i actor ctx v))"
proof (cases "get_alert i ctx v")
  case (Inr a)
  then have "dict_get (v_alerts v) i = Some a" by (auto simp: get_alert_def split: option.splits if_splits)
  with assms have "dict_get (v_store v) c \<noteq> None" if "al_credential a = Some c" for c
    using that unfolding vault_ok_def alerts_rooted_def by blast
  then have "vault_ok (persist_alert (acknowledge t t' actor a) v)"
    by (intro persist_alert_ok [OF assms]) simp
  with Inr show ?thesis by (simp add: acknowledge_alert_def Let_def)
qed (simp add: acknowledge_alert_def assms)

lemma fold_persist_alert_ok:
  "vault_ok v \<Longrightarrow> (\<And>a c. a \<in> set as \<Longrightarrow> al_credential a = Some c \<Longrightarrow> dict_get (v_store v) c \<noteq> None) \<Longrightarrow>
    vault_ok (fold persist_alert as v) \<and> v_store (fold persist_alert as v) = v_store v \<and>
    v_cipher (fold persist_alert as v) = v_cipher v"
proof (induction as arbitrary: v)
  case (Cons a as)
  have "vault_ok (persist_alert a v)" using Cons.prems by (intro persist_alert_ok) auto
  moreover have "v_store (persist_alert a v) = v_store v" "v_cipher (persist_alert a v) = v_cipher v"
    by (simp_all add: persist_alert_def)
  ultimately show ?case using Cons.IH [of "persist_alert a v"] Cons.prems(2) by auto
qed simp

lemma resolve_alerts_ok:
  assumes "vault_ok v"
  shows "vault_ok (fst (resolve_alerts_for_credential clk c a v)) \<and>
    v_store (fst (resolve_alerts_for_credential clk c a v)) = v_store v \<and>
    v_cipher (fst (resolve_alerts_for_credential clk c a v)) = v_cipher v"
proof -
  let ?pending = "filter (\<lambda>x. al_credential x = Some c \<and> \<not> al_acknowledged x) (iter_alerts None v)"
  let ?resolved = "map (\<lambda>x. acknowledge (fst (clk (entity_id x))) (snd (clk (entity_id x))) a x) ?pending"
  have rooted: "dict_get (v_store v) i \<noteq> None" if r: "x \<in> set ?resolved" "al_credential x = Some i" for x i
  proof -
    obtain y where "y \<in> set (iter_alerts None v)" "al_credential y = Some i" using r by auto
    then show ?thesis by (rule listed_alert_rooted [OF assms])
  qed
  have "resolve_alerts_for_credential clk c a v = (fold persist_alert ?resolved v, ?resolved)"
    by (simp add: resolve_alerts_for_credential_def Let_def)
  then show ?thesis using fold_persist_alert_ok [OF assms rooted] by (simp only: fst_conv)
qed

section \<open>Reachable vaults\<close>

inductive vault_step :: "vault \<Rightarrow> vault \<Rightarrow> bool" where
  create: "vault_step v (fst (create_credential d n p ss s a sc k ot t ws v))"
| rotate: "vault_step v (fst (rotate_secret d i s a ctx v))"
| update: "vault_step v (fst (update_credential d now i a n p s' sc ctx v))"
| tokens: "vault_step v (fst (update_oauth_tokens d i ot ao ctx v))"
| health: "vault_step v (fst (mark_health d i st re ao ctx v))"
| delete: "vault_step v (fst (delete_credential i ctx v))"
| create_template: "vault_step v (fst (create_template d n p ss a de sc k po ws v))"
| update_template: "vault_step v (fst (update_template now i a n' de sso sc ko po ctx v))"
| delete_template: "vault_step v (fst (delete_template i ctx v))"
| issuance: "vault_step v (fst (record_template_issuance now i a c ctx v))"
| alert: "vault_step v (fst (record_alert d ak sev msg a ci ti ctx ws v))"
| acknowledge: "vault_step v (fst (acknowledge_alert now now' i a ctx v))"
| resolve: "vault_step v (fst (resolve_alerts_for_credential clk c a v))"

inductive vault_reachable :: "cipher \<Rightarrow> vault \<Rightarrow> bool" for c where
  start: "vault_reachable c (new_vault c)"
| step: "vault_reachable c v \<Longrightarrow> vault_step v v' \<Longrightarrow> vault_reachable c v'"

lemmas vault_ops_ok =
  create_credential_ok rotate_secret_ok update_credential_ok update_oauth_tokens_ok mark_health_ok
  delete_credential_ok create_template_ok update_template_ok delete_template_ok record_template_issuance_ok
  record_alert_ok acknowledge_alert_ok

lemma vault_step_ok: "vault_step v v' \<Longrightarrow> vault_ok v \<Longrightarrow> vault_ok v'"
  by (induction rule: vault_step.induct) (simp_all add: vault_ops_ok resolve_alerts_ok)

lemma vault_reachable_ok: "vault_reachable c v \<Longrightarrow> vault_ok v"
  by (induction rule: vault_reachable.induct) (simp_all add: vault_step_ok)

lemma and_then_cipher:
  "v_cipher (fst r) = x \<Longrightarrow> (\<And>s a. r = (s, Inr a) \<Longrightarrow> v_cipher (fst (k s a)) = x) \<Longrightarrow> v_cipher (fst (and_then r k)) = x"
  by (cases r; cases "snd r") (auto simp: and_then_def)

lemma primitive_cipher [simp]:
  "v_cipher (fst (persist_metadata m v)) = v_cipher v"
  "v_cipher (persist_template t v) = v_cipher v"
  "v_cipher (persist_alert a v) = v_cipher v"
  "v_cipher (remove_alerts P v) = v_cipher v"
  by (simp_all add: persist_metadata_def persist_template_def persist_alert_def remove_alerts_def)

lemma fold_persist_cipher [simp]: "v_cipher (fold persist_alert as v) = v_cipher v"
  by (induction as arbitrary: v) simp_all

lemma vault_step_cipher: "vault_step v v' \<Longrightarrow> v_cipher v' = v_cipher v"
proof (induction rule: vault_step.induct)
  case (create v d n p ss s a sc k ot t ws)
  show ?case by (simp add: create_credential_def split: sum.splits)
next
  case (create_template v d n p ss a de sc k po ws)
  show ?case by (simp add: create_template_def Let_def split: sum.splits)
next
  case (alert v d ak sev msg a ci ti ctx ws)
  show ?case unfolding record_alert_def Let_def
    by (intro and_then_cipher) (auto split: option.splits)
next
  case (resolve v clk c a)
  show ?case by (simp add: resolve_alerts_for_credential_def Let_def)
qed (unfold rotate_secret_def update_credential_def update_oauth_tokens_def mark_health_def delete_credential_def
    update_template_def delete_template_def record_template_issuance_def acknowledge_alert_def Let_def;
  intro and_then_cipher; auto)+

lemma vault_reachable_cipher: "vault_reachable c v \<Longrightarrow> v_cipher v = c"
  by (induction rule: vault_reachable.induct) (simp_all add: new_vault_def vault_step_cipher)

text \<open>C31. In every vault that operations reach from an empty one, no two credentials of a workspace have
  names that differ only in case, and every alert about a credential is about one that is stored.\<close>

theorem vault_invariant:
  assumes "vault_reachable c v"
  shows "v_cipher v = c \<and>
    (\<forall>i j m n. dict_get (v_store v) i = Some m \<and> dict_get (v_store v) j = Some n \<and> i \<noteq> j \<longrightarrow> \<not> same_name m n) \<and>
    (\<forall>i a k. dict_get (v_alerts v) i = Some a \<and> al_credential a = Some k \<longrightarrow> dict_get (v_store v) k \<noteq> None)"
  using vault_reachable_ok [OF assms] vault_reachable_cipher [OF assms]
  unfolding vault_ok_def names_unique_def alerts_rooted_def by blast

section \<open>What a context sees\<close>

lemma in_workspace_context: "in_workspace (workspace_filter None c) ws \<longleftrightarrow> matches_workspace ws c"
  by (simp add: in_workspace_def workspace_filter_def matches_workspace_def split: option.splits)

text \<open>C32. A context lists exactly the credentials and the templates it can use: an entry is listed when and
  only when looking it up by its identifier under the same context gives that entry.\<close>

theorem listed_iff_usable:
  assumes "vault_reachable c v"
  shows "(m \<in> set (list_credentials ctx None v) \<longleftrightarrow> get_credential (entity_id m) ctx v = Inr m) \<and>
    (t \<in> set (list_templates ctx None v) \<longleftrightarrow> get_template (entity_id t) ctx v = Inr t)"
  using vault_reachable_ok [OF assms]
  by (auto simp: list_credentials_def list_templates_def iter_metadata_iff iter_templates_iff in_workspace_context
      get_credential_Inr get_template_Inr)

text \<open>C33. Alerts are not confined like that: an alert of another workspace whose scope allows the context is
  not listed for it, yet the context can acknowledge it.\<close>

theorem alert_acknowledged_across_workspaces:
  assumes "vault_reachable c v" "dict_get (v_alerts v) i = Some a" "scope_allows (al_scope a) ctx"
    and "\<not> matches_workspace (al_workspace a) ctx"
  shows "a \<notin> set (list_alerts (Some ctx) True v) \<and>
    acknowledge_alert now now' i actor (Some ctx) v =
      (persist_alert (acknowledge now now' actor a) v, Inr (acknowledge now now' actor a))"
  using assms
  by (auto simp: list_alerts_def Let_def context_or_any_def acknowledge_alert_def get_alert_def)

section \<open>Secrets are read back\<close>

lemma decrypt_encrypt:
  "\<forall>n t. ci_open c (ci_seal c n t) = Some t \<Longrightarrow> decrypt c (encrypt c n t) = Inr t"
  by (simp add: decrypt_def encrypt_def)

lemma persist_metadata_Inr:
  "persist_metadata m v = (v', Inr m') \<longleftrightarrow>
    \<not> name_taken m (v_store v) \<and> m' = m \<and> v' = v\<lparr>v_store := dict_set (entity_id m) m (v_store v)\<rparr>"
  by (auto simp: persist_metadata_def)

lemma rotate_simps [simp]:
  "entity_id (rotate c d s a m) = entity_id m"
  "cd_workspace (rotate c d s a m) = cd_workspace m"
  "cd_scope (rotate c d s a m) = cd_scope m"
  "cd_encryption (rotate c d s a m) = encrypt c (nonce_secret d) s"
  by (simp_all add: rotate_def Let_def)


section \<open>Witnesses\<close>

definition sample_cipher :: cipher where
  "sample_cipher = \<lparr>ci_algorithm = ''a'', ci_key_id = ''k'', ci_seal = (\<lambda>n t. rev t), ci_open = (\<lambda>t. Some (rev t))\<rparr>"

definition sample_draws :: "nat \<Rightarrow> draws" where
  "sample_draws i = \<lparr>at_first = int i, at_second = int i, at_third = int i, fresh_id = i,
     nonce_secret = ''n'', nonce_access = ''n'', nonce_refresh = ''n''\<rparr>"

definition workspace_access :: "nat \<Rightarrow> access_context" where
  "workspace_access w = access_context_of None (Some w) []"

definition stored_vault :: vault where
  "stored_vault = fst (create_credential (sample_draws 1) ''Key'' ''p'' [] ''s'' ''u'' None (Inl SecretKind) None None
     (Some (uuid_text 1)) (new_vault sample_cipher))"

definition alerted_vault :: vault where
  "alerted_vault = fst (record_alert (sample_draws 2) ValidationFailed AlertCritical ''m'' ''u'' (Some 1) None
     (Some (workspace_access 1)) None stored_vault)"

lemma stored_reachable: "vault_reachable sample_cipher stored_vault"
  unfolding stored_vault_def by (rule step [OF start create])

lemma alerted_reachable: "vault_reachable sample_cipher alerted_vault"
  unfolding alerted_vault_def by (rule step [OF stored_reachable alert])

theorem vault_invariant_witness: "dict_get (v_store alerted_vault) 1 \<noteq> None \<and> v_cipher alerted_vault = sample_cipher"
proof -
  have "case dict_get (v_alerts alerted_vault) 2 of Some a \<Rightarrow> al_credential a = Some 1 | None \<Rightarrow> False"
    by code_simp
  then obtain a where "dict_get (v_alerts alerted_vault) 2 = Some a" "al_credential a = Some 1"
    by (auto split: option.splits)
  with vault_invariant [OF alerted_reachable] show ?thesis by blast
qed

theorem listed_iff_usable_witness:
  "the (dict_get (v_store stored_vault) 1) \<in> set (list_credentials (Some (workspace_access 1)) None stored_vault) \<and>
   the (dict_get (v_store stored_vault) 1) \<notin> set (list_credentials (Some (workspace_access 2)) None stored_vault)"
  by (simp add: listed_iff_usable [OF stored_reachable, THEN conjunct1]) code_simp

theorem alert_acknowledged_across_workspaces_witness:
  "\<exists>a. list_alerts (Some (workspace_access 2)) True alerted_vault = [] \<and>
     snd (acknowledge_alert 5 6 2 ''x'' (Some (workspace_access 2)) alerted_vault) = Inr a \<and> al_acknowledged a"
proof -
  obtain a where a: "dict_get (v_alerts alerted_vault) 2 = Some a" "scope_allows (al_scope a) (workspace_access 2)"
      "\<not> matches_workspace (al_workspace a) (workspace_access 2)" "\<not> al_acknowledged a"
  proof -
    have "case dict_get (v_alerts alerted_vault) 2 of None \<Rightarrow> False
        | Some a \<Rightarrow> scope_allows (al_scope a) (workspace_access 2) \<and>
            \<not> matches_workspace (al_workspace a) (workspace_access 2) \<and> \<not> al_acknowledged a"
      by code_simp
    with that show thesis by (auto split: option.splits)
  qed
  have "list_alerts (Some (workspace_access 2)) True alerted_vault = []" by code_simp
  with alert_acknowledged_across_workspaces [OF alerted_reachable a(1-3), of 5 6 "''x''"] a(4) show ?thesis
    by (simp add: acknowledge_def record_event_def)
qed


end
