(* ===== verification/Credential_Service_Laws.thy ===== *)
theory Credential_Service_Laws
  imports Credential_Service Vault_Laws
begin

text \<open>
  Laws of the credential service: what one check changes in the vault, when a health check returns, and
  that its report agrees with the vault it leaves behind.
\<close>

section \<open>Changes that keep access\<close>

definition same_access :: "credential \<Rightarrow> credential \<Rightarrow> bool" where
  "same_access m n \<longleftrightarrow> entity_id n = entity_id m \<and> cd_name n = cd_name m \<and> cd_workspace n = cd_workspace m \<and>
    cd_scope n = cd_scope m \<and> cd_kind n = cd_kind m"

text \<open>\<open>v'\<close> differs from \<open>v\<close> in the credential \<open>i\<close> and in alerts only, and not in who may use it.\<close>

definition touches :: "uuid \<Rightarrow> vault \<Rightarrow> vault \<Rightarrow> bool" where
  "touches i v v' \<longleftrightarrow> vault_ok v' \<and> v_cipher v' = v_cipher v \<and>
    (\<forall>j. j \<noteq> i \<longrightarrow> dict_get (v_store v') j = dict_get (v_store v) j) \<and>
    rel_option same_access (dict_get (v_store v) i) (dict_get (v_store v') i)"

lemma same_access_refl [simp]: "same_access m m"
  by (simp add: same_access_def)

lemma same_access_trans: "same_access a b \<Longrightarrow> same_access b c \<Longrightarrow> same_access a c"
  by (simp add: same_access_def)

lemma touches_refl: "vault_ok v \<Longrightarrow> touches i v v"
  by (simp add: touches_def option.rel_refl)

lemma touches_trans: "touches i u v \<Longrightarrow> touches i v w \<Longrightarrow> touches i u w"
  unfolding touches_def
  by (cases "dict_get (v_store u) i"; cases "dict_get (v_store v) i"; cases "dict_get (v_store w) i")
    (auto intro: same_access_trans)

lemma touches_other: "touches i v v' \<Longrightarrow> j \<noteq> i \<Longrightarrow> dict_get (v_store v') j = dict_get (v_store v) j"
  by (simp add: touches_def)

lemma distinct_other: "distinct (map f (x # xs)) \<Longrightarrow> y \<in> set xs \<Longrightarrow> f y \<noteq> f x"
  by (auto simp: image_iff)

lemma touches_cipher: "touches i v v' \<Longrightarrow> v_cipher v' = v_cipher v"
  by (simp add: touches_def)

lemma touches_alerts: "vault_ok v' \<Longrightarrow> v_store v' = v_store v \<Longrightarrow> v_cipher v' = v_cipher v \<Longrightarrow> touches i v v'"
  by (simp add: touches_def option.rel_refl)

lemma touches_get_credential:
  assumes "touches i v v'" "get_credential i ctx v = Inr m"
  shows "\<exists>m'. get_credential i ctx v' = Inr m' \<and> same_access m m'"
proof -
  have "dict_get (v_store v) i = Some m" using assms(2) by (simp add: get_credential_Inr)
  with assms(1) obtain m' where "dict_get (v_store v') i = Some m'" "same_access m m'"
    by (auto simp: touches_def option_rel_Some1)
  with assms(2) show ?thesis by (auto simp: get_credential_Inr same_access_def)
qed

lemma get_credential_id: "vault_ok v \<Longrightarrow> get_credential i ctx v = Inr m \<Longrightarrow> entity_id m = i"
  using id_keyed_get [of "v_store v" i m] by (simp add: get_credential_Inr vault_ok_def)

lemma name_not_taken:
  assumes "vault_ok v" "dict_get (v_store v) i = Some m" "same_access m n"
  shows "\<not> name_taken n (v_store v)"
proof
  assume "name_taken n (v_store v)"
  then obtain j s where s: "(j, s) \<in> set (v_store v)" "j \<noteq> entity_id n" "same_name s n"
    by (auto simp: name_taken_def list_ex_iff same_name_def)
  have k: "id_keyed (v_store v)" and u: "names_unique (v_store v)" using assms(1) by (simp_all add: vault_ok_def)
  have "dict_get (v_store v) j = Some s" using s(1) k dict_get_iff [of "v_store v" j s] by (simp add: id_keyed_def)
  moreover have "same_name s m" using s(3) assms(3) by (simp add: same_name_def same_access_def)
  ultimately have "j = i" using u assms(2) by (auto simp: names_unique_def)
  moreover have "entity_id n = i" using id_keyed_get [OF k assms(2)] assms(3) by (simp add: same_access_def)
  ultimately show False using s(2) by simp
qed

lemma persist_touches:
  assumes "vault_ok v" "dict_get (v_store v) i = Some m" "same_access m n"
  shows "\<exists>v'. persist_metadata n v = (v', Inr n) \<and> touches i v v' \<and> dict_get (v_store v') i = Some n"
proof -
  have n: "entity_id n = i"
    using assms id_keyed_get [of "v_store v" i m] by (simp add: vault_ok_def same_access_def)
  let ?v = "v\<lparr>v_store := dict_set (entity_id n) n (v_store v)\<rparr>"
  have p: "persist_metadata n v = (?v, Inr n)"
    using name_not_taken [OF assms] by (simp add: persist_metadata_def)
  then have "vault_ok ?v" using persist_metadata_ok [OF assms(1), of n] by simp
  with p n assms(2,3) show ?thesis by (auto simp: touches_def)
qed

lemma mark_health_touches:
  assumes "vault_ok v" "get_credential i ctx v = Inr m"
  shows "\<exists>v' u. mark_health d i status reason actor ctx v = (v', Inr u) \<and> touches i v v' \<and>
    dict_get (v_store v') i = Some u \<and> ch_status (cd_health u) = status"
proof -
  let ?n = "set_health d status reason (if opt_truthy actor then the actor else ''system'') m"
  have "same_access m ?n" "ch_status (cd_health ?n) = status"
    by (simp_all add: same_access_def set_health_def health_update_def)
  moreover have "dict_get (v_store v) i = Some m" using assms(2) by (simp add: get_credential_Inr)
  moreover have "mark_health d i status reason actor ctx v = persist_metadata ?n v"
    by (simp add: mark_health_def assms(2))
  ultimately show ?thesis using persist_touches [OF assms(1), of i m ?n] by metis
qed

lemma update_tokens_touches:
  assumes "vault_ok v" "get_credential i ctx v = Inr m" "cd_kind m = OAuthKind"
  shows "\<exists>v' u. update_oauth_tokens d i tokens actor ctx v = (v', Inr u) \<and> touches i v v'"
proof -
  obtain n where n: "set_oauth_tokens (v_cipher v) d tokens (if opt_truthy actor then the actor else ''system'') m = Inr n"
      "same_access m n"
    using assms(3) by (auto simp: set_oauth_tokens_def same_access_def Let_def)
  have "dict_get (v_store v) i = Some m" using assms(2) by (simp add: get_credential_Inr)
  moreover have "update_oauth_tokens d i tokens actor ctx v = persist_metadata n v"
    by (simp add: update_oauth_tokens_def assms(2) n(1))
  ultimately show ?thesis using persist_touches [OF assms(1) _ n(2)] by metis
qed

lemma record_alert_touches:
  assumes "vault_ok v" "get_credential i (Some ctx) v = Inr m"
  shows "\<exists>v' a. record_alert d k sev msg actor (Some i) t (Some ctx) ws v = (v', Inr a) \<and> touches i v v' \<and>
    v_store v' = v_store v"
proof -
  let ?r = "record_alert d k sev msg actor (Some i) t (Some ctx) ws v"
  have r: "v_store (fst ?r) = v_store v \<and> v_cipher (fst ?r) = v_cipher v \<and> (\<exists>a. snd ?r = Inr a)"
    using assms(2)
    by (auto simp: record_alert_def Let_def alert_subject_def context_or_any_def persist_alert_def split: option.splits)
  then show ?thesis
    using record_alert_ok [OF assms(1), of d k sev msg actor "Some i" t "Some ctx" ws] touches_alerts
    by (metis prod.collapse)
qed

lemma resolve_touches:
  "vault_ok v \<Longrightarrow> touches i v (fst (resolve_alerts_for_credential clk c a v)) \<and>
    v_store (fst (resolve_alerts_for_credential clk c a v)) = v_store v"
  using resolve_alerts_ok by (auto intro: touches_alerts)

section \<open>One credential\<close>

definition reported :: "vault \<Rightarrow> uuid \<Rightarrow> health_result \<Rightarrow> bool" where
  "reported v i r \<longleftrightarrow> (\<exists>u. dict_get (v_store v) i = Some u \<and> build_result u = r)"

lemma touches_ok: "touches i v v' \<Longrightarrow> vault_ok v'"
  by (simp add: touches_def)

lemma process_failure_returns:
  assumes "vault_ok v" "get_credential (entity_id m) (Some ctx) v = Inr m'"
  shows "\<exists>v' r. process_failure d m ctx actor reason message v = (v', Inr r) \<and> touches (entity_id m) v v' \<and>
    reported v' (entity_id m) r"
proof -
  obtain v1 u where 1: "mark_health (pd_mark d) (entity_id m) Unhealthy (Some reason) (Some actor) (Some ctx) v = (v1, Inr u)"
      "touches (entity_id m) v v1" "dict_get (v_store v1) (entity_id m) = Some u"
    using mark_health_touches [OF assms, of "pd_mark d" Unhealthy "Some reason" "Some actor"] by blast
  obtain u' where u': "get_credential (entity_id m) (Some ctx) v1 = Inr u'"
    using touches_get_credential [OF 1(2) assms(2)] by blast
  obtain v2 a where 2: "record_validation_failure d m actor ctx message v1 = (v2, Inr a)"
      "touches (entity_id m) v1 v2" "v_store v2 = v_store v1"
    using record_alert_touches [OF touches_ok [OF 1(2)] u'] unfolding record_validation_failure_def by blast
  have "process_failure d m ctx actor reason message v = (v2, Inr (build_result u))"
    by (simp add: process_failure_def 1(1) 2(1))
  moreover have "reported v2 (entity_id m) (build_result u)" using 1(3) 2(3) by (auto simp: reported_def)
  ultimately show ?thesis using touches_trans [OF 1(2) 2(2)] by blast
qed

lemma rotation_returns:
  assumes "vault_ok v" "get_credential (entity_id m) (Some ctx) v = Inr m'"
  shows "\<exists>v' b. apply_rotation_policy d t m ctx actor v = (v', Inr b) \<and> touches (entity_id m) v v' \<and> v_store v' = v_store v"
proof (cases "case t of None \<Rightarrow> False | Some t \<Rightarrow> requires_rotation (pd_rotation_now d) (cd_rotated m) (tp_policy t)")
  case True
  obtain v' a where "record_alert (pd_rotation d) RotationOverdue AlertWarning
      ''Credential rotation is overdue per template policy.'' actor (Some (entity_id m)) (cd_template m) (Some ctx) None v =
        (v', Inr a)" "touches (entity_id m) v v'" "v_store v' = v_store v"
    using record_alert_touches [OF assms] by blast
  with True show ?thesis by (auto simp: apply_rotation_policy_def)
next
  case False
  then have "apply_rotation_policy d t m ctx actor v = (v, Inr False)" by (simp add: apply_rotation_policy_def)
  with touches_refl [OF assms(1)] show ?thesis by blast
qed

lemma expiry_returns:
  assumes "vault_ok v" "get_credential (entity_id m) (Some ctx) v = Inr m'"
  shows "\<exists>v' b. apply_token_expiry_alert isof mg d m tk ctx actor v = (v', Inr b) \<and> touches (entity_id m) v v' \<and>
    v_store v' = v_store v"
proof (cases "\<exists>t e. tk = Some t \<and> ot_expires t = Some e \<and> e \<le> pd_expiry_now d + mg")
  case True
  then obtain t e where e: "tk = Some t" "ot_expires t = Some e" "e \<le> pd_expiry_now d + mg" by blast
  obtain v' x where "record_alert (pd_expiry d) TokenExpiring AlertWarning (''Token expires at '' @ isof e) actor
      (Some (entity_id m)) None (Some ctx) None v = (v', Inr x)" "touches (entity_id m) v v'" "v_store v' = v_store v"
    using record_alert_touches [OF assms] by blast
  with e show ?thesis by (auto simp: apply_token_expiry_alert_def)
next
  case False
  then have "apply_token_expiry_alert isof mg d m tk ctx actor v = (v, Inr False)"
    by (auto simp: apply_token_expiry_alert_def split: option.splits)
  with touches_refl [OF assms(1)] show ?thesis by blast
qed

lemma refresh_touches:
  assumes "vault_ok v" "get_credential (entity_id m) (Some ctx) v = Inr m'" "cd_kind m' = OAuthKind"
  shows "touches (entity_id m) v (fst (refresh_step mg d p m tk ctx actor v))"
proof (cases "\<exists>new. should_refresh_tokens (pd_refresh_now d) mg tk \<and> pr_refresh p m tk = Inr (Some new)")
  case True
  then obtain new where n: "should_refresh_tokens (pd_refresh_now d) mg tk" "pr_refresh p m tk = Inr (Some new)" by blast
  obtain v' u where u: "update_oauth_tokens (pd_tokens d) (entity_id m) (Some new) (Some actor) (Some ctx) v = (v', Inr u)"
      "touches (entity_id m) v v'"
    using update_tokens_touches [OF assms] by blast
  then have "fst (refresh_step mg d p m tk ctx actor v) = v'"
    by (simp add: refresh_step_def n split: sum.splits)
  with u(2) show ?thesis by simp
next
  case False
  then have "fst (refresh_step mg d p m tk ctx actor v) = v"
    by (auto simp: refresh_step_def split: sum.splits option.splits)
  with touches_refl [OF assms(1)] show ?thesis by simp
qed

lemma validate_returns:
  assumes "vault_ok v" "get_credential (entity_id m) (Some ctx) v = Inr m0"
  shows "\<exists>v' r. validate_step isof mg d p m m' tk overdue ctx actor v = (v', Inr r) \<and> touches (entity_id m) v v' \<and>
    reported v' (entity_id m) r"
proof -
  obtain status reason where s: "(case pr_validate p m' tk of Inl message \<Rightarrow> (Unhealthy, Some message) | Inr x \<Rightarrow> x) =
      (status, reason)"
    by (cases "case pr_validate p m' tk of Inl message \<Rightarrow> (Unhealthy, Some message) | Inr x \<Rightarrow> x") auto
  obtain v1 u where 1: "mark_health (pd_mark d) (entity_id m) status reason (Some actor) (Some ctx) v = (v1, Inr u)"
      "touches (entity_id m) v v1" "dict_get (v_store v1) (entity_id m) = Some u"
    using mark_health_touches [OF assms, of "pd_mark d" status reason "Some actor"] by blast
  obtain u1 where u1: "get_credential (entity_id m) (Some ctx) v1 = Inr u1"
    using touches_get_credential [OF 1(2) assms(2)] by blast
  obtain v2 b where 2: "apply_token_expiry_alert isof mg d m tk ctx actor v1 = (v2, Inr b)"
      "touches (entity_id m) v1 v2" "v_store v2 = v_store v1"
    using expiry_returns [OF touches_ok [OF 1(2)] u1] by blast
  obtain u2 where u2: "get_credential (entity_id m) (Some ctx) v2 = Inr u2"
    using touches_get_credential [OF 2(2) u1] by blast
  obtain v3 where 3: "validate_step isof mg d p m m' tk overdue ctx actor v = (v3, Inr (build_result u))"
      "touches (entity_id m) v2 v3" "v_store v3 = v_store v2"
  proof (cases "status = Unhealthy")
    case True
    obtain v3 a where "record_validation_failure d m actor ctx
        (if opt_truthy reason then the reason else ''Credential validation failed'') v2 = (v3, Inr a)"
        "touches (entity_id m) v2 v3" "v_store v3 = v_store v2"
      using record_alert_touches [OF touches_ok [OF 2(2)] u2] unfolding record_validation_failure_def by blast
    with that [of v3] True show thesis by (simp add: validate_step_def s 1(1) [unfolded True] 2(1))
  next
    case False
    show thesis
    proof (cases "overdue \<or> b")
      case True
      with that [of v2] touches_refl [OF touches_ok [OF 2(2)]] False show thesis
        by (auto simp: validate_step_def s 1(1) 2(1))
    next
      case no_alert: False
      with that [of "fst (resolve_alerts_for_credential (pd_resolve d) (entity_id u) actor v2)"] False
        resolve_touches [OF touches_ok [OF 2(2)]]
      show thesis by (simp add: validate_step_def s 1(1) 2(1))
    qed
  qed
  have "reported v3 (entity_id m) (build_result u)" using 1(3) 2(3) 3(3) by (auto simp: reported_def)
  with 3(1) touches_trans [OF touches_trans [OF 1(2) 2(2)] 3(2)] show ?thesis by blast
qed

text \<open>The only obstacle to a check: tokens of a registered provider that do not decrypt.\<close>

definition checkable :: "(string, provider) dict \<Rightarrow> cipher \<Rightarrow> credential \<Rightarrow> bool" where
  "checkable providers c m \<longleftrightarrow>
    cd_kind m = OAuthKind \<and> dict_get providers (cd_provider m) \<noteq> None \<longrightarrow> (\<exists>t. reveal_oauth_tokens c m = Inr t)"

lemma check_credential_returns:
  assumes "vault_ok v" "get_credential (entity_id m) (Some ctx) v = Inr m" "checkable providers (v_cipher v) m"
  shows "\<exists>v' r. check_credential isof mg providers d ctx actor m v = (v', Inr r) \<and> touches (entity_id m) v v' \<and>
    reported v' (entity_id m) r"
proof (cases "cd_kind m = OAuthKind")
  case False
  obtain v' u where "mark_health (pd_mark d) (entity_id m) Healthy None (Some actor) (Some ctx) v = (v', Inr u)"
      "touches (entity_id m) v v'" "dict_get (v_store v') (entity_id m) = Some u"
    using mark_health_touches [OF assms(1,2), of "pd_mark d" Healthy None "Some actor"] by blast
  with False show ?thesis by (auto simp: check_credential_def reported_def)
next
  case oauth: True
  show ?thesis
  proof (cases "dict_get providers (cd_provider m)")
    case None
    with oauth process_failure_returns [OF assms(1,2)] show ?thesis by (simp add: check_credential_def process_def)
  next
    case (Some p)
    with assms(3) oauth obtain tk where tk: "reveal_oauth_tokens (v_cipher v) m = Inr tk" by (auto simp: checkable_def)
    obtain v1 b where 1: "apply_rotation_policy d (load_template_for_metadata m ctx v) m ctx actor v = (v1, Inr b)"
        "touches (entity_id m) v v1" "v_store v1 = v_store v"
      using rotation_returns [OF assms(1,2)] by blast
    have m1: "get_credential (entity_id m) (Some ctx) v1 = Inr m" using assms(2) 1(3) by (simp add: get_credential_def)
    obtain v2 x where 2: "refresh_step mg d p m tk ctx actor v1 = (v2, x)" by (cases "refresh_step mg d p m tk ctx actor v1")
    then have t2: "touches (entity_id m) v1 v2"
      using refresh_touches [OF touches_ok [OF 1(2)] m1 oauth] by (metis fst_conv)
    obtain m2 where m2: "get_credential (entity_id m) (Some ctx) v2 = Inr m2" using touches_get_credential [OF t2 m1] by blast
    have rest: "\<exists>v' r. (case (v2, x) of
          (v', Inl message) \<Rightarrow> process_failure d m ctx actor message message v'
        | (v', Inr (m', tokens')) \<Rightarrow> validate_step isof mg d p m m' tokens' b ctx actor v') = (v', Inr r) \<and>
        touches (entity_id m) v2 v' \<and> reported v' (entity_id m) r"
      using process_failure_returns [OF touches_ok [OF t2] m2] validate_returns [OF touches_ok [OF t2] m2]
      by (auto split: sum.splits)
    have "check_credential isof mg providers d ctx actor m v = (case (v2, x) of
          (v', Inl message) \<Rightarrow> process_failure d m ctx actor message message v'
        | (v', Inr (m', tokens')) \<Rightarrow> validate_step isof mg d p m m' tokens' b ctx actor v')"
      by (simp add: check_credential_def process_def oauth Some tk 1(1) 2)
    with rest touches_trans [OF 1(2) t2] show ?thesis by (metis touches_trans)
  qed
qed

lemma check_credential_checkable:
  assumes "check_credential isof mg providers d ctx actor m v = (v', Inr r)"
  shows "checkable providers (v_cipher v) m"
  using assms by (auto simp: check_credential_def process_def checkable_def and_then_Inr_iff split: if_splits)

section \<open>The check of a workflow\<close>

definition agrees :: "vault \<Rightarrow> vault \<Rightarrow> bool" where
  "agrees v v' \<longleftrightarrow> vault_ok v' \<and> v_cipher v' = v_cipher v \<and>
    (\<forall>j. rel_option same_access (dict_get (v_store v) j) (dict_get (v_store v') j))"

lemma touches_agrees: "touches i v v' \<Longrightarrow> agrees v v'"
  unfolding touches_def agrees_def by (metis option.rel_refl same_access_refl)

lemma rel_access_trans:
  "rel_option same_access x y \<Longrightarrow> rel_option same_access y z \<Longrightarrow> rel_option same_access x z"
  by (cases x; cases y; cases z) (auto intro: same_access_trans)

lemma agrees_trans: "agrees u v \<Longrightarrow> agrees v w \<Longrightarrow> agrees u w"
  unfolding agrees_def using rel_access_trans by metis

lemma check_credentials_returns:
  assumes "vault_ok v" "distinct (map entity_id ms)"
    and "\<forall>m \<in> set ms. get_credential (entity_id m) (Some ctx) v = Inr m"
    and "\<forall>m \<in> set ms. checkable providers (v_cipher v) m"
  shows "\<exists>v' rs. check_credentials isof mg providers d ctx actor ms v = (v', Inr rs) \<and> agrees v v' \<and>
    (\<forall>j. j \<notin> entity_id ` set ms \<longrightarrow> dict_get (v_store v') j = dict_get (v_store v) j) \<and>
    list_all2 (\<lambda>m r. reported v' (entity_id m) r) ms rs"
  using assms
proof (induction ms arbitrary: v)
  case Nil
  then show ?case using touches_agrees [OF touches_refl [OF Nil(1)]] by simp
next
  case (Cons m ms)
  obtain v1 r where 1: "check_credential isof mg providers (d (entity_id m)) ctx actor m v = (v1, Inr r)"
      "touches (entity_id m) v v1" "reported v1 (entity_id m) r"
    using check_credential_returns [OF Cons.prems(1)] Cons.prems(3,4) by (metis list.set_intros(1))
  have other: "dict_get (v_store v1) (entity_id n) = dict_get (v_store v) (entity_id n)" if "n \<in> set ms" for n
    by (rule touches_other [OF 1(2) distinct_other [OF Cons.prems(2) that]])
  have "get_credential (entity_id n) (Some ctx) v1 = Inr n \<and> checkable providers (v_cipher v1) n" if "n \<in> set ms" for n
    using other [OF that] touches_cipher [OF 1(2)] Cons.prems(3,4) that by (auto simp: get_credential_Inr)
  with Cons.IH [OF touches_ok [OF 1(2)]] Cons.prems(2) obtain v2 rs where
      2: "check_credentials isof mg providers d ctx actor ms v1 = (v2, Inr rs)" "agrees v1 v2"
        "\<forall>j. j \<notin> entity_id ` set ms \<longrightarrow> dict_get (v_store v2) j = dict_get (v_store v1) j"
        "list_all2 (\<lambda>m r. reported v2 (entity_id m) r) ms rs"
    by auto
  have "reported v2 (entity_id m) r" using 1(3) 2(3) Cons.prems(2) by (auto simp: reported_def)
  moreover have "dict_get (v_store v2) j = dict_get (v_store v) j" if "j \<notin> entity_id ` set (m # ms)" for j
    using that touches_other [OF 1(2), of j] 2(3) by auto
  ultimately show ?case
    using 1(1) 2(1,4) agrees_trans [OF touches_agrees [OF 1(2)] 2(2)] by auto
qed

lemma check_credentials_checkable:
  assumes "check_credentials isof mg providers d ctx actor ms v = (v', Inr rs)" "vault_ok v" "distinct (map entity_id ms)"
    and "\<forall>m \<in> set ms. get_credential (entity_id m) (Some ctx) v = Inr m"
  shows "\<forall>m \<in> set ms. checkable providers (v_cipher v) m"
  using assms
proof (induction ms arbitrary: v rs)
  case (Cons m ms)
  from Cons.prems(1) obtain v1 r rs' where
    1: "check_credential isof mg providers (d (entity_id m)) ctx actor m v = (v1, Inr r)"
    and 2: "check_credentials isof mg providers d ctx actor ms v1 = (v', Inr rs')"
    by (auto simp: and_then_Inr_iff)
  have m: "checkable providers (v_cipher v) m" by (rule check_credential_checkable [OF 1])
  have t: "touches (entity_id m) v v1"
    using check_credential_returns [OF Cons.prems(2) _ m, of ctx isof mg "d (entity_id m)" actor] Cons.prems(4) 1 by auto
  have "get_credential (entity_id n) (Some ctx) v1 = Inr n" if "n \<in> set ms" for n
  proof -
    have "dict_get (v_store v1) (entity_id n) = dict_get (v_store v) (entity_id n)"
      by (rule touches_other [OF t distinct_other [OF Cons.prems(3) that]])
    with Cons.prems(4) that show ?thesis by (simp add: get_credential_Inr)
  qed
  with Cons.IH [OF 2 touches_ok [OF t]] Cons.prems(3) touches_cipher [OF t] m show ?case by auto
qed simp

lemma id_keyed_ids: "id_keyed d \<Longrightarrow> map entity_id (map snd d) = map fst d"
proof -
  assume k: "id_keyed d"
  have "entity_id (snd x) = fst x" if "x \<in> set d" for x
    using that k dict_get_iff [of d "fst x" "snd x"] by (simp add: id_keyed_def)
  then show ?thesis by simp
qed

lemma listed_distinct:
  assumes "vault_ok v"
  shows "distinct (map entity_id (list_credentials ctx ws v))"
proof -
  have k: "id_keyed (v_store v)" using assms by (simp add: vault_ok_def)
  then have "distinct (map entity_id (map snd (v_store v)))"
    by (simp only: id_keyed_ids [OF k]) (simp add: id_keyed_def dict_ok_def)
  then show ?thesis unfolding list_credentials_def iter_metadata_def by (intro distinct_map_filter)
qed

text \<open>A workspace is given by the text of its identifier, or as none.\<close>

definition canonical_workspace :: "string option \<Rightarrow> bool" where
  "canonical_workspace ws \<longleftrightarrow> ws = None \<or> ws = Some [] \<or> (\<exists>u. ws = Some (uuid_text u) \<and> uuid_of (uuid_text u) = Some u)"

lemma in_workspace_health:
  assumes "health_context w ws = Inr ctx" "canonical_workspace ws" "in_workspace (workspace_filter ws ctx) x"
  shows "matches_workspace x ctx"
  using assms unfolding canonical_workspace_def
  by (auto simp: health_context_def access_context_of_def matches_workspace_def in_workspace_def workspace_filter_def
      split: option.splits if_splits)

lemma listed_usable:
  assumes "health_context w ws = Inr ctx" "canonical_workspace ws" "vault_ok v"
  shows "m \<in> set (list_credentials (Some ctx) ws v) \<longleftrightarrow> get_credential (entity_id m) (Some ctx) v = Inr m \<and>
    in_workspace (workspace_filter ws ctx) (cd_workspace m)"
  using in_workspace_health [OF assms(1,2)] assms(3)
  by (auto simp: list_credentials_def iter_metadata_iff get_credential_Inr context_or_any_def)


lemma list_all2_reported:
  assumes "vault_ok v" "list_all2 (\<lambda>m r. reported v (entity_id m) r) ms rs"
  shows "map hr_credential rs = map entity_id ms \<and> (\<forall>r \<in> set rs. reported v (hr_credential r) r)"
  using assms(2)
proof (induction rule: list_all2_induct)
  case (Cons m ms r rs)
  then obtain u where u: "dict_get (v_store v) (entity_id m) = Some u" "build_result u = r" by (auto simp: reported_def)
  then have "entity_id u = entity_id m" using assms(1) id_keyed_get by (auto simp: vault_ok_def)
  with u have "hr_credential r = entity_id m" by (auto simp: build_result_def)
  with Cons show ?case by simp
qed simp

lemma agrees_listed:
  assumes "agrees v v'" "vault_ok v"
  shows "entity_id ` set (list_credentials ctx ws v') = entity_id ` set (list_credentials ctx ws v)"
proof -
  have ok: "vault_ok v'" using assms(1) by (simp add: agrees_def)
  have *: "i \<in> entity_id ` set (list_credentials ctx ws u) \<longleftrightarrow> (\<exists>m. dict_get (v_store u) i = Some m \<and>
      scope_allows (cd_scope m) (context_or_any ctx) \<and> in_workspace (workspace_filter ws (context_or_any ctx)) (cd_workspace m))"
    if "vault_ok u" for u i
  proof -
    have "i \<in> entity_id ` set (list_credentials ctx ws u) \<longleftrightarrow> (\<exists>m. dict_get (v_store u) (entity_id m) = Some m \<and>
        entity_id m = i \<and> scope_allows (cd_scope m) (context_or_any ctx) \<and>
        in_workspace (workspace_filter ws (context_or_any ctx)) (cd_workspace m))"
      by (auto simp: list_credentials_def iter_metadata_iff [OF that])
    also have "\<dots> \<longleftrightarrow> (\<exists>m. dict_get (v_store u) i = Some m \<and> scope_allows (cd_scope m) (context_or_any ctx) \<and>
        in_workspace (workspace_filter ws (context_or_any ctx)) (cd_workspace m))"
    proof -
      have "entity_id m = i" if "dict_get (v_store u) i = Some m" for m
        using that \<open>vault_ok u\<close> id_keyed_get [of "v_store u" i m] by (simp add: vault_ok_def)
      then show ?thesis by blast
    qed
    finally show ?thesis .
  qed
  have rel: "rel_option same_access (dict_get (v_store v) i) (dict_get (v_store v') i)" for i
    using assms(1) by (simp add: agrees_def)
  show ?thesis
  proof (rule set_eqI)
    fix i
    show "i \<in> entity_id ` set (list_credentials ctx ws v') \<longleftrightarrow> i \<in> entity_id ` set (list_credentials ctx ws v)"
      unfolding * [OF assms(2)] * [OF ok]
      by (cases "dict_get (v_store v) i"; cases "dict_get (v_store v') i") (use rel [of i] in \<open>auto simp: same_access_def\<close>)
  qed
qed

lemma results_healthy:
  assumes ids: "hr_credential ` set rs = entity_id ` set ms"
    and ms: "\<And>m. m \<in> set ms \<Longrightarrow> dict_get (v_store v) (entity_id m) = Some m"
    and rep: "\<And>r i u. reported v i r \<Longrightarrow> dict_get (v_store v) i = Some u \<Longrightarrow> hr_status r = ch_status (cd_health u)"
    and rs: "\<forall>r \<in> set rs. reported v (hr_credential r) r"
  shows "(\<forall>r \<in> set rs. hr_status r = Healthy) \<longleftrightarrow> (\<forall>m \<in> set ms. ch_status (cd_health m) = Healthy)"
proof -
  have same: "hr_status r = ch_status (cd_health m)" if "r \<in> set rs" "m \<in> set ms" "hr_credential r = entity_id m" for r m
    using rep [OF _ ms] rs that by metis
  show ?thesis
  proof
    assume h: "\<forall>r \<in> set rs. hr_status r = Healthy"
    show "\<forall>m \<in> set ms. ch_status (cd_health m) = Healthy"
    proof
      fix m assume m: "m \<in> set ms"
      then have "entity_id m \<in> hr_credential ` set rs" using ids by blast
      then obtain r where "r \<in> set rs" "hr_credential r = entity_id m" by auto
      with same [OF _ m] h show "ch_status (cd_health m) = Healthy" by auto
    qed
  next
    assume h: "\<forall>m \<in> set ms. ch_status (cd_health m) = Healthy"
    show "\<forall>r \<in> set rs. hr_status r = Healthy"
    proof
      fix r assume r: "r \<in> set rs"
      then have "hr_credential r \<in> entity_id ` set ms" using ids by blast
      then obtain m where "m \<in> set ms" "hr_credential r = entity_id m" by auto
      with same [OF r] h show "hr_status r = Healthy" by auto
    qed
  qed
qed

text \<open>C36. The report of a health check is about the credentials the workflow sees, in their order, and each
  entry is the health that the vault stores for the credential after the check; the workflow counts as healthy,
  so that its dispatches pass, exactly when all credentials it sees are stored as healthy.\<close>

theorem health_report_current:
  assumes "vault_reachable c (cs_vault s)" "health_context w ws = Inr ctx" "canonical_workspace ws"
    and "ensure_workflow_health isof d now w actor ws s = (s', Inr rep)"
  shows "map hr_credential (rep_results rep) = map entity_id (list_credentials (Some ctx) ws (cs_vault s)) \<and>
    (\<forall>r \<in> set (rep_results rep). reported (cs_vault s') (hr_credential r) r) \<and>
    (is_workflow_healthy (cs_guard s') w \<longleftrightarrow>
      (\<forall>m \<in> set (list_credentials (Some ctx) ws (cs_vault s')). ch_status (cd_health m) = Healthy))"
proof -
  let ?ms = "list_credentials (Some ctx) ws (cs_vault s)"
  let ?actor = "if opt_truthy actor then the actor else cs_default_actor s"
  note ok = vault_reachable_ok [OF assms(1)]
  have g: "\<forall>m \<in> set ?ms. get_credential (entity_id m) (Some ctx) (cs_vault s) = Inr m"
    using listed_usable [OF assms(2,3) ok] by blast
  obtain v' rs where r: "check_credentials isof (cs_margin s) (cs_providers s) d ctx ?actor ?ms (cs_vault s) = (v', Inr rs)"
      "rep_results rep = rs" "cs_vault s' = v'" "reports (cs_guard s') = dict_set w rep (reports (cs_guard s))"
    using assms(4) by (auto simp: ensure_workflow_health_def assms(2) Let_def split: prod.splits sum.splits)
  have "agrees (cs_vault s) v' \<and> list_all2 (\<lambda>m r. reported v' (entity_id m) r) ?ms rs"
    using check_credentials_returns [OF ok listed_distinct [OF ok] g
      check_credentials_checkable [OF r(1) ok listed_distinct [OF ok] g], of isof "cs_margin s" d ?actor] r(1)
    by auto
  then have ag: "agrees (cs_vault s) v'" and l: "list_all2 (\<lambda>m r. reported v' (entity_id m) r) ?ms rs" by auto
  have ok': "vault_ok v'" using ag by (simp add: agrees_def)
  note res = list_all2_reported [OF ok' l]
  have "(\<forall>r \<in> set rs. hr_status r = Healthy) \<longleftrightarrow> (\<forall>m \<in> set (list_credentials (Some ctx) ws v'). ch_status (cd_health m) = Healthy)"
  proof -
    have "hr_credential ` set rs = entity_id ` set (list_credentials (Some ctx) ws v')"
      using arg_cong [OF conjunct1 [OF res], of set] agrees_listed [OF ag ok] by simp
    moreover have "dict_get (v_store v') (entity_id m) = Some m" if "m \<in> set (list_credentials (Some ctx) ws v')" for m
      using that ok' by (simp add: list_credentials_def iter_metadata_iff)
    moreover have "hr_status r = ch_status (cd_health u)"
      if "reported v' i r" "dict_get (v_store v') i = Some u" for r i u
      using that by (auto simp: reported_def build_result_def)
    ultimately show ?thesis using conjunct2 [OF res] by (rule results_healthy)
  qed
  with res r(2-4) show ?thesis by (simp add: is_workflow_healthy_def report_is_healthy_def)
qed

section \<open>Witnesses\<close>

definition sample_process_draws :: process_draws where
  "sample_process_draws = \<lparr>pd_rotation_now = 9, pd_rotation = sample_draws 11, pd_refresh_now = 9, pd_tokens = sample_draws 12,
     pd_mark = sample_draws 13, pd_expiry_now = 9, pd_expiry = sample_draws 14, pd_failure = sample_draws 15,
     pd_resolve = (\<lambda>_. (9, 9))\<rparr>"

definition sample_service :: credential_service where
  "sample_service = \<lparr>cs_vault = stored_vault, cs_providers = [], cs_default_actor = ''system'', cs_margin = 60,
     cs_guard = \<lparr>reports = []\<rparr>\<rparr>"

definition sample_health_context :: access_context where
  "sample_health_context = access_context_of (Some 7) (Some 1) []"

lemma sample_service_reachable: "vault_reachable sample_cipher (cs_vault sample_service)"
  by (simp add: sample_service_def stored_reachable)

lemma sample_health_context: "health_context 7 (Some (uuid_text 1)) = Inr sample_health_context"
  by code_simp

lemma sample_canonical: "canonical_workspace (Some (uuid_text 1))"
proof -
  have "uuid_of (uuid_text 1) = Some 1" by code_simp
  then show ?thesis unfolding canonical_workspace_def by blast
qed


theorem health_report_current_witness:
  "is_workflow_healthy (cs_guard (fst (ensure_workflow_health (\<lambda>_. []) (\<lambda>_. sample_process_draws) 9 7 None
     (Some (uuid_text 1)) sample_service))) 7"
proof -
  let ?r = "ensure_workflow_health (\<lambda>_. []) (\<lambda>_. sample_process_draws) 9 7 None (Some (uuid_text 1)) sample_service"
  have "case snd ?r of Inr rep \<Rightarrow> True | Inl e \<Rightarrow> False" by code_simp
  then obtain rep where "snd ?r = Inr rep" by (auto split: sum.splits)
  then have r: "?r = (fst ?r, Inr rep)" by (metis prod.collapse)
  have "list_all (\<lambda>m. ch_status (cd_health m) = Healthy)
      (list_credentials (Some sample_health_context) (Some (uuid_text 1)) (cs_vault (fst ?r)))"
    by code_simp
  with health_report_current [OF sample_service_reachable sample_health_context sample_canonical r]
  show ?thesis by (simp add: list_all_iff)
qed

end
