(* ===== verification/Workspaces_Laws.thy ===== *)
theory Workspaces_Laws
  imports Workspaces
begin

text \<open>
  What the workspace service guarantees. The repository's indexes agree with its rows, every user has at
  most three memberships and an address at most one pending invitation per workspace; the cached
  memberships of a user are the stored ones in everything access decisions read. Both are kept by every
  operation (\<open>service_step\<close>), so that the resolver may answer from the cache.
\<close>

section \<open>Dictionaries under filters\<close>

lemma dict_set_new: "dict_get d k = None \<Longrightarrow> dict_set k v d = d @ [(k, v)]"
  by (induction d) (auto split: if_splits)

lemma filter_values_set_new:
  "dict_get d k = None \<Longrightarrow>
   filter P (map snd (dict_set k v d)) = filter P (map snd d) @ (if P v then [v] else [])"
  by (simp add: dict_set_new)

lemma filter_values_set_old:
  "dict_get d k = Some w \<Longrightarrow> P w = P v \<Longrightarrow> f w = f v \<Longrightarrow>
   map f (filter P (map snd (dict_set k v d))) = map f (filter P (map snd d))"
  by (induction d) (auto split: if_splits)

lemma filter_values_set_unseen:
  "dict_get d k = Some w \<Longrightarrow> \<not> P w \<Longrightarrow> \<not> P v \<Longrightarrow>
   filter P (map snd (dict_set k v d)) = filter P (map snd d)"
  by (induction d) (auto split: if_splits)

lemma filter_values_pop_length:
  "length (filter P (map snd (dict_pop k d))) \<le> length (filter P (map snd d))"
  by (induction d) (auto simp: AList.delete_eq)

lemma filter_values_pop_other:
  "(\<And>v. (k, v) \<in> set d \<Longrightarrow> \<not> P v) \<Longrightarrow> filter P (map snd (dict_pop k d)) = filter P (map snd d)"
  by (induction d) (auto simp: AList.delete_eq)

lemma filter_values_filter_other:
  "(\<And>j v. (j, v) \<in> set d \<Longrightarrow> P v \<Longrightarrow> Q (j, v)) \<Longrightarrow> filter P (map snd (filter Q d)) = filter P (map snd d)"
  by (induction d) auto

lemma filter_values_filter_length:
  "length (filter P (map snd (filter Q d))) \<le> length (filter P (map snd d))"
  by (induction d) auto

lemma dict_pop_set_new: "dict_get d k = None \<Longrightarrow> dict_pop k (dict_set k v d) = d"
  by (induction d) (auto simp: AList.delete_eq split: if_splits)

section \<open>Normal forms\<close>

lemma normalize_email_idem: "normalize_email e = Inr x \<Longrightarrow> normalize_email x = Inr x"
  by (auto simp: normalize_email_def Let_def str_strip_lower split: if_splits prod.splits)

lemma normalize_slug_idem: "normalize_slug e = Inr x \<Longrightarrow> normalize_slug x = Inr x"
  by (auto simp: normalize_slug_def Let_def str_strip_lower split: if_splits)

section \<open>The invariant of the repository\<close>

definition workspaces_indexed :: "workspace_repo \<Rightarrow> bool" where
  "workspaces_indexed r \<longleftrightarrow>
     dict_ok (rp_workspaces r) \<and> dict_ok (rp_slugs r) \<and>
     (\<forall>i w. dict_get (rp_workspaces r) i = Some w \<longrightarrow>
        sp_id w = i \<and> normalize_slug (sp_slug w) = Inr (sp_slug w) \<and> dict_get (rp_slugs r) (sp_slug w) = Some i) \<and>
     (\<forall>s i. dict_get (rp_slugs r) s = Some i \<longrightarrow> (\<exists>w. dict_get (rp_workspaces r) i = Some w \<and> sp_slug w = s))"

definition members_placed :: "workspace_repo \<Rightarrow> bool" where
  "members_placed r \<longleftrightarrow>
     dict_ok (rp_members r) \<and>
     (\<forall>i u m. dict_get (rp_members r) (i, u) = Some m \<longrightarrow>
        mb_workspace m = i \<and> mb_user m = u \<and> dict_get (rp_workspaces r) i \<noteq> None)"

definition members_bounded :: "workspace_repo \<Rightarrow> bool" where
  "members_bounded r \<longleftrightarrow> (\<forall>u. length (memberships_for_user u r) \<le> max_memberships_per_user)"

definition invitations_placed :: "workspace_repo \<Rightarrow> bool" where
  "invitations_placed r \<longleftrightarrow>
     dict_ok (rp_invitations r) \<and>
     (\<forall>i iv. dict_get (rp_invitations r) i = Some iv \<longrightarrow>
        iv_id iv = i \<and> normalize_email (iv_email iv) = Inr (iv_email iv) \<and>
        dict_get (rp_workspaces r) (iv_workspace iv) \<noteq> None)"

definition pending_unique :: "workspace_repo \<Rightarrow> bool" where
  "pending_unique r \<longleftrightarrow>
     (\<forall>i j a b. dict_get (rp_invitations r) i = Some a \<longrightarrow> dict_get (rp_invitations r) j = Some b \<longrightarrow>
        iv_status a = InvPending \<longrightarrow> iv_status b = InvPending \<longrightarrow>
        iv_workspace a = iv_workspace b \<longrightarrow> iv_email a = iv_email b \<longrightarrow> i = j)"

definition repo_ok :: "workspace_repo \<Rightarrow> bool" where
  "repo_ok r \<longleftrightarrow> workspaces_indexed r \<and> members_placed r \<and> members_bounded r \<and> invitations_placed r \<and> pending_unique r"

lemma member_key:
  assumes "repo_ok r" and "(k, m) \<in> set (rp_members r)"
  shows "k = (mb_workspace m, mb_user m)"
  using assms by (cases k) (auto simp: repo_ok_def members_placed_def dict_get_iff)

text \<open>What the resolver and the role checks read of a membership.\<close>

definition access_view :: "workspace_membership \<Rightarrow> uuid \<times> string \<times> workspace_role" where
  "access_view m = (mb_workspace m, mb_user m, mb_role m)"

definition view_of :: "string \<Rightarrow> workspace_repo \<Rightarrow> (uuid \<times> string \<times> workspace_role) list" where
  "view_of u r = map access_view (memberships_for_user u r)"

definition cache_coherent :: "workspace_repo \<Rightarrow> membership_cache \<Rightarrow> bool" where
  "cache_coherent r c \<longleftrightarrow>
     (\<forall>u ms t. dict_get (mc_entries c) u = Some (ms, t) \<longrightarrow> map access_view ms = view_of u r)"

definition service_ok :: "workspace_service \<Rightarrow> bool" where
  "service_ok s \<longleftrightarrow> repo_ok (sv_repo s) \<and> cache_coherent (sv_repo s) (sv_cache s)"

section \<open>The repository's operations keep the invariant\<close>

lemma memberships_for_user_frame [simp]:
  "memberships_for_user u (r\<lparr>rp_workspaces := a\<rparr>) = memberships_for_user u r"
  "memberships_for_user u (r\<lparr>rp_slugs := b\<rparr>) = memberships_for_user u r"
  "memberships_for_user u (r\<lparr>rp_events := c\<rparr>) = memberships_for_user u r"
  "memberships_for_user u (r\<lparr>rp_invitations := e\<rparr>) = memberships_for_user u r"
  by (simp_all add: memberships_for_user_def)

lemma view_of_frame [simp]:
  "view_of u (r\<lparr>rp_workspaces := a\<rparr>) = view_of u r"
  "view_of u (r\<lparr>rp_slugs := b\<rparr>) = view_of u r"
  "view_of u (r\<lparr>rp_events := c\<rparr>) = view_of u r"
  "view_of u (r\<lparr>rp_invitations := e\<rparr>) = view_of u r"
  by (simp_all add: view_of_def)

lemmas repo_parts = workspaces_indexed_def members_placed_def members_bounded_def invitations_placed_def pending_unique_def

lemma repo_create_workspace_ok:
  assumes "repo_ok r" and "dict_get (rp_workspaces r) (sp_id w) = None"
    and "normalize_slug (sp_slug w) = Inr (sp_slug w)"
  shows "repo_ok (fst (repo_create_workspace w r))"
proof (cases "dict_get (rp_slugs r) (sp_slug w)")
  case None
  define r' where "r' = fst (repo_create_workspace w r)"
  have r': "r' = r\<lparr>rp_workspaces := dict_set (sp_id w) w (rp_workspaces r),
      rp_slugs := dict_set (sp_slug w) (sp_id w) (rp_slugs r)\<rparr>"
    using None assms(3) by (simp add: r'_def repo_create_workspace_def)
  have "workspaces_indexed r'"
    using assms None by (fastforce simp: repo_ok_def workspaces_indexed_def r')
  moreover have "members_placed r'"
    using assms by (auto simp: repo_ok_def members_placed_def r')
  moreover have "members_bounded r'"
    using assms by (simp add: repo_ok_def members_bounded_def r')
  moreover have "invitations_placed r'"
    using assms by (auto simp: repo_ok_def invitations_placed_def r')
  moreover have "pending_unique r'"
    using assms by (simp add: repo_ok_def pending_unique_def r')
  ultimately show ?thesis by (simp add: repo_ok_def r'_def)
next
  case (Some i)
  with assms show ?thesis by (simp add: repo_create_workspace_def)
qed

lemma repo_create_workspace_view [simp]: "view_of u (fst (repo_create_workspace w r)) = view_of u r"
  by (simp add: repo_create_workspace_def split: sum.split)

lemma set_status_ok:
  assumes "repo_ok r" and "dict_get (rp_workspaces r) i = Some w" and "sp_id w' = sp_id w" and "sp_slug w' = sp_slug w"
  shows "repo_ok (r\<lparr>rp_workspaces := dict_set i w' (rp_workspaces r)\<rparr>)"
proof -
  have "workspaces_indexed (r\<lparr>rp_workspaces := dict_set i w' (rp_workspaces r)\<rparr>)"
    using assms by (fastforce simp: repo_ok_def workspaces_indexed_def)
  moreover have "members_placed (r\<lparr>rp_workspaces := dict_set i w' (rp_workspaces r)\<rparr>)"
    using assms by (auto simp: repo_ok_def members_placed_def)
  moreover have "invitations_placed (r\<lparr>rp_workspaces := dict_set i w' (rp_workspaces r)\<rparr>)"
    using assms by (auto simp: repo_ok_def invitations_placed_def)
  ultimately show ?thesis
    using assms by (simp add: repo_ok_def members_bounded_def pending_unique_def)
qed

lemma update_status_ok: "repo_ok r \<Longrightarrow> repo_ok (fst (update_status now i st r))"
  by (auto simp: update_status_def get_workspace_def Let_def set_status_ok split: option.splits)

lemma update_status_view [simp]: "view_of u (fst (update_status now i st r)) = view_of u r"
  by (simp add: update_status_def get_workspace_def Let_def split: option.split)

lemma delete_workspace_members_length:
  "length (memberships_for_user u (fst (delete_workspace i r))) \<le> length (memberships_for_user u r)"
  using filter_values_filter_length [of "\<lambda>m. mb_user m = u"]
  by (cases "dict_get (rp_workspaces r) i")
    (simp_all add: delete_workspace_def get_workspace_def memberships_for_user_def del: filter_filter filter_map)

lemma delete_workspace_ok:
  assumes "repo_ok r"
  shows "repo_ok (fst (delete_workspace i r))"
proof (cases "dict_get (rp_workspaces r) i")
  case None
  with assms show ?thesis by (simp add: delete_workspace_def get_workspace_def)
next
  case (Some w)
  let ?r = "fst (delete_workspace i r)"
  have w: "sp_id w = i" "dict_get (rp_slugs r) (sp_slug w) = Some i" "dict_ok (rp_members r)" "dict_ok (rp_invitations r)"
    using assms Some by (auto simp: repo_ok_def repo_parts)
  have r: "rp_slugs ?r = dict_pop (sp_slug w) (rp_slugs r)" "rp_workspaces ?r = dict_pop i (rp_workspaces r)"
    "dict_get (rp_members ?r) = (\<lambda>k. if fst k = i then None else dict_get (rp_members r) k)"
    "dict_get (rp_invitations ?r) = (\<lambda>j. case dict_get (rp_invitations r) j of None \<Rightarrow> None
        | Some iv \<Rightarrow> if iv_workspace iv \<noteq> i then Some iv else None)"
    using Some w by (auto simp: delete_workspace_def get_workspace_def dict_get_filter_keys
        dict_get_filter_value [where Q = "\<lambda>iv. iv_workspace iv \<noteq> i"] fun_eq_iff)
  have d: "dict_ok (rp_members ?r)" "dict_ok (rp_invitations ?r)"
    using Some w by (auto simp: delete_workspace_def get_workspace_def)
  have "members_bounded ?r"
    using assms delete_workspace_members_length [of _ i r]
    by (auto simp: repo_ok_def members_bounded_def intro: order_trans)
  moreover have "workspaces_indexed ?r"
  proof -
    have rows: "\<And>j v. dict_get (rp_workspaces r) j = Some v \<Longrightarrow>
        sp_id v = j \<and> normalize_slug (sp_slug v) = Inr (sp_slug v) \<and> dict_get (rp_slugs r) (sp_slug v) = Some j"
      and slugs: "\<And>s j. dict_get (rp_slugs r) s = Some j \<Longrightarrow> \<exists>v. dict_get (rp_workspaces r) j = Some v \<and> sp_slug v = s"
      and "dict_ok (rp_workspaces r)" "dict_ok (rp_slugs r)"
      using assms by (auto simp: repo_ok_def workspaces_indexed_def)
    moreover have "sp_slug v \<noteq> sp_slug w" if "dict_get (rp_workspaces r) j = Some v" "j \<noteq> i" for j v
      using rows [OF that(1)] that(2) w(2) by auto
    moreover have "j \<noteq> i" if "dict_get (rp_slugs r) s = Some j" "s \<noteq> sp_slug w" for s j
      using slugs [OF that(1)] that(2) Some by auto
    ultimately show ?thesis
      by (simp add: workspaces_indexed_def r)
  qed
  moreover have "members_placed ?r"
    using assms d by (simp add: repo_ok_def members_placed_def r)
  moreover have "invitations_placed ?r"
    using assms d by (simp add: repo_ok_def invitations_placed_def r split: option.splits if_splits) blast
  moreover have "pending_unique ?r"
    using assms by (auto simp: repo_ok_def pending_unique_def r split: option.splits if_splits)
  ultimately show ?thesis by (simp add: repo_ok_def)
qed

lemma delete_workspace_view:
  assumes "\<not> list_ex (\<lambda>m. mb_user m = u) (memberships_for_workspace i r)" and "repo_ok r"
  shows "view_of u (fst (delete_workspace i r)) = view_of u r"
proof (cases "dict_get (rp_workspaces r) i")
  case None
  then show ?thesis by (simp add: delete_workspace_def get_workspace_def)
next
  case (Some w)
  have "sp_id w = i"
    using assms Some by (auto simp: repo_ok_def workspaces_indexed_def)
  then have "fst k \<noteq> sp_id w" if "(k, m) \<in> set (rp_members r)" "mb_user m = u" for k m
    using assms(1) that member_key [OF assms(2) that(1)]
    by (fastforce simp: list_ex_iff memberships_for_workspace_def)
  then have "memberships_for_user u (fst (delete_workspace i r)) = memberships_for_user u r"
    using Some by (auto simp: delete_workspace_def get_workspace_def memberships_for_user_def
        intro!: filter_values_filter_other)
  then show ?thesis by (simp add: view_of_def)
qed

text \<open>Memberships.\<close>

lemma repo_ok_members:
  assumes "repo_ok r" and "members_placed (r\<lparr>rp_members := ms\<rparr>)" and "members_bounded (r\<lparr>rp_members := ms\<rparr>)"
  shows "repo_ok (r\<lparr>rp_members := ms\<rparr>)"
  using assms by (simp add: repo_ok_def workspaces_indexed_def invitations_placed_def pending_unique_def)

lemma capacity_new:
  assumes "ensure_membership_capacity u w r = Inr x" and "repo_ok r"
    and "case w of None \<Rightarrow> True | Some i \<Rightarrow> dict_get (rp_members r) (i, u) = None"
  shows "length (memberships_for_user u r) < max_memberships_per_user"
proof -
  have "dict_ok (rp_members r)"
    using assms(2) by (simp add: repo_ok_def members_placed_def)
  have "\<not> list_ex (\<lambda>m. mb_workspace m = i) (memberships_for_user u r)" if "w = Some i" for i
  proof
    assume "list_ex (\<lambda>m. mb_workspace m = i) (memberships_for_user u r)"
    then obtain k m where m: "(k, m) \<in> set (rp_members r)" "mb_workspace m = i" "mb_user m = u"
      by (auto simp: list_ex_iff memberships_for_user_def)
    then have "dict_get (rp_members r) (i, u) = Some m"
      using member_key [OF assms(2) m(1)] \<open>dict_ok (rp_members r)\<close> by (simp add: dict_get_iff)
    with assms(3) that show False by simp
  qed
  then show ?thesis
    using assms(1) by (cases w) (simp_all add: ensure_membership_capacity_def Let_def split: if_splits)
qed

lemma set_new_member_ok:
  assumes "repo_ok r" and "dict_get (rp_members r) (mb_workspace m, mb_user m) = None"
    and "dict_get (rp_workspaces r) (mb_workspace m) \<noteq> None"
    and "length (memberships_for_user (mb_user m) r) < max_memberships_per_user"
  shows "repo_ok (r\<lparr>rp_members := dict_set (mb_workspace m, mb_user m) m (rp_members r)\<rparr>)"
proof -
  have "length (memberships_for_user u (r\<lparr>rp_members := dict_set (mb_workspace m, mb_user m) m (rp_members r)\<rparr>))
      \<le> max_memberships_per_user" for u
    using assms by (auto simp: memberships_for_user_def filter_values_set_new repo_ok_def members_bounded_def)
  then show ?thesis
    using assms by (intro repo_ok_members) (auto simp: repo_ok_def members_placed_def members_bounded_def)
qed

lemma set_new_member_view:
  assumes "dict_get (rp_members r) k = None" and "mb_user m \<noteq> u"
  shows "view_of u (r\<lparr>rp_members := dict_set k m (rp_members r)\<rparr>) = view_of u r"
  using assms by (simp add: view_of_def memberships_for_user_def filter_values_set_new)

lemma set_old_member_ok:
  assumes "repo_ok r" and "dict_get (rp_members r) k = Some old"
    and "mb_workspace m = mb_workspace old" and "mb_user m = mb_user old"
  shows "repo_ok (r\<lparr>rp_members := dict_set k m (rp_members r)\<rparr>)"
proof -
  have "length (filter (\<lambda>m. mb_user m = u) (map snd (dict_set k m (rp_members r)))) =
      length (filter (\<lambda>m. mb_user m = u) (map snd (rp_members r)))" for u
    using filter_values_set_old [OF assms(2), where v = m and f = "\<lambda>_. ()" and P = "\<lambda>m. mb_user m = u"] assms(4)
    by (metis length_map)
  then show ?thesis
    using assms by (intro repo_ok_members)
      (auto simp: repo_ok_def members_placed_def members_bounded_def memberships_for_user_def)
qed

lemma set_old_member_view:
  assumes "dict_get (rp_members r) k = Some old" and "mb_user m = mb_user old"
    and "mb_user old = u \<Longrightarrow> access_view m = access_view old"
  shows "view_of u (r\<lparr>rp_members := dict_set k m (rp_members r)\<rparr>) = view_of u r"
proof (cases "mb_user old = u")
  case True
  with assms show ?thesis
    by (simp add: view_of_def memberships_for_user_def filter_values_set_old)
next
  case False
  with assms show ?thesis
    by (simp add: view_of_def memberships_for_user_def filter_values_set_unseen [where w = old] del: filter_map)
qed

lemma remove_membership_ok:
  assumes "repo_ok r"
  shows "repo_ok (fst (remove_membership i u r))"
proof -
  have "length (memberships_for_user v (r\<lparr>rp_members := dict_pop (i, u) (rp_members r)\<rparr>)) \<le> max_memberships_per_user" for v
    using assms filter_values_pop_length [of "\<lambda>m. mb_user m = v" "(i, u)" "rp_members r"]
    by (auto simp: repo_ok_def members_bounded_def memberships_for_user_def intro: order_trans)
  then have "repo_ok (r\<lparr>rp_members := dict_pop (i, u) (rp_members r)\<rparr>)"
    using assms by (intro repo_ok_members) (auto simp: repo_ok_def members_placed_def members_bounded_def)
  with assms show ?thesis by (simp add: remove_membership_def)
qed

lemma remove_membership_view:
  assumes "repo_ok r" and "v \<noteq> u"
  shows "view_of v (fst (remove_membership i u r)) = view_of v r"
proof -
  have "\<not> mb_user m = v" if "((i, u), m) \<in> set (rp_members r)" for m
    using assms that by (auto simp: repo_ok_def members_placed_def dict_get_iff)
  then show ?thesis
    by (simp add: remove_membership_def view_of_def memberships_for_user_def filter_values_pop_other)
qed

text \<open>Invitations.\<close>

lemma repo_ok_events [simp]: "repo_ok (r\<lparr>rp_events := es\<rparr>) \<longleftrightarrow> repo_ok r"
  by (simp add: repo_ok_def repo_parts)

lemma repo_ok_invitations:
  assumes "repo_ok r" and "invitations_placed (r\<lparr>rp_invitations := is\<rparr>)" and "pending_unique (r\<lparr>rp_invitations := is\<rparr>)"
  shows "repo_ok (r\<lparr>rp_invitations := is\<rparr>)"
  using assms by (simp add: repo_ok_def workspaces_indexed_def members_placed_def members_bounded_def)

lemma invitation_stored:
  assumes "repo_ok r" and "dict_get (rp_invitations r) i = Some iv"
  shows "iv_id iv = i" "normalize_email (iv_email iv) = Inr (iv_email iv)" "dict_get (rp_workspaces r) (iv_workspace iv) \<noteq> None"
  using assms by (auto simp: repo_ok_def invitations_placed_def)

lemma resolve_invitation_ok:
  assumes "repo_ok r" and "dict_get (rp_invitations r) i = Some old" and "iv_id iv = i"
    and "iv_workspace iv = iv_workspace old" and "iv_email iv = iv_email old" and "iv_status iv \<noteq> InvPending"
  shows "repo_ok (r\<lparr>rp_invitations := dict_set i iv (rp_invitations r)\<rparr>)"
proof (rule repo_ok_invitations)
  show "invitations_placed (r\<lparr>rp_invitations := dict_set i iv (rp_invitations r)\<rparr>)"
    using assms invitation_stored [OF assms(1,2)] by (simp add: repo_ok_def invitations_placed_def)
  show "pending_unique (r\<lparr>rp_invitations := dict_set i iv (rp_invitations r)\<rparr>)"
    using assms by (simp add: repo_ok_def pending_unique_def)
qed fact

lemma no_pending_found:
  assumes "find_pending_invitation w e r = Inr None" and "normalize_email e = Inr e"
    and "dict_get (rp_invitations r) i = Some iv" and "iv_status iv = InvPending" and "iv_workspace iv = w"
  shows "iv_email iv \<noteq> e"
proof
  assume "iv_email iv = e"
  moreover have "(i, iv) \<in> set (rp_invitations r)"
    using assms(3) by (rule dict_get_mem)
  ultimately show False
    using assms by (force simp: find_pending_invitation_def find_None_iff)
qed

lemma add_invitation_ok:
  assumes "repo_ok r" and "dict_get (rp_invitations r) (iv_id iv) = None"
    and "normalize_email (iv_email iv) = Inr (iv_email iv)" and "iv_status iv = InvPending"
  shows "repo_ok (fst (add_invitation iv r))"
proof (cases "dict_get (rp_workspaces r) (iv_workspace iv) \<noteq> None \<and>
    find_pending_invitation (iv_workspace iv) (iv_email iv) r = Inr None")
  case True
  have "repo_ok (r\<lparr>rp_invitations := dict_set (iv_id iv) iv (rp_invitations r)\<rparr>)"
  proof (rule repo_ok_invitations)
    show "invitations_placed (r\<lparr>rp_invitations := dict_set (iv_id iv) iv (rp_invitations r)\<rparr>)"
      using assms True by (simp add: repo_ok_def invitations_placed_def)
    show "pending_unique (r\<lparr>rp_invitations := dict_set (iv_id iv) iv (rp_invitations r)\<rparr>)"
      using assms(1) True no_pending_found [OF _ assms(3)] unfolding repo_ok_def pending_unique_def
      by simp metis
  qed fact
  with True assms(1) show ?thesis by (auto simp: add_invitation_def)
next
  case False
  then show ?thesis
    using assms(1) by (auto simp: add_invitation_def find_pending_invitation_def assms split: option.splits)
qed

lemma token_invitation:
  assumes "get_invitation_by_token_hash h r = Inr iv" and "repo_ok r"
  shows "dict_get (rp_invitations r) (iv_id iv) = Some iv \<and> iv_token_hash iv = h"
proof -
  have "iv_token_hash iv = h" and "iv \<in> set (map snd (rp_invitations r))"
    using assms(1) by (auto simp: get_invitation_by_token_hash_def find_Some_iff set_conv_nth split: option.splits)
  then obtain i where "(i, iv) \<in> set (rp_invitations r)" by auto
  then have "dict_get (rp_invitations r) i = Some iv"
    using assms(2) by (simp add: repo_ok_def invitations_placed_def dict_get_iff)
  with invitation_stored(1) [OF assms(2) this] \<open>iv_token_hash iv = h\<close> show ?thesis by simp
qed

section \<open>The cache\<close>

lemma coherent_same:
  "cache_coherent r c \<Longrightarrow> (\<And>v. view_of v r' = view_of v r) \<Longrightarrow> cache_coherent r' c"
  by (simp add: cache_coherent_def)

lemma coherent_invalidate:
  "cache_coherent r c \<Longrightarrow> (\<And>v. v \<noteq> u \<Longrightarrow> view_of v r' = view_of v r) \<Longrightarrow> cache_coherent r' (cache_invalidate u c)"
  by (simp add: cache_coherent_def cache_invalidate_def)

lemma list_memberships_coherent:
  assumes "cache_coherent r c"
  shows "cache_coherent r (fst (list_memberships clock clock' u r c))"
    and "map access_view (snd (list_memberships clock clock' u r c)) = view_of u r"
  using assms
  by (auto simp: list_memberships_def cache_get_def cache_put_def cache_coherent_def view_of_def Let_def
      split: option.splits prod.splits if_splits)

lemma service_ok_repo: "service_ok s \<Longrightarrow> repo_ok (sv_repo s)"
  by (simp add: service_ok_def)

lemma service_ok_audit [simp]: "service_ok (audit e s) \<longleftrightarrow> service_ok s"
  by (simp add: service_ok_def audit_def record_audit_event_def cache_coherent_def)

lemma invitation_audit_eq: "\<exists>e. invitation_audit d w a actor iv details s = audit e s"
  by (auto simp: invitation_audit_def)

lemma service_ok_invitation_audit [simp]: "service_ok (invitation_audit d w a actor iv details s) \<longleftrightarrow> service_ok s"
  using invitation_audit_eq [of d w a actor iv details s] by auto

lemma service_ok_and_then:
  "service_ok (fst x) \<Longrightarrow> (\<And>a. snd x = Inr a \<Longrightarrow> service_ok (fst (k (fst x) a))) \<Longrightarrow> service_ok (fst (and_then x k))"
  by (cases x; cases "snd x") auto

lemma service_ok_on_repo:
  "service_ok s \<Longrightarrow> repo_ok (fst x) \<Longrightarrow> (\<And>v. view_of v (fst x) = view_of v (sv_repo s)) \<Longrightarrow> service_ok (fst (on_repo x s))"
  by (auto simp: service_ok_def on_repo_def intro: coherent_same)

text \<open>Operations that touch one user's memberships drop that user's cache entry.\<close>

lemma service_ok_member_change:
  assumes "service_ok s" and "repo_ok (fst x)"
    and "\<And>v. v \<noteq> u \<Longrightarrow> view_of v (fst x) = view_of v (sv_repo s)"
    and "\<And>e. snd x = Inl e \<Longrightarrow> fst x = sv_repo s"
    and "\<And>a s. \<exists>es. f a s = s\<lparr>sv_repo := (sv_repo s)\<lparr>rp_events := es\<rparr>\<rparr>"
  shows "service_ok (fst (and_then (on_repo x s) (\<lambda>s a. (invalidate u (f a s), Inr (g a)))))"
proof (cases "snd x")
  case (Inl e)
  with assms show ?thesis by (simp add: on_repo_def service_ok_def)
next
  case (Inr a)
  obtain es where "f a (s\<lparr>sv_repo := fst x\<rparr>) = s\<lparr>sv_repo := (fst x)\<lparr>rp_events := es\<rparr>\<rparr>"
    using assms(5) [of a "s\<lparr>sv_repo := fst x\<rparr>"] by auto
  moreover have "cache_coherent ((fst x)\<lparr>rp_events := es\<rparr>) (cache_invalidate u (sv_cache s))"
    using assms by (auto simp: service_ok_def intro: coherent_invalidate)
  ultimately show ?thesis
    using assms(2) Inr by (simp add: on_repo_def service_ok_def invalidate_def)
qed

lemma audit_frame: "\<exists>es. audit e s = s\<lparr>sv_repo := (sv_repo s)\<lparr>rp_events := es\<rparr>\<rparr>"
  by (auto simp: audit_def record_audit_event_def)

lemma fold_invalidate:
  "sv_repo (fold (\<lambda>m. invalidate (mb_user m)) ms s) = sv_repo s \<and>
   dict_get (mc_entries (sv_cache (fold (\<lambda>m. invalidate (mb_user m)) ms s))) u =
     (if u \<in> mb_user ` set ms then None else dict_get (mc_entries (sv_cache s)) u)"
  by (induction ms arbitrary: s) (auto simp: invalidate_def cache_invalidate_def)

section \<open>Every operation of the service keeps the invariant\<close>

lemma add_membership_cases:
  "add_membership m r = (if dict_get (rp_workspaces r) (mb_workspace m) = None then (r, Inl WorkspaceNotFound)
     else if dict_get (rp_members r) (mb_workspace m, mb_user m) \<noteq> None then (r, Inl MembershipExists)
     else (r\<lparr>rp_members := dict_set (mb_workspace m, mb_user m) m (rp_members r)\<rparr>, Inr m))"
  by (simp add: add_membership_def Let_def)

lemma add_membership_ok:
  assumes "repo_ok r" and "ensure_membership_capacity (mb_user m) w r = Inr x" and "w = None \<or> w = Some (mb_workspace m)"
  shows "repo_ok (fst (add_membership m r))"
  using assms capacity_new [OF assms(2,1)] by (auto simp: add_membership_cases intro: set_new_member_ok)

lemma add_membership_view: "v \<noteq> mb_user m \<Longrightarrow> view_of v (fst (add_membership m r)) = view_of v r"
  by (auto simp: add_membership_cases intro: set_new_member_view)

lemma add_membership_error: "snd (add_membership m r) = Inl e \<Longrightarrow> fst (add_membership m r) = r"
  by (simp add: add_membership_cases split: if_splits)

lemma new_workspace_facts:
  "new_workspace i now now' slug name quotas = Inr w \<Longrightarrow> sp_id w = i \<and> normalize_slug (sp_slug w) = Inr (sp_slug w)"
  by (auto simp: new_workspace_def seqE_Inr_iff normalize_slug_idem split: if_splits)

lemma service_ok_store_workspace:
  assumes "service_ok s" and "new_workspace i now now' slug name quotas = Inr w"
    and "dict_get (rp_workspaces (sv_repo s)) i = None"
  shows "service_ok (fst (on_repo (repo_create_workspace w (sv_repo s)) s))"
  using assms new_workspace_facts [OF assms(2)]
  by (intro service_ok_on_repo) (auto simp: service_ok_def intro: repo_create_workspace_ok)

lemma no_members_of_unknown:
  assumes "repo_ok r" and "dict_get (rp_workspaces r) i = None"
  shows "memberships_for_workspace i r = []"
proof -
  have "mb_workspace m \<noteq> i" if "(k, m) \<in> set (rp_members r)" for k m
  proof -
    have "dict_ok (rp_members r)"
      using assms(1) by (simp add: repo_ok_def members_placed_def)
    then have "dict_get (rp_members r) (mb_workspace m, mb_user m) = Some m"
      using member_key [OF assms(1) that] that by (simp add: dict_get_iff)
    then have "dict_get (rp_workspaces r) (mb_workspace m) \<noteq> None"
      using assms(1) unfolding repo_ok_def members_placed_def by blast
    with assms(2) show ?thesis by auto
  qed
  then have "\<forall>m \<in> set (map snd (rp_members r)). mb_workspace m \<noteq> i"
    by (metis imageE list.set_map prod.collapse)
  then show ?thesis by (simp add: memberships_for_workspace_def filter_empty_conv)
qed

lemma service_ok_rollback:
  assumes "service_ok s" and "memberships_for_workspace i (sv_repo s) = []"
  shows "service_ok (s\<lparr>sv_repo := fst (delete_workspace i (sv_repo s))\<rparr>)"
proof -
  have "view_of v (fst (delete_workspace i (sv_repo s))) = view_of v (sv_repo s)" for v
    using assms by (intro delete_workspace_view) (simp_all add: service_ok_repo)
  then have "cache_coherent (fst (delete_workspace i (sv_repo s))) (sv_cache s)"
    using assms(1) by (simp add: service_ok_def cache_coherent_def)
  with assms(1) show ?thesis by (simp add: service_ok_def delete_workspace_ok)
qed

lemma service_ok_enrolled:
  assumes "service_ok s" and "ensure_membership_capacity (mb_user m) w (sv_repo s) = Inr x"
    and "w = None \<or> w = Some (mb_workspace m)"
  shows "service_ok (invalidate (mb_user m) (audit e (s\<lparr>sv_repo := fst (add_membership m (sv_repo s))\<rparr>)))"
proof -
  have "cache_coherent (fst (add_membership m (sv_repo s))) (cache_invalidate (mb_user m) (sv_cache s))"
    using assms(1) add_membership_view by (intro coherent_invalidate) (auto simp: service_ok_def)
  moreover have "repo_ok (fst (add_membership m (sv_repo s)))"
    using assms by (auto simp: service_ok_def intro: add_membership_ok)
  ultimately show ?thesis
    by (simp add: service_ok_def invalidate_def audit_def record_audit_event_def cache_coherent_def)
qed

lemma delete_workspace_result:
  "dict_get (rp_workspaces r) i \<noteq> None \<Longrightarrow> snd (delete_workspace i r) = Inr ()"
  by (auto simp: delete_workspace_def get_workspace_def)

lemma enroll_owner_cases:
  "enroll_owner d w m s =
    (case seqE (ensure_membership_capacity (mb_user m) None (sv_repo s)) (\<lambda>_. snd (add_membership m (sv_repo s))) of
       Inl e \<Rightarrow> (s\<lparr>sv_repo := fst (delete_workspace (sp_id w) (sv_repo s))\<rparr>,
           case snd (delete_workspace (sp_id w) (sv_repo s)) of Inl e' \<Rightarrow> Inl e' | Inr _ \<Rightarrow> Inl e)
     | Inr _ \<Rightarrow> (invalidate (mb_user m) (audit (audit_entry d (sp_id w) ''workspace.created'' (mb_user m) (Some (mb_user m))
           ''workspace'' (uuid_text (sp_id w)) []) (s\<lparr>sv_repo := fst (add_membership m (sv_repo s))\<rparr>)), Inr (w, m)))"
proof (cases "ensure_membership_capacity (mb_user m) None (sv_repo s)")
  case (Inl e)
  then show ?thesis by (simp add: enroll_owner_def split: prod.split sum.split)
next
  case (Inr u)
  show ?thesis
  proof (cases "snd (add_membership m (sv_repo s))")
    case (Inl e)
    with Inr add_membership_error [OF Inl] show ?thesis
      by (simp add: enroll_owner_def on_repo_def split: prod.split sum.split)
  next
    case (Inr m')
    with \<open>ensure_membership_capacity _ _ _ = Inr u\<close> show ?thesis
      by (simp add: enroll_owner_def on_repo_def)
  qed
qed

lemma enroll_owner_ok:
  assumes "service_ok s" and "memberships_for_workspace (sp_id w) (sv_repo s) = []"
  shows "service_ok (fst (enroll_owner d w m s))"
  using service_ok_rollback [OF assms] service_ok_enrolled [OF assms(1)]
  by (auto simp: enroll_owner_cases seqE_Inr_iff seqE_Inl_iff split: sum.split)

lemma create_workspace_ok:
  assumes s: "service_ok s" and fresh: "dict_get (rp_workspaces (sv_repo s)) (dw_id d) = None"
  shows "service_ok (fst (create_workspace d slug name owner quotas email owner_name s))"
proof (cases "seqE (normalize_slug slug) (\<lambda>slug. new_workspace (dw_id d) (dw_now d) (dw_now2 d) slug name quotas)")
  case (Inl e)
  then show ?thesis using s by (simp add: create_workspace_def)
next
  case (Inr w)
  then obtain slug' where w: "new_workspace (dw_id d) (dw_now d) (dw_now2 d) slug' name quotas = Inr w"
    by (auto simp: seqE_Inr_iff)
  have none: "memberships_for_workspace (dw_id d) (fst (repo_create_workspace w (sv_repo s))) = []"
    using no_members_of_unknown [of "sv_repo s" "dw_id d"] s fresh
    by (simp add: service_ok_def memberships_for_workspace_def repo_create_workspace_def split: sum.split)
  have "service_ok (fst (and_then (on_repo (repo_create_workspace w (sv_repo s)) s) (\<lambda>s w.
      enroll_owner d w (new_membership (dw_member d) (dw_now3 d) (sp_id w) owner email owner_name Owner) s)))"
  proof (rule service_ok_and_then)
    show "service_ok (fst (on_repo (repo_create_workspace w (sv_repo s)) s))"
      by (rule service_ok_store_workspace [OF s w fresh])
    fix w' assume "snd (on_repo (repo_create_workspace w (sv_repo s)) s) = Inr w'"
    then have "w' = w"
      by (auto simp: on_repo_def repo_create_workspace_def split: sum.splits if_splits)
    with none new_workspace_facts [OF w] \<open>service_ok (fst (on_repo _ _))\<close>
    show "service_ok (fst (enroll_owner d w' (new_membership (dw_member d) (dw_now3 d) (sp_id w') owner email owner_name Owner)
        (fst (on_repo (repo_create_workspace w (sv_repo s)) s))))"
      by (intro enroll_owner_ok) (simp_all add: on_repo_def)
  qed
  with Inr show ?thesis by (simp add: create_workspace_def)
qed

lemma ensure_default_workspace_ok:
  assumes "service_ok s" and "dict_get (rp_workspaces (sv_repo s)) (dw_id d) = None"
  shows "service_ok (fst (ensure_default_workspace d slug name s))"
  using assms by (auto simp: ensure_default_workspace_def split: sum.split
      intro!: service_ok_and_then intro: service_ok_store_workspace)

lemma set_status_service_ok: "service_ok s \<Longrightarrow> service_ok (fst (set_status d st action i s))"
  unfolding set_status_def
  by (rule service_ok_and_then) (simp_all add: service_ok_on_repo update_status_ok service_ok_repo)

lemma hard_delete_workspace_ok:
  assumes "service_ok s"
  shows "service_ok (fst (hard_delete_workspace d i s))"
proof -
  define e where "e = audit_entry d i ''workspace.purged'' ''system'' None ''workspace'' (uuid_text i) []"
  let ?r = "fst (delete_workspace i (sv_repo (audit e s)))" and ?ms = "memberships_for_workspace i (sv_repo s)"
  have ok: "repo_ok (sv_repo (audit e s))" and co: "cache_coherent (sv_repo (audit e s)) (sv_cache s)"
    using assms service_ok_audit [of e s] by (auto simp: service_ok_def audit_def)
  have same: "memberships_for_workspace i (sv_repo (audit e s)) = ?ms"
    by (simp add: audit_def record_audit_event_def memberships_for_workspace_def)
  have error: "?r = sv_repo (audit e s)" if "snd (delete_workspace i (sv_repo (audit e s))) = Inl x" for x
    using that by (auto simp: delete_workspace_def get_workspace_def split: option.splits)
  have "service_ok (fold (\<lambda>m. invalidate (mb_user m)) ?ms (s\<lparr>sv_repo := ?r\<rparr>))"
  proof -
    have "view_of u ?r = view_of u (sv_repo (audit e s))" if "u \<notin> mb_user ` set ?ms" for u
      using that same by (intro delete_workspace_view [OF _ ok]) (auto simp: list_ex_iff)
    then show ?thesis
      using delete_workspace_ok [OF ok] co by (auto simp: service_ok_def cache_coherent_def fold_invalidate split: if_splits)
  qed
  moreover have "service_ok (s\<lparr>sv_repo := sv_repo (audit e s)\<rparr>)"
    using ok co by (simp add: service_ok_def)
  ultimately show ?thesis
    using error
    by (cases "snd (delete_workspace i (sv_repo (audit e s)))")
      (simp_all add: hard_delete_workspace_def Let_def on_repo_def e_def [symmetric] audit_def)
qed

lemma invite_member_ok: "service_ok s \<Longrightarrow> service_ok (fst (invite_member d ws u role actor_role s))"
proof -
  assume s: "service_ok s"
  let ?m = "new_membership (dw_member d) (dw_now d) ws u None None role"
  have m: "mb_user ?m = u" "mb_workspace ?m = ws"
    by (simp_all add: new_membership_def)
  have "service_ok (fst (and_then (on_repo (add_membership ?m (sv_repo s)) s) (\<lambda>s m. (invalidate u s, Inr m))))"
    if "ensure_membership_capacity u (Some ws) (sv_repo s) = Inr x" for x
  proof (rule service_ok_member_change [OF s, where f = "\<lambda>a s. s"])
    show "repo_ok (fst (add_membership ?m (sv_repo s)))"
      using add_membership_ok [of "sv_repo s" ?m "Some ws" x] that m service_ok_repo [OF s] by simp
    show "v \<noteq> u \<Longrightarrow> view_of v (fst (add_membership ?m (sv_repo s))) = view_of v (sv_repo s)" for v
      using add_membership_view [of v ?m] m by simp
    show "\<exists>es. s = s\<lparr>sv_repo := (sv_repo s)\<lparr>rp_events := es\<rparr>\<rparr>" for s :: workspace_service
      by (rule exI [of _ "rp_events (sv_repo s)"]) simp
  qed (rule add_membership_error)
  with s show ?thesis
    by (cases "admin_or_system actor_role"; cases "ensure_membership_capacity u (Some ws) (sv_repo s)")
      (simp_all add: invite_member_def)
qed

lemma remove_member_ok: "service_ok s \<Longrightarrow> service_ok (fst (remove_member d ws u actor_role s))"
proof -
  assume s: "service_ok s"
  have "service_ok (fst (and_then (on_repo (remove_membership ws u (sv_repo s)) s) (\<lambda>s a. (invalidate u (audit e s), Inr ()))))" for e
    using s remove_membership_view [OF service_ok_repo [OF s]]
    by (intro service_ok_member_change audit_frame) (auto simp: remove_membership_ok service_ok_repo, auto simp: remove_membership_def split: if_splits)
  with s show ?thesis
    by (auto simp: remove_member_def admin_or_system_def split: option.split)
qed

lemma update_membership_role_ok: "repo_ok r \<Longrightarrow> repo_ok (fst (update_membership_role i u role r))"
  by (auto simp: update_membership_role_def get_membership_def Let_def split: option.split intro: set_old_member_ok)

lemma update_membership_role_view:
  assumes "repo_ok r" and "v \<noteq> u"
  shows "view_of v (fst (update_membership_role i u role r)) = view_of v r"
proof (cases "dict_get (rp_members r) (i, u)")
  case None
  then show ?thesis by (simp add: update_membership_role_def get_membership_def)
next
  case (Some m)
  then have "mb_user m = u"
    using assms(1) by (simp add: repo_ok_def members_placed_def)
  with Some assms(2) show ?thesis
    by (simp add: update_membership_role_def get_membership_def Let_def set_old_member_view)
qed

lemma update_member_role_ok: "service_ok s \<Longrightarrow> service_ok (fst (update_member_role d ws u role actor_role s))"
proof -
  assume s: "service_ok s"
  have "service_ok (fst (and_then (on_repo (update_membership_role ws u role (sv_repo s)) s) (\<lambda>s a. (invalidate u (audit e s), Inr a))))" for e
    using s update_membership_role_view [OF service_ok_repo [OF s]]
    by (intro service_ok_member_change audit_frame)
      (auto simp: update_membership_role_ok service_ok_repo, auto simp: update_membership_role_def get_membership_def Let_def split: option.splits)
  with s show ?thesis
    by (auto simp: update_member_role_def admin_or_system_def split: option.split)
qed

lemma record_member_identity_ok:
  assumes s: "service_ok s"
  shows "service_ok (record_member_identity ws u email name s)"
proof -
  have "repo_ok (fst (update_membership_identity ws u email name (sv_repo s)))"
    using service_ok_repo [OF s]
    by (auto simp: update_membership_identity_def get_membership_def Let_def split: option.split intro: set_old_member_ok)
  moreover have "view_of v (fst (update_membership_identity ws u email name (sv_repo s))) = view_of v (sv_repo s)" for v
    by (auto simp: update_membership_identity_def get_membership_def Let_def access_view_def split: option.split
        intro!: set_old_member_view)
  ultimately show ?thesis
    using s by (auto simp: record_member_identity_def intro: service_ok_on_repo)
qed

lemma add_invitation_view [simp]: "view_of v (fst (add_invitation iv r)) = view_of v r"
  by (auto simp: add_invitation_def find_pending_invitation_def and_then_def seqE_def split: sum.split)

lemma create_invitation_ok:
  assumes s: "service_ok s" and fresh: "dict_get (rp_invitations (sv_repo s)) (dw_id d) = None"
  shows "service_ok (fst (create_invitation hash deliver d token ws email role by actor_role name s))"
proof -
  have "service_ok (fst (on_repo (add_invitation iv (sv_repo s)) s))"
    if "iv_id iv = dw_id d" "normalize_email e = Inr (iv_email iv)" "iv_status iv = InvPending" for iv e
    using that fresh s normalize_email_idem [OF that(2)]
    by (intro service_ok_on_repo) (auto intro: add_invitation_ok service_ok_repo)
  with s show ?thesis
    unfolding create_invitation_def Let_def
    by (auto simp: admin_or_system_def split: option.split intro!: service_ok_and_then)
qed

lemma revoke_invitation_ok:
  assumes s: "service_ok s"
  shows "service_ok (fst (revoke_invitation d ws i actor_role actor s))"
proof -
  have "repo_ok (fst (update_invitation (iv\<lparr>iv_status := InvRevoked\<rparr>) (sv_repo s)))"
    if "dict_get (rp_invitations (sv_repo s)) i = Some iv" for iv
    using service_ok_repo [OF s] that invitation_stored(1) [OF service_ok_repo [OF s] that]
    by (auto simp: update_invitation_def intro: resolve_invitation_ok)
  then have "service_ok (fst (on_repo (update_invitation (iv\<lparr>iv_status := InvRevoked\<rparr>) (sv_repo s)) s))"
    if "dict_get (rp_invitations (sv_repo s)) i = Some iv" for iv
    using s that by (intro service_ok_on_repo) (auto simp: update_invitation_def)
  with s show ?thesis
    by (auto simp: revoke_invitation_def admin_or_system_def get_invitation_def split: option.split intro!: service_ok_and_then)
qed

definition with_member :: "workspace_membership \<Rightarrow> workspace_repo \<Rightarrow> workspace_repo" where
  "with_member m r = r\<lparr>rp_members := dict_set (mb_workspace m, mb_user m) m (rp_members r)\<rparr>"

lemma accept_atomic_cases:
  "accept_invitation_atomic now m email iv r = (r', final, accepted) \<Longrightarrow> repo_ok r \<Longrightarrow>
     mb_workspace final = mb_workspace m \<and> mb_user final = mb_user m \<and>
     (case dict_get (rp_members r) (mb_workspace m, mb_user m) of None \<Rightarrow> mb_role final = mb_role m | Some old \<Rightarrow> mb_role final = mb_role old) \<and>
     accepted = iv\<lparr>iv_status := InvAccepted, iv_accepted_by := Some (mb_user m), iv_accepted_at := Some now\<rparr> \<and>
     r' = with_member final r\<lparr>rp_invitations := dict_set (iv_id iv) accepted (rp_invitations r)\<rparr>"
  by (auto simp: accept_invitation_atomic_def Let_def with_member_def repo_ok_def members_placed_def split: option.split)

lemma accept_atomic_ok:
  assumes "accept_invitation_atomic now m email iv r = (r', final, accepted)" and "repo_ok r"
    and "dict_get (rp_invitations r) (iv_id iv) = Some iv" and "mb_workspace m = iv_workspace iv"
    and "ensure_membership_capacity (mb_user m) (Some (mb_workspace m)) r = Inr x"
  shows "repo_ok r'" and "v \<noteq> mb_user m \<Longrightarrow> view_of v r' = view_of v r"
proof -
  note c = accept_atomic_cases [OF assms(1,2)]
  have ws: "dict_get (rp_workspaces r) (mb_workspace m) \<noteq> None"
    using invitation_stored(3) [OF assms(2,3)] assms(4) by simp
  have "repo_ok (with_member final r)"
  proof (cases "dict_get (rp_members r) (mb_workspace m, mb_user m)")
    case None
    with c ws capacity_new [OF assms(5,2)] assms(2) set_new_member_ok [of r final] show ?thesis
      by (simp add: with_member_def)
  next
    case (Some old)
    then have "mb_workspace old = mb_workspace m" "mb_user old = mb_user m"
      using assms(2) by (auto simp: repo_ok_def members_placed_def)
    with c Some assms(2) set_old_member_ok [of r _ old final] show ?thesis
      by (simp add: with_member_def)
  qed
  moreover have "rp_invitations (with_member final r) = rp_invitations r"
    by (simp add: with_member_def)
  ultimately show "repo_ok r'"
    using c assms(3) resolve_invitation_ok [of "with_member final r" "iv_id iv" iv accepted] by simp
  show "view_of v r' = view_of v r" if "v \<noteq> mb_user m"
  proof (cases "dict_get (rp_members r) (mb_workspace m, mb_user m)")
    case None
    with c that show ?thesis by (simp add: with_member_def set_new_member_view)
  next
    case (Some old)
    then have "mb_user old = mb_user m"
      using assms(2) by (auto simp: repo_ok_def members_placed_def)
    with c that Some show ?thesis by (simp add: with_member_def set_old_member_view)
  qed
qed

text \<open>The branches of an acceptance: a repeated one reads the membership, a first one passes every guard.\<close>

lemma accept_invitation_cases:
  obtains (unchanged) "fst (accept_invitation hash d token u email verified s) = s"
      and "\<And>iv. get_invitation_by_token_hash (hash token) (sv_repo s) = Inr iv \<Longrightarrow> iv_status iv = InvPending \<Longrightarrow>
        isl (snd (accept_invitation hash d token u email verified s))"
  | (accepted) iv e r m a where "get_invitation_by_token_hash (hash token) (sv_repo s) = Inr iv"
      and "iv_status iv = InvPending" and "\<not> invitation_expired (dw_now d) iv" and "verified"
      and "email = Some e" and "normalize_email e = Inr (iv_email iv)"
      and "ensure_membership_capacity u (Some (iv_workspace iv)) (sv_repo s) = Inr ()"
      and "accept_invitation_atomic (dw_now3 d) (new_membership (dw_member d) (dw_now2 d) (iv_workspace iv) u None None (iv_role iv))
        (iv_email iv) iv (sv_repo s) = (r, m, a)"
      and "accept_invitation hash d token u email verified s =
        (invalidate u (invitation_audit d (iv_workspace iv) ''workspace.invitation.accepted'' (Some u) a [] (s\<lparr>sv_repo := r\<rparr>)), Inr m)"
proof (cases "\<exists>iv e. get_invitation_by_token_hash (hash token) (sv_repo s) = Inr iv \<and> iv_status iv = InvPending \<and>
    \<not> invitation_expired (dw_now d) iv \<and> verified \<and> email = Some e \<and> e \<noteq> [] \<and> normalize_email e = Inr (iv_email iv) \<and>
    ensure_membership_capacity u (Some (iv_workspace iv)) (sv_repo s) = Inr ()")
  case True
  then obtain iv e where e: "get_invitation_by_token_hash (hash token) (sv_repo s) = Inr iv" "iv_status iv = InvPending"
      "\<not> invitation_expired (dw_now d) iv" "verified" "email = Some e" "e \<noteq> []" "normalize_email e = Inr (iv_email iv)"
      "ensure_membership_capacity u (Some (iv_workspace iv)) (sv_repo s) = Inr ()"
    by blast
  obtain r m a where a: "accept_invitation_atomic (dw_now3 d) (new_membership (dw_member d) (dw_now2 d) (iv_workspace iv) u None None (iv_role iv))
      (iv_email iv) iv (sv_repo s) = (r, m, a)"
    by (rule prod_cases3)
  show ?thesis
  proof (rule accepted [OF e(1-5) e(7,8) a])
    show "accept_invitation hash d token u email verified s =
        (invalidate u (invitation_audit d (iv_workspace iv) ''workspace.invitation.accepted'' (Some u) a [] (s\<lparr>sv_repo := r\<rparr>)), Inr m)"
      using e a by (simp add: accept_invitation_def)
  qed
next
  case False
  then have "fst (accept_invitation hash d token u email verified s) = s"
    and "get_invitation_by_token_hash (hash token) (sv_repo s) = Inr iv \<Longrightarrow> iv_status iv = InvPending \<Longrightarrow>
        isl (snd (accept_invitation hash d token u email verified s))" for iv
    unfolding accept_invitation_def and_then_def
    by (auto simp: seqE_def opt_truthy_def split: sum.splits invitation_status.splits option.splits if_splits prod.splits)
  then show ?thesis by (rule unchanged)
qed

lemma accept_invitation_ok:
  assumes s: "service_ok s"
  shows "service_ok (fst (accept_invitation hash d token u email verified s))"
proof (rule accept_invitation_cases [of hash d token u email verified s])
  assume "fst (accept_invitation hash d token u email verified s) = s"
  with s show ?thesis by simp
next
  fix iv e r m a
  assume a: "get_invitation_by_token_hash (hash token) (sv_repo s) = Inr iv"
    and cap: "ensure_membership_capacity u (Some (iv_workspace iv)) (sv_repo s) = Inr ()"
    and acc: "accept_invitation_atomic (dw_now3 d) (new_membership (dw_member d) (dw_now2 d) (iv_workspace iv) u None None (iv_role iv))
        (iv_email iv) iv (sv_repo s) = (r, m, a)"
    and res: "accept_invitation hash d token u email verified s =
        (invalidate u (invitation_audit d (iv_workspace iv) ''workspace.invitation.accepted'' (Some u) a [] (s\<lparr>sv_repo := r\<rparr>)), Inr m)"
  have fields: "mb_user (new_membership i n w u e f r) = u" "mb_workspace (new_membership i n w u e f r) = w" for i n w e f r
    by (simp_all add: new_membership_def)
  note ok = accept_atomic_ok [OF acc service_ok_repo [OF s] conjunct1 [OF token_invitation [OF a service_ok_repo [OF s]]], unfolded fields, OF refl cap]
  have "cache_coherent r (cache_invalidate u (sv_cache s))"
    using s ok(2) by (intro coherent_invalidate) (auto simp: service_ok_def)
  with ok(1) res show ?thesis
    by (simp add: service_ok_def invalidate_def invitation_audit_def audit_def record_audit_event_def cache_coherent_def)
qed

lemma memberships_of_ok: "service_ok s \<Longrightarrow> service_ok (fst (memberships_of c c' u s))"
  using list_memberships_coherent(1) [of "sv_repo s" "sv_cache s" c c' u]
  by (auto simp: memberships_of_def service_ok_def Let_def split: prod.split)

lemma resolve_workspace_ok: "service_ok s \<Longrightarrow> service_ok (fst (resolve_workspace c c' u slug s))"
  using list_memberships_coherent(1) [of "sv_repo s" "sv_cache s" c c' u]
  by (auto simp: resolve_workspace_def service_ok_def Let_def split: prod.split)

lemma purge_loop_ok: "service_ok s \<Longrightarrow> service_ok (fst (purge_loop d cutoff ws s))"
proof (induction ws arbitrary: s)
  case Nil
  then show ?case by simp
next
  case (Cons w ws)
  then show ?case
    by (auto intro!: service_ok_and_then hard_delete_workspace_ok Cons.IH)
qed

section \<open>Reachable states\<close>

text \<open>
  One rule per operation; the identifiers a step draws for a new workspace or invitation are unused.
  \<open>router_status\<close> is the status update that the workspace router makes on the repository itself.
\<close>

inductive service_step :: "workspace_service \<Rightarrow> workspace_service \<Rightarrow> bool" where
  create: "dict_get (rp_workspaces (sv_repo s)) (dw_id d) = None \<Longrightarrow>
    service_step s (fst (create_workspace d slug name owner quotas email owner_name s))"
| ensure_default: "dict_get (rp_workspaces (sv_repo s)) (dw_id d) = None \<Longrightarrow>
    service_step s (fst (ensure_default_workspace d slug name s))"
| status: "service_step s (fst (set_status d st action i s))"
| router_status: "service_step s (fst (on_repo (update_status now i st (sv_repo s)) s))"
| hard_delete: "service_step s (fst (hard_delete_workspace d i s))"
| purge: "service_step s (fst (purge_deleted_workspaces ds now days s))"
| invite: "service_step s (fst (invite_member d ws u role actor_role s))"
| remove: "service_step s (fst (remove_member d ws u actor_role s))"
| change_role: "service_step s (fst (update_member_role d ws u role actor_role s))"
| identity: "service_step s (record_member_identity ws u email name s)"
| invitation: "dict_get (rp_invitations (sv_repo s)) (dw_id d) = None \<Longrightarrow>
    service_step s (fst (create_invitation hash deliver d token ws email role by actor_role name s))"
| revoke: "service_step s (fst (revoke_invitation d ws i actor_role actor s))"
| accept: "service_step s (fst (accept_invitation hash d token u email verified s))"
| listing: "service_step s (fst (memberships_of c c' u s))"
| resolving: "service_step s (fst (resolve_workspace c c' u slug s))"

lemma service_step_ok: "service_step s s' \<Longrightarrow> service_ok s \<Longrightarrow> service_ok s'"
proof (induction rule: service_step.induct)
  case (router_status s now i st)
  then show ?case by (simp add: service_ok_on_repo update_status_ok service_ok_repo)
next
  case (purge s ds now days)
  then show ?case by (simp add: purge_deleted_workspaces_def purge_loop_ok)
qed (simp_all add: create_workspace_ok ensure_default_workspace_ok set_status_service_ok hard_delete_workspace_ok
      invite_member_ok remove_member_ok update_member_role_ok record_member_identity_ok create_invitation_ok
      revoke_invitation_ok accept_invitation_ok memberships_of_ok resolve_workspace_ok)

inductive service_reachable :: "workspace_service \<Rightarrow> bool" where
  start: "service_reachable (new_workspace_service cache_ttl ttl_hours base_url)"
| step: "service_reachable s \<Longrightarrow> service_step s s' \<Longrightarrow> service_reachable s'"

lemma new_service_ok: "service_ok (new_workspace_service cache_ttl ttl_hours base_url)"
  by (simp add: new_workspace_service_def service_ok_def new_repo_def repo_ok_def repo_parts cache_coherent_def
      memberships_for_user_def)

lemma reachable_service_ok: "service_reachable s \<Longrightarrow> service_ok s"
  by (induction rule: service_reachable.induct) (auto intro: new_service_ok service_step_ok)

section \<open>Access decisions\<close>

lemma select_membership_view:
  "map access_view ms = map access_view ms' \<Longrightarrow>
   map_option access_view (find (\<lambda>m. mb_workspace m = i) ms) = map_option access_view (find (\<lambda>m. mb_workspace m = i) ms')"
proof (induction ms arbitrary: ms')
  case Nil
  then show ?case by simp
next
  case (Cons m ms)
  then obtain m' ns where "ms' = m' # ns" "access_view m = access_view m'" "map access_view ms = map access_view ns"
    by (cases ms') auto
  moreover from this have "mb_workspace m = mb_workspace m'"
    by (simp add: access_view_def)
  ultimately show ?case using Cons.IH [of ns] by simp
qed

lemma make_context_view: "access_view m = access_view m' \<Longrightarrow> make_context w m = make_context w m'"
  by (simp add: make_context_def access_view_def)

lemma choose_workspace_view:
  assumes "map access_view ms = map access_view ms'"
  shows "choose_workspace ms slug r = choose_workspace ms' slug r"
proof (cases slug)
  case None
  show ?thesis
  proof (cases "\<exists>m. ms = [m]")
    case True
    with assms None show ?thesis
      by (auto simp: choose_workspace_def select_primary_membership_def access_view_def make_context_def)
  next
    case False
    moreover have "ms = [] \<longleftrightarrow> ms' = []" and "\<nexists>m. ms' = [m]"
      using assms False by (cases ms; cases ms'; auto)+
    ultimately show ?thesis
      using None by (cases ms; cases "tl ms"; cases ms'; cases "tl ms'")
        (auto simp: choose_workspace_def select_primary_membership_def)
  qed
next
  case (Some s)
  have "seqE (select_membership ms i) (\<lambda>m. seqE (enforce_active w) (\<lambda>_. make_context w m)) =
      seqE (select_membership ms' i) (\<lambda>m. seqE (enforce_active w) (\<lambda>_. make_context w m))" for w i
  proof (cases "find (\<lambda>m. mb_workspace m = i) ms")
    case None
    then have "find (\<lambda>m. mb_workspace m = i) ms' = None"
      using select_membership_view [OF assms, of i] by simp
    with None show ?thesis by (simp add: select_membership_def)
  next
    case (Some m)
    then obtain m' where m': "find (\<lambda>m. mb_workspace m = i) ms' = Some m'" "access_view m = access_view m'"
      using select_membership_view [OF assms, of i] by (auto dest: sym)
    have "make_context w m = make_context w m'"
      using m'(2) by (rule make_context_view)
    with Some m'(1) show ?thesis by (simp add: select_membership_def)
  qed
  moreover have "ms = [] \<longleftrightarrow> ms' = []"
    using assms by (cases ms; cases ms') auto
  ultimately show ?thesis
    using Some by (simp add: choose_workspace_def)
qed

section \<open>What the service promises\<close>

lemma find_updated:
  assumes "find P (map snd d) = Some w" and "dict_get d k = Some w" and "P v"
    and "\<And>j. (j, w) \<in> set d \<Longrightarrow> j = k"
  shows "find P (map snd (dict_set k v d)) = Some v"
  using assms
proof (induction d)
  case Nil
  then show ?case by simp
next
  case (Cons kx d)
  obtain j x where kx: "kx = (j, x)" by (cases kx)
  show ?case
  proof (cases "P x")
    case True
    with Cons.prems kx have "x = w" by simp
    with Cons.prems(4) kx have "j = k" by simp
    with kx Cons.prems(3) show ?thesis by simp
  next
    case False
    have "P w"
      using Cons.prems(1) unfolding find_Some_iff by auto
    with False Cons.prems(2) kx have "j \<noteq> k" by auto
    with Cons kx False show ?thesis by auto
  qed
qed

definition sample_service_draws :: "nat \<Rightarrow> service_draws" where
  "sample_service_draws n = \<lparr>dw_id = n, dw_member = n + 1, dw_event = n + 2, dw_now = 0, dw_now2 = 0, dw_now3 = 0, dw_event_at = 0\<rparr>"

definition founded_service :: workspace_service where
  "founded_service = fst (create_workspace (sample_service_draws 10) ''Acme'' ''Acme'' ''ann'' None None None
     (new_workspace_service 60 72 ''https://x''))"

lemma sample_slugs: "normalize_slug ''Acme'' = Inr ''acme''" "normalize_slug ''acme'' = Inr ''acme''" "str_strip ''Acme'' = ''Acme''"
proof -
  have low: "str_lower (str_strip ''Acme'') = ''acme''" "str_lower (str_strip ''acme'') = ''acme''"
    by code_simp+
  show "normalize_slug ''Acme'' = Inr ''acme''" "normalize_slug ''acme'' = Inr ''acme''"
    unfolding normalize_slug_def low by (simp_all add: char_alnum_def lower_alnum_def char_lower_def Let_def)
  show "str_strip ''Acme'' = ''Acme''" by code_simp
qed
definition acme :: workspace where
  "acme = \<lparr>sp_id = 10, sp_slug = ''acme'', sp_name = ''Acme'', sp_status = WsActive, sp_quotas = default_quotas, sp_deleted_at = None, sp_created_at = 0, sp_updated_at = 0\<rparr>"
definition ann :: workspace_membership where
  "ann = new_membership 11 0 10 ''ann'' None None Owner"
lemma founded: "rp_workspaces (sv_repo founded_service) = [(10, acme)] \<and> rp_slugs (sv_repo founded_service) = [(''acme'', 10)] \<and>
   rp_members (sv_repo founded_service) = [((10, ''ann''), ann)] \<and> rp_invitations (sv_repo founded_service) = [] \<and>
   sv_cache founded_service = \<lparr>mc_ttl = 60, mc_entries = []\<rparr> \<and> sv_ttl_hours founded_service = 72"
  by (simp add: founded_service_def create_workspace_def new_workspace_service_def new_repo_def sample_slugs new_workspace_def
     repo_create_workspace_def on_repo_def enroll_owner_def ensure_membership_capacity_def memberships_for_user_def add_membership_def
     Let_def max_memberships_per_user_def new_membership_def acme_def ann_def invalidate_def cache_invalidate_def audit_def
     record_audit_event_def sample_service_draws_def)

lemma founded_reachable: "service_reachable founded_service"
  unfolding founded_service_def
  by (rule service_reachable.step [OF service_reachable.start], rule service_step.create)
    (simp add: new_workspace_service_def new_repo_def)

definition inviting_service :: workspace_service where
  "inviting_service = fst (create_invitation (\<lambda>t. t) (\<lambda>m. True) (sample_service_draws 20) ''tok'' 10 ''Bob@x.io'' Editor
     (Some ''ann'') (Some Owner) None founded_service)"

lemma inviting_reachable: "service_reachable inviting_service"
  unfolding inviting_service_def
  by (rule service_reachable.step [OF founded_reachable], rule service_step.invitation) (simp add: founded)

lemma sample_email: "normalize_email ''Bob@x.io'' = Inr ''bob@x.io''" "normalize_email ''bob@x.io'' = Inr ''bob@x.io''"
  by code_simp+

definition bobs_invitation :: invitation where
  "bobs_invitation = \<lparr>iv_id = 20, iv_workspace = 10, iv_email = ''bob@x.io'', iv_role = Editor, iv_token_hash = ''tok'',
     iv_status = InvPending, iv_invited_by = Some ''ann'', iv_accepted_by = None, iv_created_at = 0,
     iv_expires_at = seconds (72 * 3600), iv_accepted_at = None\<rparr>"

lemma inviting: "rp_workspaces (sv_repo inviting_service) = [(10, acme)] \<and> rp_slugs (sv_repo inviting_service) = [(''acme'', 10)] \<and>
   rp_members (sv_repo inviting_service) = [((10, ''ann''), ann)] \<and> rp_invitations (sv_repo inviting_service) = [(20, bobs_invitation)]"
  by (simp add: inviting_service_def create_invitation_def admin_or_system_def role_includes_def role_rank_def sample_email founded
     add_invitation_def find_pending_invitation_def on_repo_def Let_def invitation_audit_def audit_def record_audit_event_def
     send_invitation_email_def sample_service_draws_def bobs_invitation_def)



text \<open>C38. A workspace is resolved from the membership cache exactly as from the stored memberships, so a removed
  member or a changed role takes effect at once, whatever the age of the cache entry.\<close>

theorem resolution_agrees_with_repository:
  assumes "service_reachable s"
  shows "snd (resolve_workspace clock clock' u slug s) = choose_workspace (memberships_for_user u (sv_repo s)) slug (sv_repo s)"
proof -
  have co: "cache_coherent (sv_repo s) (sv_cache s)"
    using reachable_service_ok [OF assms] by (simp add: service_ok_def)
  have "choose_workspace (snd (list_memberships clock clock' u (sv_repo s) (sv_cache s))) slug r =
      choose_workspace (memberships_for_user u (sv_repo s)) slug r" for r
    by (rule choose_workspace_view) (rule list_memberships_coherent(2) [OF co, unfolded view_of_def])
  then show ?thesis
    by (cases "list_memberships clock clock' u (sv_repo s) (sv_cache s)") (simp add: resolve_workspace_def)
qed

theorem resolution_agrees_with_repository_witness:
  "snd (resolve_workspace 0 0 ''ann'' (Some ''acme'') founded_service) =
     choose_workspace (memberships_for_user ''ann'' (sv_repo founded_service)) (Some ''acme'') (sv_repo founded_service) \<and>
   (case snd (resolve_workspace 0 0 ''ann'' (Some ''acme'') founded_service) of Inr c \<Rightarrow> wc_role c = Owner | Inl _ \<Rightarrow> False)"
  unfolding resolution_agrees_with_repository [OF founded_reachable]
  by (simp add: choose_workspace_def memberships_for_user_def founded ann_def new_membership_def get_workspace_by_slug_def
     sample_slugs get_workspace_def select_membership_def enforce_active_def make_context_def acme_def)

text \<open>C39. An invitation is accepted only with a verified, matching address before it expires; the caller then has the
  membership, and the token is spent for everybody else.\<close>

theorem invitation_accepted_once:
  assumes "service_reachable s" and "accept_invitation hash d token u email verified s = (s', Inr m)"
    and "get_invitation_by_token_hash (hash token) (sv_repo s) = Inr iv" and "iv_status iv = InvPending"
  shows "verified \<and> dw_now d < iv_expires_at iv \<and> (\<exists>e. email = Some e \<and> normalize_email e = Inr (iv_email iv)) \<and>
    get_membership (iv_workspace iv) u (sv_repo s') = Inr m \<and>
    (u' = u \<or> accept_invitation hash d' token u' email' verified' s' = (s', Inl InvitationNotFound))"
proof (rule accept_invitation_cases [of hash d token u email verified s])
  assume "\<And>iv. get_invitation_by_token_hash (hash token) (sv_repo s) = Inr iv \<Longrightarrow> iv_status iv = InvPending \<Longrightarrow>
      isl (snd (accept_invitation hash d token u email verified s))"
  from this [OF assms(3,4)] assms(2) show ?thesis by simp
next
  have ok: "repo_ok (sv_repo s)"
    using reachable_service_ok [OF assms(1)] by (rule service_ok_repo)
  fix iv' e r m' a
  assume a: "get_invitation_by_token_hash (hash token) (sv_repo s) = Inr iv'" "\<not> invitation_expired (dw_now d) iv'" verified
      "email = Some e" "normalize_email e = Inr (iv_email iv')"
    and acc: "accept_invitation_atomic (dw_now3 d) (new_membership (dw_member d) (dw_now2 d) (iv_workspace iv') u None None (iv_role iv'))
        (iv_email iv') iv' (sv_repo s) = (r, m', a)"
    and res: "accept_invitation hash d token u email verified s =
        (invalidate u (invitation_audit d (iv_workspace iv') ''workspace.invitation.accepted'' (Some u) a [] (s\<lparr>sv_repo := r\<rparr>)), Inr m')"
  have iv: "iv' = iv" using a(1) assms(3) by simp
  note c = accept_atomic_cases [OF acc ok]
  have s': "rp_members (sv_repo s') = rp_members r" "rp_invitations (sv_repo s') = rp_invitations r" "m' = m"
    using res assms(2) by (auto simp: invalidate_def invitation_audit_def audit_def record_audit_event_def)
  have stored: "dict_get (rp_invitations (sv_repo s)) (iv_id iv) = Some iv" "iv_token_hash iv = hash token"
    using token_invitation [OF assms(3) ok] by auto
  have only: "j = iv_id iv" if "(j, iv) \<in> set (rp_invitations (sv_repo s))" for j
    using invitation_stored(1) [OF ok, of j iv] ok that by (simp add: repo_ok_def invitations_placed_def dict_get_iff)
  have "find (\<lambda>iv. iv_token_hash iv = hash token) (map snd (rp_invitations (sv_repo s))) = Some iv"
    using assms(3) by (simp add: get_invitation_by_token_hash_def split: option.splits)
  from find_updated [OF this stored(1), of a] only have "get_invitation_by_token_hash (hash token) (sv_repo s') = Inr a"
    using c s' iv stored(2) by (simp add: get_invitation_by_token_hash_def)
  moreover have "iv_status a = InvAccepted" "iv_accepted_by a = Some u"
    using c by (simp_all add: new_membership_def)
  ultimately have "u' = u \<or> accept_invitation hash d' token u' email' verified' s' = (s', Inl InvitationNotFound)"
    by (simp add: accept_invitation_def)
  moreover have "get_membership (iv_workspace iv) u (sv_repo s') = Inr m"
    using c s' iv by (simp add: get_membership_def with_member_def new_membership_def)
  ultimately show ?thesis
    using a iv by (auto simp: invitation_expired_def)
qed

theorem invitation_accepted_once_witness:
  "case accept_invitation (\<lambda>t. t) (sample_service_draws 30) ''tok'' ''bob'' (Some ''bob@x.io'') True inviting_service of
     (s', Inr m) \<Rightarrow> get_membership 10 ''bob'' (sv_repo s') = Inr m \<and>
       accept_invitation (\<lambda>t. t) (sample_service_draws 40) ''tok'' ''eve'' (Some ''bob@x.io'') True s' = (s', Inl InvitationNotFound)
   | (_, Inl _) \<Rightarrow> False"
proof -
  have iv: "get_invitation_by_token_hash ''tok'' (sv_repo inviting_service) = Inr bobs_invitation" "iv_status bobs_invitation = InvPending"
      "iv_workspace bobs_invitation = 10"
    by (simp_all add: get_invitation_by_token_hash_def inviting bobs_invitation_def)
  have "case accept_invitation (\<lambda>t. t) (sample_service_draws 30) ''tok'' ''bob'' (Some ''bob@x.io'') True inviting_service of
      (s', Inr m) \<Rightarrow> True | (_, Inl _) \<Rightarrow> False"
    using iv by (simp add: accept_invitation_def bobs_invitation_def invitation_expired_def sample_service_draws_def seconds_def
        us_per_second_def sample_email ensure_membership_capacity_def memberships_for_user_def inviting ann_def new_membership_def
        max_memberships_per_user_def split: prod.split)
  then obtain s' m where "accept_invitation (\<lambda>t. t) (sample_service_draws 30) ''tok'' ''bob'' (Some ''bob@x.io'') True inviting_service
      = (s', Inr m)"
    by (auto split: prod.splits sum.splits)
  with invitation_accepted_once [OF inviting_reachable this, of bobs_invitation "''eve''"] iv show ?thesis
    by simp
qed



end
