(* ===== verification/Spec2Isabelle.thy ===== *)
theory Spec2Isabelle
  imports Http_Polling Cron_Extraction Registries Trigger_Layer_Laws Rate_Limits Workflow_Entities_Laws
    Edge_Laws Credential_Refs_Laws Node_Laws Graph_IR_Laws Ir_Config_Laws Ir_Compile_Laws Credential_Service_Laws Workspaces_Laws
begin

text \<open>
  Orcheo is a platform for workflows written as graphs of nodes: triggers start runs, the graph is built
  from a script, nodes pass values through a shared state, and credentials are filled in at run time.
  This development models the platform's own logic in executable definitions and proves what makes
  it correct. Paths are relative to \<open>src/src/orcheo\<close> unless they start with \<open>app\<close>, which stands for
  \<open>src/apps/backend/src/orcheo_backend/app\<close>.

  \<^bold>\<open>How the parts interact.\<close> A request, a schedule or a person fires a trigger; the trigger layer checks
  it, consults the health of the credentials and hands out a dispatch; the run it starts goes through
  the life cycle of the workflow entities. The graph of the run comes from a script: the restricted
  definition mode checks its syntax tree, interprets it into a frozen representation, and rebuilds the
  graph from that. While the graph runs, each node decodes its fields against the workflow state and
  the credential resolver, and each edge chooses the next node.

  \<^bold>\<open>Shared foundations.\<close>
  \<^item> \<open>Orcheo_Prelude\<close>: fallible operations as sums with \<open>seqE\<close>, dictionaries as association lists in
    insertion order with their lookup laws, character and string operations, instants and rounding.
  \<^item> \<open>Sliding_Window\<close>: the window of recent events that three limiters share, as a locale over the
    operations, interpreted where a limiter provides them.
  \<^item> \<open>Py_Value\<close>: dynamically typed values with truth, equality and order; \<open>Py_Ast\<close>: syntax trees.

  \<^bold>\<open>Triggers\<close> (\<open>triggers/\<close>).
  \<^item> \<open>Retry_Policy\<close> (\<open>retry.py\<close>): delays and decisions; bounds of the delay, numbering of attempts.
  \<^item> \<open>Webhook\<close>, \<open>Webhook_Laws\<close> (\<open>webhook/\<close>): validation of requests; an accepted request is
    authentic, a signature is accepted once within the tolerance, and the rate is bounded.
  \<^item> \<open>Cron\<close>, \<open>Cron_Laws\<close> (\<open>cron.py\<close>): the next occurrence is the earliest match; fire times increase.
    \<open>Cron_Extraction\<close> (\<open>cron_extraction.py\<close>): the schedule found in a stored graph.
  \<^item> \<open>Manual_Trigger\<close> (\<open>manual.py\<close>), \<open>Http_Polling\<close> (\<open>http_polling.py\<close>).
  \<^item> \<open>Trigger_Layer\<close>, \<open>Trigger_Layer_Laws\<close> (\<open>layer/\<close>): the registries of configurations, runs and retries
    as one state, a step relation over its operations, an invariant of every reachable state.
  \<^item> \<open>Registries\<close> (\<open>triggers/registry.py\<close>, \<open>edges/registry.py\<close>, \<open>nodes/registry.py\<close>).
  \<^item> \<open>Credential_Health\<close> (\<open>models/credential_health.py\<close>, \<open>vault/oauth\<close>): the guard in front of dispatches.
  \<^item> \<open>Vault\<close>, \<open>Vault_Laws\<close> (\<open>vault/\<close>, \<open>models/credential_*.py\<close>): scopes, encrypted credentials,
    templates and governance alerts over the in-memory store; an invariant of every reachable vault, what
    a context can list and use, secrets read back.
  \<^item> \<open>Credential_Service\<close>, \<open>Credential_Service_Laws\<close> (\<open>vault/oauth/\<close>): refresh and validation of
    tokens by the providers' handlers; when a health check returns, and that its report agrees with the
    vault. Its reports are what the guard in front of dispatches reads.
  \<^item> \<open>Rate_Limits\<close> (\<open>app/authentication/rate_limit.py\<close> and the workspace limits): attempts per window.

  \<^bold>\<open>Entities\<close>: \<open>Workflow_Entities\<close>, \<open>Workflow_Entities_Laws\<close> (\<open>models/\<close>): runs, workflows, versions and
  handles; the life cycle of a run, publication, normal forms of handles and slugs.

  \<^bold>\<open>Workspaces\<close>: \<open>Workspaces\<close>, \<open>Workspaces_Laws\<close> (\<open>workspace/\<close>): workspaces, memberships and invitations in the
  in-memory repository, the resolver with its membership cache, and the service over both; an invariant
  of every reachable state, agreement of the cache with the repository, single use of invitations.

  \<^bold>\<open>Graphs\<close>.
  \<^item> \<open>Edge_Conditions\<close>, \<open>Edge_Routing\<close>, \<open>Edge_Laws\<close> (\<open>edges/\<close>, \<open>graph/\<close>): comparison operators, branching
    edges and routers; the graph object is the list of calls made on it.
  \<^item> \<open>Py_Ast\<close>, \<open>Ir_Config\<close>, \<open>Ir_Grammar\<close>, \<open>Ir_Schemas\<close>, \<open>Ir_Config_Laws\<close> (\<open>graph/ir/config_values.py\<close>,
    \<open>grammar.py\<close>, \<open>schemas.py\<close>, \<open>code_body.py\<close>, \<open>sandbox/builtins.py\<close>): what an accepted script, value and
    code body cannot contain.
  \<^item> \<open>Ir_Interpreter\<close>, \<open>Ir_Compile\<close>, \<open>Ir_Compile_Laws\<close> (\<open>graph/ir/interpreter.py\<close>): from syntax trees
    to the representation. The statements of the script's builder thread a state of graphs under
    construction; the nodes that come out are admitted by the policy and the checks of code bodies, the
    rebuilt graph refines the script's calls, and nested graphs resolve exactly when they are acyclic,
    at most 32 deep and complete.
  \<^item> \<open>Graph_IR\<close>, \<open>Graph_IR_Laws\<close> (\<open>graph/ir/models.py\<close>, \<open>builder.py\<close>): the representation, its stored form,
    its validation at every depth, and the calls that rebuild the graph.

  \<^bold>\<open>Run time\<close>.
  \<^item> \<open>Credential_Refs\<close>, \<open>Credential_Refs_Laws\<close> (\<open>runtime/credentials/\<close>): placeholders and the resolver; its
    caches do not change its answers.
  \<^item> \<open>Node_Runtime\<close>, \<open>Logic_Nodes\<close>, \<open>Node_Laws\<close> (\<open>nodes/base.py\<close>, \<open>nodes/logic/\<close>): templates, state updates,
    variables, loops; what decoding may change, and when loops end.

  \<^bold>\<open>Parameters.\<close> Code outside the repository is an argument: digests, JSON text and ISO timestamps
  (\<open>webhook_env\<close>), cron expressions and time zones (\<open>cron_env\<close>, with \<open>croniter_ok\<close> and \<open>zone_ok\<close> as what
  is documented of them), the schema library, the vault's answers, the text form of values. Clocks and
  random draws are arguments of the operations. Floats are exact reals, with the range of the back-off
  written out; the ciphers and the providers' handlers are functions that may fail; integers are unbounded as in the language; text is ASCII.

  \<^bold>\<open>Bounds.\<close> Recursion that is not structural ends by a measure: the nesting of graphs by the weight of
  the stored value, helper references by the names not yet in progress, templates by the length
  left. The loop of a while edge may run for ever and takes fuel; the theorem about it gives the rounds
  that are enough, and when none are.

  \<^bold>\<open>Not modelled.\<close> The in-process ingestion that executes scripts, the sandbox process, persistence in
  databases, the ciphers and the exchanges with providers, HTTP and chat adapters, model, retrieval and connector
  nodes, the command line, tracing and diagrams: they are input and output around the logic above, or
  run code that is not in the repository.
\<close>

end
